(* ===== verification/AFM_Prelude.thy ===== *)
theory AFM_Prelude
  imports Main
begin

text \<open>
  Shared vocabulary of the development: results of Python code that may raise, keyed tables
  (the database tables of \<^verbatim>\<open>payment_hub/models.py\<close> are lists of rows with a unique key), and
  machines that preserve an invariant.  Every component theory builds on this one.
\<close>

named_theorems afm_defs \<open>definitions unfolded when an operation is executed symbolically\<close>
named_theorems afm_inv \<open>preservation facts of the components' invariants\<close>

section \<open>Results\<close>

text \<open>
  A call returns a value (\<open>Inr\<close>) or raises an exception (\<open>Inl\<close>); \<open>bindE\<close> is the
  sequencing of two statements, where an exception skips the rest.
\<close>

definition bindE :: "'e + 'a \<Rightarrow> ('a \<Rightarrow> 'e + 'b) \<Rightarrow> 'e + 'b" where
  "bindE m f = (case m of Inl e \<Rightarrow> Inl e | Inr x \<Rightarrow> f x)"

lemma bindE_simps [simp]:
  "bindE (Inl e) f = Inl e"
  "bindE (Inr x) f = f x"
  by (simp_all add: bindE_def)

lemma bindE_eq_Inr_iff: "bindE m f = Inr y \<longleftrightarrow> (\<exists>x. m = Inr x \<and> f x = Inr y)"
  by (cases m) simp_all

lemma bindE_eq_Inl_iff: "bindE m f = Inl e \<longleftrightarrow> m = Inl e \<or> (\<exists>x. m = Inr x \<and> f x = Inl e)"
  by (cases m) simp_all

lemma bindE_InrE:
  assumes "bindE m f = Inr y"
  obtains x where "m = Inr x" and "f x = Inr y"
  using assms by (auto simp: bindE_eq_Inr_iff)

definition is_ok :: "'e + 'a \<Rightarrow> bool" where
  "is_ok m = (case m of Inl _ \<Rightarrow> False | Inr _ \<Rightarrow> True)"

lemma is_ok_simps [simp]: "is_ok (Inr x)" "\<not> is_ok (Inl e)"
  by (simp_all add: is_ok_def)

lemma is_ok_iff: "is_ok m \<longleftrightarrow> (\<exists>x. m = Inr x)"
  by (cases m) simp_all

text \<open>\<open>guardE c e\<close>: \<^verbatim>\<open>if not c: raise e\<close>.\<close>

definition guardE :: "bool \<Rightarrow> 'e \<Rightarrow> 'e + unit" where
  "guardE c e = (if c then Inr () else Inl e)"

lemma guardE_eq_Inr_iff [simp]: "guardE c e = Inr u \<longleftrightarrow> c"
  by (simp add: guardE_def)

lemma guardE_eq_Inl_iff [simp]: "guardE c e = Inl e' \<longleftrightarrow> \<not> c \<and> e' = e"
  by (auto simp: guardE_def)

lemma bindE_guardE: "bindE (guardE c e) f = (if c then f () else Inl e)"
  by (simp add: guardE_def)

section \<open>Lists\<close>

lemma filter_singleton_set:
  assumes "filter P xs = [x]"
  shows "x \<in> set xs" and "P x"
proof -
  have "x \<in> set (filter P xs)" using assms by simp
  then show "x \<in> set xs" and "P x" by simp_all
qed

lemma filter_map_same:
  assumes "\<And>x. x \<in> set xs \<Longrightarrow> P (f x) = P x"
  shows "filter P (map f xs) = map f (filter P xs)"
  using assms by (induction xs) auto

lemma length_filter_map_same:
  assumes "\<And>x. x \<in> set xs \<Longrightarrow> P (f x) = P x"
  shows "length (filter P (map f xs)) = length (filter P xs)"
  by (simp add: filter_map_same assms)

lemma distinct_filter_unique:
  assumes "distinct (map k xs)"
  shows "length (filter (\<lambda>x. k x = v) xs) \<le> 1"
  using assms
proof (induction xs)
  case (Cons x xs)
  have "filter (\<lambda>y. k y = v) xs = []" if "k x = v"
    using Cons.prems that by (auto simp: filter_empty_conv image_iff)
  with Cons show ?case by simp
qed simp

lemma distinct_filter_key:
  "distinct (map k xs) \<Longrightarrow> x \<in> set xs \<Longrightarrow> k x = v \<Longrightarrow> filter (\<lambda>y. k y = v) xs = [x]"
proof (induction xs)
  case (Cons y ys)
  show ?case
  proof (cases "y = x")
    case True
    with Cons.prems have "filter (\<lambda>z. k z = v) ys = []"
      by (auto simp: filter_empty_conv image_iff)
    with True Cons.prems show ?thesis by simp
  next
    case False
    with Cons.prems have "k y \<noteq> v" by (auto simp: image_iff)
    with False Cons show ?thesis by simp
  qed
qed simp

text \<open>A list read in pages of \<open>n\<close>, one page after the other.\<close>

lemma concat_pages: "concat (map (\<lambda>p. take n (drop (p * n) xs)) [0..<k]) = take (k * n) xs"
proof (induction k)
  case (Suc k)
  have "take (Suc k * n) xs = take (k * n) xs @ take n (drop (k * n) xs)"
    unfolding take_add [symmetric] by (simp add: add.commute)
  with Suc show ?case by simp
qed simp

lemma concat_pages_all:
  assumes "length xs \<le> k * n"
  shows "concat (map (\<lambda>p. take n (drop (p * n) xs)) [0..<k]) = xs"
  using assms by (simp add: concat_pages)

lemma upto_shift: "[1..int k] = map (\<lambda>p. int p + 1) [0..<k]"
  by (induction k) (simp_all add: upto_rec2)

section \<open>Keyed tables\<close>

text \<open>
  A table is the list of its rows in insertion order.  The three operations are the ones the
  services use through the ORM: a lookup by a unique column, an insert that fails with an
  integrity error when the unique value is taken, and the write-back of a changed row.
\<close>

definition row_lookup :: "('r \<Rightarrow> 'k) \<Rightarrow> 'k \<Rightarrow> 'r list \<Rightarrow> 'r option" where
  "row_lookup key k rows = List.find (\<lambda>r. key r = k) rows"

definition row_insert :: "('r \<Rightarrow> 'k) \<Rightarrow> 'r \<Rightarrow> 'r list \<Rightarrow> 'r list option" where
  "row_insert key r rows = (if key r \<in> key ` set rows then None else Some (rows @ [r]))"

definition row_update :: "('r \<Rightarrow> 'k) \<Rightarrow> 'r \<Rightarrow> 'r list \<Rightarrow> 'r list" where
  "row_update key r rows = map (\<lambda>x. if key x = key r then r else x) rows"

lemma row_lookup_Nil [simp]: "row_lookup key k [] = None"
  by (simp add: row_lookup_def)

lemma row_lookup_Cons [simp]:
  "row_lookup key k (r # rows) = (if key r = k then Some r else row_lookup key k rows)"
  by (simp add: row_lookup_def)

lemma row_lookup_SomeD:
  "row_lookup key k rows = Some r \<Longrightarrow> r \<in> set rows \<and> key r = k"
  by (induction rows) (auto split: if_splits)

lemma row_lookup_None_iff: "row_lookup key k rows = None \<longleftrightarrow> k \<notin> key ` set rows"
  by (induction rows) auto

lemma row_lookup_append:
  "row_lookup key k (xs @ ys) =
     (case row_lookup key k xs of None \<Rightarrow> row_lookup key k ys | Some r \<Rightarrow> Some r)"
  by (induction xs) auto

lemma keys_row_update [simp]: "map key (row_update key r rows) = map key rows"
  by (induction rows) (auto simp: row_update_def)

lemma length_row_update [simp]: "length (row_update key r rows) = length rows"
  by (simp add: row_update_def)

lemma row_lookup_update:
  "row_lookup key k (row_update key r rows) =
     (if k = key r \<and> k \<in> key ` set rows then Some r else row_lookup key k rows)"
  by (induction rows) (auto simp: row_update_def)

lemma row_update_absent: "key r \<notin> key ` set rows \<Longrightarrow> row_update key r rows = rows"
  by (induction rows) (auto simp: row_update_def)

lemma row_update_Cons:
  "row_update key r (x # rows) = (if key x = key r then r else x) # row_update key r rows"
  by (simp add: row_update_def)

lemma row_update_id: "distinct (map key rows) \<Longrightarrow> r \<in> set rows \<Longrightarrow> row_update key r rows = rows"
  by (induction rows) (auto simp: row_update_Cons row_update_absent image_iff)

lemma row_lookup_distinct:
  "distinct (map key rows) \<Longrightarrow> r \<in> set rows \<Longrightarrow> row_lookup key (key r) rows = Some r"
  by (induction rows) (auto simp: image_iff)

lemma in_row_updateD: "x \<in> set (row_update key r rows) \<Longrightarrow> x = r \<or> x \<in> set rows"
  by (auto simp: row_update_def)

lemma row_update_in: "v \<in> set rows \<Longrightarrow> key v = key r \<Longrightarrow> r \<in> set (row_update key r rows)"
  by (auto simp: row_update_def intro: rev_image_eqI)

text \<open>Another unique column stays unique when no other row has the new row's value.\<close>

lemma distinct_row_update:
  assumes "distinct (map key rows)" and "distinct (map col rows)"
    and "\<And>x. x \<in> set rows \<Longrightarrow> key x \<noteq> key r \<Longrightarrow> col x \<noteq> col r"
  shows "distinct (map col (row_update key r rows))"
  using assms
proof (induction rows)
  case (Cons x rows)
  have rest: "distinct (map col (row_update key r rows))"
    using Cons.prems by (intro Cons.IH) simp_all
  have in_rest: "y = r \<and> (\<exists>z \<in> set rows. key z = key r) \<or> y \<in> set rows \<and> key y \<noteq> key r"
    if "y \<in> set (row_update key r rows)" for y
    using that by (auto simp: row_update_def split: if_splits)
  have "col (if key x = key r then r else x) \<notin> col ` set (row_update key r rows)"
  proof
    assume "col (if key x = key r then r else x) \<in> col ` set (row_update key r rows)"
    then obtain y where y: "y \<in> set (row_update key r rows)" "col (if key x = key r then r else x) = col y" by blast
    show False
    proof (cases "key x = key r")
      case True
      with Cons.prems(1) have "key z \<noteq> key r" if "z \<in> set rows" for z using that by (metis distinct.simps(2) imageI list.simps(9) set_map)
      with in_rest [OF y(1)] have "y \<in> set rows" "key y \<noteq> key r" by blast+
      then show False using y(2) True Cons.prems(3) [of y] by simp
    next
      case False
      with in_rest [OF y(1)] y(2) Cons.prems(2) Cons.prems(3) [of x] show False by auto
    qed
  qed
  with rest show ?case by (simp add: row_update_Cons)
qed (simp add: row_update_def)

text \<open>What a table with a unique column promises its clients.\<close>

locale keyed_table =
  fixes key :: "'r \<Rightarrow> 'k"
    and ins :: "'r \<Rightarrow> 'r list \<Rightarrow> 'r list option"
    and upd :: "'r \<Rightarrow> 'r list \<Rightarrow> 'r list"
    and look :: "'k \<Rightarrow> 'r list \<Rightarrow> 'r option"
  assumes look_empty: "look k [] = None"
    and look_key: "look k rows = Some r \<Longrightarrow> key r = k"
    and look_ins: "ins r rows = Some rows' \<Longrightarrow>
          look k rows' = (if k = key r then Some r else look k rows)"
    and ins_fails: "ins r rows = None \<longleftrightarrow> look (key r) rows \<noteq> None"
    and look_upd: "look k (upd r rows) =
          (if k = key r \<and> look k rows \<noteq> None then Some r else look k rows)"
    and ins_distinct: "ins r rows = Some rows' \<Longrightarrow> distinct (map key rows) \<Longrightarrow>
          distinct (map key rows')"
    and upd_keys: "map key (upd r rows) = map key rows"
begin

lemma ins_then_look: "ins r rows = Some rows' \<Longrightarrow> look (key r) rows' = Some r"
  by (simp add: look_ins)

lemma ins_twice: "ins r rows = Some rows' \<Longrightarrow> key r' = key r \<Longrightarrow> ins r' rows' = None"
  by (simp add: ins_fails look_ins)

lemma ins_frame: "ins r rows = Some rows' \<Longrightarrow> k \<noteq> key r \<Longrightarrow> look k rows' = look k rows"
  by (simp add: look_ins)

lemma upd_frame: "k \<noteq> key r \<Longrightarrow> look k (upd r rows) = look k rows"
  by (simp add: look_upd)

lemma upd_distinct: "distinct (map key rows) \<Longrightarrow> distinct (map key (upd r rows))"
  by (simp add: upd_keys)

lemma ins_after_upd: "ins r (upd r' rows) = None \<longleftrightarrow> ins r rows = None"
  by (auto simp: ins_fails look_upd)

end

lemma row_lookup_insert:
  assumes "row_insert key r rows = Some rows'"
  shows "row_lookup key k rows' = (if k = key r then Some r else row_lookup key k rows)"
proof -
  from assms have fresh: "key r \<notin> key ` set rows" and rows': "rows' = rows @ [r]"
    by (simp_all add: row_insert_def split: if_splits)
  have "row_lookup key k rows = None" if "k = key r"
    using fresh that by (simp add: row_lookup_None_iff)
  then show ?thesis by (auto simp: rows' row_lookup_append split: option.split)
qed

lemma row_table: "keyed_table key (row_insert key) (row_update key) (row_lookup key)"
proof (unfold_locales, goal_cases)
  case 1 show ?case by simp
next
  case 2 then show ?case by (blast dest: row_lookup_SomeD)
next
  case 3 then show ?case by (rule row_lookup_insert)
next
  case (4 r rows) show ?case by (simp add: row_insert_def row_lookup_None_iff)
next
  case (5 k r rows) show ?case by (simp add: row_lookup_update row_lookup_None_iff)
next
  case 6 then show ?case by (auto simp: row_insert_def split: if_splits)
next
  case 7 show ?case by simp
qed

section \<open>Machines with an invariant\<close>

text \<open>
  A component that processes a sequence of inputs, each by one step that keeps an invariant.
  A component discharges the single assumption for its own step and invariant and receives the
  statement about whole runs.
\<close>

primrec run :: "('i \<Rightarrow> 's \<Rightarrow> 's) \<Rightarrow> 'i list \<Rightarrow> 's \<Rightarrow> 's" where
  "run step [] s = s"
| "run step (i # xs) s = run step xs (step i s)"

lemma run_append: "run step (xs @ ys) s = run step ys (run step xs s)"
  by (induction xs arbitrary: s) simp_all

locale invariant_machine =
  fixes step :: "'i \<Rightarrow> 's \<Rightarrow> 's"
    and inv :: "'s \<Rightarrow> bool"
  assumes step_inv: "inv s \<Longrightarrow> inv (step i s)"
begin

lemma run_inv: "inv s \<Longrightarrow> inv (run step xs s)"
  by (induction xs arbitrary: s) (simp_all add: step_inv)

end

text \<open>A step that moreover never leaves a set of final states.\<close>

locale absorbing_machine = invariant_machine +
  fixes final :: "'s \<Rightarrow> 'f option"
  assumes step_final: "inv s \<Longrightarrow> final s = Some v \<Longrightarrow> final (step i s) = Some v"
begin

lemma run_final: "inv s \<Longrightarrow> final s = Some v \<Longrightarrow> final (run step xs s) = Some v"
  by (induction xs arbitrary: s) (simp_all add: step_inv step_final)

end

end
