(* ===== verification/AFM_Errors.thy ===== *)
theory AFM_Errors
  imports AFM_Prelude
begin

text \<open>
  The exceptions a handler can raise: the \<^verbatim>\<open>AFMException\<close> hierarchy of
  \<^verbatim>\<open>config/exceptions.py\<close>, FastAPI's \<^verbatim>\<open>HTTPException\<close>, the client errors of the payment
  hub and the Python or library exceptions the code lets through or catches.
\<close>

section \<open>The AFM hierarchy (config/exceptions.py)\<close>

datatype afm_class =
    AFMException | AuthenticationError | AuthorizationError | ValidationError | NotFoundError
  | ConflictError | RateLimitError | MarketClosedError | BrokerUnavailableError | PaymentError
  | InsufficientFundsError | CurrencyNotSupportedError | SelfFollowError | InvalidAllocationError
  | FXError | TradeExecutionError | SettlementError | PSPAPIError | APIKeyExpiredError

fun status_code :: "afm_class \<Rightarrow> nat" where
  "status_code AFMException = 500"
| "status_code AuthenticationError = 401"
| "status_code AuthorizationError = 403"
| "status_code ValidationError = 422"
| "status_code NotFoundError = 404"
| "status_code ConflictError = 409"
| "status_code RateLimitError = 429"
| "status_code MarketClosedError = 400"
| "status_code BrokerUnavailableError = 503"
| "status_code PaymentError = 400"
| "status_code InsufficientFundsError = 400"
| "status_code CurrencyNotSupportedError = 400"
| "status_code SelfFollowError = 400"
| "status_code InvalidAllocationError = 400"
| "status_code FXError = 400"
| "status_code TradeExecutionError = 500"
| "status_code SettlementError = 500"
| "status_code PSPAPIError = 502"
| "status_code APIKeyExpiredError = 401"

fun error_code :: "afm_class \<Rightarrow> string" where
  "error_code AFMException = ''INTERNAL_ERROR''"
| "error_code AuthenticationError = ''AUTHENTICATION_ERROR''"
| "error_code AuthorizationError = ''AUTHORIZATION_ERROR''"
| "error_code ValidationError = ''VALIDATION_ERROR''"
| "error_code NotFoundError = ''NOT_FOUND''"
| "error_code ConflictError = ''CONFLICT''"
| "error_code RateLimitError = ''RATE_LIMIT_EXCEEDED''"
| "error_code MarketClosedError = ''MARKET_CLOSED''"
| "error_code BrokerUnavailableError = ''BROKER_UNAVAILABLE''"
| "error_code PaymentError = ''PAYMENT_FAILED''"
| "error_code InsufficientFundsError = ''INSUFFICIENT_FUNDS''"
| "error_code CurrencyNotSupportedError = ''CURRENCY_NOT_SUPPORTED''"
| "error_code SelfFollowError = ''SELF_FOLLOW''"
| "error_code InvalidAllocationError = ''INVALID_ALLOCATION''"
| "error_code FXError = ''FX_ERROR''"
| "error_code TradeExecutionError = ''TRADE_EXECUTION_FAILED''"
| "error_code SettlementError = ''SETTLEMENT_FAILED''"
| "error_code PSPAPIError = ''PSP_API_ERROR''"
| "error_code APIKeyExpiredError = ''API_KEY_EXPIRED''"

fun default_detail :: "afm_class \<Rightarrow> string" where
  "default_detail AFMException = ''An unexpected error occurred''"
| "default_detail AuthenticationError = ''Authentication failed''"
| "default_detail AuthorizationError = ''Insufficient permissions''"
| "default_detail ValidationError = ''Invalid input data''"
| "default_detail NotFoundError = ''Resource not found''"
| "default_detail ConflictError = ''Resource conflict''"
| "default_detail RateLimitError = ''Rate limit exceeded''"
| "default_detail MarketClosedError = ''Market is currently closed''"
| "default_detail BrokerUnavailableError = ''No broker available for this market''"
| "default_detail PaymentError = ''Payment processing failed''"
| "default_detail InsufficientFundsError = ''Insufficient funds for this operation''"
| "default_detail CurrencyNotSupportedError = ''Currency not supported''"
| "default_detail SelfFollowError = ''Cannot copy-trade yourself''"
| "default_detail InvalidAllocationError = ''Invalid allocation percentage''"
| "default_detail FXError = ''Foreign exchange conversion failed''"
| "default_detail TradeExecutionError = ''Trade execution failed''"
| "default_detail SettlementError = ''Settlement processing failed''"
| "default_detail PSPAPIError = ''Payment service provider API error''"
| "default_detail APIKeyExpiredError = ''API key has expired''"

text \<open>
  \<^verbatim>\<open>AFMException.__init__\<close>: a non-empty detail shadows the class's default.
\<close>

definition exc_detail :: "afm_class \<Rightarrow> string option \<Rightarrow> string" where
  "exc_detail c detail =
     (case detail of None \<Rightarrow> default_detail c
      | Some d \<Rightarrow> if d \<noteq> [] then d else default_detail c)"

section \<open>Everything a handler can raise\<close>

datatype exn =
    AFM afm_class string
  | HTTPException nat string
  | KoraClientError string
  | AzaClientError string
  | NexusClientError string
  | RuntimeError string
  | ValueError string
  | KeyError string
  | TypeError string
  | AttributeError string
  | IndexError string
  | HTTPError
  | InvalidOperation
  | DivisionByZero
  | MultipleResultsFound
  | IntegrityError
  | DBAPIError string

definition raise :: "afm_class \<Rightarrow> string \<Rightarrow> exn" where
  "raise c detail = AFM c (exc_detail c (Some detail))"

text \<open>
  The status code of the response: \<^verbatim>\<open>afm_exception_handler\<close> of \<^verbatim>\<open>api_gateway/main.py\<close>
  answers an \<^verbatim>\<open>AFMException\<close> with its class's code, FastAPI answers an
  \<^verbatim>\<open>HTTPException\<close> with its own, and anything else is a server error.
\<close>

fun http_status :: "exn \<Rightarrow> nat" where
  "http_status (AFM c _) = status_code c"
| "http_status (HTTPException n _) = n"
| "http_status _ = 500"

fun afm_exception_handler :: "exn \<Rightarrow> (string \<times> string) option" where
  "afm_exception_handler (AFM c d) = Some (error_code c, d)"
| "afm_exception_handler _ = None"

lemma status_code_range: "400 \<le> status_code c \<and> status_code c < 600"
  by (cases c) simp_all

end
