(* ===== verification/AFM_Decimal.thy ===== *)
theory AFM_Decimal
  imports AFM_Errors Complex_Main
begin

text \<open>
  Python's \<^verbatim>\<open>decimal.Decimal\<close> as the services use it: finite numbers with an integer
  coefficient and exponent, evaluated in the default context (28 significant digits, results
  rounded half-even), \<^verbatim>\<open>quantize\<close> with \<^verbatim>\<open>ROUND_HALF_UP\<close> or the context's mode, and comparison by
  value.  NaN, infinities, the sign of zero and the exponent limits of the context are left out:
  the request models reject the first two and no amount of the services reaches the last.
\<close>

section \<open>Rounding an integer quotient\<close>

definition round_half_even :: "int \<Rightarrow> int \<Rightarrow> int" where
  "round_half_even a b =
     (let q = a div b; r = a mod b
      in if b < 2 * r \<or> (2 * r = b \<and> odd q) then q + 1 else q)"

definition round_half_up :: "int \<Rightarrow> int \<Rightarrow> int" where
  "round_half_up a b =
     (if 0 \<le> a then (2 * a + b) div (2 * b) else - ((2 * (- a) + b) div (2 * b)))"

text \<open>The contract of a rounding mode: the nearest integer, monotone in the numerator.\<close>

locale rounding_mode =
  fixes rnd :: "int \<Rightarrow> int \<Rightarrow> int"
  assumes rnd_near: "0 < b \<Longrightarrow> \<bar>2 * (b * rnd a b - a)\<bar> \<le> b"
    and rnd_mono: "0 < b \<Longrightarrow> a \<le> a' \<Longrightarrow> rnd a b \<le> rnd a' b"
begin

lemma rnd_exact:
  assumes "0 < b"
  shows "rnd (k * b) b = k"
proof -
  have "\<bar>2 * (b * rnd (k * b) b - k * b)\<bar> \<le> b" using assms by (rule rnd_near)
  then have "\<bar>b * (2 * (rnd (k * b) b - k))\<bar> \<le> b" by (simp add: algebra_simps)
  then have "b * \<bar>2 * (rnd (k * b) b - k)\<bar> \<le> b * 1" using assms by (simp add: abs_mult)
  then have "\<bar>2 * (rnd (k * b) b - k)\<bar> \<le> 1" using assms by (simp only: mult_le_cancel_left_pos)
  then show ?thesis by presburger
qed

lemma rnd_le:
  assumes "0 < b" and "a \<le> k * b"
  shows "rnd a b \<le> k"
  using rnd_mono [OF assms] rnd_exact [OF assms(1), of k] by simp

lemma rnd_ge:
  assumes "0 < b" and "k * b \<le> a"
  shows "k \<le> rnd a b"
  using rnd_mono [OF assms] rnd_exact [OF assms(1), of k] by simp

lemma rnd_zero: "0 < b \<Longrightarrow> rnd 0 b = 0"
  using rnd_exact [of b 0] by simp

lemma rnd_one: "rnd a 1 = a"
  using rnd_exact [of 1 a] by simp

lemma rnd_abs_le:
  assumes "0 < b" and "\<bar>a\<bar> \<le> k * b"
  shows "\<bar>rnd a b\<bar> \<le> k"
proof -
  have "a \<le> k * b" and "(- k) * b \<le> a" using assms by (simp_all add: abs_le_iff)
  then have "rnd a b \<le> k" and "- k \<le> rnd a b"
    using rnd_le [OF assms(1)] rnd_ge [OF assms(1)] by blast+
  then show ?thesis by (simp add: abs_le_iff)
qed

end

lemma round_half_even_near:
  assumes "0 < b"
  shows "\<bar>2 * (b * round_half_even a b - a)\<bar> \<le> b"
proof -
  define q r where "q = a div b" and "r = a mod b"
  have a: "a = b * q + r" and r: "0 \<le> r" "r < b"
    using assms by (simp_all add: q_def r_def)
  show ?thesis
  proof (cases "b < 2 * r \<or> (2 * r = b \<and> odd q)")
    case True
    then have "round_half_even a b = q + 1" by (simp add: round_half_even_def q_def r_def)
    then have "b * round_half_even a b - a = b - r" by (simp add: a algebra_simps)
    then show ?thesis using r True by auto
  next
    case False
    then have "round_half_even a b = q" by (simp add: round_half_even_def q_def r_def Let_def)
    then have "b * round_half_even a b - a = - r" by (simp add: a)
    then show ?thesis using r False by auto
  qed
qed

lemma half_up_near:
  fixes a b :: int
  assumes "0 < b"
  shows "\<bar>2 * (b * ((2 * a + b) div (2 * b)) - a)\<bar> \<le> b"
proof -
  define q r where "q = (2 * a + b) div (2 * b)" and "r = (2 * a + b) mod (2 * b)"
  have "2 * a + b = 2 * b * q + r" and "0 \<le> r" and "r < 2 * b"
    using assms by (simp_all add: q_def r_def)
  then have "2 * (b * q - a) = b - r" and "\<bar>b - r\<bar> \<le> b" by simp_all
  then show ?thesis by (simp only: q_def)
qed

lemma round_half_up_near:
  assumes "0 < b"
  shows "\<bar>2 * (b * round_half_up a b - a)\<bar> \<le> b"
proof (cases "0 \<le> a")
  case True
  then show ?thesis using half_up_near [OF assms, of a] by (simp add: round_half_up_def)
next
  case False
  define q where "q = (2 * (- a) + b) div (2 * b)"
  have "\<bar>2 * (b * q - (- a))\<bar> \<le> b"
    unfolding q_def using assms by (rule half_up_near)
  moreover have "2 * (b * round_half_up a b - a) = - (2 * (b * q - (- a)))"
    using False by (simp add: round_half_up_def q_def)
  ultimately show ?thesis by (simp only: abs_minus_cancel)
qed

lemma round_half_even_mono:
  assumes "0 < b" and "a \<le> a'"
  shows "round_half_even a b \<le> round_half_even a' b"
proof -
  define q r q' r' where "q = a div b" and "r = a mod b" and "q' = a' div b" and "r' = a' mod b"
  have "q < q' \<or> (q = q' \<and> r \<le> r')"
  proof (cases "q = q'")
    case True
    have "a = b * q + r" "a' = b * q' + r'" by (simp_all add: q_def r_def q'_def r'_def)
    with True assms(2) show ?thesis by simp
  next
    case False
    moreover have "q \<le> q'" using assms by (simp add: q_def q'_def zdiv_mono1)
    ultimately show ?thesis by simp
  qed
  moreover have "round_half_even a b = (if b < 2 * r \<or> (2 * r = b \<and> odd q) then q + 1 else q)"
    and "round_half_even a' b = (if b < 2 * r' \<or> (2 * r' = b \<and> odd q') then q' + 1 else q')"
    by (simp_all only: round_half_even_def Let_def q_def r_def q'_def r'_def)
  ultimately show ?thesis by auto
qed

lemma round_half_up_mono:
  assumes "0 < b" and "a \<le> a'"
  shows "round_half_up a b \<le> round_half_up a' b"
proof -
  have mono: "(2 * x + b) div (2 * b) \<le> (2 * y + b) div (2 * b)" if "x \<le> y" for x y :: int
    using that assms(1) by (intro zdiv_mono1) simp_all
  have nonneg: "0 \<le> (2 * x + b) div (2 * b)" if "0 \<le> x" for x :: int
    using that assms(1) by (simp add: pos_imp_zdiv_nonneg_iff)
  show ?thesis
    using mono [of a a'] mono [of "- a'" "- a"] nonneg [of "- a"] nonneg [of a'] assms(2)
    by (auto simp: round_half_up_def)
qed

interpretation half_even: rounding_mode round_half_even
  by unfold_locales (fact round_half_even_near round_half_even_mono)+

interpretation half_up: rounding_mode round_half_up
  by unfold_locales (fact round_half_up_near round_half_up_mono)+


section \<open>Finite decimals\<close>

datatype decimal = Dec (coeff: int) (expo: int)

definition p10 :: "int \<Rightarrow> int" where
  "p10 k = 10 ^ nat k"

lemma p10_pos [simp]: "0 < p10 k"
  by (simp add: p10_def)

lemma p10_0 [simp]: "p10 0 = 1"
  by (simp add: p10_def)

definition dval :: "decimal \<Rightarrow> rat" where
  "dval d = of_int (coeff d) * 10 powi expo d"

lemma dval_Dec: "dval (Dec c e) = of_int c * 10 powi e"
  by (simp add: dval_def)

lemma of_int_p10: "0 \<le> k \<Longrightarrow> (of_int (p10 k) :: rat) = 10 powi k"
  by (simp add: p10_def power_int_def)

lemma dval_rescale: "m \<le> e \<Longrightarrow> dval (Dec (c * p10 (e - m)) m) = dval (Dec c e)"
  by (simp add: dval_Dec of_int_p10 power_int_diff mult.assoc)

lemma powi10_pos [simp]: "(0::rat) < 10 powi e"
  by simp

lemma dval_Dec_le_iff [simp]: "dval (Dec c m) \<le> dval (Dec c' m) \<longleftrightarrow> c \<le> c'"
  by (simp add: dval_Dec)

lemma dval_Dec_eq_iff [simp]: "dval (Dec c m) = dval (Dec c' m) \<longleftrightarrow> c = c'"
  by (simp add: dval_Dec)

subsection \<open>Comparison by value\<close>

definition align :: "decimal \<Rightarrow> int \<Rightarrow> int" where
  "align d m = coeff d * p10 (expo d - m)"

lemma dval_align: "m \<le> expo d \<Longrightarrow> dval (Dec (align d m) m) = dval d"
  using dval_rescale [of m "expo d" "coeff d"] by (simp add: align_def)

instantiation decimal :: preorder
begin

definition less_eq_decimal :: "decimal \<Rightarrow> decimal \<Rightarrow> bool" where
  "a \<le> b \<longleftrightarrow> align a (min (expo a) (expo b)) \<le> align b (min (expo a) (expo b))"

definition less_decimal :: "decimal \<Rightarrow> decimal \<Rightarrow> bool" where
  "a < b \<longleftrightarrow> align a (min (expo a) (expo b)) < align b (min (expo a) (expo b))"

lemma less_eq_decimal_dval: "a \<le> b \<longleftrightarrow> dval a \<le> dval b"
proof -
  let ?m = "min (expo a) (expo b)"
  have "a \<le> b \<longleftrightarrow> dval (Dec (align a ?m) ?m) \<le> dval (Dec (align b ?m) ?m)"
    by (simp add: less_eq_decimal_def)
  then show ?thesis by (simp add: dval_align)
qed

lemma less_decimal_dval: "a < b \<longleftrightarrow> dval a < dval b"
proof -
  let ?m = "min (expo a) (expo b)"
  have "a < b \<longleftrightarrow> \<not> dval (Dec (align b ?m) ?m) \<le> dval (Dec (align a ?m) ?m)"
    by (simp add: less_decimal_def not_le)
  then show ?thesis by (simp add: dval_align not_le)
qed

instance
  by intro_classes (auto simp: less_eq_decimal_dval less_decimal_dval)

end

text \<open>\<^verbatim>\<open>==\<close> on decimals compares values: \<^verbatim>\<open>Decimal("1.0") == Decimal("1")\<close>.\<close>

definition dec_eq :: "decimal \<Rightarrow> decimal \<Rightarrow> bool" where
  "dec_eq a b \<longleftrightarrow> a \<le> b \<and> b \<le> a"

lemma dec_eq_dval: "dec_eq a b \<longleftrightarrow> dval a = dval b"
  by (auto simp: dec_eq_def less_eq_decimal_dval)

text \<open>
  The builtins \<^verbatim>\<open>max(a, b)\<close> and \<^verbatim>\<open>min(a, b)\<close> return their first argument unless the second
  is strictly larger, or smaller.
\<close>

definition py_max :: "decimal \<Rightarrow> decimal \<Rightarrow> decimal" where
  "py_max a b = (if a < b then b else a)"

definition py_min :: "decimal \<Rightarrow> decimal \<Rightarrow> decimal" where
  "py_min a b = (if b < a then b else a)"

lemma dval_py_max [simp]: "dval (py_max a b) = max (dval a) (dval b)"
  by (simp add: py_max_def less_decimal_dval)

lemma dval_py_min [simp]: "dval (py_min a b) = min (dval a) (dval b)"
  by (simp add: py_min_def less_decimal_dval)

subsection \<open>Context rounding\<close>

text \<open>The number of decimal digits of a non-negative integer.\<close>

function ndigits :: "int \<Rightarrow> nat" where
  "ndigits n = (if n < 10 then 1 else Suc (ndigits (n div 10)))"
  by pat_completeness auto
termination
  by (relation "measure nat") auto

declare ndigits.simps [simp del]

lemma div_ten_less_iff: "(n::int) div 10 < p \<longleftrightarrow> n < 10 * p"
  by linarith

lemma ndigits_le_iff: "0 < d \<Longrightarrow> ndigits n \<le> d \<longleftrightarrow> n < 10 ^ d"
proof (induction n arbitrary: d rule: ndigits.induct)
  case (1 n)
  obtain d' where d': "d = Suc d'" using "1.prems" by (cases d) auto
  have pow: "(10::int) \<le> 10 ^ d" using d' by simp
  show ?case
  proof (cases "n < 10")
    case True
    then have "n < 10 ^ d" using pow by linarith
    moreover have "ndigits n = 1" using True by (subst ndigits.simps) simp
    ultimately show ?thesis using "1.prems" by simp
  next
    case False
    have step: "ndigits n = Suc (ndigits (n div 10))" using False by (subst ndigits.simps) simp
    show ?thesis
    proof (cases "d' = 0")
      case True
      have "0 < ndigits (n div 10)" by (subst ndigits.simps) simp
      with True False show ?thesis by (simp add: step d')
    next
      case d1: False
      have "ndigits n \<le> d \<longleftrightarrow> n div 10 < 10 ^ d'"
        using "1.IH" [OF False, of d'] d1 by (simp add: step d')
      also have "\<dots> \<longleftrightarrow> n < 10 * 10 ^ d'" by (rule div_ten_less_iff)
      also have "10 * 10 ^ d' = (10::int) ^ d" by (simp add: d')
      finally show ?thesis .
    qed
  qed
qed

definition dec_prec :: nat where
  "dec_prec = 28"

definition fits :: "int \<Rightarrow> bool" where
  "fits c \<longleftrightarrow> ndigits \<bar>c\<bar> \<le> dec_prec"

lemma fits_iff: "fits c \<longleftrightarrow> \<bar>c\<bar> < 10 ^ 28"
  by (simp add: fits_def dec_prec_def ndigits_le_iff)

definition dec_fix :: "decimal \<Rightarrow> decimal" where
  "dec_fix d =
     (if fits (coeff d) then d
      else let k = ndigits \<bar>coeff d\<bar> - dec_prec;
               c = round_half_even (coeff d) (10 ^ k)
           in if fits c then Dec c (expo d + int k) else Dec (c div 10) (expo d + int k + 1))"

lemma dec_fix_fits: "fits (coeff d) \<Longrightarrow> dec_fix d = d"
  by (simp add: dec_fix_def)

subsection \<open>Arithmetic\<close>

definition dec_add :: "decimal \<Rightarrow> decimal \<Rightarrow> decimal" where
  "dec_add a b = (let m = min (expo a) (expo b) in dec_fix (Dec (align a m + align b m) m))"

definition dec_neg :: "decimal \<Rightarrow> decimal" where
  "dec_neg a = dec_fix (Dec (- coeff a) (expo a))"

definition dec_sub :: "decimal \<Rightarrow> decimal \<Rightarrow> decimal" where
  "dec_sub a b = dec_add a (Dec (- coeff b) (expo b))"

definition dec_mul :: "decimal \<Rightarrow> decimal \<Rightarrow> decimal" where
  "dec_mul a b = dec_fix (Dec (coeff a * coeff b) (expo a + expo b))"

text \<open>
  Division works to the context's precision: one digit more than needed, with a sticky last
  digit when the quotient is inexact; an exact quotient drops the trailing zeros down to the
  ideal exponent.
\<close>

primrec drop_zeros :: "nat \<Rightarrow> int \<Rightarrow> int \<times> nat" where
  "drop_zeros 0 c = (c, 0)"
| "drop_zeros (Suc k) c = (if c mod 10 = 0 then drop_zeros k (c div 10) else (c, Suc k))"

definition dec_div :: "decimal \<Rightarrow> decimal \<Rightarrow> exn + decimal" where
  "dec_div a b =
     (if coeff b = 0 then Inl (if coeff a = 0 then InvalidOperation else DivisionByZero)
      else let ideal = expo a - expo b in
      if coeff a = 0 then Inr (Dec 0 ideal)
      else let s = sgn (coeff a) * sgn (coeff b);
               x = \<bar>coeff a\<bar>; y = \<bar>coeff b\<bar>;
               shift = int (ndigits y) - int (ndigits x) + int dec_prec + 1;
               num = x * p10 shift; den = y * p10 (- shift);
               q = num div den
           in if num mod den \<noteq> 0
              then Inr (dec_fix (Dec (s * (if q mod 5 = 0 then q + 1 else q)) (ideal - shift)))
              else let (q', k) = drop_zeros (nat shift) q
                   in Inr (dec_fix (Dec (s * q') (ideal - min shift 0 - int k))))"

text \<open>\<^verbatim>\<open>d.quantize(Decimal(10) ** e, rounding)\<close>.\<close>

definition dec_rescale :: "(int \<Rightarrow> int \<Rightarrow> int) \<Rightarrow> int \<Rightarrow> decimal \<Rightarrow> decimal" where
  "dec_rescale rnd e d =
     (if e \<le> expo d then Dec (align d e) e else Dec (rnd (coeff d) (p10 (e - expo d))) e)"

definition dec_quantize :: "(int \<Rightarrow> int \<Rightarrow> int) \<Rightarrow> int \<Rightarrow> decimal \<Rightarrow> exn + decimal" where
  "dec_quantize rnd e d =
     (let r = dec_rescale rnd e d in if fits (coeff r) then Inr r else Inl InvalidOperation)"

lemma expo_dec_rescale [simp]: "expo (dec_rescale rnd e d) = e"
  by (simp add: dec_rescale_def)

lemma dec_quantize_eq_Inr_iff:
  "dec_quantize rnd e d = Inr q \<longleftrightarrow> q = dec_rescale rnd e d \<and> fits (coeff q)"
  by (auto simp: dec_quantize_def Let_def)


section \<open>Facts about the operations\<close>

subsection \<open>Exact results\<close>

lemma dec_add_exact:
  assumes "fits (align a (min (expo a) (expo b)) + align b (min (expo a) (expo b)))"
  shows "dval (dec_add a b) = dval a + dval b"
proof -
  let ?m = "min (expo a) (expo b)"
  have "dval (dec_add a b) = dval (Dec (align a ?m) ?m) + dval (Dec (align b ?m) ?m)"
    using assms by (simp add: dec_add_def Let_def dec_fix_fits dval_Dec distrib_right)
  then show ?thesis by (simp add: dval_align)
qed

lemma dec_add_same_expo: "fits (c + c') \<Longrightarrow> dec_add (Dec c e) (Dec c' e) = Dec (c + c') e"
  by (simp add: dec_add_def align_def dec_fix_fits)

lemma dec_sub_same_expo: "fits (c - c') \<Longrightarrow> dec_sub (Dec c e) (Dec c' e) = Dec (c - c') e"
  by (simp add: dec_sub_def dec_add_same_expo)

lemma dval_neg_coeff: "dval (Dec (- coeff b) (expo b)) = - dval b"
  by (simp add: dval_def)

lemma dec_sub_exact:
  assumes "fits (align a (min (expo a) (expo b)) - align b (min (expo a) (expo b)))"
  shows "dval (dec_sub a b) = dval a - dval b"
  using assms dec_add_exact [of a "Dec (- coeff b) (expo b)"]
  by (simp add: dec_sub_def dval_neg_coeff align_def)

lemma dec_neg_exact: "fits (coeff a) \<Longrightarrow> dval (dec_neg a) = - dval a"
  by (simp add: dec_neg_def dec_fix_fits fits_iff dval_neg_coeff)

lemma dec_mul_exact: "fits (coeff a * coeff b) \<Longrightarrow> dval (dec_mul a b) = dval a * dval b"
  by (simp add: dec_mul_def dec_fix_fits dval_def power_int_add)

text \<open>The context rounds to twenty-eight digits: the relative error is half a unit of the last one.\<close>

lemma dec_fix_near: "2 * 10 ^ 27 * \<bar>dval (dec_fix d) - dval d\<bar> \<le> \<bar>dval d\<bar>"
proof (cases "fits (coeff d)")
  case False
  define n where "n = ndigits \<bar>coeff d\<bar>"
  define k where "k = n - dec_prec"
  define c where "c = round_half_even (coeff d) (10 ^ k)"
  have n: "28 < n" using False by (simp add: fits_def n_def dec_prec_def)
  then have "0 < n - 1" and "\<not> n \<le> n - 1" by simp_all
  then have big: "10 ^ (n - 1) \<le> \<bar>coeff d\<bar>"
    using ndigits_le_iff [of "n - 1" "\<bar>coeff d\<bar>", folded n_def] by (metis linorder_not_less)
  have small: "\<bar>coeff d\<bar> < 10 ^ n"
    using ndigits_le_iff [of n "\<bar>coeff d\<bar>"] n unfolding n_def [symmetric] by simp
  have nk: "n = 28 + k" using n by (simp add: k_def dec_prec_def)
  have "\<bar>2 * (10 ^ k * c - coeff d)\<bar> \<le> 10 ^ k" unfolding c_def by (rule round_half_even_near) simp
  moreover have "10 ^ 27 * 10 ^ k \<le> \<bar>coeff d\<bar>" using big by (simp add: nk power_add)
  ultimately have "10 ^ 27 * \<bar>2 * (10 ^ k * c - coeff d)\<bar> \<le> \<bar>coeff d\<bar>"
    by (elim order_trans [OF mult_left_mono]) simp_all
  then have "10 ^ 27 * (2 * \<bar>10 ^ k * c - coeff d\<bar>) \<le> \<bar>coeff d\<bar>" by (simp only: abs_mult abs_numeral)
  then have "(of_int (10 ^ 27 * (2 * \<bar>10 ^ k * c - coeff d\<bar>)) :: rat) \<le> of_int \<bar>coeff d\<bar>"
    by (simp only: of_int_le_iff)
  then have int_near: "2 * 10 ^ 27 * \<bar>10 ^ k * of_int c - of_int (coeff d)\<bar> \<le> (\<bar>of_int (coeff d)\<bar> :: rat)"
    by simp
  have fixed: "dval (dec_fix d) = of_int c * 10 ^ k * 10 powi expo d"
  proof (cases "fits c")
    case True
    then have "dec_fix d = Dec c (expo d + int k)"
      using False by (simp add: dec_fix_def Let_def k_def n_def c_def)
    then show ?thesis by (simp add: dval_Dec power_int_add)
  next
    case c_big: False
    have "\<bar>c\<bar> \<le> 10 ^ 28"
      unfolding c_def using small by (intro half_even.rnd_abs_le) (simp_all add: nk power_add)
    then have "\<bar>c\<bar> = 10 ^ 28" using c_big by (simp add: fits_iff)
    then have "10 dvd \<bar>c\<bar>" by simp
    then have ten: "c div 10 * 10 = c" by simp
    have "dec_fix d = Dec (c div 10) (expo d + int k + 1)"
      using False c_big by (simp add: dec_fix_def Let_def k_def n_def c_def)
    then have "dval (dec_fix d) = of_int (c div 10 * 10) * 10 ^ k * 10 powi expo d"
      by (simp add: dval_Dec power_int_add mult_ac)
    then show ?thesis by (simp only: ten)
  qed
  have "dval (dec_fix d) - dval d = (10 ^ k * of_int c - of_int (coeff d)) * 10 powi expo d"
    unfolding fixed by (simp add: dval_def algebra_simps)
  then have "2 * 10 ^ 27 * \<bar>dval (dec_fix d) - dval d\<bar>
      = 2 * 10 ^ 27 * \<bar>10 ^ k * of_int c - of_int (coeff d)\<bar> * 10 powi expo d"
    by (simp add: abs_mult)
  also have "\<dots> \<le> \<bar>of_int (coeff d)\<bar> * 10 powi expo d"
    using int_near by (intro mult_right_mono) simp_all
  also have "\<dots> = \<bar>dval d\<bar>" by (simp add: dval_def abs_mult)
  finally show ?thesis .
qed (simp add: dec_fix_fits)

lemma dec_mul_near: "2 * 10 ^ 27 * \<bar>dval (dec_mul a b) - dval a * dval b\<bar> \<le> \<bar>dval a * dval b\<bar>"
  using dec_fix_near [of "Dec (coeff a * coeff b) (expo a + expo b)"]
  by (simp add: dec_mul_def dval_def power_int_add mult_ac)

subsection \<open>Quantizing to a grid\<close>

text \<open>\<open>on_grid e d\<close>: the value of \<open>d\<close> is a multiple of \<open>10 powi e\<close>.\<close>

definition on_grid :: "int \<Rightarrow> decimal \<Rightarrow> bool" where
  "on_grid e d \<longleftrightarrow> e \<le> expo d \<or> p10 (e - expo d) dvd coeff d"

abbreviation cents :: "decimal \<Rightarrow> bool" where
  "cents \<equiv> on_grid (- 2)"

lemma on_grid_expo [simp]: "e \<le> expo d \<Longrightarrow> on_grid e d"
  by (simp add: on_grid_def)

lemma on_grid_quantized: "dec_quantize rnd e d = Inr q \<Longrightarrow> on_grid e q"
  by (auto simp: dec_quantize_eq_Inr_iff)

context rounding_mode
begin

lemma rescale_exact:
  assumes "on_grid e d"
  shows "dval (dec_rescale rnd e d) = dval d"
proof (cases "e \<le> expo d")
  case True
  then show ?thesis by (simp add: dec_rescale_def dval_align)
next
  case False
  with assms obtain k where k: "coeff d = k * p10 (e - expo d)"
    by (auto simp: on_grid_def dvd_def mult.commute)
  have "dec_rescale rnd e d = Dec k e" using False by (simp add: dec_rescale_def k rnd_exact)
  moreover have "dval d = dval (Dec k e)"
    using dval_rescale [of "expo d" e k] False by (simp flip: k)
  ultimately show ?thesis by simp
qed

lemma rescale_near: "\<bar>2 * (dval (dec_rescale rnd e d) - dval d)\<bar> \<le> 10 powi e"
proof (cases "e \<le> expo d")
  case True
  then show ?thesis by (simp add: rescale_exact)
next
  case False
  define b where "b = p10 (e - expo d)"
  let ?r = "rnd (coeff d) b"
  have b: "(of_int b :: rat) * 10 powi expo d = 10 powi e"
    using False by (simp add: b_def of_int_p10 power_int_diff)
  have "dval (dec_rescale rnd e d) = of_int (b * ?r) * 10 powi expo d"
    using False by (simp add: dec_rescale_def dval_Dec mult.commute mult.left_commute flip: b b_def)
  then have "2 * (dval (dec_rescale rnd e d) - dval d)
      = of_int (2 * (b * ?r - coeff d)) * 10 powi expo d"
    by (simp add: dval_def algebra_simps)
  then have "\<bar>2 * (dval (dec_rescale rnd e d) - dval d)\<bar>
      = of_int \<bar>2 * (b * ?r - coeff d)\<bar> * 10 powi expo d"
    by (simp add: abs_mult)
  also have "\<dots> \<le> of_int b * 10 powi expo d"
    using rnd_near [of b "coeff d"] by (intro mult_right_mono) (simp_all only: of_int_le_iff b_def p10_pos, simp)
  finally show ?thesis by (simp add: b)
qed

lemma rescale_le:
  assumes "on_grid e u" and "dval d \<le> dval u"
  shows "dval (dec_rescale rnd e d) \<le> dval u"
proof -
  obtain k where k: "dval u = dval (Dec k e)"
    using rescale_exact [OF assms(1)] by (metis decimal.collapse expo_dec_rescale)
  show ?thesis
  proof (cases "e \<le> expo d")
    case True
    then show ?thesis using assms(2) by (simp add: rescale_exact)
  next
    case False
    have "dval d \<le> dval (Dec (k * p10 (e - expo d)) (expo d))"
      using assms(2) dval_rescale [of "expo d" e k] False by (simp add: k)
    then have "coeff d \<le> k * p10 (e - expo d)" by (metis dval_Dec_le_iff decimal.collapse)
    then have "rnd (coeff d) (p10 (e - expo d)) \<le> k" by (rule rnd_le [OF p10_pos])
    with False show ?thesis by (simp add: dec_rescale_def k)
  qed
qed

lemma rescale_ge:
  assumes "on_grid e u" and "dval u \<le> dval d"
  shows "dval u \<le> dval (dec_rescale rnd e d)"
proof -
  obtain k where k: "dval u = dval (Dec k e)"
    using rescale_exact [OF assms(1)] by (metis decimal.collapse expo_dec_rescale)
  show ?thesis
  proof (cases "e \<le> expo d")
    case True
    then show ?thesis using assms(2) by (simp add: rescale_exact)
  next
    case False
    have "dval (Dec (k * p10 (e - expo d)) (expo d)) \<le> dval d"
      using assms(2) dval_rescale [of "expo d" e k] False by (simp add: k)
    then have "k * p10 (e - expo d) \<le> coeff d" by (metis dval_Dec_le_iff decimal.collapse)
    then have "k \<le> rnd (coeff d) (p10 (e - expo d))" by (rule rnd_ge [OF p10_pos])
    with False show ?thesis by (simp add: dec_rescale_def k)
  qed
qed

lemma quantize_near:
  "dec_quantize rnd e d = Inr q \<Longrightarrow> \<bar>2 * (dval q - dval d)\<bar> \<le> 10 powi e"
  using rescale_near [of e d] by (simp add: dec_quantize_eq_Inr_iff)

lemma quantize_exact: "dec_quantize rnd e d = Inr q \<Longrightarrow> on_grid e d \<Longrightarrow> dval q = dval d"
  using rescale_exact by (simp add: dec_quantize_eq_Inr_iff)

lemma quantize_le:
  "dec_quantize rnd e d = Inr q \<Longrightarrow> on_grid e u \<Longrightarrow> dval d \<le> dval u \<Longrightarrow> dval q \<le> dval u"
  using rescale_le by (simp add: dec_quantize_eq_Inr_iff)

lemma quantize_ge:
  "dec_quantize rnd e d = Inr q \<Longrightarrow> on_grid e u \<Longrightarrow> dval u \<le> dval d \<Longrightarrow> dval u \<le> dval q"
  using rescale_ge by (simp add: dec_quantize_eq_Inr_iff)

lemma quantize_same_expo:
  assumes "fits c"
  shows "dec_quantize rnd e (Dec c e) = Inr (Dec c e)"
  using assms by (simp add: dec_quantize_def dec_rescale_def align_def)

end

text \<open>
  The two ways the services quantize to two decimals:
  \<^verbatim>\<open>quantize(Decimal("0.01"), rounding=ROUND_HALF_UP)\<close> and \<^verbatim>\<open>quantize(Decimal("0.01"))\<close>.
\<close>

definition quantize_up :: "decimal \<Rightarrow> exn + decimal" where
  "quantize_up = dec_quantize round_half_up (- 2)"

definition quantize_even :: "decimal \<Rightarrow> exn + decimal" where
  "quantize_even = dec_quantize round_half_even (- 2)"

lemmas quantize_up_near = half_up.quantize_near [where e = "- 2", folded quantize_up_def]
lemmas quantize_up_exact = half_up.quantize_exact [where e = "- 2", folded quantize_up_def]
lemmas quantize_up_le = half_up.quantize_le [where e = "- 2", folded quantize_up_def]
lemmas quantize_up_ge = half_up.quantize_ge [where e = "- 2", folded quantize_up_def]
lemmas quantize_even_near = half_even.quantize_near [where e = "- 2", folded quantize_even_def]
lemmas quantize_even_exact = half_even.quantize_exact [where e = "- 2", folded quantize_even_def]
lemmas quantize_even_le = half_even.quantize_le [where e = "- 2", folded quantize_even_def]
lemmas quantize_even_ge = half_even.quantize_ge [where e = "- 2", folded quantize_even_def]

lemma quantize_even_cents_coeff: "fits c \<Longrightarrow> quantize_even (Dec c (- 2)) = Inr (Dec c (- 2))"
  by (simp add: quantize_even_def half_even.quantize_same_expo)

lemma quantize_up_expo: "quantize_up d = Inr q \<Longrightarrow> expo q = - 2"
  by (simp add: quantize_up_def dec_quantize_eq_Inr_iff)

lemma quantize_even_expo: "quantize_even d = Inr q \<Longrightarrow> expo q = - 2"
  by (simp add: quantize_even_def dec_quantize_eq_Inr_iff)


subsection \<open>Amounts that fit a database column\<close>

text \<open>
  \<open>numeric_19_8\<close>: the values of a \<^verbatim>\<open>Numeric(19, 8)\<close> column, at most eleven digits before the
  point and eight behind it.  On such amounts every sum and difference of the services is exact.
\<close>

definition numeric_19_8 :: "decimal \<Rightarrow> bool" where
  "numeric_19_8 d \<longleftrightarrow> - 8 \<le> expo d \<and> Dec (- 1) 11 < d \<and> d < Dec 1 11"

lemma numeric_19_8_iff: "numeric_19_8 d \<longleftrightarrow> - 8 \<le> expo d \<and> \<bar>dval d\<bar> < 10 ^ 11"
  by (auto simp: numeric_19_8_def less_decimal_dval dval_Dec abs_less_iff)

lemma on_grid_iff: "on_grid e d \<longleftrightarrow> (\<exists>k. dval d = dval (Dec k e))"
proof
  assume "on_grid e d"
  then show "\<exists>k. dval d = dval (Dec k e)"
    using half_up.rescale_exact [of e d] by (metis decimal.collapse expo_dec_rescale)
next
  assume "\<exists>k. dval d = dval (Dec k e)"
  then obtain k where k: "dval d = dval (Dec k e)" ..
  show "on_grid e d"
  proof (cases "e \<le> expo d")
    case False
    then have "dval (Dec (coeff d) (expo d)) = dval (Dec (k * p10 (e - expo d)) (expo d))"
      using k by (simp add: dval_rescale)
    then have "coeff d = k * p10 (e - expo d)" by (simp only: dval_Dec_eq_iff)
    then show ?thesis by (simp add: on_grid_def)
  qed simp
qed

lemma on_grid_add: "on_grid e a \<Longrightarrow> on_grid e b \<Longrightarrow> dval c = dval a + dval b \<Longrightarrow> on_grid e c"
  by (auto simp: on_grid_iff dval_Dec simp flip: distrib_right of_int_add)

lemma on_grid_sub: "on_grid e a \<Longrightarrow> on_grid e b \<Longrightarrow> dval c = dval a - dval b \<Longrightarrow> on_grid e c"
  by (auto simp: on_grid_iff dval_Dec simp flip: left_diff_distrib of_int_diff)

lemma abs_dval: "\<bar>dval d\<bar> = of_int \<bar>coeff d\<bar> * 10 powi expo d"
  by (simp add: dval_def abs_mult)

lemma abs_coeff_less:
  assumes "\<bar>dval d\<bar> < 10 ^ n" and "- int k \<le> expo d"
  shows "\<bar>coeff d\<bar> < 10 ^ (n + k)"
proof -
  have "of_int \<bar>coeff d\<bar> * (10::rat) powi (- int k) \<le> of_int \<bar>coeff d\<bar> * 10 powi expo d"
    using assms(2) by (intro mult_left_mono power_int_increasing) simp_all
  also have "\<dots> < 10 ^ n" using assms(1) by (simp add: abs_dval)
  finally have "of_int \<bar>coeff d\<bar> < (10::rat) ^ n * 10 ^ k"
    by (simp add: power_int_minus field_simps)
  then have "(of_int \<bar>coeff d\<bar> :: rat) < of_int (10 ^ (n + k))" by (simp add: power_add)
  then show ?thesis by (simp only: of_int_less_iff)
qed

lemma abs_align_less:
  assumes "\<bar>dval d\<bar> < 10 ^ n" and "- int k \<le> m" and "m \<le> expo d"
  shows "\<bar>align d m\<bar> < 10 ^ (n + k)"
  using abs_coeff_less [of "Dec (align d m) m" n k] assms by (simp add: dval_align)

lemma fits_sum:
  assumes "\<bar>x\<bar> < 10 ^ 27" and "\<bar>y\<bar> < (10::int) ^ 27"
  shows "fits (x + y)" and "fits (x - y)"
  using assms by (simp_all add: fits_iff abs_less_iff)

lemma dec_arith_numeric:
  assumes "\<bar>dval a\<bar> < 10 ^ 19" and "\<bar>dval b\<bar> < 10 ^ 19" and "- 8 \<le> expo a" and "- 8 \<le> expo b"
  shows dec_add_numeric: "dval (dec_add a b) = dval a + dval b"
    and dec_sub_numeric: "dval (dec_sub a b) = dval a - dval b"
proof -
  let ?m = "min (expo a) (expo b)"
  have "\<bar>align a ?m\<bar> < 10 ^ 27" and "\<bar>align b ?m\<bar> < 10 ^ 27"
    using abs_align_less [of a 19 8 ?m] abs_align_less [of b 19 8 ?m] assms by simp_all
  then have "fits (align a ?m + align b ?m)" and "fits (align a ?m - align b ?m)"
    by (rule fits_sum)+
  then show "dval (dec_add a b) = dval a + dval b" and "dval (dec_sub a b) = dval a - dval b"
    by (simp_all only: dec_add_exact dec_sub_exact)
qed

lemma dec_arith_expo:
  assumes "\<bar>dval a\<bar> < 10 ^ 19" and "\<bar>dval b\<bar> < 10 ^ 19" and "- 8 \<le> expo a" and "- 8 \<le> expo b"
  shows dec_add_expo: "expo (dec_add a b) = min (expo a) (expo b)"
    and dec_sub_expo: "expo (dec_sub a b) = min (expo a) (expo b)"
proof -
  let ?m = "min (expo a) (expo b)"
  have "\<bar>align a ?m\<bar> < 10 ^ 27" and "\<bar>align b ?m\<bar> < 10 ^ 27"
    using abs_align_less [of a 19 8 ?m] abs_align_less [of b 19 8 ?m] assms by simp_all
  then have "fits (align a ?m + align b ?m)" and "fits (align a ?m - align b ?m)"
    by (rule fits_sum)+
  then show "expo (dec_add a b) = ?m" and "expo (dec_sub a b) = ?m"
    by (simp_all add: dec_add_def dec_sub_def Let_def dec_fix_fits align_def)
qed

context rounding_mode
begin

lemma quantize_ok:
  assumes "\<bar>dval d\<bar> \<le> of_int k * 10 powi e" and "fits k"
  shows "\<exists>q. dec_quantize rnd e d = Inr q"
proof -
  let ?r = "dec_rescale rnd e d"
  have "dval ?r \<le> dval (Dec k e)" and "dval (Dec (- k) e) \<le> dval ?r"
    using assms(1) rescale_le [of e "Dec k e" d] rescale_ge [of e "Dec (- k) e" d]
    by (simp_all add: dval_Dec abs_le_iff)
  moreover have "?r = Dec (coeff ?r) e" by (metis decimal.collapse expo_dec_rescale)
  ultimately have "coeff ?r \<le> k" and "- k \<le> coeff ?r" by (metis dval_Dec_le_iff)+
  then have "\<bar>coeff ?r\<bar> \<le> \<bar>k\<bar>" by linarith
  then have "fits (coeff ?r)" using assms(2) by (simp add: fits_iff)
  then show ?thesis by (simp add: dec_quantize_def Let_def)
qed

lemma quantize_abs_le:
  assumes "dec_quantize rnd e d = Inr q" and "on_grid e u" and "\<bar>dval d\<bar> \<le> dval u"
  shows "\<bar>dval q\<bar> \<le> dval u"
proof -
  have "on_grid e (Dec (- coeff u) (expo u))" using assms(2) by (simp add: on_grid_def)
  then have "dval q \<le> dval u" and "- dval u \<le> dval q"
    using quantize_le [OF assms(1,2)] quantize_ge [OF assms(1), of "Dec (- coeff u) (expo u)"] assms(3)
    by (simp_all add: dval_neg_coeff abs_le_iff)
  then show ?thesis by (simp add: abs_le_iff)
qed

end

end
