(* ===== verification/AFM_Text.thy ===== *)
theory AFM_Text
  imports AFM_Decimal "HOL-Library.Char_ord" "HOL-Library.List_Lexorder" "HOL-Library.AList"
begin

text \<open>
  Python strings, JSON values, decimal printing and UTC timestamps, as the services use them.
  Strings are sequences of ASCII characters: case conversion maps the ASCII letters and a
  length counts characters.
\<close>

section \<open>Strings\<close>

definition upper_char :: "char \<Rightarrow> char" where
  "upper_char c =
     (let n = of_char c :: int in if 97 \<le> n \<and> n \<le> 122 then char_of (n - 32) else c)"

definition lower_char :: "char \<Rightarrow> char" where
  "lower_char c =
     (let n = of_char c :: int in if 65 \<le> n \<and> n \<le> 90 then char_of (n + 32) else c)"

definition py_upper :: "string \<Rightarrow> string" where
  "py_upper s = map upper_char s"

definition py_lower :: "string \<Rightarrow> string" where
  "py_lower s = map lower_char s"

lemma upper_char_idem [simp]: "upper_char (upper_char c) = upper_char c"
  by (auto simp: upper_char_def Let_def)

lemma lower_char_idem [simp]: "lower_char (lower_char c) = lower_char c"
  by (auto simp: lower_char_def Let_def)

lemma py_upper_idem [simp]: "py_upper (py_upper s) = py_upper s"
  by (simp add: py_upper_def)

lemma py_lower_idem [simp]: "py_lower (py_lower s) = py_lower s"
  by (simp add: py_lower_def)

lemma length_py_upper [simp]: "length (py_upper s) = length s"
  by (simp add: py_upper_def)

lemma length_py_lower [simp]: "length (py_lower s) = length s"
  by (simp add: py_lower_def)

definition is_space :: "char \<Rightarrow> bool" where
  "is_space c = (let n = of_char c :: int in n = 32 \<or> (9 \<le> n \<and> n \<le> 13) \<or> (28 \<le> n \<and> n \<le> 31))"

definition is_digit :: "char \<Rightarrow> bool" where
  "is_digit c = (let n = of_char c :: int in 48 \<le> n \<and> n \<le> 57)"

definition py_strip :: "string \<Rightarrow> string" where
  "py_strip s = rev (dropWhile is_space (rev (dropWhile is_space s)))"

definition starts_with :: "string \<Rightarrow> string \<Rightarrow> bool" where
  "starts_with p s \<longleftrightarrow> take (length p) s = p"

text \<open>\<^verbatim>\<open>needle in s\<close>.\<close>

fun contains :: "string \<Rightarrow> string \<Rightarrow> bool" where
  "contains p [] \<longleftrightarrow> p = []"
| "contains p (c # s) \<longleftrightarrow> starts_with p (c # s) \<or> contains p s"

lemma contains_iff: "contains p s \<longleftrightarrow> (\<exists>u v. s = u @ p @ v)"
proof (induction s)
  case (Cons c s)
  have "starts_with p (c # s) \<longleftrightarrow> (\<exists>v. c # s = p @ v)"
    unfolding starts_with_def by (metis append_take_drop_id append_eq_conv_conj)
  moreover have "(\<exists>u v. c # s = u @ p @ v) \<longleftrightarrow> (\<exists>v. c # s = p @ v) \<or> (\<exists>u v. s = u @ p @ v)"
    by (metis append_Cons append_Nil list.exhaust list.inject)
  ultimately show ?case using Cons by simp
qed simp

text \<open>\<^verbatim>\<open>s.split(",")\<close> for a one-character separator.\<close>

fun split_on :: "char \<Rightarrow> string \<Rightarrow> string list" where
  "split_on sep [] = [[]]"
| "split_on sep (c # s) =
     (if c = sep then [] # split_on sep s
      else case split_on sep s of [] \<Rightarrow> [[c]] | w # ws \<Rightarrow> (c # w) # ws)"

lemma split_on_nonempty [simp]: "split_on sep s \<noteq> []"
  by (induction s) (auto split: list.split)

definition is_hex :: "char \<Rightarrow> bool" where
  "is_hex c = (let n = of_char (lower_char c) :: int in is_digit c \<or> 97 \<le> n \<and> n \<le> 102)"

text \<open>\<^verbatim>\<open>s.replace(p, '''')\<close>, for \<open>n\<close> at least the length of \<open>s\<close>.\<close>

fun remove_all :: "string \<Rightarrow> string \<Rightarrow> nat \<Rightarrow> string" where
  "remove_all p s 0 = s"
| "remove_all p [] (Suc n) = []"
| "remove_all p (c # s) (Suc n) =
     (if starts_with p (c # s) then remove_all p (drop (length p) (c # s)) n
      else c # remove_all p s n)"

section \<open>Numbers as text\<close>

definition digit_char :: "int \<Rightarrow> char" where
  "digit_char d = char_of (48 + d)"

function nat_str :: "int \<Rightarrow> string" where
  "nat_str n = (if n < 10 then [digit_char n] else nat_str (n div 10) @ [digit_char (n mod 10)])"
  by pat_completeness auto
termination
  by (relation "measure nat") auto

declare nat_str.simps [simp del]

definition int_str :: "int \<Rightarrow> string" where
  "int_str n = (if n < 0 then CHR ''-'' # nat_str (- n) else nat_str n)"

definition zero_pad :: "nat \<Rightarrow> string \<Rightarrow> string" where
  "zero_pad w s = replicate (w - length s) (CHR ''0'') @ s"

lemma length_nat_str: "0 \<le> n \<Longrightarrow> length (nat_str n) = ndigits n"
proof (induction n rule: nat_str.induct)
  case (1 n)
  then show ?case by (subst nat_str.simps, subst ndigits.simps) simp
qed

text \<open>\<^verbatim>\<open>str(d)\<close>: positional unless the exponent is positive or the number is tiny.\<close>

definition dec_str :: "decimal \<Rightarrow> string" where
  "dec_str d =
     (let ds = nat_str \<bar>coeff d\<bar>; len = int (length ds); left = expo d + len;
          dot = (if expo d \<le> 0 \<and> - 6 < left then left else 1);
          body = (if dot \<le> 0 then ''0.'' @ replicate (nat (- dot)) (CHR ''0'') @ ds
                  else if len \<le> dot then ds @ replicate (nat (dot - len)) (CHR ''0'')
                  else take (nat dot) ds @ CHR ''.'' # drop (nat dot) ds);
          ex = (if left = dot then ''''
                else ''E'' @ (if left - dot < 0 then [] else ''+'') @ int_str (left - dot))
      in (if coeff d < 0 then ''-'' else '''') @ body @ ex)"

text \<open>
  \<^verbatim>\<open>Decimal(text)\<close>: an optional sign, digits with an optional point, an optional exponent;
  surrounding blanks and underscores are dropped.  The special values are not numbers here.
\<close>

definition digits_val :: "string \<Rightarrow> int" where
  "digits_val s = foldl (\<lambda>n c. 10 * n + (of_char c - 48)) 0 s"

definition split_sign :: "string \<Rightarrow> int \<times> string" where
  "split_sign s =
     (case s of [] \<Rightarrow> (1, s)
      | c # r \<Rightarrow> if c = CHR ''-'' then (- 1, r) else if c = CHR ''+'' then (1, r) else (1, s))"

definition parse_exponent :: "string \<Rightarrow> int option" where
  "parse_exponent s =
     (case s of [] \<Rightarrow> Some 0
      | c # r \<Rightarrow>
          if c \<in> {CHR ''e'', CHR ''E''}
          then (case split_sign r of (sg, ds) \<Rightarrow>
                  if ds \<noteq> [] \<and> list_all is_digit ds then Some (sg * digits_val ds) else None)
          else None)"

definition dec_parse :: "string \<Rightarrow> exn + decimal" where
  "dec_parse s0 =
     (case split_sign (filter (\<lambda>c. c \<noteq> CHR ''_'') (py_strip s0)) of (sg, s) \<Rightarrow>
        let ip = takeWhile is_digit s; r = dropWhile is_digit s;
            dot = (r \<noteq> [] \<and> hd r = CHR ''.'');
            fp = (if dot then takeWhile is_digit (tl r) else []);
            r' = (if dot then dropWhile is_digit (tl r) else r)
        in if ip @ fp = [] then Inl InvalidOperation
           else case parse_exponent r' of
                  None \<Rightarrow> Inl InvalidOperation
                | Some e \<Rightarrow> Inr (Dec (sg * digits_val (ip @ fp)) (e - int (length fp))))"

text \<open>
  The \<^verbatim>\<open>repr\<close> of \<^verbatim>\<open>float(d)\<close>: the digits of the decimal without trailing zeros.  A double
  prints up to fifteen significant digits unchanged; longer amounts are printed here as if it
  had more.
\<close>

function strip_zeros :: "int \<Rightarrow> int \<Rightarrow> int \<times> int" where
  "strip_zeros c e = (if c \<noteq> 0 \<and> c mod 10 = 0 then strip_zeros (c div 10) (e + 1) else (c, e))"
  by pat_completeness auto
termination
  by (relation "measure (\<lambda>(c, e). nat \<bar>c\<bar>)") auto

declare strip_zeros.simps [simp del]

definition float_repr :: "decimal \<Rightarrow> string" where
  "float_repr d =
     (if coeff d = 0 then ''0.0''
      else case strip_zeros \<bar>coeff d\<bar> (expo d) of (c, e) \<Rightarrow>
        let ds = nat_str c; len = int (length ds); left = e + len;
            body =
              (if - 4 < left \<and> left \<le> 16
               then if left \<le> 0 then ''0.'' @ replicate (nat (- left)) (CHR ''0'') @ ds
                    else if len \<le> left then ds @ replicate (nat (left - len)) (CHR ''0'') @ ''.0''
                    else take (nat left) ds @ CHR ''.'' # drop (nat left) ds
               else take 1 ds @ (if len = 1 then [] else CHR ''.'' # drop 1 ds) @ ''e''
                    @ (if left - 1 < 0 then ''-'' else ''+'') @ zero_pad 2 (nat_str \<bar>left - 1\<bar>))
        in (if coeff d < 0 then ''-'' else '''') @ body)"

section \<open>JSON values\<close>

text \<open>
  What \<^verbatim>\<open>json.loads\<close> returns.  A float carries the text of its \<^verbatim>\<open>repr\<close>; an object is the list
  of its items in insertion order.
\<close>

datatype json =
    JNull | JBool bool | JInt int | JFloat string | JStr string
  | JArr "json list" | JObj "(string \<times> json) list"

type_synonym jobj = "(string \<times> json) list"

fun truthy :: "json \<Rightarrow> bool" where
  "truthy JNull = False"
| "truthy (JBool b) = b"
| "truthy (JInt n) = (n \<noteq> 0)"
| "truthy (JFloat r) = (r \<noteq> ''0.0'' \<and> r \<noteq> ''-0.0'')"
| "truthy (JStr s) = (s \<noteq> [])"
| "truthy (JArr xs) = (xs \<noteq> [])"
| "truthy (JObj kvs) = (kvs \<noteq> [])"

text \<open>\<^verbatim>\<open>a or b\<close>, \<^verbatim>\<open>d.get(k)\<close>, \<^verbatim>\<open>d.get(k, v)\<close> and \<^verbatim>\<open>{**d, k: v}\<close>.\<close>

definition py_or :: "json \<Rightarrow> json \<Rightarrow> json" where
  "py_or a b = (if truthy a then a else b)"

definition jget_default :: "json \<Rightarrow> string \<Rightarrow> jobj \<Rightarrow> json" where
  "jget_default v k d = (case map_of d k of None \<Rightarrow> v | Some x \<Rightarrow> x)"

definition jget :: "string \<Rightarrow> jobj \<Rightarrow> json" where
  "jget k d = jget_default JNull k d"

definition jset :: "string \<Rightarrow> json \<Rightarrow> jobj \<Rightarrow> jobj" where
  "jset k v d = AList.update k v d"

lemma jget_jset [simp]: "jget k (jset k' v d) = (if k = k' then v else jget k d)"
  by (simp add: jget_def jget_default_def jset_def update_conv')

definition is_jobj :: "json \<Rightarrow> bool" where
  "is_jobj v = (case v of JObj _ \<Rightarrow> True | _ \<Rightarrow> False)"

text \<open>\<^verbatim>\<open>repr\<close> of a string: single quotes unless it holds one and no double quote.\<close>

definition hex_digit :: "int \<Rightarrow> char" where
  "hex_digit n = (if n < 10 then char_of (48 + n) else char_of (87 + n))"

definition repr_char :: "char \<Rightarrow> char \<Rightarrow> string" where
  "repr_char q c =
     (let n = of_char c :: int in
      if c = q \<or> n = 92 then [char_of (92::int), c]
      else if n = 10 then [char_of (92::int), CHR ''n'']
      else if n = 13 then [char_of (92::int), CHR ''r'']
      else if n = 9 then [char_of (92::int), CHR ''t'']
      else if n < 32 \<or> n = 127
      then [char_of (92::int), CHR ''x'', hex_digit (n div 16), hex_digit (n mod 16)]
      else [c])"

definition str_repr :: "string \<Rightarrow> string" where
  "str_repr s =
     (let sq = char_of (39::int); dq = char_of (34::int);
          q = (if sq \<in> set s \<and> dq \<notin> set s then dq else sq)
      in q # concat (map (repr_char q) s) @ [q])"

text \<open>
  \<^verbatim>\<open>str(exc)\<close>.  The text of a failed request or of a refused insert is the library's own: a constant
  stands for it.
\<close>

fun exn_str :: "exn \<Rightarrow> string" where
  "exn_str (AFM c d) = d"
| "exn_str (HTTPException n d) = int_str (int n) @ '': '' @ d"
| "exn_str (KoraClientError d) = d"
| "exn_str (AzaClientError d) = d"
| "exn_str (NexusClientError d) = d"
| "exn_str (RuntimeError d) = d"
| "exn_str (ValueError d) = d"
| "exn_str (KeyError d) = str_repr d"
| "exn_str (TypeError d) = d"
| "exn_str (AttributeError d) = d"
| "exn_str (IndexError d) = d"
| "exn_str HTTPError = ''http error''"
| "exn_str InvalidOperation = ''[<class 'decimal.InvalidOperation'>]''"
| "exn_str DivisionByZero = ''[<class 'decimal.DivisionByZero'>]''"
| "exn_str MultipleResultsFound = ''Multiple rows were found when one or none was required''"
| "exn_str IntegrityError = ''integrity error''"
| "exn_str (DBAPIError d) = d"

definition join :: "string \<Rightarrow> string list \<Rightarrow> string" where
  "join sep ws = (case ws of [] \<Rightarrow> [] | w # ws' \<Rightarrow> w @ concat (map (\<lambda>v. sep @ v) ws'))"

fun py_repr :: "json \<Rightarrow> string" where
  "py_repr JNull = ''None''"
| "py_repr (JBool b) = (if b then ''True'' else ''False'')"
| "py_repr (JInt n) = int_str n"
| "py_repr (JFloat r) = r"
| "py_repr (JStr s) = str_repr s"
| "py_repr (JArr xs) = ''['' @ join '', '' (map py_repr xs) @ '']''"
| "py_repr (JObj kvs) =
     ''{'' @ join '', '' (map (\<lambda>(k, v). str_repr k @ '': '' @ py_repr v) kvs) @ ''}''"

text \<open>\<^verbatim>\<open>str(v)\<close>.\<close>

definition py_str :: "json \<Rightarrow> string" where
  "py_str v = (case v of JStr s \<Rightarrow> s | _ \<Rightarrow> py_repr v)"

lemma py_str_simps [simp]:
  "py_str (JStr s) = s"
  "py_str JNull = ''None''"
  by (simp_all add: py_str_def)

text \<open>Subscripts of a JSON value: \<^verbatim>\<open>v[k]\<close> and \<^verbatim>\<open>v[0]\<close>.\<close>

definition json_key :: "string \<Rightarrow> json \<Rightarrow> exn + json" where
  "json_key k v =
     (case v of JObj kvs \<Rightarrow> (case map_of kvs k of None \<Rightarrow> Inl (KeyError k) | Some x \<Rightarrow> Inr x)
      | _ \<Rightarrow> Inl (TypeError k))"

definition json_first :: "json \<Rightarrow> exn + json" where
  "json_first v =
     (case v of
        JArr xs \<Rightarrow> (case xs of [] \<Rightarrow> Inl (IndexError ''list index out of range'') | x # _ \<Rightarrow> Inr x)
      | JStr s \<Rightarrow> (case s of [] \<Rightarrow> Inl (IndexError ''string index out of range'') | c # _ \<Rightarrow> Inr (JStr [c]))
      | JObj _ \<Rightarrow> Inl (KeyError ''0'')
      | _ \<Rightarrow> Inl (TypeError ''0''))"

text \<open>\<^verbatim>\<open>int(v)\<close> of a JSON value.\<close>

definition py_int :: "json \<Rightarrow> exn + int" where
  "py_int v =
     (case v of
        JInt n \<Rightarrow> Inr n
      | JBool b \<Rightarrow> Inr (if b then 1 else 0)
      | JFloat r \<Rightarrow> (case dec_parse r of Inl e \<Rightarrow> Inl (ValueError r)
          | Inr x \<Rightarrow> Inr (sgn (coeff x) * (\<bar>coeff x\<bar> * p10 (expo x) div p10 (- expo x))))
      | JStr s \<Rightarrow> (case split_sign (py_strip s) of (sg, ds) \<Rightarrow>
          if ds \<noteq> [] \<and> list_all is_digit ds then Inr (sg * digits_val ds) else Inl (ValueError s))
      | _ \<Rightarrow> Inl (TypeError ''int''))"

text \<open>\<^verbatim>\<open>str(d.get(k) or "")\<close>.\<close>

definition str_field :: "string \<Rightarrow> jobj \<Rightarrow> string" where
  "str_field k d = py_str (py_or (jget k d) (JStr ''''))"

definition py_float :: "decimal \<Rightarrow> json" where
  "py_float d = JFloat (float_repr d)"

definition jopt :: "string option \<Rightarrow> json" where
  "jopt v = (case v of None \<Rightarrow> JNull | Some s \<Rightarrow> JStr s)"

text \<open>\<^verbatim>\<open>s.rstrip("/")\<close> and \<^verbatim>\<open>s.lstrip("/")\<close>.\<close>

definition rstrip_char :: "char \<Rightarrow> string \<Rightarrow> string" where
  "rstrip_char c s = rev (dropWhile (\<lambda>x. x = c) (rev s))"

definition lstrip_char :: "char \<Rightarrow> string \<Rightarrow> string" where
  "lstrip_char c s = dropWhile (\<lambda>x. x = c) s"

section \<open>Time\<close>

text \<open>
  A timezone-aware UTC \<^verbatim>\<open>datetime\<close> is its distance from the epoch in microseconds.
\<close>

type_synonym time = int

definition seconds :: "int \<Rightarrow> time" where
  "seconds n = n * 1000000"

definition minutes :: "int \<Rightarrow> time" where
  "minutes n = seconds (60 * n)"

definition hours :: "int \<Rightarrow> time" where
  "hours n = minutes (60 * n)"

definition days :: "int \<Rightarrow> time" where
  "days n = hours (24 * n)"

definition day_number :: "time \<Rightarrow> int" where
  "day_number t = t div days 1"

definition time_of_day :: "time \<Rightarrow> time" where
  "time_of_day t = t mod days 1"

text \<open>
  The proleptic Gregorian date of a day number (0 is 1 January 1970), counted in eras of 400
  years that start on 1 March.
\<close>

definition year_of_era :: "int \<Rightarrow> int" where
  "year_of_era doe = (doe - doe div 1460 + doe div 36524 - doe div 146096) div 365"

definition day_of_year :: "int \<Rightarrow> int" where
  "day_of_year doe =
     (let y = year_of_era doe in doe - (365 * y + y div 4 - y div 100))"

definition month_index :: "int \<Rightarrow> int" where
  "month_index doy = (5 * doy + 2) div 153"

definition day_of_month :: "int \<Rightarrow> int" where
  "day_of_month doy = doy - (153 * month_index doy + 2) div 5 + 1"

definition civil :: "int \<Rightarrow> int \<times> int \<times> int" where
  "civil d =
     (let z = d + 719468; doe = z mod 146097; doy = day_of_year doe; mp = month_index doy;
          mm = (if mp < 10 then mp + 3 else mp - 9)
      in (year_of_era doe + z div 146097 * 400 + (if mm \<le> 2 then 1 else 0), mm,
          day_of_month doy))"

text \<open>\<^verbatim>\<open>t.replace(day=1, hour=0, minute=0, second=0, microsecond=0)\<close>.\<close>

definition month_start :: "time \<Rightarrow> time" where
  "month_start t = (case civil (day_number t) of (_, _, d) \<Rightarrow> days (day_number t - (d - 1)))"

text \<open>\<^verbatim>\<open>t.isoweekday()\<close>: 1 for Monday to 7 for Sunday.\<close>

definition isoweekday :: "time \<Rightarrow> int" where
  "isoweekday t = (day_number t + 3) mod 7 + 1"

text \<open>\<^verbatim>\<open>t.isoformat()\<close>.\<close>

definition isodate :: "time \<Rightarrow> string" where
  "isodate t =
     (case civil (day_number t) of (y, m, d) \<Rightarrow>
        zero_pad 4 (int_str y) @ ''-'' @ zero_pad 2 (int_str m) @ ''-'' @ zero_pad 2 (int_str d))"

definition isoformat :: "time \<Rightarrow> string" where
  "isoformat t =
     (let us = time_of_day t; s = us div 1000000; f = us mod 1000000;
          two = (\<lambda>n. zero_pad 2 (int_str n))
      in isodate t @ ''T'' @ two (s div 3600) @ '':'' @ two (s div 60 mod 60) @ '':'' @ two (s mod 60)
         @ (if f = 0 then '''' else ''.'' @ zero_pad 6 (int_str f)) @ ''+00:00'')"

lemma day_of_month_pos: "1 \<le> day_of_month doy"
proof -
  have "153 * month_index doy + 2 \<le> 5 * doy + 4" by (simp add: month_index_def)
  then have "(153 * month_index doy + 2) div 5 \<le> (5 * doy + 4) div 5" by (rule zdiv_mono1) simp
  also have "(5 * doy + 4) div 5 = doy" by simp
  finally show ?thesis by (simp add: day_of_month_def)
qed

lemma civil_day_pos: "civil d = (y, m, dd) \<Longrightarrow> 1 \<le> dd"
  using day_of_month_pos by (auto simp: civil_def Let_def)

lemma month_start_le: "month_start t \<le> t"
proof -
  obtain y m d where c: "civil (day_number t) = (y, m, d)" by (metis prod_cases3)
  have "days (day_number t - (d - 1)) \<le> days (day_number t)"
    using civil_day_pos [OF c] by (simp add: days_def hours_def minutes_def seconds_def)
  also have "days (day_number t) \<le> t"
    by (simp add: day_number_def days_def hours_def minutes_def seconds_def)
  finally show ?thesis by (simp add: month_start_def c)
qed

end
