(* ===== verification/AFM_Settings.thy ===== *)
theory AFM_Settings
  imports AFM_Text
begin

text \<open>
  \<^verbatim>\<open>config/config.py\<close>: the settings, the field constraints
  pydantic enforces at start-up (\<open>valid_settings\<close>) and the derived properties.  A float setting
  that the code only reads as \<^verbatim>\<open>Decimal(str(x))\<close> is kept as that decimal.
\<close>

datatype environment = Development | Staging | Production

datatype log_level = DEBUG | INFO | WARNING | ERROR

record settings =
  secret_key :: string
  jwt_algorithm :: string
  access_token_expire_minutes :: int
  refresh_token_expire_days :: int
  mobile_oauth_exchange_secret :: "string option"
  afm_backoffice_admin_subjects :: string
  database_url :: string
  db_pool_size :: int
  db_max_overflow :: int
  db_pool_timeout :: int
  redis_url :: string
  redis_pool_size :: int
  aza_api_key :: "string option"
  aza_api_secret :: "string option"
  aza_api_base_url :: string
  aza_allow_transaction_writes :: bool
  nexus_secret_key :: "string option"
  nexus_api_base_url :: string
  nexus_platform_code :: "string option"
  nexus_webhook_secret :: "string option"
  nexus_allow_transaction_writes :: bool
  kora_api_key :: "string option"
  kora_secret_key :: "string option"
  kora_api_base_url :: string
  kora_encryption_key :: "string option"
  kora_webhook_secret :: "string option"
  kora_webhook_alert_url :: "string option"
  kora_webhook_alert_threshold :: int
  fincra_api_key :: "string option"
  fincra_secret_key :: "string option"
  fincra_webhook_secret :: "string option"
  flutterwave_public_key :: "string option"
  flutterwave_secret_key :: "string option"
  stripe_publishable_key :: "string option"
  stripe_secret_key :: "string option"
  terms_version :: string
  aml_policy_version :: string
  kyc1_monthly_limit_xaf :: int
  smtp_host :: "string option"
  smtp_port :: int
  smtp_username :: "string option"
  smtp_password :: "string option"
  smtp_from_email :: "string option"
  smtp_use_tls :: bool
  sms_api_url :: "string option"
  sms_api_token :: "string option"
  sms_sender :: "string option"
  whatsapp_access_token :: "string option"
  whatsapp_phone_number_id :: "string option"
  whatsapp_api_version :: string
  whatsapp_otp_template_name :: string
  whatsapp_otp_template_language :: string
  alpaca_api_key :: "string option"
  alpaca_secret_key :: "string option"
  alpaca_paper :: bool
  alpaca_broker_base_url :: string
  alpaca_auth_url :: string
  alpaca_market_data_base_url :: string
  alpaca_trading_api_key :: "string option"
  alpaca_trading_api_secret :: "string option"
  alpaca_trading_base_url :: string
  alpaca_trading_market_data_base_url :: string
  otp_expire_minutes :: int
  otp_max_attempts :: int
  otp_expose_dev_code :: bool
  environment :: environment
  log_level :: log_level
  json_logs :: bool
  allowed_origins :: string
  ads_share :: decimal
  creator_share :: decimal
  platform_share :: decimal
  enable_copy_trading :: bool
  enable_social_trading :: bool
  max_copy_allocation_percent :: int
  afm_commission_bps :: int
  afm_min_fee_usd :: decimal
  afm_max_fee_usd :: decimal
  max_order_value_usd :: decimal
  max_user_exposure_usd :: decimal
  max_platform_exposure_usd :: decimal
  fx_spread_bps :: int

text \<open>A field declared twice has the constraint of its second declaration.\<close>

definition valid_settings :: "settings \<Rightarrow> bool" where
  "valid_settings s \<longleftrightarrow>
     48 \<le> length (secret_key s)
   \<and> 5 \<le> access_token_expire_minutes s \<and> access_token_expire_minutes s \<le> 60
   \<and> 1 \<le> refresh_token_expire_days s \<and> refresh_token_expire_days s \<le> 30
   \<and> (case mobile_oauth_exchange_secret s of None \<Rightarrow> True | Some x \<Rightarrow> 48 \<le> length x)
   \<and> 1 \<le> kora_webhook_alert_threshold s \<and> kora_webhook_alert_threshold s \<le> 20
   \<and> list_ex (\<lambda>p. starts_with p (database_url s))
       [''postgres://'', ''postgresql://'', ''postgres+asyncpg://'', ''postgresql+asyncpg://'']
   \<and> 5 \<le> db_pool_size s \<and> db_pool_size s \<le> 100
   \<and> 0 \<le> db_max_overflow s \<and> db_max_overflow s \<le> 100
   \<and> 5 \<le> db_pool_timeout s \<and> db_pool_timeout s \<le> 120
   \<and> list_ex (\<lambda>p. starts_with p (redis_url s)) [''redis://'', ''rediss://'']
   \<and> 10 \<le> redis_pool_size s \<and> redis_pool_size s \<le> 200
   \<and> 1 \<le> smtp_port s \<and> smtp_port s \<le> 65535
   \<and> 0 \<le> kyc1_monthly_limit_xaf s
   \<and> 3 \<le> otp_expire_minutes s \<and> otp_expire_minutes s \<le> 20
   \<and> 1 \<le> otp_max_attempts s \<and> otp_max_attempts s \<le> 10
   \<and> Dec 0 0 \<le> ads_share s \<and> ads_share s \<le> Dec 1 0
   \<and> Dec 0 0 \<le> creator_share s \<and> creator_share s \<le> Dec 1 0
   \<and> Dec 0 0 \<le> platform_share s \<and> platform_share s \<le> Dec 1 0
   \<and> 1 \<le> max_copy_allocation_percent s \<and> max_copy_allocation_percent s \<le> 100
   \<and> 0 \<le> afm_commission_bps s \<and> afm_commission_bps s \<le> 500
   \<and> Dec 100 0 \<le> max_order_value_usd s
   \<and> Dec 1000 0 \<le> max_user_exposure_usd s
   \<and> Dec 10000 0 \<le> max_platform_exposure_usd s
   \<and> 0 \<le> fx_spread_bps s \<and> fx_spread_bps s \<le> 500"

text \<open>The defaults of the class, with the given secret key and the two addresses that have no default;
  every credential is unset.\<close>

definition default_settings :: "string \<Rightarrow> settings" where
  "default_settings key =
     \<lparr> secret_key = key,
       jwt_algorithm = ''HS256'',
       access_token_expire_minutes = 15,
       refresh_token_expire_days = 7,
       mobile_oauth_exchange_secret = None,
       afm_backoffice_admin_subjects = '''',
       database_url = ''postgresql://localhost/afm'',
       db_pool_size = 20,
       db_max_overflow = 30,
       db_pool_timeout = 30,
       redis_url = ''redis://localhost'',
       redis_pool_size = 50,
       aza_api_key = None,
       aza_api_secret = None,
       aza_api_base_url = ''https://api-sandbox.transferzero.com/v1'',
       aza_allow_transaction_writes = False,
       nexus_secret_key = None,
       nexus_api_base_url = ''https://api.dev.neero.io/payment-gateway/api/v1'',
       nexus_platform_code = None,
       nexus_webhook_secret = None,
       nexus_allow_transaction_writes = False,
       kora_api_key = None,
       kora_secret_key = None,
       kora_api_base_url = ''https://api.korapay.com/merchant/api/v1'',
       kora_encryption_key = None,
       kora_webhook_secret = None,
       kora_webhook_alert_url = None,
       kora_webhook_alert_threshold = 3,
       fincra_api_key = None,
       fincra_secret_key = None,
       fincra_webhook_secret = None,
       flutterwave_public_key = None,
       flutterwave_secret_key = None,
       stripe_publishable_key = None,
       stripe_secret_key = None,
       terms_version = ''2026-08-27'',
       aml_policy_version = ''2.1'',
       kyc1_monthly_limit_xaf = 10000000,
       smtp_host = None,
       smtp_port = 587,
       smtp_username = None,
       smtp_password = None,
       smtp_from_email = None,
       smtp_use_tls = True,
       sms_api_url = None,
       sms_api_token = None,
       sms_sender = None,
       whatsapp_access_token = None,
       whatsapp_phone_number_id = None,
       whatsapp_api_version = ''v23.0'',
       whatsapp_otp_template_name = ''afm_authentication_code'',
       whatsapp_otp_template_language = ''fr'',
       alpaca_api_key = None,
       alpaca_secret_key = None,
       alpaca_paper = True,
       alpaca_broker_base_url = ''https://broker-api.sandbox.alpaca.markets'',
       alpaca_auth_url = ''https://authx.sandbox.alpaca.markets/v1/oauth2/token'',
       alpaca_market_data_base_url = ''https://data.sandbox.alpaca.markets'',
       alpaca_trading_api_key = None,
       alpaca_trading_api_secret = None,
       alpaca_trading_base_url = ''https://api.alpaca.markets'',
       alpaca_trading_market_data_base_url = ''https://data.alpaca.markets'',
       otp_expire_minutes = 10,
       otp_max_attempts = 5,
       otp_expose_dev_code = False,
       environment = Development,
       log_level = INFO,
       json_logs = True,
       allowed_origins = ''http://localhost:3000'',
       ads_share = Dec 35 (- 2),
       creator_share = Dec 5 (- 1),
       platform_share = Dec 15 (- 2),
       enable_copy_trading = True,
       enable_social_trading = True,
       max_copy_allocation_percent = 100,
       afm_commission_bps = 200,
       afm_min_fee_usd = Dec 50 (- 2),
       afm_max_fee_usd = Dec 5000 (- 2),
       max_order_value_usd = Dec 10000 0,
       max_user_exposure_usd = Dec 50000 0,
       max_platform_exposure_usd = Dec 400000 0,
       fx_spread_bps = 50 \<rparr>"

definition is_production :: "settings \<Rightarrow> bool" where
  "is_production s \<longleftrightarrow> environment s = Production"

definition is_development :: "settings \<Rightarrow> bool" where
  "is_development s \<longleftrightarrow> environment s = Development"

definition is_staging :: "settings \<Rightarrow> bool" where
  "is_staging s \<longleftrightarrow> environment s = Staging"

definition get_allowed_origins :: "settings \<Rightarrow> string list" where
  "get_allowed_origins s = map py_strip (split_on (CHR '','') (allowed_origins s))"

text \<open>Truthiness of an optional setting: set and non-empty.\<close>

definition is_set :: "string option \<Rightarrow> bool" where
  "is_set v = (case v of None \<Rightarrow> False | Some x \<Rightarrow> x \<noteq> [])"

lemma is_set_simps [simp]: "\<not> is_set None" "is_set (Some x) \<longleftrightarrow> x \<noteq> []"
  by (simp_all add: is_set_def)

lemma default_settings_valid: "48 \<le> length key \<Longrightarrow> valid_settings (default_settings key)"
  by (simp add: valid_settings_def default_settings_def less_eq_decimal_def align_def p10_def starts_with_def)

lemma environment_cases:
  "is_production s \<and> \<not> is_development s \<and> \<not> is_staging s
   \<or> \<not> is_production s \<and> is_development s \<and> \<not> is_staging s
   \<or> \<not> is_production s \<and> \<not> is_development s \<and> is_staging s"
  by (cases "environment s") (simp_all add: is_production_def is_development_def is_staging_def)

end
