(* ===== verification/AFM_Telemetry.thy ===== *)
theory AFM_Telemetry
  imports AFM_Settings
begin

text \<open>
  \<^verbatim>\<open>config/telemetry.py\<close> and \<^verbatim>\<open>config/logging_config.py\<close>: the counters the other modules increase, and
  what the logging set-up asks of structlog and of Python's root logger.  The metrics library is a
  parameter: \<open>inc\<close> increases one series of its registry.  The texts of log messages are left out
  of the development.
\<close>

section \<open>Counters\<close>

text \<open>The declared counters with their label names.\<close>

definition COUNTERS :: "(string \<times> string list) list" where
  "COUNTERS =
     [(''afm_http_requests_total'', [''method'', ''endpoint'', ''status'']),
      (''afm_payments_processed_total'', [''psp'', ''status'', ''currency'']),
      (''afm_trades_executed_total'', [''market'', ''side'', ''broker'']),
      (''afm_revenue_split_total'', [''recipient_type''])]"

definition HISTOGRAMS :: "(string \<times> string list) list" where
  "HISTOGRAMS = [(''afm_http_request_duration_seconds'', [''method'', ''endpoint''])]"

type_synonym labels = "(string \<times> string) list"
type_synonym series = "string \<times> string list"
type_synonym 'm counting = "string \<Rightarrow> labels \<Rightarrow> rat \<Rightarrow> 'm \<Rightarrow> exn + 'm"

text \<open>
  What the documentation of the metrics library says of a counter with the declared label names:
  \<^verbatim>\<open>inc\<close> takes the amount for the series of the label values, and a negative amount is a
  \<^verbatim>\<open>ValueError\<close>.  A registry is observed through the amounts it has taken, in order, each with its
  series; what it makes of them (it adds doubles, with rounding) is its own.
\<close>

type_synonym history = "(series \<times> rat) list"

definition counter_laws :: "'m counting \<Rightarrow> ('m \<Rightarrow> history) \<Rightarrow> bool" where
  "counter_laws inc reading \<longleftrightarrow>
     (\<forall>name kvs a m. map_of COUNTERS name = Some (map fst kvs) \<longrightarrow>
        (if a < 0 then (\<exists>detail. inc name kvs a m = Inl (ValueError detail))
         else \<exists>m'. inc name kvs a m = Inr m'
                \<and> reading m' = reading m @ [((name, map snd kvs), a)]))"

text \<open>A registry that keeps the laws: the amounts themselves.\<close>

definition plain_count :: "history counting" where
  "plain_count name kvs a m =
     (if a < 0 then Inl (ValueError ''Counters can only be incremented by non-negative amounts.'')
      else Inr (m @ [((name, map snd kvs), a)]))"

lemma plain_count_laws: "counter_laws plain_count (\<lambda>m. m)"
  by (auto simp: counter_laws_def plain_count_def)

lemma counted:
  assumes "counter_laws inc reading" and "map_of COUNTERS name = Some (map fst kvs)" and "0 \<le> a"
  obtains m' where "inc name kvs a m = Inr m'"
    and "reading m' = reading m @ [((name, map snd kvs), a)]"
proof -
  have "\<not> a < 0" using assms(3) by simp
  with assms(1,2) that show ?thesis unfolding counter_laws_def by meson
qed

lemma not_counted:
  assumes "counter_laws inc reading" and "map_of COUNTERS name = Some (map fst kvs)" and "a < 0"
  obtains detail where "inc name kvs a m = Inl (ValueError detail)"
  using assms that unfolding counter_laws_def by meson

section \<open>Logging\<close>

datatype processor =
    Merge_contextvars | Add_log_level | Time_stamper string | Extra_adder | Dict_tracebacks
  | JSON_renderer | Console_renderer

text \<open>Python's root logger: the formats of its handlers and its level.\<close>

record root_logger =
  rl_handlers :: "string list"
  rl_level :: nat

fun level_number :: "log_level \<Rightarrow> nat" where
  "level_number DEBUG = 10"
| "level_number INFO = 20"
| "level_number WARNING = 30"
| "level_number ERROR = 40"

definition fresh_root :: root_logger where
  "fresh_root = \<lparr> rl_handlers = [], rl_level = level_number WARNING \<rparr>"

definition shared_processors :: "processor list" where
  "shared_processors = [Merge_contextvars, Add_log_level, Time_stamper ''iso'', Extra_adder]"

text \<open>
  The processors handed to structlog, and the root logger after the call.  Every module that logs
  calls it again.
\<close>

definition configure_logging :: "settings \<Rightarrow> root_logger \<Rightarrow> processor list \<times> root_logger" where
  "configure_logging st rl =
     (if json_logs st
      then (shared_processors @ [Dict_tracebacks, JSON_renderer],
            rl \<lparr> rl_handlers := [''%(timestamp)s %(level)s %(name)s %(message)s''],
                   rl_level := level_number (log_level st) \<rparr>)
      else (shared_processors @ [Console_renderer], rl))"

text \<open>The bound loggers pass their messages to loggers below the root, whose level decides.\<close>

definition emitted :: "root_logger \<Rightarrow> log_level \<Rightarrow> bool" where
  "emitted rl lvl \<longleftrightarrow> rl_level rl \<le> level_number lvl"

lemma configure_logging_again:
  "configure_logging st (snd (configure_logging st rl)) = configure_logging st rl"
  by (simp add: configure_logging_def)

lemma log_level_kept:
  assumes "json_logs st"
  shows "emitted (snd (configure_logging st rl)) lvl \<longleftrightarrow> level_number (log_level st) \<le> level_number lvl"
  using assms by (simp add: configure_logging_def emitted_def)

text \<open>Without JSON the configured level has no effect, and what a fresh process logs below a warning is lost.\<close>

lemma console_logs_lose_information:
  assumes "\<not> json_logs st"
  shows "\<not> emitted (snd (configure_logging st fresh_root)) INFO"
    and "configure_logging (st \<lparr> log_level := lvl \<rparr>) rl = configure_logging st rl"
  using assms by (simp_all add: configure_logging_def emitted_def fresh_root_def)

end
