(* ===== verification/AFM_Fees.thy ===== *)
theory AFM_Fees
  imports AFM_Telemetry
begin

text \<open>
  Money arithmetic: the FX table and the fee bounds (\<^verbatim>\<open>common/fx.py\<close>), the fee the payment
  service charges (\<^verbatim>\<open>payment_hub/payment_service.py\<close>), the fee and the revenue split of the
  revenue engine (\<^verbatim>\<open>revenue_engine/revenue_engine.py\<close>) and the conversions of the dashboard
  (\<^verbatim>\<open>easymarkets/dashboard_service.py\<close>).  Log calls are left out.
\<close>

section \<open>common/fx.py\<close>

definition FX_RATES_TO_USD :: "string \<rightharpoonup> decimal" where
  "FX_RATES_TO_USD = map_of
     [(''XOF'', Dec 165 (- 5)), (''XAF'', Dec 165 (- 5)), (''NGN'', Dec 64 (- 5)),
      (''KES'', Dec 77 (- 4)), (''GHS'', Dec 66 (- 3)), (''ZAR'', Dec 55 (- 3)),
      (''USD'', Dec 10 (- 1)), (''EUR'', Dec 108 (- 2)), (''GBP'', Dec 127 (- 2))]"

definition convert_usd_bounds :: "decimal \<Rightarrow> decimal \<Rightarrow> string \<Rightarrow> exn + decimal \<times> decimal" where
  "convert_usd_bounds min_usd max_usd currency0 =
     (let currency = py_upper currency0 in
      if currency = ''USD'' then Inr (min_usd, max_usd)
      else case FX_RATES_TO_USD currency of
        None \<Rightarrow> Inr (min_usd, max_usd)
      | Some rate \<Rightarrow>
          if coeff rate = 0 then Inr (min_usd, max_usd)
          else bindE (dec_div min_usd rate) (\<lambda>lo. bindE (quantize_up lo) (\<lambda>min_local.
               bindE (dec_div max_usd rate) (\<lambda>hi. bindE (quantize_up hi) (\<lambda>max_local.
               Inr (min_local, max_local))))))"

section \<open>The fee of the payment service\<close>

text \<open>\<^verbatim>\<open>Decimal(str(n))\<close> and \<^verbatim>\<open>Decimal(n)\<close> of an integer.\<close>

definition dec_int :: "int \<Rightarrow> decimal" where
  "dec_int n = Dec n 0"

definition convert_fee_bounds :: "settings \<Rightarrow> string \<Rightarrow> exn + decimal \<times> decimal" where
  "convert_fee_bounds st currency =
     convert_usd_bounds (afm_min_fee_usd st) (afm_max_fee_usd st) currency"

definition calculate_afm_fee ::
  "settings \<Rightarrow> decimal \<Rightarrow> string \<Rightarrow> exn + decimal \<times> decimal" where
  "calculate_afm_fee st amount currency =
     bindE (dec_div (dec_mul amount (dec_int (afm_commission_bps st))) (dec_int 10000)) (\<lambda>fee0.
     bindE (convert_fee_bounds st currency) (\<lambda>(min_fee, max_fee).
     let fee1 = py_min (py_max fee0 min_fee) max_fee in
     bindE (quantize_up fee1) (\<lambda>fee.
     Inr (fee, dec_sub amount fee))))"

section \<open>The revenue engine\<close>

record fee_breakdown =
  gross_amount :: decimal
  afm_fee :: decimal
  afm_fee_bps :: int
  fb_net_amount :: decimal
  psp_fee :: decimal
  psp_fee_bps :: int
  total_cost_to_merchant :: decimal

definition PSP_FEE_ESTIMATES :: "string \<rightharpoonup> int" where
  "PSP_FEE_ESTIMATES = map_of
     [(''kora'', 15), (''fincra'', 20), (''flutterwave'', 14), (''stripe'', 29),
      (''mtn_momo'', 10), (''orange_money'', 10)]"

definition calculate_fee ::
  "settings \<Rightarrow> decimal \<Rightarrow> string \<Rightarrow> string \<Rightarrow> exn + fee_breakdown" where
  "calculate_fee st amount currency psp =
     bindE (dec_div (dec_mul amount (dec_int (afm_commission_bps st))) (dec_int 10000)) (\<lambda>fee0.
     bindE (convert_usd_bounds (afm_min_fee_usd st) (afm_max_fee_usd st) currency)
       (\<lambda>(min_fee, max_fee).
     let fee1 = py_min (py_max fee0 min_fee) max_fee in
     bindE (quantize_up fee1) (\<lambda>fee.
     let net = dec_sub amount fee;
         bps = (case PSP_FEE_ESTIMATES (py_lower psp) of None \<Rightarrow> 20 | Some b \<Rightarrow> b) in
     bindE (dec_div (dec_mul amount (dec_int bps)) (dec_int 10000)) (\<lambda>pf0.
     bindE (quantize_even pf0) (\<lambda>pf.
     let total = dec_add fee pf in
     bindE (quantize_even amount) (\<lambda>gross.
     bindE (quantize_even net) (\<lambda>netq.
     bindE (quantize_even total) (\<lambda>totalq.
     Inr \<lparr> gross_amount = gross, afm_fee = fee, afm_fee_bps = afm_commission_bps st,
           fb_net_amount = netq, psp_fee = pf, psp_fee_bps = bps,
           total_cost_to_merchant = totalq \<rparr>))))))))"

record revenue_split =
  split_ads :: decimal
  split_creator :: decimal
  split_platform :: decimal
  split_total :: decimal

text \<open>The three shares, with the rounding difference given to the largest.\<close>

definition split_shares :: "settings \<Rightarrow> decimal \<Rightarrow> exn + decimal \<times> decimal \<times> decimal" where
  "split_shares st gross =
     bindE (quantize_up (dec_mul gross (ads_share st))) (\<lambda>ads0.
     bindE (quantize_up (dec_mul gross (creator_share st))) (\<lambda>creator0.
     bindE (quantize_up (dec_mul gross (platform_share st))) (\<lambda>platform0.
     let total_split = dec_add (dec_add ads0 creator0) platform0;
         diff = dec_sub gross total_split in
     Inr (if dec_eq total_split gross then (ads0, creator0, platform0)
          else if ads0 \<le> creator0 \<and> platform0 \<le> creator0
          then (ads0, dec_add creator0 diff, platform0)
          else if platform0 \<le> ads0 then (dec_add ads0 diff, creator0, platform0)
          else (ads0, creator0, dec_add platform0 diff)))))"

definition split_series :: "string \<Rightarrow> series" where
  "split_series recipient = (''afm_revenue_split_total'', [recipient])"

text \<open>
  \<^verbatim>\<open>float(d)\<close>: the nearest double, halves to even, as its value.  The quotient lies between two powers of
  two, the mantissa has fifty-three bits, and the exponent is bounded below; amounts of the services
  stay far below the bound above.
\<close>

function nbits :: "int \<Rightarrow> nat" where
  "nbits n = (if n < 1 then 0 else Suc (nbits (n div 2)))"
  by pat_completeness auto
termination
  by (relation "measure nat") auto

declare nbits.simps [simp del]

definition float_of :: "rat \<Rightarrow> rat" where
  "float_of x =
     (case quotient_of x of (n, d) \<Rightarrow>
        let k = int (nbits \<bar>n\<bar>) - int (nbits d);
            e = (if \<bar>n\<bar> * 2 ^ nat (- k) < d * 2 ^ nat k then k - 1 else k);
            s = max (e - 52) (- 1074)
        in of_int (round_half_even (n * 2 ^ nat (- s)) (d * 2 ^ nat s)) * 2 powi s)"

lemma float_of_nonneg:
  assumes "0 \<le> x"
  shows "0 \<le> float_of x"
proof -
  obtain n d where q: "quotient_of x = (n, d)" by fastforce
  have d: "0 < d" using q by (rule quotient_of_denom_pos)
  have "0 \<le> n" using assms d quotient_of_div [OF q] by (simp add: zero_le_divide_iff)
  then have "0 \<le> round_half_even (n * 2 ^ i) (d * 2 ^ j)" for i j
    using d by (intro half_even.rnd_ge) simp_all
  then show ?thesis by (simp add: float_of_def q Let_def)
qed

text \<open>A tenth is no double.\<close>

lemma float_of_tenth: "float_of (1 / 10) = 3602879701896397 / 36028797018963968"
  by code_simp

text \<open>Counting them, one recipient after the other: an error leaves what was counted before it.\<close>

fun count_shares :: "'m counting \<Rightarrow> (string \<times> decimal) list \<Rightarrow> 'm \<Rightarrow> (exn + unit) \<times> 'm" where
  "count_shares inc [] m = (Inr (), m)"
| "count_shares inc ((recipient, amount) # rest) m =
     (case inc ''afm_revenue_split_total'' [(''recipient_type'', recipient)] (float_of (dval amount)) m of
        Inl e \<Rightarrow> (Inl e, m)
      | Inr m' \<Rightarrow> count_shares inc rest m')"

definition calculate_split ::
  "'m counting \<Rightarrow> settings \<Rightarrow> decimal \<Rightarrow> 'm \<Rightarrow> (exn + revenue_split) \<times> 'm" where
  "calculate_split inc st gross m =
     (case split_shares st gross of
        Inl e \<Rightarrow> (Inl e, m)
      | Inr (ads, creator, platform) \<Rightarrow>
          (case count_shares inc [(''ads'', ads), (''creator'', creator), (''platform'', platform)] m of
             (Inl e, m') \<Rightarrow> (Inl e, m')
           | (Inr _, m') \<Rightarrow>
               (bindE (quantize_even ads) (\<lambda>a.
                bindE (quantize_even creator) (\<lambda>c.
                bindE (quantize_even platform) (\<lambda>p.
                Inr \<lparr> split_ads = a, split_creator = c, split_platform = p, split_total = gross \<rparr>))), m')))"

record monthly_revenue =
  monthly_transactions :: int
  avg_transaction_usd :: string
  total_volume_usd :: string
  afm_revenue_usd :: string
  effective_rate_bps :: int

text \<open>\<^verbatim>\<open>int(d)\<close> truncates towards zero.\<close>

definition dec_trunc :: "decimal \<Rightarrow> int" where
  "dec_trunc d =
     (if 0 \<le> expo d then coeff d * p10 (expo d)
      else sgn (coeff d) * (\<bar>coeff d\<bar> div p10 (- expo d)))"

definition calculate_monthly_revenue ::
  "settings \<Rightarrow> decimal \<Rightarrow> decimal \<Rightarrow> exn + monthly_revenue" where
  "calculate_monthly_revenue st volume avg =
     (let total_volume = dec_mul volume avg in
      bindE (dec_div (dec_mul total_volume (dec_int (afm_commission_bps st))) (dec_int 10000))
        (\<lambda>rev0.
      let rev1 = py_min rev0 (dec_mul volume (afm_max_fee_usd st));
          rev2 = py_max rev1 (dec_mul volume (afm_min_fee_usd st)) in
      bindE (quantize_even total_volume) (\<lambda>tv.
      bindE (quantize_even rev2) (\<lambda>rv.
      Inr \<lparr> monthly_transactions = dec_trunc volume, avg_transaction_usd = dec_str avg,
            total_volume_usd = dec_str tv, afm_revenue_usd = dec_str rv,
            effective_rate_bps = afm_commission_bps st \<rparr>))))"

section \<open>The dashboard conversions\<close>

text \<open>The dashboard keeps a table of its own; it agrees with the one of \<^verbatim>\<open>common/fx.py\<close>.\<close>

definition FX_TO_USD :: "string \<rightharpoonup> decimal" where
  "FX_TO_USD = map_of
     [(''XOF'', Dec 165 (- 5)), (''XAF'', Dec 165 (- 5)), (''NGN'', Dec 64 (- 5)),
      (''KES'', Dec 77 (- 4)), (''GHS'', Dec 66 (- 3)), (''ZAR'', Dec 55 (- 3)),
      (''USD'', Dec 10 (- 1)), (''EUR'', Dec 108 (- 2)), (''GBP'', Dec 127 (- 2))]"

definition convert_to_usd :: "decimal \<Rightarrow> string \<Rightarrow> exn + decimal" where
  "convert_to_usd amount currency0 =
     (let currency = py_upper currency0 in
      case FX_TO_USD currency of
        None \<Rightarrow> Inl (ValueError (''Currency '' @ currency @ '' not in FX mapping''))
      | Some rate \<Rightarrow> quantize_up (dec_mul amount rate))"

definition convert_from_usd :: "decimal \<Rightarrow> string \<Rightarrow> exn + decimal" where
  "convert_from_usd amount currency0 =
     (let currency = py_upper currency0 in
      case FX_TO_USD currency of
        None \<Rightarrow> Inl (ValueError (''Currency '' @ currency @ '' not in FX mapping''))
      | Some rate \<Rightarrow>
          if coeff rate = 0 then Inl (ValueError (''Invalid rate for '' @ currency))
          else bindE (dec_div amount rate) quantize_up)"

text \<open>
  \<^verbatim>\<open>get_portfolio_value\<close> walks the holdings, keyed by the currency text of each holding; a
  later holding of the same currency replaces the entry but its value still counts in the total.
\<close>

primrec portfolio_loop ::
  "(string \<times> decimal) list \<Rightarrow> decimal \<Rightarrow> (string \<times> decimal \<times> decimal) list \<Rightarrow>
   exn + decimal \<times> (string \<times> decimal \<times> decimal) list" where
  "portfolio_loop [] acc by = Inr (acc, by)"
| "portfolio_loop (h # hs) acc by =
     bindE (convert_to_usd (snd h) (fst h)) (\<lambda>usd.
     portfolio_loop hs (dec_add acc usd) (AList.update (fst h) (snd h, usd) by))"

definition get_portfolio_value ::
  "(string \<times> decimal) list \<Rightarrow> exn + decimal \<times> (string \<times> decimal \<times> decimal) list" where
  "get_portfolio_value holdings =
     bindE (portfolio_loop holdings (Dec 0 0) []) (\<lambda>(total, by).
     bindE (quantize_even total) (\<lambda>t. Inr (t, by)))"

lemma fx_tables_agree: "FX_TO_USD = FX_RATES_TO_USD"
  by (simp add: FX_TO_USD_def FX_RATES_TO_USD_def)


section \<open>Facts about the fee\<close>

lemma convert_usd_bounds_cents:
  assumes "convert_usd_bounds lo hi cur = Inr (mn, mx)" and "cents lo" and "cents hi"
  shows "cents mn" and "cents mx"
proof -
  have q: "quantize_up d = Inr x \<Longrightarrow> cents x" for d x
    by (simp add: quantize_up_def on_grid_quantized)
  show "cents mn" and "cents mx"
    using assms
    by (auto simp: convert_usd_bounds_def Let_def bindE_eq_Inr_iff intro: q
        split: if_splits option.splits)
qed

lemma calculate_afm_fee_InrE:
  assumes "calculate_afm_fee st amount cur = Inr (fee, net)"
  obtains raw mn mx where
    "convert_fee_bounds st cur = Inr (mn, mx)"
    "quantize_up (py_min (py_max raw mn) mx) = Inr fee"
    "net = dec_sub amount fee"
  using assms by (auto simp: calculate_afm_fee_def Let_def bindE_eq_Inr_iff split: prod.splits)

lemma calculate_afm_fee_expo: "calculate_afm_fee st amount cur = Inr (fee, net) \<Longrightarrow> expo fee = - 2"
  by (elim calculate_afm_fee_InrE) (rule quantize_up_expo)

lemma convert_usd_bounds_rate:
  assumes "convert_usd_bounds lo hi cur = Inr (mn, mx)" and "py_upper cur \<noteq> ''USD''"
    and "FX_RATES_TO_USD (py_upper cur) \<noteq> None"
  shows "cents mn" and "cents mx"
proof -
  have q: "quantize_up d = Inr x \<Longrightarrow> cents x" for d x
    by (simp add: quantize_up_def on_grid_quantized)
  obtain rate where r: "FX_RATES_TO_USD (py_upper cur) = Some rate" using assms(3) by blast
  then have "coeff rate \<noteq> 0" by (auto simp: FX_RATES_TO_USD_def split: if_splits)
  then show "cents mn" and "cents mx"
    using assms(1,2) r by (auto simp: convert_usd_bounds_def Let_def bindE_eq_Inr_iff intro: q)
qed


abbreviation demo_settings :: settings where
  "demo_settings \<equiv> default_settings (replicate 48 (CHR ''k''))"

lemma demo_fee:
  "calculate_afm_fee demo_settings (Dec 10000 0) ''XOF'' = Inr (Dec 30303 (- 2), Dec 969697 (- 2))"
  by code_simp

lemma demo_fee_bounds:
  "convert_fee_bounds demo_settings ''XOF'' = Inr (Dec 30303 (- 2), Dec 3030303 (- 2))"
  by code_simp


lemma dec_div_ok: "coeff b \<noteq> 0 \<Longrightarrow> is_ok (dec_div a b)"
  by (simp add: dec_div_def Let_def split: prod.split)

text \<open>A maximum that is no whole cent is exceeded: a cap of 50.005 dollars gives a fee of 50.01.\<close>

lemma fee_above_fractional_maximum:
  "calculate_afm_fee (demo_settings \<lparr> afm_max_fee_usd := Dec 50005 (- 3) \<rparr>) (Dec 10000 0) ''USD''
     = Inr (Dec 5001 (- 2), Dec 994999 (- 2))
   \<and> Dec 50005 (- 3) < Dec 5001 (- 2)"
  by code_simp

text \<open>
  Claim C9. Nothing is lost between the payer and the merchant: when the amount and the currency's
  bounds fit the \<^verbatim>\<open>Numeric(19, 8)\<close> columns, the calculation returns, with a fee in cents, and the fee
  and the net amount add up to the amount exactly.
\<close>

theorem fee_plus_net:
  assumes "convert_fee_bounds st cur = Inr (mn, mx)"
    and "numeric_19_8 amount" and "numeric_19_8 mn" and "numeric_19_8 mx"
  shows "\<exists>fee net. calculate_afm_fee st amount cur = Inr (fee, net) \<and> expo fee = - 2
    \<and> dval fee + dval net = dval amount"
proof -
  obtain raw where raw: "dec_div (dec_mul amount (dec_int (afm_commission_bps st))) (dec_int 10000) = Inr raw"
    using dec_div_ok [of "dec_int 10000"] by (auto simp: is_ok_iff dec_int_def)
  let ?v = "py_min (py_max raw mn) mx"
  define v where "v = dval ?v"
  have "- (10 ^ 11) < v" and "v < 10 ^ 11"
    using assms(3,4) by (auto simp: v_def numeric_19_8_iff abs_less_iff min_def max_def)
  then have "\<bar>v\<bar> \<le> dval (Dec (10 ^ 13) (- 2))" by (simp add: dval_Dec abs_le_iff)
  then have small: "\<bar>dval ?v\<bar> \<le> dval (Dec (10 ^ 13) (- 2))" by (simp only: v_def)
  then obtain fee where fee: "quantize_up ?v = Inr fee"
    using half_up.quantize_ok [of ?v "10 ^ 13" "- 2"] by (auto simp: quantize_up_def dval_Dec fits_iff)
  have "\<bar>dval fee\<bar> \<le> dval (Dec (10 ^ 13) (- 2))"
    using half_up.quantize_abs_le [of "- 2" ?v fee "Dec (10 ^ 13) (- 2)"] fee small by (simp add: quantize_up_def)
  then have "\<bar>dval fee\<bar> < 10 ^ 19" by (simp add: dval_Dec)
  then have "dval (dec_sub amount fee) = dval amount - dval fee"
    using assms(2) quantize_up_expo [OF fee] by (intro dec_sub_numeric) (auto simp: numeric_19_8_iff)
  moreover have "calculate_afm_fee st amount cur = Inr (fee, dec_sub amount fee)"
    by (simp add: calculate_afm_fee_def raw assms(1) Let_def fee)
  ultimately show ?thesis using quantize_up_expo [OF fee] by simp
qed

lemma fee_plus_net_witness:
  "\<exists>fee net. calculate_afm_fee demo_settings (Dec 10000 0) ''XOF'' = Inr (fee, net)
     \<and> dval fee + dval net = dval (Dec 10000 0)"
  using fee_plus_net [OF demo_fee_bounds, of "Dec 10000 0"]
  by (auto simp: numeric_19_8_def less_decimal_def align_def p10_def)

text \<open>
  Claim C10. The revenue engine and the payment service charge the same fee: whenever the engine's
  \<^verbatim>\<open>calculate_fee\<close> returns, the service's \<^verbatim>\<open>_calculate_afm_fee\<close> returns the same fee for the same
  amount and currency, whatever the provider, and their net amounts differ by at most half a cent
  (the engine rounds its net amount, the service does not).
\<close>

theorem engine_and_service_charge_the_same_fee:
  assumes "calculate_fee st amount cur psp = Inr fb"
  shows "\<exists>net. calculate_afm_fee st amount cur = Inr (afm_fee fb, net)
           \<and> \<bar>2 * (dval (fb_net_amount fb) - dval net)\<bar> \<le> 10 powi (- 2)"
  using assms
  by (auto simp: calculate_fee_def calculate_afm_fee_def convert_fee_bounds_def Let_def
      bindE_eq_Inr_iff split: prod.splits dest: quantize_even_near)

lemma demo_engine_fee:
  "calculate_fee demo_settings (Dec 10000 0) ''XOF'' ''fincra''
     = Inr \<lparr> gross_amount = Dec 1000000 (- 2), afm_fee = Dec 30303 (- 2), afm_fee_bps = 200,
             fb_net_amount = Dec 969697 (- 2), psp_fee = Dec 2000 (- 2), psp_fee_bps = 20,
             total_cost_to_merchant = Dec 32303 (- 2) \<rparr>"
  by code_simp

lemma engine_and_service_charge_the_same_fee_witness:
  "\<exists>fb net. calculate_fee demo_settings (Dec 10000 0) ''XOF'' ''fincra'' = Inr fb
     \<and> calculate_afm_fee demo_settings (Dec 10000 0) ''XOF'' = Inr (afm_fee fb, net)"
  using demo_engine_fee engine_and_service_charge_the_same_fee [OF demo_engine_fee] by blast

text \<open>
  The fee is not bounded by the amount: the minimum fee of fifty US cents applies to any
  payment, so a payment below it leaves the merchant a negative net amount (ten francs become a
  fee of 303.03 and a net of -293.03).
\<close>

lemma small_payment_negative_net:
  "calculate_afm_fee demo_settings (Dec 10 0) ''XOF'' = Inr (Dec 30303 (- 2), Dec (- 29303) (- 2))
   \<and> Dec (- 29303) (- 2) < Dec 0 0"
  by code_simp

section \<open>Facts about the revenue split\<close>

text \<open>A share between nought and one, as the settings accept it, with any number of decimals.\<close>

definition share_ok :: "decimal \<Rightarrow> bool" where
  "share_ok r \<longleftrightarrow> Dec 0 0 \<le> r \<and> r \<le> Dec 1 0"

lemma share_ok_dval: "share_ok r \<Longrightarrow> 0 \<le> dval r \<and> dval r \<le> 1"
  by (simp add: share_ok_def less_eq_decimal_dval dval_Dec)

text \<open>The product is rounded to the context's precision, which moves it by far less than a cent.\<close>

lemma dec_mul_share:
  assumes "\<bar>dval g\<bar> < 10 ^ 11" and "share_ok r"
  shows "\<bar>dval (dec_mul g r) - dval g * dval r\<bar> \<le> 1 / 10 ^ 10"
    and "0 \<le> dval g \<Longrightarrow> 0 \<le> dval (dec_mul g r)"
proof -
  let ?x = "dval g * dval r"
  note near = dec_mul_near [of g r]
  have "\<bar>?x\<bar> = \<bar>dval g\<bar> * dval r" using share_ok_dval [OF assms(2)] by (simp add: abs_mult)
  also have "\<dots> \<le> \<bar>dval g\<bar> * 1" using share_ok_dval [OF assms(2)] by (intro mult_left_mono) simp_all
  finally have "\<bar>?x\<bar> < 10 ^ 11" using assms(1) by simp
  then show "\<bar>dval (dec_mul g r) - ?x\<bar> \<le> 1 / 10 ^ 10" using near by simp
  have "1 * \<bar>dval (dec_mul g r) - ?x\<bar> \<le> 2 * 10 ^ 27 * \<bar>dval (dec_mul g r) - ?x\<bar>"
    by (intro mult_right_mono) simp_all
  then have "\<bar>dval (dec_mul g r) - ?x\<bar> \<le> \<bar>?x\<bar>" using near unfolding mult_1 by (rule order_trans)
  moreover have "0 \<le> ?x" if "0 \<le> dval g" using that share_ok_dval [OF assms(2)] by simp
  ultimately show "0 \<le> dval g \<Longrightarrow> 0 \<le> dval (dec_mul g r)" by (auto simp: abs_le_iff)
qed

text \<open>One share of the split: the rounding succeeds and stays near the gross amount.\<close>

lemma split_share:
  assumes "numeric_19_8 g" and "share_ok r"
  shows "\<exists>q. quantize_up (dec_mul g r) = Inr q \<and> expo q = - 2 \<and> \<bar>dval q\<bar> \<le> 2 * 10 ^ 11"
proof -
  have g: "\<bar>dval g\<bar> < 10 ^ 11" using assms(1) by (simp add: numeric_19_8_iff)
  have "\<bar>dval g * dval r\<bar> = \<bar>dval g\<bar> * dval r"
    using share_ok_dval [OF assms(2)] by (simp add: abs_mult)
  also have "\<dots> \<le> \<bar>dval g\<bar> * 1"
    using share_ok_dval [OF assms(2)] by (intro mult_left_mono) simp_all
  finally have x: "\<bar>dval g * dval r\<bar> \<le> 10 ^ 11" using g by simp
  have "\<bar>dval (dec_mul g r)\<bar> \<le> \<bar>dval (dec_mul g r) - dval g * dval r\<bar> + \<bar>dval g * dval r\<bar>"
    using abs_triangle_ineq [of "dval (dec_mul g r) - dval g * dval r" "dval g * dval r"] by simp
  also have "\<dots> \<le> 1 / 10 ^ 10 + 10 ^ 11" using dec_mul_share(1) [OF g assms(2)] x by (rule add_mono)
  finally have "\<bar>dval (dec_mul g r)\<bar> \<le> 2 * 10 ^ 11" by (rule order_trans) simp
  then have le: "\<bar>dval (dec_mul g r)\<bar> \<le> dval (Dec (2 * 10 ^ 13) (- 2))" by (simp add: dval_Dec)
  then obtain q where q: "quantize_up (dec_mul g r) = Inr q"
    using half_up.quantize_ok [of "dec_mul g r" "2 * 10 ^ 13" "- 2"]
    by (auto simp: quantize_up_def dval_Dec fits_iff)
  then have "\<bar>dval q\<bar> \<le> dval (Dec (2 * 10 ^ 13) (- 2))"
    using half_up.quantize_abs_le [of "- 2" "dec_mul g r" q "Dec (2 * 10 ^ 13) (- 2)"] le
    by (simp add: quantize_up_def)
  with q show ?thesis by (simp add: quantize_up_expo dval_Dec)
qed

text \<open>Adding the rounding difference to a share, and rounding it once more.\<close>

lemma quantize_even_small:
  assumes "cents d" and "\<bar>dval d\<bar> \<le> 10 ^ 13"
  shows "\<exists>q. quantize_even d = Inr q \<and> dval q = dval d"
proof -
  have "\<exists>q. quantize_even d = Inr q"
    using half_even.quantize_ok [of d "10 ^ 15" "- 2"] assms(2)
    by (simp add: quantize_even_def fits_iff)
  then show ?thesis using quantize_even_exact [OF _ assms(1)] by blast
qed


text \<open>Amounts of the split: on the cent grid and far below the context's precision.\<close>

definition split_amount :: "nat \<Rightarrow> decimal \<Rightarrow> bool" where
  "split_amount n d \<longleftrightarrow> cents d \<and> - 8 \<le> expo d \<and> \<bar>dval d\<bar> \<le> of_nat n * 10 ^ 11"

lemma split_amount_less: "split_amount n d \<Longrightarrow> n \<le> 100 \<Longrightarrow> \<bar>dval d\<bar> < 10 ^ 19 \<and> - 8 \<le> expo d"
proof -
  assume d: "split_amount n d" and n: "n \<le> 100"
  have "of_nat n * (10::rat) ^ 11 \<le> 100 * 10 ^ 11" using n by simp
  with d show ?thesis by (auto simp: split_amount_def)
qed

lemma split_amount_add:
  assumes "split_amount m a" and "split_amount n b" and "m \<le> 100" and "n \<le> 100"
  shows "split_amount (m + n) (dec_add a b)" and "dval (dec_add a b) = dval a + dval b"
proof -
  note ab = split_amount_less [OF assms(1,3)] split_amount_less [OF assms(2,4)]
  show sum: "dval (dec_add a b) = dval a + dval b" using ab by (simp add: dec_add_numeric)
  have "\<bar>dval a + dval b\<bar> \<le> of_nat m * 10 ^ 11 + of_nat n * 10 ^ 11"
    using assms(1,2) by (intro order_trans [OF abs_triangle_ineq] add_mono) (simp_all add: split_amount_def)
  moreover have "cents (dec_add a b)"
    using assms(1,2) sum by (auto simp: split_amount_def intro: on_grid_add)
  ultimately show "split_amount (m + n) (dec_add a b)"
    using ab by (simp add: split_amount_def sum dec_add_expo distrib_right)
qed

lemma split_amount_sub:
  assumes "split_amount m a" and "split_amount n b" and "m \<le> 100" and "n \<le> 100"
  shows "split_amount (m + n) (dec_sub a b)" and "dval (dec_sub a b) = dval a - dval b"
proof -
  note ab = split_amount_less [OF assms(1,3)] split_amount_less [OF assms(2,4)]
  show sum: "dval (dec_sub a b) = dval a - dval b" using ab by (simp add: dec_sub_numeric)
  have "\<bar>dval a - dval b\<bar> \<le> of_nat m * 10 ^ 11 + of_nat n * 10 ^ 11"
    using assms(1,2) by (intro order_trans [OF abs_triangle_ineq4] add_mono) (simp_all add: split_amount_def)
  moreover have "cents (dec_sub a b)"
    using assms(1,2) sum by (auto simp: split_amount_def intro: on_grid_sub)
  ultimately show "split_amount (m + n) (dec_sub a b)"
    using ab by (simp add: split_amount_def sum dec_sub_expo distrib_right)
qed

lemma split_amount_quantize:
  assumes "split_amount n d" and "n \<le> 100"
  obtains q where "quantize_even d = Inr q" and "dval q = dval d"
proof -
  have "of_nat n * (10::rat) ^ 11 \<le> 100 * 10 ^ 11" using assms(2) by simp
  then have "\<bar>dval d\<bar> \<le> 10 ^ 13" using assms(1) by (simp add: split_amount_def)
  with quantize_even_small [of d] assms(1) that show ?thesis by (auto simp: split_amount_def)
qed

lemma split_share_amount:
  assumes "numeric_19_8 g" and "share_ok r"
  obtains q where "quantize_up (dec_mul g r) = Inr q" and "split_amount 2 q"
  using split_share [OF assms] that by (auto simp: split_amount_def)

lemma dval_cents: "cents d \<Longrightarrow> \<exists>k. dval d = of_int k / 100"
  by (auto simp: on_grid_iff dval_Dec power_int_def power2_eq_square)

text \<open>A share of an amount that is not negative is not negative, and it is at most half a cent off.\<close>

lemma split_share_bounds:
  assumes g: "numeric_19_8 g" "0 \<le> dval g" and r: "share_ok r" and q: "quantize_up (dec_mul g r) = Inr q"
  shows "0 \<le> dval q" and "dval q \<le> dval g * dval r + 1 / 200 + 1 / 10 ^ 10"
proof -
  have small: "\<bar>dval g\<bar> < 10 ^ 11" using g(1) by (simp add: numeric_19_8_iff)
  note x = dec_mul_share(1) [OF small r] and pos = dec_mul_share(2) [OF small r g(2)]
  have "dval (Dec 0 0) \<le> dval (dec_mul g r)" using pos by (simp add: dval_Dec)
  from quantize_up_ge [OF q _ this] show "0 \<le> dval q" by (simp add: dval_Dec)
  have "\<bar>2 * (dval q - dval (dec_mul g r))\<bar> \<le> 1 / 100"
    using quantize_up_near [OF q] by (simp add: power_int_def power2_eq_square)
  then have "2 * (dval q - dval (dec_mul g r)) \<le> 1 / 100" by (rule order_trans [OF abs_ge_self])
  moreover have "dval (dec_mul g r) - dval g * dval r \<le> 1 / 10 ^ 10" using x by (rule order_trans [OF abs_ge_self])
  ultimately show "dval q \<le> dval g * dval r + 1 / 200 + 1 / 10 ^ 10" by (simp add: field_simps)
qed

text \<open>
  The largest share can bear the rounding difference: the three add up to one cent more than the
  gross amount at most, so the other two leave it something.
\<close>

lemma largest_share_bears:
  assumes cents: "cents g" "cents x" "cents y" "cents z"
    and nonneg: "0 \<le> dval g" "0 \<le> dval y" "0 \<le> dval z" and large: "dval y \<le> dval x" "dval z \<le> dval x"
    and sum: "dval x + dval y + dval z \<le> dval g + 3 / 200 + 3 / 10 ^ 10"
  shows "dval y + dval z \<le> dval g"
proof -
  obtain n i j k where ints: "dval g = of_int n / 100" "dval x = of_int i / 100"
      "dval y = of_int j / 100" "dval z = of_int k / 100"
    using cents [THEN dval_cents] by blast
  have "(of_int (2 * (i + j + k)) :: rat) < of_int (2 * n + 4)" using sum by (simp add: ints)
  then have "2 * (i + j + k) < 2 * n + 4" by (simp only: of_int_less_iff)
  moreover have "0 \<le> n" "0 \<le> j" "0 \<le> k" "j \<le> i" "k \<le> i" using nonneg large by (simp_all add: ints)
  ultimately have "j + k \<le> n" by arith
  then have "(of_int (j + k) :: rat) \<le> of_int n" by (simp only: of_int_le_iff)
  then show ?thesis by (simp add: ints)
qed

lemma split_shares_ok:
  assumes g: "numeric_19_8 g" "cents g" "0 \<le> dval g"
    and shares: "share_ok (ads_share st)" "share_ok (creator_share st)" "share_ok (platform_share st)"
    and sum: "dval (ads_share st) + dval (creator_share st) + dval (platform_share st) \<le> 1"
  obtains a c p where "split_shares st g = Inr (a, c, p)"
    and "split_amount 9 a" and "split_amount 9 c" and "split_amount 9 p"
    and "0 \<le> dval a" and "0 \<le> dval c" and "0 \<le> dval p" and "dval a + dval c + dval p = dval g"
proof -
  obtain a where a: "quantize_up (dec_mul g (ads_share st)) = Inr a" "split_amount 2 a"
    using g(1) shares(1) by (rule split_share_amount)
  obtain c where c: "quantize_up (dec_mul g (creator_share st)) = Inr c" "split_amount 2 c"
    using g(1) shares(2) by (rule split_share_amount)
  obtain p where p: "quantize_up (dec_mul g (platform_share st)) = Inr p" "split_amount 2 p"
    using g(1) shares(3) by (rule split_share_amount)
  note bounds = split_share_bounds [OF g(1,3) shares(1) a(1)] split_share_bounds [OF g(1,3) shares(2) c(1)]
    split_share_bounds [OF g(1,3) shares(3) p(1)]
  have "dval g * (dval (ads_share st) + dval (creator_share st) + dval (platform_share st)) \<le> dval g * 1"
    using g(3) sum by (intro mult_left_mono)
  then have near: "dval a + dval c + dval p \<le> dval g + 3 / 200 + 3 / 10 ^ 10" using bounds by (simp add: distrib_left)
  have gross: "split_amount 1 g" using g by (simp add: split_amount_def numeric_19_8_iff)
  have on: "cents a" "cents c" "cents p" using a(2) c(2) p(2) by (simp_all add: split_amount_def)
  define t where "t = dec_add (dec_add a c) p"
  note ac = split_amount_add [OF a(2) c(2)]
  have t: "split_amount 6 t" "dval t = dval a + dval c + dval p"
    using split_amount_add [OF ac(1) p(2)] ac by (simp_all add: t_def eval_nat_numeral)
  define d where "d = dec_sub g t"
  have d: "split_amount 7 d" "dval d = dval g - dval t"
    using split_amount_sub [OF gross t(1)] by (simp_all add: d_def)
  have more: "split_amount 9 (dec_add x d)" "dval (dec_add x d) = dval x + dval d"
    if "split_amount 2 x" for x using split_amount_add [OF that d(1)] by simp_all
  have keep: "split_amount 9 x" if "split_amount 2 x" for x using that by (simp add: split_amount_def)
  have dec: "split_shares st g = Inr (if dec_eq t g then (a, c, p)
      else if a \<le> c \<and> p \<le> c then (a, dec_add c d, p)
      else if p \<le> a then (dec_add a d, c, p) else (a, c, dec_add p d))"
    by (simp add: split_shares_def a(1) c(1) p(1) Let_def t_def d_def)
  consider (exact) "dec_eq t g" | (creator) "\<not> dec_eq t g" "a \<le> c \<and> p \<le> c"
    | (ads) "\<not> dec_eq t g" "\<not> (a \<le> c \<and> p \<le> c)" "p \<le> a"
    | (platform) "\<not> dec_eq t g" "\<not> (a \<le> c \<and> p \<le> c)" "\<not> p \<le> a" by blast
  then show thesis
  proof cases
    case exact
    then show thesis using that [of a c p] dec keep a(2) c(2) p(2) bounds t(2) by (simp add: dec_eq_dval)
  next
    case creator
    then have "dval a + dval p \<le> dval g"
      using largest_share_bears [OF g(2) on(2,1,3) g(3)] bounds near by (simp add: less_eq_decimal_dval)
    with creator that [of a "dec_add c d" p] dec keep more a(2) c(2) p(2) bounds t(2) d(2)
    show thesis by simp
  next
    case ads
    then have "dval c + dval p \<le> dval g"
      using largest_share_bears [OF g(2) on(1,2,3) g(3)] bounds near by (simp add: less_eq_decimal_dval)
    moreover have "split_shares st g = Inr (dec_add a d, c, p)" using dec ads by auto
    ultimately show thesis
      using that [of "dec_add a d" c p] keep more a(2) c(2) p(2) bounds t(2) d(2) by simp
  next
    case platform
    then have "dval a + dval c \<le> dval g"
      using largest_share_bears [OF g(2) on(3,1,2) g(3)] bounds near by (auto simp: less_eq_decimal_dval)
    moreover have "split_shares st g = Inr (a, c, dec_add p d)" using dec platform by auto
    ultimately show thesis
      using that [of a c "dec_add p d"] keep more a(2) c(2) p(2) bounds t(2) d(2) by simp
  qed
qed

lemma revenue_counter: "map_of COUNTERS ''afm_revenue_split_total'' = Some (map fst [(''recipient_type'', r)])"
  by (simp add: COUNTERS_def)

lemma count_shares_ok:
  assumes "counter_laws inc reading" and "list_all (\<lambda>(_, x). 0 \<le> dval x) xs"
  shows "\<exists>m'. count_shares inc xs m = (Inr (), m') \<and>
           reading m' = reading m @ map (\<lambda>(r, x). (split_series r, float_of (dval x))) xs"
  using assms(2)
proof (induction xs arbitrary: m)
  case (Cons rx xs)
  obtain r x where rx: "rx = (r, x)" by (cases rx)
  have pos: "0 \<le> float_of (dval x)" using Cons.prems by (intro float_of_nonneg) (simp add: rx)
  obtain m' where m': "inc ''afm_revenue_split_total'' [(''recipient_type'', r)] (float_of (dval x)) m = Inr m'"
    and "reading m' = reading m @ [(split_series r, float_of (dval x))]"
    using counted [OF assms(1) revenue_counter [of r] pos, of m] by (auto simp: split_series_def)
  with Cons.IH [of m'] Cons.prems show ?case by (auto simp: rx)
qed simp

text \<open>
  Claim C11. The revenue split conserves money: for a gross amount in whole cents that is not negative
  and fits its column, and three shares between nought and one that add up to at most one, the split
  returns, no recipient's amount is negative, the three add up to the gross amount exactly, and the
  counter is handed the double nearest to each amount, for its recipient, in turn.
\<close>

theorem split_conserves_gross:
  assumes inc: "counter_laws inc reading"
    and g: "numeric_19_8 g" "cents g" "0 \<le> dval g"
    and shares: "share_ok (ads_share st)" "share_ok (creator_share st)" "share_ok (platform_share st)"
      "dval (ads_share st) + dval (creator_share st) + dval (platform_share st) \<le> 1"
  shows "\<exists>s m'. calculate_split inc st g m = (Inr s, m') \<and> split_total s = g
    \<and> 0 \<le> dval (split_ads s) \<and> 0 \<le> dval (split_creator s) \<and> 0 \<le> dval (split_platform s)
    \<and> dval (split_ads s) + dval (split_creator s) + dval (split_platform s) = dval g
    \<and> reading m' = reading m @
        [(split_series ''ads'', float_of (dval (split_ads s))),
         (split_series ''creator'', float_of (dval (split_creator s))),
         (split_series ''platform'', float_of (dval (split_platform s)))]"
proof -
  obtain a c p where split: "split_shares st g = Inr (a, c, p)"
      "split_amount 9 a" "split_amount 9 c" "split_amount 9 p"
    and nonneg: "0 \<le> dval a" "0 \<le> dval c" "0 \<le> dval p" and sum: "dval a + dval c + dval p = dval g"
    using g shares by (rule split_shares_ok)
  obtain qa where qa: "quantize_even a = Inr qa" "dval qa = dval a"
    using split(2) by (rule split_amount_quantize) simp
  obtain qc where qc: "quantize_even c = Inr qc" "dval qc = dval c"
    using split(3) by (rule split_amount_quantize) simp
  obtain qp where qp: "quantize_even p = Inr qp" "dval qp = dval p"
    using split(4) by (rule split_amount_quantize) simp
  obtain m' where "count_shares inc [(''ads'', a), (''creator'', c), (''platform'', p)] m = (Inr (), m')"
    and "reading m' = reading m @ [(split_series ''ads'', float_of (dval a)),
      (split_series ''creator'', float_of (dval c)), (split_series ''platform'', float_of (dval p))]"
    using count_shares_ok [OF inc, of "[(''ads'', a), (''creator'', c), (''platform'', p)]" m] nonneg by auto
  then show ?thesis
    by (simp add: calculate_split_def split(1) qa qc qp nonneg sum)
qed

text \<open>The shares of the instance are the doubles nearest to a third, as the settings print them.\<close>

definition third :: decimal where
  "third = Dec 3333333333333333 (- 16)"

lemma split_conserves_gross_witness:
  "\<exists>s m'. calculate_split plain_count
      (demo_settings \<lparr> ads_share := third, creator_share := third, platform_share := third \<rparr>) (Dec 1001 (- 2)) []
        = (Inr s, m')
    \<and> split_total s = Dec 1001 (- 2) \<and> length m' = 3
    \<and> dval (split_ads s) + dval (split_creator s) + dval (split_platform s) = dval (Dec 1001 (- 2))"
proof -
  let ?st = "demo_settings \<lparr> ads_share := third, creator_share := third, platform_share := third \<rparr>"
  have gross: "numeric_19_8 (Dec 1001 (- 2))" "cents (Dec 1001 (- 2))" "0 \<le> dval (Dec 1001 (- 2))"
    by (simp_all add: numeric_19_8_iff dval_Dec power_int_def power2_eq_square)
  have "0 \<le> dval third" "3 * dval third \<le> 1" by (simp_all add: third_def dval_Dec power_int_def power_one_over)
  then have shares: "share_ok (ads_share ?st)" "share_ok (creator_share ?st)" "share_ok (platform_share ?st)"
    "dval (ads_share ?st) + dval (creator_share ?st) + dval (platform_share ?st) \<le> 1"
    by (simp_all add: share_ok_def less_eq_decimal_dval dval_Dec)
  from split_conserves_gross [OF plain_count_laws gross shares, of "[]"] show ?thesis
    by (elim exE conjE) (intro exI conjI, assumption+, simp_all)
qed

text \<open>
  Conservation needs whole cents: a gross amount of half a cent is split into nought,
  nought and nought, although \<^verbatim>\<open>total\<close> still reports the half cent.
\<close>

lemma split_loses_sub_cent_gross:
  assumes "counter_laws inc reading"
  shows "\<exists>s m'. calculate_split inc demo_settings (Dec 5 (- 3)) m = (Inr s, m') \<and> split_total s = Dec 5 (- 3) \<and>
     dec_add (dec_add (split_ads s) (split_creator s)) (split_platform s) < split_total s"
proof -
  have shares: "split_shares demo_settings (Dec 5 (- 3)) = Inr (Dec 0 (- 2), Dec 5 (- 3), Dec 0 (- 2))"
    by code_simp
  have cut: "quantize_even (Dec 5 (- 3)) = Inr (Dec 0 (- 2))" "quantize_even (Dec 0 (- 2)) = Inr (Dec 0 (- 2))"
    by code_simp+
  have less: "dec_add (dec_add (Dec 0 (- 2)) (Dec 0 (- 2))) (Dec 0 (- 2)) < Dec 5 (- 3)"
    by code_simp
  obtain m' where "count_shares inc [(''ads'', Dec 0 (- 2)), (''creator'', Dec 5 (- 3)), (''platform'', Dec 0 (- 2))] m
      = (Inr (), m')"
    using count_shares_ok [OF assms, of "[(''ads'', Dec 0 (- 2)), (''creator'', Dec 5 (- 3)), (''platform'', Dec 0 (- 2))]" m]
    by (auto simp: dval_Dec)
  then show ?thesis by (simp add: calculate_split_def shares cut less)
qed

text \<open>
  A split may be cut short by its own counters.  The shares are bounded one by one only: three shares
  of nine tenths are accepted, and a split of ten then fails for the amount taken from the creator,
  when the advertisers' nine have been counted.  The split of a negative amount, a reversal, always fails.
\<close>

definition oversubscribed :: settings where
  "oversubscribed = demo_settings
     \<lparr> ads_share := Dec 9 (- 1), creator_share := Dec 9 (- 1), platform_share := Dec 9 (- 1) \<rparr>"

lemma float_of_samples: "float_of 9 = 9" "float_of (- 8) = - 8" "float_of (- 7 / 2) = - 7 / 2"
  by code_simp+

lemma oversubscribed_split_fails:
  assumes "counter_laws inc reading"
  shows "\<exists>detail m'. calculate_split inc oversubscribed (Dec 10 0) m = (Inl (ValueError detail), m')
     \<and> reading m' = reading m @ [(split_series ''ads'', 9)]"
proof -
  have shares: "split_shares oversubscribed (Dec 10 0) = Inr (Dec 900 (- 2), Dec (- 800) (- 2), Dec 900 (- 2))"
  proof -
    have "quantize_up (dec_mul (Dec 10 0) (Dec 9 (- 1))) = Inr (Dec 900 (- 2))" by code_simp
    moreover have "\<not> dec_eq (dec_add (dec_add (Dec 900 (- 2)) (Dec 900 (- 2))) (Dec 900 (- 2))) (Dec 10 0)"
      by code_simp
    moreover have "dec_add (Dec 900 (- 2)) (dec_sub (Dec 10 0)
        (dec_add (dec_add (Dec 900 (- 2)) (Dec 900 (- 2))) (Dec 900 (- 2)))) = Dec (- 800) (- 2)" by code_simp
    ultimately show ?thesis by (simp add: split_shares_def oversubscribed_def less_eq_decimal_dval)
  qed
  have pos: "float_of (dval (Dec 900 (- 2))) = 9" and neg: "float_of (dval (Dec (- 800) (- 2))) = - 8"
    by (simp_all add: dval_Dec power_int_def power2_eq_square float_of_samples)
  obtain m1 where m1: "inc ''afm_revenue_split_total'' [(''recipient_type'', ''ads'')] 9 m = Inr m1"
    and reading: "reading m1 = reading m @ [((''afm_revenue_split_total'', map snd [(''recipient_type'', ''ads'')]), 9)]"
    by (rule counted [OF assms revenue_counter, of 9 "''ads''" m]) simp_all
  obtain detail where "inc ''afm_revenue_split_total'' [(''recipient_type'', ''creator'')] (- 8) m1 = Inl (ValueError detail)"
    by (rule not_counted [OF assms revenue_counter, of "- 8" "''creator''" m1]) simp_all
  with m1 reading show ?thesis
    by (simp add: calculate_split_def shares split_series_def pos neg)
qed

lemma reversal_split_fails:
  assumes "counter_laws inc reading"
  shows "\<exists>detail. calculate_split inc demo_settings (Dec (- 10) 0) m = (Inl (ValueError detail), m)"
proof -
  have shares: "split_shares demo_settings (Dec (- 10) 0) = Inr (Dec (- 350) (- 2), Dec (- 500) (- 2), Dec (- 150) (- 2))"
    by code_simp
  have neg: "float_of (dval (Dec (- 350) (- 2))) = - 7 / 2"
    by (simp add: dval_Dec power_int_def power2_eq_square float_of_samples [simplified])
  obtain detail where "inc ''afm_revenue_split_total'' [(''recipient_type'', ''ads'')] (- 7 / 2) m = Inl (ValueError detail)"
    by (rule not_counted [OF assms revenue_counter, of "- 7 / 2" "''ads''" m]) simp_all
  then show ?thesis by (simp add: calculate_split_def shares neg)
qed

end
