(* ===== verification/AFM_Models.thy ===== *)
theory AFM_Models
  imports AFM_Text
begin

text \<open>
  \<^verbatim>\<open>payment_hub/models.py\<close>: the enumerations and the database tables.  A UUID is its canonical
  text, a nullable column an option, a JSON column the items of its object.  A database is the
  record of its tables; a table is the list of its rows in insertion order, so that a query which
  is not restricted to a unique column can find several rows.  The rounding of stored amounts to
  the column's scale is left out.
\<close>

type_synonym uuid = string

section \<open>Enumerations\<close>

datatype payment_status = PENDING | PROCESSING | COMPLETED | FAILED | REFUNDED | HELD

fun status_value :: "payment_status \<Rightarrow> string" where
  "status_value PENDING = ''pending''"
| "status_value PROCESSING = ''processing''"
| "status_value COMPLETED = ''completed''"
| "status_value FAILED = ''failed''"
| "status_value REFUNDED = ''refunded''"
| "status_value HELD = ''held''"

datatype psp_type = AZA | KORA | FINCRA | FLUTTERWAVE | STRIPE | MTN_MOMO | ORANGE_MONEY

fun psp_value :: "psp_type \<Rightarrow> string" where
  "psp_value AZA = ''aza''"
| "psp_value KORA = ''kora''"
| "psp_value FINCRA = ''fincra''"
| "psp_value FLUTTERWAVE = ''flutterwave''"
| "psp_value STRIPE = ''stripe''"
| "psp_value MTN_MOMO = ''mtn_momo''"
| "psp_value ORANGE_MONEY = ''orange_money''"

text \<open>Both enumerations are finite and listed, so that statements over all members evaluate.\<close>

instantiation payment_status :: enum
begin

definition enum_payment_status :: "payment_status list" where
  "enum_payment_status = [PENDING, PROCESSING, COMPLETED, FAILED, REFUNDED, HELD]"

definition enum_all_payment_status :: "(payment_status \<Rightarrow> bool) \<Rightarrow> bool" where
  "enum_all_payment_status P = list_all P enum_class.enum"

definition enum_ex_payment_status :: "(payment_status \<Rightarrow> bool) \<Rightarrow> bool" where
  "enum_ex_payment_status P = list_ex P enum_class.enum"

lemma payment_status_UNIV: "UNIV = set (enum_class.enum :: payment_status list)"
  by (auto simp: enum_payment_status_def intro: payment_status.exhaust)

instance
proof
  show univ: "UNIV = set (enum_class.enum :: payment_status list)" by (rule payment_status_UNIV)
  show "distinct (enum_class.enum :: payment_status list)" by (simp add: enum_payment_status_def)
  fix P :: "payment_status \<Rightarrow> bool"
  show "enum_class.enum_all P \<longleftrightarrow> Ball UNIV P"
    unfolding univ by (simp add: enum_all_payment_status_def list_all_iff)
  show "enum_class.enum_ex P \<longleftrightarrow> Bex UNIV P"
    unfolding univ by (simp add: enum_ex_payment_status_def list_ex_iff)
qed

end

instantiation psp_type :: enum
begin

definition enum_psp_type :: "psp_type list" where
  "enum_psp_type = [AZA, KORA, FINCRA, FLUTTERWAVE, STRIPE, MTN_MOMO, ORANGE_MONEY]"

definition enum_all_psp_type :: "(psp_type \<Rightarrow> bool) \<Rightarrow> bool" where
  "enum_all_psp_type P = list_all P enum_class.enum"

definition enum_ex_psp_type :: "(psp_type \<Rightarrow> bool) \<Rightarrow> bool" where
  "enum_ex_psp_type P = list_ex P enum_class.enum"

lemma psp_type_UNIV: "UNIV = set (enum_class.enum :: psp_type list)"
  by (auto simp: enum_psp_type_def intro: psp_type.exhaust)

instance
proof
  show univ: "UNIV = set (enum_class.enum :: psp_type list)" by (rule psp_type_UNIV)
  show "distinct (enum_class.enum :: psp_type list)" by (simp add: enum_psp_type_def)
  fix P :: "psp_type \<Rightarrow> bool"
  show "enum_class.enum_all P \<longleftrightarrow> Ball UNIV P"
    unfolding univ by (simp add: enum_all_psp_type_def list_all_iff)
  show "enum_class.enum_ex P \<longleftrightarrow> Bex UNIV P"
    unfolding univ by (simp add: enum_ex_psp_type_def list_ex_iff)
qed

end

text \<open>\<^verbatim>\<open>PaymentStatus(text)\<close> and \<^verbatim>\<open>PSPType(text)\<close>: the member with that value, or a value error.\<close>

definition parse_status :: "string \<Rightarrow> exn + payment_status" where
  "parse_status s =
     (case List.find (\<lambda>x. status_value x = s) enum_class.enum of
        None \<Rightarrow> Inl (ValueError s) | Some x \<Rightarrow> Inr x)"

definition parse_psp :: "string \<Rightarrow> exn + psp_type" where
  "parse_psp s =
     (case List.find (\<lambda>x. psp_value x = s) enum_class.enum of
        None \<Rightarrow> Inl (ValueError s) | Some x \<Rightarrow> Inr x)"

lemma parse_status_value [simp]: "parse_status (status_value s) = Inr s"
  by (cases s) (simp_all add: parse_status_def enum_payment_status_def)

lemma parse_psp_value [simp]: "parse_psp (psp_value p) = Inr p"
  by (cases p) (simp_all add: parse_psp_def enum_psp_type_def)

section \<open>Tables\<close>

record transaction =
  tx_id :: uuid
  tx_idempotency_key :: string
  tx_user_id :: uuid
  tx_psp :: psp_type
  tx_psp_transaction_id :: "string option"
  tx_psp_payment_reference :: "string option"
  tx_psp_response :: jobj
  tx_amount :: decimal
  tx_currency :: string
  tx_fee_amount :: decimal
  tx_fee_currency :: string
  tx_net_amount :: decimal
  tx_status :: payment_status
  tx_metadata :: jobj
  tx_ledger_namespace :: string
  tx_virtual_account_id :: "uuid option"
  tx_corridor :: "string option"
  tx_beneficiary_currency :: "string option"
  tx_mobile_money_phone :: "string option"
  tx_mobile_money_provider_reference :: "string option"
  tx_mobile_money_owner_verified_at :: "time option"
  tx_total_fee_amount :: decimal
  tx_error_message :: "string option"
  tx_webhook_received_at :: "time option"
  tx_settled_at :: "time option"
  tx_created_at :: time
  tx_updated_at :: time

record user =
  us_id :: uuid
  us_email :: string
  us_oauth_subject :: "string option"
  us_hashed_password :: "string option"
  us_full_name :: "string option"
  us_phone :: "string option"
  us_whatsapp_phone :: "string option"
  us_mobile_money_phone :: "string option"
  us_country :: "string option"
  us_is_active :: string
  us_kyc_status :: string
  us_date_of_birth :: "string option"
  us_mobile_money_owner_verified_at :: "time option"
  us_email_verified_at :: "time option"
  us_phone_verified_at :: "time option"
  us_identity_consent_at :: "time option"
  us_terms_accepted_at :: "time option"
  us_terms_version :: "string option"
  us_aml_policy_version :: "string option"
  us_created_at :: time

record otp_challenge =
  ch_id :: uuid
  ch_email :: string
  ch_phone :: "string option"
  ch_purpose :: string
  ch_code_digest :: string
  ch_attempts :: int
  ch_expires_at :: time
  ch_consumed_at :: "time option"
  ch_created_at :: time

record broker_link =
  bl_user_id :: uuid
  bl_alpaca_account_id :: string
  bl_status :: string

record virtual_account =
  va_id :: uuid
  va_user_id :: uuid
  va_status :: string
  va_currency :: string
  va_created_at :: time

record virtual_position =
  vp_id :: uuid
  vp_account_id :: uuid
  vp_symbol :: string
  vp_quantity :: decimal
  vp_average_cost :: decimal
  vp_currency :: string
  vp_reconciled_at :: "time option"

record ledger_entry =
  le_id :: uuid
  le_account_id :: uuid
  le_entry_type :: string
  le_direction :: string
  le_amount :: decimal
  le_currency :: string
  le_symbol :: "string option"
  le_quantity :: "decimal option"
  le_reference_type :: "string option"
  le_reference_id :: "string option"
  le_description :: "string option"
  le_metadata :: jobj
  le_occurred_at :: time

record webhook_event =
  we_event_id :: string
  we_event_type :: string
  we_payload_hash :: string
  we_status :: string
  we_payload :: jobj
  we_received_at :: time
  we_processed_at :: "time option"
  we_error_message :: "string option"

record reconciliation =
  rc_transaction_id :: uuid
  rc_payment_reference :: string
  rc_transaction_reference :: "string option"
  rc_provider_status :: string
  rc_state :: string
  rc_attempt_count :: int
  rc_next_attempt_at :: "time option"
  rc_expires_at :: "time option"
  rc_last_checked_at :: "time option"
  rc_last_error :: "string option"
  rc_locked_at :: "time option"
  rc_locked_by :: "string option"
  rc_updated_at :: time

record refund =
  rf_transaction_id :: uuid
  rf_refund_reference :: string
  rf_idempotency_key :: string
  rf_payment_reference :: string
  rf_amount :: decimal
  rf_currency :: string
  rf_reason :: "string option"
  rf_status :: string
  rf_psp_response :: jobj
  rf_error_message :: "string option"
  rf_completed_at :: "time option"
  rf_created_at :: time

record db =
  db_transactions :: "transaction list"
  db_users :: "user list"
  db_challenges :: "otp_challenge list"
  db_links :: "broker_link list"
  db_accounts :: "virtual_account list"
  db_positions :: "virtual_position list"
  db_ledger :: "ledger_entry list"
  db_events :: "webhook_event list"
  db_reconciliations :: "reconciliation list"
  db_refunds :: "refund list"

definition empty_db :: db where
  "empty_db = \<lparr> db_transactions = [], db_users = [], db_challenges = [], db_links = [],
     db_accounts = [], db_positions = [], db_ledger = [], db_events = [],
     db_reconciliations = [], db_refunds = [] \<rparr>"

section \<open>Queries\<close>

text \<open>\<^verbatim>\<open>result.scalar_one_or_none()\<close> raises when the query found several rows.\<close>

definition scalar_one_or_none :: "'r list \<Rightarrow> exn + 'r option" where
  "scalar_one_or_none rows =
     (case rows of [] \<Rightarrow> Inr None | [r] \<Rightarrow> Inr (Some r) | _ \<Rightarrow> Inl MultipleResultsFound)"

lemma scalar_one_or_none_Some:
  "scalar_one_or_none (filter P rows) = Inr (Some r) \<Longrightarrow> r \<in> set rows \<and> P r"
  by (auto simp: scalar_one_or_none_def split: list.splits dest: filter_singleton_set)

lemma scalar_one_or_none_None:
  fixes rows :: "'r list"
  shows "scalar_one_or_none (filter P rows) = Inr None \<longleftrightarrow> (\<forall>r\<in>set rows. \<not> P r)"
proof -
  have "scalar_one_or_none xs = Inr None \<longleftrightarrow> xs = []" for xs :: "'r list"
    by (simp add: scalar_one_or_none_def split: list.split)
  then show ?thesis by (simp add: filter_empty_conv)
qed

text \<open>
  \<^verbatim>\<open>order_by(key.desc())\<close> followed by \<^verbatim>\<open>first()\<close>: a row with the greatest key, the earliest
  inserted one among equals.
\<close>

fun latest_by :: "('r \<Rightarrow> time) \<Rightarrow> 'r list \<Rightarrow> 'r option" where
  "latest_by key [] = None"
| "latest_by key (r # rows) =
     (case latest_by key rows of None \<Rightarrow> Some r
      | Some r' \<Rightarrow> if key r < key r' then Some r' else Some r)"

lemma latest_by_None_iff [simp]: "latest_by key rows = None \<longleftrightarrow> rows = []"
  by (cases rows) (auto split: option.split)

lemma latest_by_Some:
  "latest_by key rows = Some r \<Longrightarrow> r \<in> set rows \<and> (\<forall>x\<in>set rows. key x \<le> key r)"
proof (induction rows arbitrary: r)
  case (Cons x rows)
  then show ?case by (cases "latest_by key rows") (auto split: if_splits)
qed simp

text \<open>
  A payment that is added to the session and flushed: its primary key and its idempotency key are
  unique in the table.
\<close>

definition add_transaction :: "transaction \<Rightarrow> db \<Rightarrow> db option" where
  "add_transaction t d =
     (if tx_idempotency_key t \<in> tx_idempotency_key ` set (db_transactions d) then None
      else map_option (\<lambda>rows. d \<lparr> db_transactions := rows \<rparr>) (row_insert tx_id t (db_transactions d)))"

lemma add_transaction_Some_iff:
  "add_transaction t d = Some d' \<longleftrightarrow>
     d' = d \<lparr> db_transactions := db_transactions d @ [t] \<rparr>
   \<and> tx_id t \<notin> tx_id ` set (db_transactions d)
   \<and> tx_idempotency_key t \<notin> tx_idempotency_key ` set (db_transactions d)"
  by (auto simp: add_transaction_def row_insert_def)

text \<open>What identifies a payment and a refund, as against the state they are in.\<close>

definition tx_core :: "transaction \<Rightarrow> uuid \<times> string \<times> uuid \<times> psp_type \<times> decimal \<times> string \<times> string \<times> uuid option" where
  "tx_core t = (tx_id t, tx_idempotency_key t, tx_user_id t, tx_psp t, tx_amount t, tx_currency t,
     tx_ledger_namespace t, tx_virtual_account_id t)"

definition rf_core :: "refund \<Rightarrow> uuid \<times> string \<times> string \<times> string \<times> decimal \<times> string" where
  "rf_core r = (rf_transaction_id r, rf_refund_reference r, rf_idempotency_key r, rf_payment_reference r,
     rf_amount r, rf_currency r)"

lemma map_row_update:
  assumes "distinct (map key rows)" and "r \<in> set rows" and "key r' = key r" and "f r' = f r"
  shows "map f (row_update key r' rows) = map f rows"
  using assms by (auto simp: row_update_def distinct_map inj_on_def)

text \<open>
  What a commit writes: the session compares each row it has loaded with what it made of it and updates
  the columns that differ (\<open>pick\<close>), in the row as it is by then.  \<open>old\<close> are the rows as they were
  loaded, \<open>new\<close> as the session leaves them and \<open>cur\<close> the table at the commit.
\<close>

definition pick :: "'a \<Rightarrow> 'a \<Rightarrow> 'a \<Rightarrow> 'a" where
  "pick a b c = (if b = a then c else b)"

lemma pick_same [simp]: "pick a a c = c" "pick a b a = b"
  by (simp_all add: pick_def)

definition merge_rows ::
  "('r \<Rightarrow> 'k) \<Rightarrow> ('r \<Rightarrow> 'r \<Rightarrow> 'r \<Rightarrow> 'r) \<Rightarrow> 'r list \<Rightarrow> 'r list \<Rightarrow> 'r list \<Rightarrow> 'r list" where
  "merge_rows key merge old new cur =
     map (\<lambda>c. case (row_lookup key (key c) old, row_lookup key (key c) new) of
                (Some a, Some b) \<Rightarrow> merge a b c
              | _ \<Rightarrow> c) cur"

lemma map_merge_rows:
  assumes "\<And>a b c. f (merge a b c) = f c"
  shows "map f (merge_rows key merge old new cur) = map f cur"
  using assms by (simp add: merge_rows_def split: option.split)

lemma merge_rows_lookup:
  assumes "\<And>a b c. key (merge a b c) = key c"
  shows "row_lookup key k (merge_rows key merge old new cur) =
    map_option (\<lambda>c. case (row_lookup key k old, row_lookup key k new) of
        (Some a, Some b) \<Rightarrow> merge a b c | _ \<Rightarrow> c) (row_lookup key k cur)"
  using assms by (induction cur) (auto simp: merge_rows_def split: option.split)

lemma merge_rows_same:
  assumes "\<And>a c. merge a a c = c"
  shows "merge_rows key merge old old cur = cur"
  using assms by (simp add: merge_rows_def map_idI split: option.split)

text \<open>When nothing came in between, the commit writes the session's rows.\<close>

lemma merge_rows_update:
  assumes "distinct (map key old)" and "a \<in> set old" and "key b = key a"
    and "merge a b a = b" and "\<And>x. merge x x x = x"
  shows "merge_rows key merge old (row_update key b old) old = row_update key b old"
  unfolding merge_rows_def row_update_def [of key b old]
proof (intro map_cong refl)
  fix x
  assume x: "x \<in> set old"
  have "row_lookup key (key x) old = Some x" using assms(1) x by (rule row_lookup_distinct)
  moreover have "x = a" if "key x = key a"
    using row_lookup_distinct [OF assms(1,2)] row_lookup_distinct [OF assms(1) x] that by simp
  moreover have "row_lookup key (key x) (map (\<lambda>x. if key x = key b then b else x) old)
      = (if key x = key b then Some b else row_lookup key (key x) old)"
    using x row_lookup_update [of key "key x" b old] by (auto simp: row_update_def)
  ultimately show "(case (row_lookup key (key x) old, row_lookup key (key x) (map (\<lambda>x. if key x = key b then b else x) old)) of
      (Some a, Some b) \<Rightarrow> merge a b x | _ \<Rightarrow> x) = (if key x = key b then b else x)"
    using assms(3-5) by (cases "key x = key a") auto
qed

section \<open>The tables as keyed tables\<close>

text \<open>The unique columns through which the services address their rows.\<close>

interpretation txs: keyed_table tx_id "row_insert tx_id" "row_update tx_id" "row_lookup tx_id"
  by (rule row_table)

interpretation evts: keyed_table we_event_id "row_insert we_event_id" "row_update we_event_id"
    "row_lookup we_event_id"
  by (rule row_table)

interpretation recs: keyed_table rc_transaction_id "row_insert rc_transaction_id"
    "row_update rc_transaction_id" "row_lookup rc_transaction_id"
  by (rule row_table)

interpretation rfds: keyed_table rf_idempotency_key "row_insert rf_idempotency_key"
    "row_update rf_idempotency_key" "row_lookup rf_idempotency_key"
  by (rule row_table)

interpretation accts: keyed_table va_user_id "row_insert va_user_id" "row_update va_user_id"
    "row_lookup va_user_id"
  by (rule row_table)

interpretation chls: keyed_table ch_id "row_insert ch_id" "row_update ch_id" "row_lookup ch_id"
  by (rule row_table)

interpretation usrs: keyed_table us_id "row_insert us_id" "row_update us_id" "row_lookup us_id"
  by (rule row_table)

section \<open>Sample rows\<close>

text \<open>Rows for the concrete instances of the theorems.\<close>

definition sample_transaction :: "uuid \<Rightarrow> uuid \<Rightarrow> payment_status \<Rightarrow> transaction" where
  "sample_transaction i u s =
     \<lparr> tx_id = i, tx_idempotency_key = i, tx_user_id = u, tx_psp = KORA,
       tx_psp_transaction_id = Some (''PAY-'' @ i), tx_psp_payment_reference = None, tx_psp_response = [],
       tx_amount = Dec 10000 0, tx_currency = ''XAF'', tx_fee_amount = Dec 0 0, tx_fee_currency = ''USD'',
       tx_net_amount = Dec 10000 0, tx_status = s, tx_metadata = [], tx_ledger_namespace = ''afm_core'',
       tx_virtual_account_id = None, tx_corridor = None, tx_beneficiary_currency = None,
       tx_mobile_money_phone = Some ''+237 670 000 000'', tx_mobile_money_provider_reference = None,
       tx_mobile_money_owner_verified_at = None, tx_total_fee_amount = Dec 0 0, tx_error_message = None,
       tx_webhook_received_at = None, tx_settled_at = None, tx_created_at = 0, tx_updated_at = 0 \<rparr>"

definition sample_db :: "payment_status \<Rightarrow> db" where
  "sample_db s = empty_db \<lparr> db_transactions := [sample_transaction ''t1'' ''u1'' s] \<rparr>"

end
