(* ===== verification/AFM_Router.thy ===== *)
theory AFM_Router
  imports AFM_Models AFM_Settings
begin

text \<open>
  \<^verbatim>\<open>payment_hub/psp_router.py\<close>: the choice of a payment service provider by currency, method and
  region.  The class attributes are association lists in the source's order.
\<close>

definition CURRENCY_PSP_MAP :: "string \<rightharpoonup> psp_type list" where
  "CURRENCY_PSP_MAP = map_of
     [(''XOF'', [FINCRA, FLUTTERWAVE, MTN_MOMO, ORANGE_MONEY]),
      (''XAF'', [FINCRA, FLUTTERWAVE, MTN_MOMO, ORANGE_MONEY]),
      (''NGN'', [FINCRA, FLUTTERWAVE]),
      (''KES'', [MTN_MOMO, FINCRA]),
      (''GHS'', [MTN_MOMO, FINCRA, FLUTTERWAVE]),
      (''ZAR'', [FINCRA, STRIPE]),
      (''USD'', [FINCRA, STRIPE]),
      (''EUR'', [FINCRA, STRIPE]),
      (''GBP'', [FINCRA, STRIPE])]"

definition METHOD_PSP_MAP :: "string \<rightharpoonup> psp_type list" where
  "METHOD_PSP_MAP = map_of
     [(''mobile_money'', [MTN_MOMO, ORANGE_MONEY, FLUTTERWAVE]),
      (''card'', [FLUTTERWAVE, STRIPE, FINCRA]),
      (''bank_transfer'', [FINCRA, STRIPE]),
      (''ussd'', [FLUTTERWAVE])]"

definition international_priority :: "psp_type list" where
  "international_priority = [STRIPE, FINCRA]"

definition REGION_PSP_PRIORITY :: "string \<rightharpoonup> psp_type list" where
  "REGION_PSP_PRIORITY = map_of
     [(''west_africa'', [FINCRA, FLUTTERWAVE, MTN_MOMO, ORANGE_MONEY]),
      (''east_africa'', [FINCRA, MTN_MOMO]),
      (''south_africa'', [FINCRA, STRIPE]),
      (''central_africa'', [MTN_MOMO, ORANGE_MONEY]),
      (''international'', international_priority)]"

fun has_credentials :: "settings \<Rightarrow> psp_type \<Rightarrow> bool" where
  "has_credentials st KORA = False"
| "has_credentials st FINCRA = (is_set (fincra_api_key st) \<and> is_set (fincra_secret_key st))"
| "has_credentials st FLUTTERWAVE =
     (is_set (flutterwave_public_key st) \<and> is_set (flutterwave_secret_key st))"
| "has_credentials st STRIPE =
     (is_set (stripe_publishable_key st) \<and> is_set (stripe_secret_key st))"
| "has_credentials st MTN_MOMO = is_set (flutterwave_secret_key st)"
| "has_credentials st ORANGE_MONEY = is_set (flutterwave_secret_key st)"
| "has_credentials st AZA = False"

definition select_psp :: "settings \<Rightarrow> string \<Rightarrow> string \<Rightarrow> string \<Rightarrow> exn + psp_type" where
  "select_psp st currency0 method0 region =
     (let currency = py_upper currency0; meth = py_lower method0 in
      case CURRENCY_PSP_MAP currency of
        None \<Rightarrow> Inl (raise CurrencyNotSupportedError (''Currency '' @ currency @ '' not supported''))
      | Some available0 \<Rightarrow>
          let available = (case METHOD_PSP_MAP meth of
                             None \<Rightarrow> available0
                           | Some ps \<Rightarrow> filter (\<lambda>p. p \<in> set ps) available0);
              priority = (case REGION_PSP_PRIORITY region of
                            None \<Rightarrow> international_priority | Some ps \<Rightarrow> ps);
              candidates = filter (\<lambda>p. p \<in> set available) priority
          in if candidates = []
             then Inl (raise PaymentError (''No PSP available for '' @ currency @ '' in '' @ region
                        @ '' with method '' @ meth))
             else case List.find (has_credentials st) candidates of
                    Some p \<Rightarrow> Inr p
                  | None \<Rightarrow>
                      Inl (raise PaymentError (''No PSP with valid credentials for '' @ currency)))"

section \<open>What the choice promises\<close>

text \<open>
  The specification: the providers a request may be routed to, without the order of preference,
  and the order of preference of a region.
\<close>

definition psp_eligible :: "settings \<Rightarrow> string \<Rightarrow> string \<Rightarrow> psp_type \<Rightarrow> bool" where
  "psp_eligible st currency meth p \<longleftrightarrow>
     (case CURRENCY_PSP_MAP (py_upper currency) of None \<Rightarrow> False | Some ps \<Rightarrow> p \<in> set ps)
   \<and> (case METHOD_PSP_MAP (py_lower meth) of None \<Rightarrow> True | Some ps \<Rightarrow> p \<in> set ps)
   \<and> has_credentials st p"

definition region_order :: "string \<Rightarrow> psp_type list" where
  "region_order region =
     (case REGION_PSP_PRIORITY region of None \<Rightarrow> international_priority | Some ps \<Rightarrow> ps)"

lemma find_filter: "List.find P (filter Q xs) = List.find (\<lambda>x. Q x \<and> P x) xs"
  by (induction xs) auto

lemma find_Some_split:
  "List.find P xs = Some x \<longleftrightarrow> (\<exists>us vs. xs = us @ x # vs \<and> P x \<and> (\<forall>u\<in>set us. \<not> P u))"
proof (induction xs)
  case (Cons y ys)
  show ?case
  proof (cases "P y")
    case True
    then show ?thesis by (auto simp: Cons_eq_append_conv)
  next
    case False
    then have "(\<exists>us vs. y # ys = us @ x # vs \<and> P x \<and> (\<forall>u\<in>set us. \<not> P u))
        \<longleftrightarrow> (\<exists>us vs. ys = us @ x # vs \<and> P x \<and> (\<forall>u\<in>set us. \<not> P u))"
      by (auto simp: Cons_eq_append_conv) (metis set_ConsD)
    then show ?thesis using False Cons by simp
  qed
qed simp

lemma select_psp_find:
  "select_psp st currency meth region = Inr p \<longleftrightarrow>
     List.find (psp_eligible st currency meth) (region_order region) = Some p"
proof (cases "CURRENCY_PSP_MAP (py_upper currency)")
  case None
  then have "psp_eligible st currency meth = (\<lambda>_. False)"
    by (simp add: psp_eligible_def fun_eq_iff)
  moreover have "List.find (\<lambda>_. False) xs = None" for xs :: "psp_type list"
    by (induction xs) simp_all
  ultimately show ?thesis using None by (simp add: select_psp_def)
next
  case (Some ps)
  define available where "available = (case METHOD_PSP_MAP (py_lower meth) of None \<Rightarrow> ps
    | Some ms \<Rightarrow> filter (\<lambda>p. p \<in> set ms) ps)"
  define cand where "cand = filter (\<lambda>p. p \<in> set available) (region_order region)"
  have "select_psp st currency meth region = Inr p \<longleftrightarrow>
      cand \<noteq> [] \<and> List.find (has_credentials st) cand = Some p"
    by (auto simp: select_psp_def Some Let_def cand_def available_def
        simp flip: region_order_def split: option.split)
  also have "\<dots> \<longleftrightarrow> List.find (has_credentials st) cand = Some p" by auto
  also have "\<dots> \<longleftrightarrow> List.find (psp_eligible st currency meth) (region_order region) = Some p"
    unfolding cand_def find_filter psp_eligible_def [abs_def]
    by (cases "METHOD_PSP_MAP (py_lower meth)") (simp_all add: Some available_def conj_ac)
  finally show ?thesis .
qed

text \<open>
  Claim C12. The router returns the first provider, in the region's order of preference, that
  serves the currency and the method and has its credentials configured: nothing before it in
  that order was eligible.
\<close>

theorem select_psp_first_eligible:
  "select_psp st currency meth region = Inr p \<longleftrightarrow>
     (\<exists>before after. region_order region = before @ p # after
        \<and> psp_eligible st currency meth p
        \<and> filter (psp_eligible st currency meth) before = [])"
  by (simp add: select_psp_find find_Some_split filter_empty_conv)

text \<open>
  When the router raises, no provider of the region's order is eligible, and the error
  is a client error: an unsupported currency exactly when the table has no entry for it, a payment
  error otherwise.
\<close>

theorem select_psp_error:
  assumes "select_psp st currency meth region = Inl e"
  shows "filter (psp_eligible st currency meth) (region_order region) = []
       \<and> http_status e = 400
       \<and> ((\<exists>d. e = AFM CurrencyNotSupportedError d) \<longleftrightarrow> CURRENCY_PSP_MAP (py_upper currency) = None)"
proof (intro conjI)
  have no: "select_psp st currency meth region \<noteq> Inr p" for p using assms by simp
  have "List.find (psp_eligible st currency meth) (region_order region) = None"
  proof (cases "List.find (psp_eligible st currency meth) (region_order region)")
    case (Some p)
    with no [of p] show ?thesis by (simp add: select_psp_find)
  qed simp
  then show "filter (psp_eligible st currency meth) (region_order region) = []"
    by (auto simp: find_None_iff filter_empty_conv)
qed (use assms in \<open>auto simp: select_psp_def Let_def raise_def split: option.splits if_splits\<close>)

lemma select_psp_error_witness:
  "select_psp (default_settings []) ''XYZ'' ''card'' ''west_africa''
     = Inl (AFM CurrencyNotSupportedError ''Currency XYZ not supported'')
   \<and> filter (psp_eligible (default_settings []) ''XYZ'' ''card'') (region_order ''west_africa'') = []"
proof -
  have "select_psp (default_settings []) ''XYZ'' ''card'' ''west_africa''
     = Inl (AFM CurrencyNotSupportedError ''Currency XYZ not supported'')" by code_simp
  from this select_psp_error [OF this] show ?thesis by blast
qed

text \<open>
  Consequences: Kora and AZA are never selected here, and a mobile-money request never goes to
  Fincra or Stripe.
\<close>

lemma select_psp_never_kora: "select_psp st currency meth region = Inr p \<Longrightarrow> p \<noteq> KORA \<and> p \<noteq> AZA"
  by (auto simp: select_psp_find find_Some_split psp_eligible_def)

lemma select_psp_mobile_money:
  assumes "select_psp st currency ''mobile_money'' region = Inr p"
  shows "p \<in> {MTN_MOMO, ORANGE_MONEY, FLUTTERWAVE}"
proof -
  have "psp_eligible st currency ''mobile_money'' p"
    using assms by (auto simp: select_psp_find find_Some_split)
  moreover have "METHOD_PSP_MAP (py_lower ''mobile_money'') = Some [MTN_MOMO, ORANGE_MONEY, FLUTTERWAVE]"
    by code_simp
  ultimately show ?thesis by (simp add: psp_eligible_def)
qed

lemma select_psp_case_insensitive:
  "select_psp st (py_upper currency) meth region = select_psp st currency meth region"
  by (simp add: select_psp_def)

end
