(* ===== verification/AFM_Http.thy ===== *)
theory AFM_Http
  imports AFM_Settings
begin

text \<open>
  HTTP exchanges of the provider clients.  The remote service is a parameter: a function from
  the request the client builds to what \<^verbatim>\<open>httpx\<close> delivers, a response with its status, its text
  and its parsed body, or a transport error.  A result that is the same for every such function
  is one for which the service's answer is not used.
\<close>

datatype body = NoBody | JsonBody json | FormBody jobj | RawBody string

record http_request =
  rq_method :: string
  rq_url :: string
  rq_headers :: "(string \<times> string) list"
  rq_body :: body

datatype http_result =
    Response (rs_code: int) (rs_text: string) (rs_json: "json option")
  | TransportError

type_synonym http = "http_request \<Rightarrow> http_result"

text \<open>\<^verbatim>\<open>response.is_success\<close> (what \<^verbatim>\<open>raise_for_status\<close> lets through) and \<^verbatim>\<open>response.is_error\<close>.\<close>

definition is_success :: "int \<Rightarrow> bool" where
  "is_success code \<longleftrightarrow> 200 \<le> code \<and> code \<le> 299"

definition is_error :: "int \<Rightarrow> bool" where
  "is_error code \<longleftrightarrow> 400 \<le> code \<and> code \<le> 599"

definition join_url :: "string \<Rightarrow> string \<Rightarrow> string" where
  "join_url base path = rstrip_char (CHR ''/'') base @ ''/'' @ lstrip_char (CHR ''/'') path"

text \<open>The optional members of a payload: only those with a truthy value are set.\<close>

definition set_truthy :: "(string \<times> string option) list \<Rightarrow> jobj" where
  "set_truthy kvs =
     map (\<lambda>(k, v). (k, jopt v)) (filter (\<lambda>(k, v). is_set v) kvs)"

text \<open>
  \<^verbatim>\<open>json.dumps(v, ensure_ascii=False, separators=(",", ":"))\<close>.
\<close>

definition json_char :: "char \<Rightarrow> string" where
  "json_char c =
     (let n = of_char c :: int; bs = char_of (92::int) in
      if n = 34 \<or> n = 92 then [bs, c]
      else if n = 10 then [bs, CHR ''n'']
      else if n = 13 then [bs, CHR ''r'']
      else if n = 9 then [bs, CHR ''t'']
      else if n = 8 then [bs, CHR ''b'']
      else if n = 12 then [bs, CHR ''f'']
      else if n < 32 then [bs, CHR ''u'', CHR ''0'', CHR ''0'', hex_digit (n div 16), hex_digit (n mod 16)]
      else [c])"

definition json_string :: "string \<Rightarrow> string" where
  "json_string s = (let q = char_of (34::int) in q # concat (map json_char s) @ [q])"

fun json_dumps :: "json \<Rightarrow> string" where
  "json_dumps JNull = ''null''"
| "json_dumps (JBool b) = (if b then ''true'' else ''false'')"
| "json_dumps (JInt n) = int_str n"
| "json_dumps (JFloat r) = r"
| "json_dumps (JStr s) = json_string s"
| "json_dumps (JArr xs) = ''['' @ join '','' (map json_dumps xs) @ '']''"
| "json_dumps (JObj kvs) =
     ''{'' @ join '','' (map (\<lambda>(k, v). json_string k @ '':'' @ json_dumps v) kvs) @ ''}''"

text \<open>
  A call that some precondition guards: while it does not hold, the call fails with an error that
  does not depend on the service.  The clients' money-moving calls are interpretations.
\<close>

locale guarded_call =
  fixes call :: "http \<Rightarrow> exn + 'a" and guard :: bool
  assumes closed: "\<not> guard \<Longrightarrow> \<exists>e. \<forall>h. call h = Inl e"
begin

lemma silent: "\<not> guard \<Longrightarrow> call h = call h'"
  using closed by metis

lemma opened: "call h = Inr r \<Longrightarrow> guard"
  using closed by fastforce

end

end
