(* ===== verification/AFM_Kora_Client.thy ===== *)
theory AFM_Kora_Client
  imports AFM_Http
begin

text \<open>
  \<^verbatim>\<open>payment_hub/kora_client.py\<close>: the Kora client.  Each method builds one request; the checks
  that come before it fail without a request.  The client passed in and the default one differ in
  nothing the model sees.
\<close>

definition kora_configured :: "settings \<Rightarrow> bool" where
  "kora_configured st = is_set (kora_secret_key st)"

definition kora_headers :: "settings \<Rightarrow> (string \<times> string) list" where
  "kora_headers st =
     [(''Authorization'', ''Bearer '' @ the (kora_secret_key st)),
      (''Accept'', ''application/json''), (''Content-Type'', ''application/json'')]"

text \<open>
  What the body of an answer says: \<^verbatim>\<open>.get\<close> exists on objects only, so that a body of another
  kind is an attribute error, which no handler of the method catches.
\<close>

definition kora_success :: "json option \<Rightarrow> exn + jobj" where
  "kora_success parsed =
     (case parsed of
        None \<Rightarrow> Inl (KoraClientError ''Kora API response is not valid JSON'')
      | Some (JObj b) \<Rightarrow>
          (case (jget ''status'' b, jget ''data'' b) of
             (JBool True, JObj d) \<Rightarrow> Inr d
           | _ \<Rightarrow> Inl (KoraClientError (''Kora request was not successful: ''
                    @ py_str (py_or (jget ''message'' b) (JStr ''request rejected'')))))
      | Some _ \<Rightarrow> Inl (AttributeError ''get''))"

definition kora_failure :: "int \<Rightarrow> string \<Rightarrow> json option \<Rightarrow> exn" where
  "kora_failure code txt parsed =
     (let failed = (\<lambda>detail. KoraClientError
            (''Kora API request failed ('' @ int_str code @ ''): '' @ detail))
      in case parsed of
           None \<Rightarrow> failed (if take 160 txt = [] then ''http error'' else take 160 txt)
         | Some (JObj b) \<Rightarrow>
             failed (py_str (py_or (py_or (jget ''message'' b) (jget ''error'' b)) (JStr ''http error'')))
         | Some _ \<Rightarrow> AttributeError ''get'')"

definition kora_request ::
  "settings \<Rightarrow> http \<Rightarrow> string \<Rightarrow> string \<Rightarrow> json option \<Rightarrow> exn + jobj" where
  "kora_request st h meth path payload =
     (if \<not> is_set (kora_secret_key st)
      then Inl (KoraClientError ''Kora secret key is not configured'')
      else
        let url = join_url (kora_api_base_url st) path;
            rq = (if py_upper meth = ''GET''
                  then \<lparr> rq_method = ''GET'', rq_url = url, rq_headers = kora_headers st, rq_body = NoBody \<rparr>
                  else \<lparr> rq_method = ''POST'', rq_url = url, rq_headers = kora_headers st,
                         rq_body = (case payload of None \<Rightarrow> NoBody | Some j \<Rightarrow> JsonBody j) \<rparr>)
        in case h rq of
             TransportError \<Rightarrow> Inl (KoraClientError ''Kora API request failed (transport)'')
           | Response code txt parsed \<Rightarrow>
               if is_success code then kora_success parsed else Inl (kora_failure code txt parsed))"

section \<open>Quotes\<close>

record kora_quote =
  kq_from_currency :: string
  kq_to_currency :: string
  kq_from_amount :: decimal
  kq_to_amount :: decimal
  kq_rate :: decimal
  kq_reference :: string
  kq_expiry_in_seconds :: json
  kq_expiry_date :: json

text \<open>\<^verbatim>\<open>Decimal(str(data[k]))\<close>, where a missing member and a malformed number are caught.\<close>

definition quote_number :: "string \<Rightarrow> jobj \<Rightarrow> exn + decimal" where
  "quote_number k d =
     (case map_of d k of
        None \<Rightarrow> Inl (KoraClientError ''Kora exchange rate response is malformed'')
      | Some v \<Rightarrow>
          (case dec_parse (py_str v) of
             Inl _ \<Rightarrow> Inl (KoraClientError ''Kora exchange rate response is malformed'')
           | Inr x \<Rightarrow> Inr x))"

definition get_exchange_rate ::
  "settings \<Rightarrow> http \<Rightarrow> decimal \<Rightarrow> string \<Rightarrow> string \<Rightarrow> string \<Rightarrow> exn + kora_quote" where
  "get_exchange_rate st h amount from_currency to_currency reference =
     bindE (kora_request st h ''POST'' ''conversions/rates''
              (Some (JObj [(''amount'', py_float amount), (''from_currency'', JStr (py_upper from_currency)),
                           (''to_currency'', JStr (py_upper to_currency)), (''reference'', JStr reference)])))
       (\<lambda>data.
        bindE (quote_number ''rate'' data) (\<lambda>rate.
        bindE (quote_number ''to_amount'' data) (\<lambda>to_amount.
        if rate \<le> Dec 0 0 \<or> to_amount < Dec 0 0
        then Inl (KoraClientError ''Kora exchange rate response is invalid'')
        else
          bindE (case map_of data ''from_amount'' of
                   None \<Rightarrow> Inr amount | Some v \<Rightarrow> dec_parse (py_str v)) (\<lambda>from_amount.
          Inr \<lparr> kq_from_currency =
                  py_upper (py_str (jget_default (JStr from_currency) ''from_currency'' data)),
                kq_to_currency = py_upper (py_str (jget_default (JStr to_currency) ''to_currency'' data)),
                kq_from_amount = from_amount, kq_to_amount = to_amount, kq_rate = rate,
                kq_reference = py_str (jget_default (JStr reference) ''reference'' data),
                kq_expiry_in_seconds = jget ''expiry_in_seconds'' data,
                kq_expiry_date = jget ''expiry_date'' data \<rparr>))))"

section \<open>Pay-ins\<close>

text \<open>The optional arguments come from the payment's metadata and may be any JSON value.\<close>

definition initiate_mobile_money_charge ::
  "settings \<Rightarrow> http \<Rightarrow> decimal \<Rightarrow> string \<Rightarrow> string \<Rightarrow> string \<Rightarrow> json \<Rightarrow> json
   \<Rightarrow> json \<Rightarrow> json \<Rightarrow> json \<Rightarrow> bool \<Rightarrow> jobj \<Rightarrow> exn + jobj" where
  "initiate_mobile_money_charge st h amount currency reference phone_number customer_email
     customer_name notification_url redirect_url description merchant_bears_cost metadata =
     (if phone_number = [] \<or> \<not> truthy customer_email
      then Inl (KoraClientError ''Mobile Money phone number and customer email are required'')
      else
        kora_request st h ''POST'' ''charges/mobile-money''
          (Some (JObj
            ([(''amount'', py_float amount), (''currency'', JStr (py_upper currency)),
              (''reference'', JStr reference),
              (''customer'', JObj [(''email'', customer_email),
                 (''name'', py_or customer_name (JStr ''AFM customer''))]),
              (''mobile_money'', JObj [(''number'', JStr phone_number)]),
              (''merchant_bears_cost'', JBool merchant_bears_cost)]
             @ filter (\<lambda>(k, v). truthy v)
                 [(''notification_url'', notification_url), (''redirect_url'', redirect_url),
                  (''description'', description)]
             @ (if metadata = [] then [] else [(''metadata'', JObj metadata)])))))"

definition authorize_mobile_money :: "settings \<Rightarrow> http \<Rightarrow> string \<Rightarrow> string \<Rightarrow> exn + jobj" where
  "authorize_mobile_money st h reference token =
     (if token = [] then Inl (KoraClientError ''OTP token is required'')
      else kora_request st h ''POST'' ''charges/mobile-money/authorize''
             (Some (JObj [(''reference'', JStr reference), (''token'', JStr token)])))"

text \<open>The reference is formatted into the path; a missing one prints as \<^verbatim>\<open>None\<close>.\<close>

definition opt_text :: "string option \<Rightarrow> string" where
  "opt_text v = (case v of None \<Rightarrow> ''None'' | Some s \<Rightarrow> s)"

definition verify_charge :: "settings \<Rightarrow> http \<Rightarrow> string option \<Rightarrow> exn + jobj" where
  "verify_charge st h reference = kora_request st h ''GET'' (''charges/'' @ opt_text reference) None"

definition resolve_mobile_money_account ::
  "settings \<Rightarrow> http \<Rightarrow> string \<Rightarrow> string \<Rightarrow> string \<Rightarrow> exn + jobj" where
  "resolve_mobile_money_account st h operator_code phone_number currency =
     kora_request st h ''POST'' ''misc/mobile-money/resolve''
       (Some (JObj [(''mobileMoneyCode'', JStr operator_code), (''phoneNumber'', JStr phone_number),
                    (''currency'', JStr (py_upper currency))]))"

section \<open>Payouts\<close>

record payout_args =
  pa_reference :: string
  pa_amount :: decimal
  pa_currency :: string
  pa_customer_email :: string
  pa_customer_name :: "string option"
  pa_narration :: "string option"
  pa_mobile_money_operator :: "string option"
  pa_mobile_number :: "string option"
  pa_bank_country :: "string option"
  pa_bank_name :: "string option"
  pa_bank_code :: "string option"
  pa_account_number :: "string option"

definition payout_destination :: "payout_args \<Rightarrow> exn + jobj" where
  "payout_destination a =
     (if is_set (pa_mobile_money_operator a) \<or> is_set (pa_mobile_number a)
      then if is_set (pa_mobile_money_operator a) \<and> is_set (pa_mobile_number a)
        then Inr [(''type'', JStr ''mobile_money''), (''amount'', py_float (pa_amount a)),
               (''currency'', JStr (py_upper (pa_currency a))),
               (''mobile_money'', JObj [(''operator'', jopt (pa_mobile_money_operator a)),
                                        (''mobile_number'', jopt (pa_mobile_number a))])]
        else Inl (KoraClientError ''Mobile Money operator and number are both required'')
      else if is_set (pa_account_number a) \<and> (is_set (pa_bank_code a) \<or> is_set (pa_bank_name a))
        then Inr ([(''type'', JStr ''bank_account''), (''amount'', py_float (pa_amount a)),
               (''currency'', JStr (py_upper (pa_currency a))),
               (''bank_account'', JObj ((''account'', jopt (pa_account_number a))
                  # set_truthy [(''bank'', pa_bank_code a), (''bank_name'', pa_bank_name a)]))]
             @ (if is_set (pa_bank_country a)
                then [(''bank_country'', JStr (py_upper (the (pa_bank_country a))))] else []))
        else Inl (KoraClientError ''Bank code/name and account number are required''))"

definition create_payout :: "settings \<Rightarrow> http \<Rightarrow> payout_args \<Rightarrow> exn + jobj" where
  "create_payout st h a =
     (if length (pa_reference a) < 5 \<or> pa_customer_email a = []
      then Inl (KoraClientError ''Payout reference and customer email are required'')
      else
        bindE (payout_destination a) (\<lambda>destination.
        kora_request st h ''POST'' ''transactions/disburse''
          (Some (JObj [(''reference'', JStr (pa_reference a)),
             (''destination'', JObj
                (destination
                 @ [(''customer'', JObj [(''email'', JStr (pa_customer_email a)),
                      (''name'', JStr (if is_set (pa_customer_name a) then the (pa_customer_name a)
                                       else ''AFM beneficiary''))])]
                 @ set_truthy [(''narration'', pa_narration a)]))]))))"

section \<open>Refunds and balances\<close>

definition initiate_refund ::
  "settings \<Rightarrow> http \<Rightarrow> string \<Rightarrow> string \<Rightarrow> decimal option \<Rightarrow> string option \<Rightarrow> string option
   \<Rightarrow> string option \<Rightarrow> string option \<Rightarrow> exn + jobj" where
  "initiate_refund st h payment_reference refund_reference amount reason webhook_url
     completion_status status_reason =
     (if payment_reference = [] \<or> length refund_reference < 5 \<or> 50 < length refund_reference
      then Inl (KoraClientError ''Payment and refund references are required'')
      else if (case amount of None \<Rightarrow> False | Some a \<Rightarrow> a \<le> Dec 0 0)
      then Inl (KoraClientError ''Refund amount must be positive'')
      else
        kora_request st h ''POST'' ''refunds/initiate''
          (Some (JObj
            ([(''payment_reference'', JStr payment_reference), (''reference'', JStr refund_reference)]
             @ (case amount of None \<Rightarrow> [] | Some a \<Rightarrow> [(''amount'', py_float a)])
             @ set_truthy [(''reason'', reason), (''webhook_url'', webhook_url),
                           (''completion_status'', completion_status),
                           (''status_reason'', status_reason)]))))"

definition get_refund :: "settings \<Rightarrow> http \<Rightarrow> string \<Rightarrow> exn + jobj" where
  "get_refund st h refund_reference =
     (if refund_reference = [] then Inl (KoraClientError ''Refund reference is required'')
      else kora_request st h ''GET'' (''refunds/'' @ refund_reference) None)"

definition get_balance :: "settings \<Rightarrow> http \<Rightarrow> exn + jobj" where
  "get_balance st h =
     bindE (kora_request st h ''GET'' ''balances'' None) (\<lambda>data.
     Inr [(''balances'', JObj data), (''source'', JStr ''payment-operations''),
          (''read_only'', JBool True)])"

section \<open>What the client promises\<close>

lemma kora_request_unconfigured:
  "\<not> kora_configured st \<Longrightarrow>
     kora_request st h meth path payload = Inl (KoraClientError ''Kora secret key is not configured'')"
  by (simp add: kora_request_def kora_configured_def)

definition answered :: "http \<Rightarrow> bool" where
  "answered h \<longleftrightarrow> (\<exists>rq code txt b. h rq = Response code txt (Some (JObj b)) \<and> is_success code)"

lemma kora_request_answered: "kora_request st h meth path payload = Inr d \<Longrightarrow> answered h"
  unfolding answered_def kora_request_def Let_def kora_success_def
  by (auto split: if_splits http_result.splits option.splits json.splits)

definition payout_request_ok :: "payout_args \<Rightarrow> bool" where
  "payout_request_ok a \<longleftrightarrow>
     5 \<le> length (pa_reference a) \<and> pa_customer_email a \<noteq> []
   \<and> (is_set (pa_mobile_money_operator a) \<and> is_set (pa_mobile_number a)
      \<or> \<not> is_set (pa_mobile_money_operator a) \<and> \<not> is_set (pa_mobile_number a)
        \<and> is_set (pa_account_number a) \<and> (is_set (pa_bank_code a) \<or> is_set (pa_bank_name a)))"

definition refund_request_ok :: "string \<Rightarrow> string \<Rightarrow> decimal option \<Rightarrow> bool" where
  "refund_request_ok payment_reference refund_reference amount \<longleftrightarrow>
     payment_reference \<noteq> [] \<and> 5 \<le> length refund_reference \<and> length refund_reference \<le> 50
   \<and> (case amount of None \<Rightarrow> True | Some a \<Rightarrow> Dec 0 0 < a)"

lemma payout_destination_ok:
  "(\<exists>d. payout_destination a = Inr d) \<longleftrightarrow>
     (is_set (pa_mobile_money_operator a) \<and> is_set (pa_mobile_number a)
      \<or> \<not> is_set (pa_mobile_money_operator a) \<and> \<not> is_set (pa_mobile_number a)
        \<and> is_set (pa_account_number a) \<and> (is_set (pa_bank_code a) \<or> is_set (pa_bank_name a)))"
  by (auto simp: payout_destination_def)

lemma create_payout_closed:
  assumes "\<not> (kora_configured st \<and> payout_request_ok a)"
  shows "\<exists>e. \<forall>h. create_payout st h a = Inl e"
proof (cases "payout_destination a")
  case (Inl e)
  then show ?thesis by (cases "length (pa_reference a) < 5 \<or> pa_customer_email a = []")
      (auto simp: create_payout_def)
next
  case (Inr d)
  show ?thesis
  proof (cases "length (pa_reference a) < 5 \<or> pa_customer_email a = []")
    case False
    moreover have "payout_request_ok a"
      using False Inr payout_destination_ok [of a] by (auto simp: payout_request_ok_def)
    ultimately show ?thesis using assms Inr
      by (simp add: create_payout_def kora_request_unconfigured)
  qed (simp add: create_payout_def)
qed

interpretation payout_call: guarded_call "\<lambda>h. create_payout st h a"
    "kora_configured st \<and> payout_request_ok a" for st a
  by unfold_locales (rule create_payout_closed)

lemma initiate_refund_closed:
  assumes "\<not> (kora_configured st \<and> refund_request_ok pref rref amount)"
  shows "\<exists>e. \<forall>h. initiate_refund st h pref rref amount reason url cs sr = Inl e"
proof (cases "pref = [] \<or> length rref < 5 \<or> 50 < length rref")
  case True
  then show ?thesis by (auto simp: initiate_refund_def)
next
  case False
  then have refs: "pref \<noteq> []" "5 \<le> length rref" "length rref \<le> 50" by auto
  show ?thesis
  proof (cases "case amount of None \<Rightarrow> False | Some a \<Rightarrow> a \<le> Dec 0 0")
    case True
    then show ?thesis using refs by (auto simp: initiate_refund_def)
  next
    case False
    then have "\<not> kora_configured st" using assms refs
      by (auto simp: refund_request_ok_def less_decimal_dval less_eq_decimal_dval split: option.splits)
    then show ?thesis using False refs by (simp add: initiate_refund_def kora_request_unconfigured)
  qed
qed

interpretation refund_call: guarded_call "\<lambda>h. initiate_refund st h pref rref amount reason url cs sr"
    "kora_configured st \<and> refund_request_ok pref rref amount"
  for st pref rref amount reason url cs sr
  by unfold_locales (rule initiate_refund_closed)


text \<open>A deployment with a key: the services' answers to a refund and to a payout without e-mail.\<close>

definition demo_answer :: "jobj \<Rightarrow> http" where
  "demo_answer d rq = Response 200 '''' (Some (JObj [(''status'', JBool True), (''data'', JObj d)]))"

definition keyed_settings :: settings where
  "keyed_settings = (default_settings []) \<lparr> kora_secret_key := Some ''sk_test'' \<rparr>"

definition payout_without_email :: payout_args where
  "payout_without_email = \<lparr> pa_reference = ''ref-1'', pa_amount = Dec 5 0, pa_currency = ''XAF'',
      pa_customer_email = '''', pa_customer_name = None, pa_narration = None,
      pa_mobile_money_operator = None, pa_mobile_number = None, pa_bank_country = None,
      pa_bank_name = None, pa_bank_code = None, pa_account_number = None \<rparr>"


lemma quote_number_InrD: "quote_number k d = Inr x \<Longrightarrow> \<exists>v. map_of d k = Some v \<and> dec_parse (py_str v) = Inr x"
  by (auto simp: quote_number_def split: option.splits sum.splits)

lemma get_exchange_rate_positive:
  assumes "get_exchange_rate st h amount fc tc ref = Inr q"
  shows "Dec 0 0 < kq_rate q \<and> Dec 0 0 \<le> kq_to_amount q"
  using assms
  by (auto simp: get_exchange_rate_def bindE_eq_Inr_iff less_decimal_dval less_eq_decimal_dval not_le
      not_less split: if_splits)

end
