(* ===== verification/AFM_Aza_Client.thy ===== *)
theory AFM_Aza_Client
  imports AFM_Http
begin

text \<open>
  \<^verbatim>\<open>payment_hub/aza_client.py\<close>: the AZA client, which signs every request and refuses writes unless
  they are enabled.  SHA-512, HMAC-SHA-512 and the random nonce are parameters.
\<close>

record aza_corridor =
  az_source :: string
  az_destination :: string
  az_payout_type :: string
  az_source_country :: string
  az_destination_country :: string
  az_mobile_provider :: string

definition corridor_row ::
  "string \<Rightarrow> string \<Rightarrow> string \<Rightarrow> string \<Rightarrow> string \<Rightarrow> string \<Rightarrow> aza_corridor" where
  "corridor_row s d t sc dc p =
     \<lparr> az_source = s, az_destination = d, az_payout_type = t, az_source_country = sc,
       az_destination_country = dc, az_mobile_provider = p \<rparr>"

definition AZA_CORRIDOR_ITEMS :: "(string \<times> aza_corridor) list" where
  "AZA_CORRIDOR_ITEMS =
     [(''cameroon-ivory-coast'', corridor_row ''XAF'' ''XOF'' ''XOF::Mobile'' ''CM'' ''CI'' ''orange''),
      (''ivory-coast-cameroon'', corridor_row ''XOF'' ''XAF'' ''XAF::Mobile'' ''CI'' ''CM'' ''orange''),
      (''ci-ghana'', corridor_row ''XOF'' ''GHS'' ''GHS::Mobile'' ''CI'' ''GH'' ''mtn''),
      (''ci-nigeria'', corridor_row ''XOF'' ''NGN'' ''NGN::Bank'' ''CI'' ''NG'' ''''),
      (''cameroon-nigeria'', corridor_row ''XAF'' ''NGN'' ''NGN::Bank'' ''CM'' ''NG'' ''''),
      (''benin-nigeria'', corridor_row ''XOF'' ''NGN'' ''NGN::Bank'' ''BJ'' ''NG'' '''')]"

definition AZA_CORRIDORS :: "string \<rightharpoonup> aza_corridor" where
  "AZA_CORRIDORS = map_of AZA_CORRIDOR_ITEMS"

definition aza_configured :: "settings \<Rightarrow> bool" where
  "aza_configured st \<longleftrightarrow> is_set (aza_api_key st) \<and> is_set (aza_api_secret st)"

definition aza_headers ::
  "(string \<Rightarrow> string) \<Rightarrow> (string \<Rightarrow> string \<Rightarrow> string) \<Rightarrow> settings \<Rightarrow> string \<Rightarrow> string \<Rightarrow> string \<Rightarrow> string
   \<Rightarrow> (string \<times> string) list" where
  "aza_headers sha512 hmac512 st nonce meth url body =
     (let signing_string = nonce @ ''&'' @ py_upper meth @ ''&'' @ url @ ''&'' @ sha512 body
      in [(''Accept'', ''application/json''), (''Content-Type'', ''application/json''),
          (''Authorization-Key'', the (aza_api_key st)), (''Authorization-Nonce'', nonce),
          (''Authorization-Signature'', hmac512 (the (aza_api_secret st)) signing_string)])"

definition aza_request ::
  "(string \<Rightarrow> string) \<Rightarrow> (string \<Rightarrow> string \<Rightarrow> string) \<Rightarrow> settings \<Rightarrow> http \<Rightarrow> string \<Rightarrow> string \<Rightarrow> string
   \<Rightarrow> jobj \<Rightarrow> exn + jobj" where
  "aza_request sha512 hmac512 st h nonce meth path payload =
     (if \<not> aza_configured st
      then Inl (AzaClientError ''AZA sandbox credentials are not configured'')
      else
        let body = json_dumps (JObj payload);
            url = join_url (aza_api_base_url st) path;
            rq = \<lparr> rq_method = py_upper meth, rq_url = url,
                   rq_headers = aza_headers sha512 hmac512 st nonce meth url body,
                   rq_body = RawBody body \<rparr>
        in case h rq of
             TransportError \<Rightarrow> Inl (AzaClientError ''AZA request failed (transport)'')
           | Response code txt parsed \<Rightarrow>
               (case parsed of
                  None \<Rightarrow> Inl (AzaClientError ''AZA response is not valid JSON'')
                | Some data \<Rightarrow>
                    if is_error code
                    then (let detail = (case data of JObj d \<Rightarrow> jget ''message'' d
                                        | _ \<Rightarrow> JStr (take 200 txt))
                          in Inl (AzaClientError (''AZA request failed ('' @ int_str code @ ''): ''
                                @ py_str (py_or detail (JStr ''request rejected'')))))
                    else (case data of
                            JObj d \<Rightarrow> Inr d
                          | _ \<Rightarrow> Inl (AzaClientError ''AZA response is not a JSON object''))))"

definition sender_phones :: "string \<rightharpoonup> string" where
  "sender_phones = map_of
     [(''CM'', ''+237670000000''), (''CI'', ''+2250700000000''), (''BJ'', ''+229970000000'')]"

definition recipient_phones :: "string \<rightharpoonup> string" where
  "recipient_phones = map_of
     [(''CI'', ''+2250700000000''), (''CM'', ''+237670000000''), (''GH'', ''+233302123400'')]"

definition dict_at :: "(string \<rightharpoonup> string) \<Rightarrow> string \<Rightarrow> exn + string" where
  "dict_at m k = (case m k of None \<Rightarrow> Inl (KeyError k) | Some v \<Rightarrow> Inr v)"

definition aza_details :: "aza_corridor \<Rightarrow> exn + jobj" where
  "aza_details cfg =
     (let base = [(''first_name'', JStr ''AFM''), (''last_name'', JStr ''Sandbox'')] in
      if az_payout_type cfg = ''NGN::Bank''
      then Inr (base @ [(''bank_code'', JStr ''058''), (''bank_account'', JStr ''12345678900''),
                        (''street'', JStr ''1 Sandbox Street'')])
      else bindE (dict_at recipient_phones (az_destination_country cfg)) (\<lambda>phone.
           Inr (base @ [(''mobile_provider'', JStr (az_mobile_provider cfg)), (''phone_number'', JStr phone),
                        (''country'', JStr (az_destination_country cfg))])))"

definition build_sandbox_transaction :: "string \<Rightarrow> decimal \<Rightarrow> string \<Rightarrow> exn + jobj" where
  "build_sandbox_transaction corridor amount reference =
     (case AZA_CORRIDORS corridor of
        None \<Rightarrow> Inl (AzaClientError (''AZA corridor is not configured: '' @ corridor))
      | Some cfg \<Rightarrow>
          bindE (dict_at sender_phones (az_source_country cfg)) (\<lambda>sender_phone.
          bindE (aza_details cfg) (\<lambda>details.
          Inr [(''transaction'', JObj
            [(''input_currency'', JStr (az_source cfg)),
             (''sender'', JObj
               [(''type'', JStr ''person''), (''country'', JStr (az_source_country cfg)),
                (''phone_country'', JStr (az_source_country cfg)),
                (''phone_number'', JStr (drop 4 sender_phone)),
                (''email'', JStr ''sandbox@africafrontiermarkets.com''),
                (''first_name'', JStr ''AFM''), (''last_name'', JStr ''Sandbox''),
                (''city'', JStr ''Test City''), (''street'', JStr ''1 Sandbox Street''),
                (''postal_code'', JStr ''00000''), (''birth_date'', JStr ''1980-01-01''),
                (''ip'', JStr ''127.0.0.1''), (''documents'', JArr []),
                (''external_id'', JStr (''afm-sandbox-sender-'' @ py_lower (az_source_country cfg)))]),
             (''recipients'', JArr [JObj
               [(''requested_amount'', py_float amount),
                (''requested_currency'', JStr (az_destination cfg)), (''type'', JStr ''person''),
                (''payout_method'', JObj [(''type'', JStr (az_payout_type cfg)),
                                          (''details'', JObj details)])]]),
             (''external_id'', JStr reference),
             (''metadata'', JObj [(''afm_corridor'', JStr corridor), (''simulation_only'', JBool True)])])])))"

definition calculate_corridor ::
  "(string \<Rightarrow> string) \<Rightarrow> (string \<Rightarrow> string \<Rightarrow> string) \<Rightarrow> settings \<Rightarrow> http \<Rightarrow> string \<Rightarrow> string \<Rightarrow> decimal
   \<Rightarrow> string \<Rightarrow> exn + jobj" where
  "calculate_corridor sha512 hmac512 st h nonce corridor amount reference =
     bindE (build_sandbox_transaction corridor amount reference) (\<lambda>payload.
     aza_request sha512 hmac512 st h nonce ''POST'' ''/transactions/calculate'' payload)"

definition aza_create_transaction ::
  "(string \<Rightarrow> string) \<Rightarrow> (string \<Rightarrow> string \<Rightarrow> string) \<Rightarrow> settings \<Rightarrow> http \<Rightarrow> string \<Rightarrow> jobj \<Rightarrow> exn + jobj" where
  "aza_create_transaction sha512 hmac512 st h nonce payload =
     (if \<not> aza_allow_transaction_writes st
      then Inl (AzaClientError ''AZA transaction writes are disabled'')
      else aza_request sha512 hmac512 st h nonce ''POST'' ''/transactions'' payload)"

definition aza_payout_transaction ::
  "(string \<Rightarrow> string) \<Rightarrow> (string \<Rightarrow> string \<Rightarrow> string) \<Rightarrow> settings \<Rightarrow> http \<Rightarrow> string \<Rightarrow> string \<Rightarrow> exn + jobj" where
  "aza_payout_transaction sha512 hmac512 st h nonce transaction_id =
     (if \<not> aza_allow_transaction_writes st
      then Inl (AzaClientError ''AZA transaction writes are disabled'')
      else aza_request sha512 hmac512 st h nonce ''POST''
             (''/transactions/'' @ transaction_id @ ''/payout'') [])"

section \<open>What the client promises\<close>

lemma aza_request_unconfigured:
  "\<not> aza_configured st \<Longrightarrow> aza_request sha512 hmac512 st h nonce meth path payload
     = Inl (AzaClientError ''AZA sandbox credentials are not configured'')"
  unfolding aza_request_def by (rule if_P)

lemma aza_create_closed:
  "\<not> (aza_allow_transaction_writes st \<and> aza_configured st) \<Longrightarrow>
     \<exists>e. \<forall>h. aza_create_transaction sha512 hmac512 st h nonce payload = Inl e"
  by (cases "aza_allow_transaction_writes st")
    (simp_all add: aza_create_transaction_def aza_request_unconfigured)

interpretation aza_create: guarded_call "\<lambda>h. aza_create_transaction sha512 hmac512 st h nonce payload"
    "aza_allow_transaction_writes st \<and> aza_configured st" for sha512 hmac512 st nonce payload
  by unfold_locales (rule aza_create_closed)

lemma aza_payout_closed:
  "\<not> (aza_allow_transaction_writes st \<and> aza_configured st) \<Longrightarrow>
     \<exists>e. \<forall>h. aza_payout_transaction sha512 hmac512 st h nonce tid = Inl e"
  by (cases "aza_allow_transaction_writes st")
    (simp_all add: aza_payout_transaction_def aza_request_unconfigured)

interpretation aza_payout: guarded_call "\<lambda>h. aza_payout_transaction sha512 hmac512 st h nonce tid"
    "aza_allow_transaction_writes st \<and> aza_configured st" for sha512 hmac512 st nonce tid
  by unfold_locales (rule aza_payout_closed)

text \<open>
  The two phone tables cover the corridor table: a transaction of a configured corridor is always
  built, in the corridor's own currencies, and marked as a simulation.
\<close>

lemma corridor_cases:
  assumes "AZA_CORRIDORS c = Some cfg"
  shows "(c, cfg) \<in> set AZA_CORRIDOR_ITEMS"
  using assms by (simp add: AZA_CORRIDORS_def map_of_SomeD)

lemma aza_tables_cover:
  "list_all (\<lambda>(c, cfg). is_ok (dict_at sender_phones (az_source_country cfg)) \<and> is_ok (aza_details cfg))
     AZA_CORRIDOR_ITEMS"
  by (simp add: AZA_CORRIDOR_ITEMS_def corridor_row_def dict_at_def sender_phones_def
      recipient_phones_def aza_details_def)

lemma build_sandbox_transaction_configured:
  assumes "AZA_CORRIDORS corridor = Some cfg"
  shows "\<exists>tx. build_sandbox_transaction corridor amount reference = Inr [(''transaction'', JObj tx)]
           \<and> jget ''input_currency'' tx = JStr (az_source cfg)
           \<and> jget ''metadata'' tx = JObj [(''afm_corridor'', JStr corridor), (''simulation_only'', JBool True)]"
proof -
  have "is_ok (dict_at sender_phones (az_source_country cfg)) \<and> is_ok (aza_details cfg)"
    using aza_tables_cover corridor_cases [OF assms] by (auto simp: list_all_iff)
  then obtain phone details where p: "dict_at sender_phones (az_source_country cfg) = Inr phone"
    and d: "aza_details cfg = Inr details" by (auto simp: is_ok_iff)
  show ?thesis
    unfolding build_sandbox_transaction_def assms option.case p d bindE_simps jget_def jget_default_def
    by simp
qed

lemma build_sandbox_transaction_unknown:
  "AZA_CORRIDORS corridor = None \<Longrightarrow>
     build_sandbox_transaction corridor amount reference
       = Inl (AzaClientError (''AZA corridor is not configured: '' @ corridor))"
  by (simp add: build_sandbox_transaction_def)

end
