(* ===== verification/AFM_Nexus_Client.thy ===== *)
theory AFM_Nexus_Client
  imports AFM_Http
begin

text \<open>
  \<^verbatim>\<open>payment_hub/nexus_client.py\<close>: the Nexus client.  The HTTP basic credentials are kept as a header
  pair; HMAC-SHA-512 is a parameter.
\<close>

definition nexus_configured :: "settings \<Rightarrow> bool" where
  "nexus_configured st = is_set (nexus_secret_key st)"

definition nexus_writes_enabled :: "settings \<Rightarrow> bool" where
  "nexus_writes_enabled st = nexus_allow_transaction_writes st"

definition nexus_request ::
  "settings \<Rightarrow> http \<Rightarrow> string \<Rightarrow> string \<Rightarrow> json option \<Rightarrow> string option \<Rightarrow> exn + json" where
  "nexus_request st h meth path payload idempotency_key =
     (if \<not> nexus_configured st
      then Inl (NexusClientError ''Nexus sandbox secret is not configured'')
      else
        let headers = [(''Accept'', ''application/json''), (''Content-Type'', ''application/json'')]
              @ (if is_set idempotency_key then [(''X-IDEMPOTENCY-KEY'', the idempotency_key)] else []);
            rq = \<lparr> rq_method = py_upper meth, rq_url = join_url (nexus_api_base_url st) path,
                   rq_headers = (''auth'', the (nexus_secret_key st)) # headers,
                   rq_body = (case payload of None \<Rightarrow> NoBody | Some j \<Rightarrow> RawBody (json_dumps j)) \<rparr>
        in case h rq of
             TransportError \<Rightarrow> Inl (NexusClientError ''Nexus request failed (transport)'')
           | Response code txt parsed \<Rightarrow>
               (let data = (case parsed of None \<Rightarrow> JObj [(''message'', JStr (take 300 txt))]
                            | Some j \<Rightarrow> j)
                in if is_error code
                   then (let errcode = (case data of JObj d \<Rightarrow> jget ''code'' d | _ \<Rightarrow> JNull);
                             message = (case data of JObj d \<Rightarrow> jget ''message'' d
                                        | _ \<Rightarrow> JStr (take 200 txt))
                         in Inl (NexusClientError (''Nexus request failed ('' @ int_str code @ '') [''
                              @ py_str (py_or errcode (JStr ''unknown'')) @ '']: ''
                              @ py_str (py_or message (JStr ''request rejected'')))))
                   else Inr data))"

definition list_payment_methods :: "settings \<Rightarrow> http \<Rightarrow> exn + json" where
  "list_payment_methods st h = nexus_request st h ''GET'' ''/payment-methods'' None None"

definition get_payment_method :: "settings \<Rightarrow> http \<Rightarrow> string \<Rightarrow> exn + json" where
  "get_payment_method st h payment_method_id =
     nexus_request st h ''GET'' (''/payment-methods/'' @ payment_method_id) None None"

definition create_mobile_money_payment_method ::
  "settings \<Rightarrow> http \<Rightarrow> string \<Rightarrow> string \<Rightarrow> string \<Rightarrow> exn + json" where
  "create_mobile_money_payment_method st h phone_number country_iso provider =
     nexus_request st h ''POST'' ''/payment-methods''
       (Some (JObj [(''type'', JStr ''MOBILE_MONEY''),
          (''mobileMoneyDetails'', JObj [(''phoneNumber'', JStr phone_number),
             (''countryIso'', JStr country_iso), (''mobileMoneyProvider'', JStr provider)])])) None"

definition create_cash_out ::
  "settings \<Rightarrow> http \<Rightarrow> int \<Rightarrow> string \<Rightarrow> string \<Rightarrow> string \<Rightarrow> string \<Rightarrow> string \<Rightarrow> string \<Rightarrow> string option
   \<Rightarrow> bool \<Rightarrow> exn + json" where
  "create_cash_out st h amount currency_code platform_code external_transaction_id payment_type
     source_id destination_id idempotency_key confirm =
     (if \<not> nexus_writes_enabled st
      then Inl (NexusClientError ''Nexus transaction writes are disabled'')
      else if \<not> is_set idempotency_key
      then Inl (NexusClientError ''Nexus cash-out requires an idempotency key'')
      else nexus_request st h ''POST'' ''/transaction-intents/cash-out''
        (Some (JObj [(''amount'', JInt amount), (''currencyCode'', JStr currency_code),
           (''platformCode'', JStr platform_code),
           (''externalTransactionId'', JStr external_transaction_id),
           (''paymentType'', JStr payment_type), (''sourcePaymentMethodId'', JStr source_id),
           (''destinationPaymentMethodId'', JStr destination_id), (''confirm'', JBool confirm)]))
        idempotency_key)"

definition get_transaction_intent :: "settings \<Rightarrow> http \<Rightarrow> string \<Rightarrow> exn + json" where
  "get_transaction_intent st h transaction_id =
     nexus_request st h ''GET'' (''/transaction-intents/'' @ transaction_id) None None"

text \<open>\<^verbatim>\<open>supplied.split("=", 1)[1]\<close>: what follows the first equals sign.\<close>

definition after_equals :: "string \<Rightarrow> string" where
  "after_equals s = tl (dropWhile (\<lambda>c. c \<noteq> CHR ''='') s)"

definition nexus_verify_webhook_signature ::
  "(string \<Rightarrow> string \<Rightarrow> string) \<Rightarrow> string \<Rightarrow> string \<Rightarrow> string \<Rightarrow> bool" where
  "nexus_verify_webhook_signature hmac512 payload signature secret =
     (let supplied0 = py_strip signature;
          supplied = (if starts_with ''sha512='' (py_lower supplied0) then after_equals supplied0
                      else supplied0)
      in hmac512 secret payload = supplied)"

section \<open>What the client promises\<close>

lemma nexus_request_unconfigured:
  "\<not> nexus_configured st \<Longrightarrow> nexus_request st h meth path payload key
     = Inl (NexusClientError ''Nexus sandbox secret is not configured'')"
  unfolding nexus_request_def by (rule if_P)

lemma create_cash_out_closed:
  "\<not> (nexus_allow_transaction_writes st \<and> is_set key \<and> nexus_configured st) \<Longrightarrow>
     \<exists>e. \<forall>h. create_cash_out st h amount cur plat ext kind src dst key conf = Inl e"
  by (cases "nexus_allow_transaction_writes st"; cases "is_set key")
    (simp_all add: create_cash_out_def nexus_request_unconfigured nexus_writes_enabled_def)

interpretation cash_out: guarded_call "\<lambda>h. create_cash_out st h amount cur plat ext kind src dst key conf"
    "nexus_allow_transaction_writes st \<and> is_set key \<and> nexus_configured st"
  for st amount cur plat ext kind src dst key conf
  by unfold_locales (rule create_cash_out_closed)

text \<open>Every cash-out that leaves the process carries the caller's idempotency key.\<close>

lemma create_cash_out_sends_key:
  assumes "\<And>rq. map_of (rq_headers rq) ''X-IDEMPOTENCY-KEY'' = key \<Longrightarrow> h rq = h' rq"
  shows "create_cash_out st h amount cur plat ext kind src dst key conf
       = create_cash_out st h' amount cur plat ext kind src dst key conf"
proof (cases "is_set key")
  case True
  then have "\<exists>k. key = Some k" by (cases key) auto
  then show ?thesis using True
    by (auto simp: create_cash_out_def nexus_request_def Let_def
        intro!: arg_cong [where f = "case_http_result _ _"] assms)
qed (simp add: create_cash_out_def)

lemma signature_accepts_own_mac:
  assumes "\<And>c. c \<in> set (hmac512 secret payload) \<Longrightarrow> \<not> is_space c"
    and "\<not> starts_with ''sha512='' (py_lower (hmac512 secret payload))"
  shows "nexus_verify_webhook_signature hmac512 payload (hmac512 secret payload) secret"
proof -
  have "dropWhile is_space xs = xs" if "\<forall>c\<in>set xs. \<not> is_space c" for xs
    using that by (cases xs) auto
  from this [of "hmac512 secret payload"] this [of "rev (hmac512 secret payload)"]
  have "py_strip (hmac512 secret payload) = hmac512 secret payload"
    using assms(1) by (simp add: py_strip_def)
  with assms(2) show ?thesis by (simp add: nexus_verify_webhook_signature_def Let_def)
qed

end
