(* ===== verification/AFM_Reconciliation.thy ===== *)
theory AFM_Reconciliation
  imports AFM_Models AFM_Kora_Client
begin

text \<open>
  \<^verbatim>\<open>payment_hub/reconciliation.py\<close>: the durable worker that polls Kora for pay-ins that remain in
  processing.  A poll is two database transactions with the provider call in between, so the
  model has them as two steps, \<open>claim_due\<close> and \<open>apply_poll\<close>, which other workers' steps may
  separate; \<open>reconcile_due_once\<close> composes them.  A task is addressed by its unique transaction.
\<close>

section \<open>Status words\<close>

definition SUCCESS_STATUSES :: "string list" where
  "SUCCESS_STATUSES = [''success'', ''successful'', ''completed'', ''settled'']"

definition FAILURE_STATUSES :: "string list" where
  "FAILURE_STATUSES = [''failed'', ''cancelled'', ''canceled'', ''reversed'']"

definition normalized_phone :: "json \<Rightarrow> string" where
  "normalized_phone v = filter is_digit (py_str (py_or v (JStr '''')))"

definition phone_candidates :: "jobj \<Rightarrow> json list" where
  "phone_candidates response =
     map (\<lambda>k. jget k response)
       (filter (\<lambda>k. map_of response k \<noteq> None) [''phone_number'', ''mobile_number'', ''phone'', ''number''])
     @ (case jget ''mobile_money'' response of
          JObj m \<Rightarrow> map (\<lambda>k. jget k m) [''number'', ''mobile_number'', ''phone_number'']
        | _ \<Rightarrow> [])"

definition provider_phone_matches :: "transaction \<Rightarrow> json \<Rightarrow> bool" where
  "provider_phone_matches tx response =
     (let expected = normalized_phone (jopt (tx_mobile_money_phone tx)) in
      case response of
        JObj r \<Rightarrow> expected \<noteq> []
          \<and> list_ex (\<lambda>c. truthy c \<and> normalized_phone c = expected) (phone_candidates r)
      | _ \<Rightarrow> False)"

definition normalize_kora_status :: "json \<Rightarrow> string" where
  "normalize_kora_status raw =
     (let v = py_lower (py_strip (py_str (py_or raw (JStr '''')))) in
      if v \<in> set SUCCESS_STATUSES then ''completed''
      else if v \<in> set FAILURE_STATUSES then ''failed''
      else ''processing'')"

definition status_of :: "jobj \<Rightarrow> string" where
  "status_of data =
     py_lower (py_strip (py_str
       (py_or (py_or (jget ''status'' data) (jget ''payment_status'' data)) (JStr ''''))))"

text \<open>\<^verbatim>\<open>2 ** min(max(attempt - 1, 0), 4)\<close>: the exponent is at least zero.\<close>

definition next_backoff :: "int \<Rightarrow> int" where
  "next_backoff attempt =
     (if 6 \<le> attempt then 300 else min 300 (15 * 2 ^ nat (min (max (attempt - 1) 0) 4)))"

section \<open>Scheduling a task\<close>

definition str_or :: "string \<Rightarrow> string option \<Rightarrow> string option" where
  "str_or s v = (if s \<noteq> [] then Some s else v)"

text \<open>\<^verbatim>\<open>enqueue_reconciliation\<close>; the caller commits.\<close>

definition scheduled_task :: "time \<Rightarrow> string \<Rightarrow> string \<Rightarrow> jobj \<Rightarrow> uuid \<Rightarrow> reconciliation" where
  "scheduled_task now payment_reference transaction_reference data tid =
     \<lparr> rc_transaction_id = tid, rc_payment_reference = payment_reference,
       rc_transaction_reference = str_or transaction_reference None,
       rc_provider_status = status_of data, rc_state = ''scheduled'', rc_attempt_count = 0,
       rc_next_attempt_at = Some (now + seconds 15), rc_expires_at = Some (now + hours 24),
       rc_last_checked_at = None, rc_last_error = None, rc_locked_at = None, rc_locked_by = None,
       rc_updated_at = now \<rparr>"

definition refreshed_task :: "time \<Rightarrow> string \<Rightarrow> string \<Rightarrow> jobj \<Rightarrow> reconciliation \<Rightarrow> reconciliation" where
  "refreshed_task now payment_reference transaction_reference data task0 =
     (let task = task0 \<lparr> rc_payment_reference :=
                           (if payment_reference \<noteq> [] then payment_reference else rc_payment_reference task0),
                         rc_transaction_reference := str_or transaction_reference (rc_transaction_reference task0),
                         rc_provider_status := status_of data,
                         rc_updated_at := now \<rparr>
      in if rc_state task \<in> {''completed'', ''failed''} then task
         else task \<lparr> rc_state := ''scheduled'',
                     rc_next_attempt_at :=
                       Some (min (case rc_next_attempt_at task of None \<Rightarrow> now | Some t \<Rightarrow> t)
                                 (now + seconds 15)) \<rparr>)"

definition enqueue_reconciliation :: "time \<Rightarrow> transaction \<Rightarrow> jobj \<Rightarrow> db \<Rightarrow> exn + reconciliation \<times> db" where
  "enqueue_reconciliation now tx data d =
     (let payment_reference =
            py_str (py_or (py_or (jget ''payment_reference'' data) (jopt (tx_psp_transaction_id tx))) (JStr ''''));
          transaction_reference = str_field ''transaction_reference'' data
      in
      bindE (scalar_one_or_none (filter (\<lambda>r. rc_transaction_id r = tx_id tx) (db_reconciliations d)))
        (\<lambda>found.
        let task = (case found of
                      None \<Rightarrow> scheduled_task now payment_reference transaction_reference data (tx_id tx)
                    | Some task0 \<Rightarrow> refreshed_task now payment_reference transaction_reference data task0);
            rows = (case found of
                      None \<Rightarrow> db_reconciliations d @ [task]
                    | Some _ \<Rightarrow> row_update rc_transaction_id task (db_reconciliations d));
            tx' = tx \<lparr> tx_metadata := jset ''provider_status'' (JStr (status_of data))
                        (jset ''reconciliation_status'' (JStr ''scheduled'') (tx_metadata tx)) \<rparr>
        in Inr (task, d \<lparr> db_reconciliations := rows,
                         db_transactions := row_update tx_id tx' (db_transactions d) \<rparr>)))"

section \<open>Claiming a due task\<close>

definition due :: "time \<Rightarrow> reconciliation \<Rightarrow> bool" where
  "due now r \<longleftrightarrow>
     rc_state r = ''scheduled''
       \<and> (case rc_next_attempt_at r of None \<Rightarrow> False | Some t \<Rightarrow> t \<le> now)
   \<or> rc_state r = ''processing''
       \<and> (case rc_last_checked_at r of None \<Rightarrow> False | Some t \<Rightarrow> t \<le> now - minutes 5)"

text \<open>\<^verbatim>\<open>order_by(next_attempt_at)\<close>, where null sorts last, and \<^verbatim>\<open>limit(1)\<close>.\<close>

fun attempt_before :: "time option \<Rightarrow> time option \<Rightarrow> bool" where
  "attempt_before (Some a) (Some b) = (a < b)"
| "attempt_before (Some a) None = True"
| "attempt_before None _ = False"

fun earliest :: "reconciliation list \<Rightarrow> reconciliation option" where
  "earliest [] = None"
| "earliest (r # rs) =
     (case earliest rs of None \<Rightarrow> Some r
      | Some r' \<Rightarrow> if attempt_before (rc_next_attempt_at r') (rc_next_attempt_at r) then Some r' else Some r)"

text \<open>\<open>free\<close>: the rows no other worker has locked (\<^verbatim>\<open>skip_locked\<close>).\<close>

definition claim_due ::
  "(reconciliation \<Rightarrow> bool) \<Rightarrow> time \<Rightarrow> string \<Rightarrow> db \<Rightarrow> reconciliation option \<times> db" where
  "claim_due free now worker d =
     (case earliest (filter (\<lambda>r. due now r \<and> free r) (db_reconciliations d)) of
        None \<Rightarrow> (None, d)
      | Some task \<Rightarrow>
          let task' = task \<lparr> rc_state := ''processing'', rc_attempt_count := rc_attempt_count task + 1,
                             rc_last_checked_at := Some now, rc_locked_at := Some now,
                             rc_locked_by := Some worker, rc_updated_at := now \<rparr>
          in (Some task', d \<lparr> db_reconciliations := row_update rc_transaction_id task' (db_reconciliations d) \<rparr>))"

definition task_reference :: "reconciliation \<Rightarrow> string option" where
  "task_reference task = str_or (rc_payment_reference task) (rc_transaction_reference task)"

section \<open>Applying the provider's answer\<close>

record poll =
  po_response :: jobj
  po_raw :: string
  po_normalized :: string
  po_error :: "string option"

text \<open>Only the client's own error is caught; any other exception ends the poll.\<close>

definition poll_of :: "exn + jobj \<Rightarrow> exn + poll" where
  "poll_of answer =
     (case answer of
        Inr response \<Rightarrow>
          Inr \<lparr> po_response = response, po_raw = status_of response,
                po_normalized = normalize_kora_status (JStr (status_of response)), po_error = None \<rparr>
      | Inl (KoraClientError m) \<Rightarrow>
          Inr \<lparr> po_response = [], po_raw = '''', po_normalized = ''processing'', po_error = Some (take 500 m) \<rparr>
      | Inl e \<Rightarrow> Inl e)"

definition text_or :: "string \<Rightarrow> string \<Rightarrow> string" where
  "text_or s v = (if s \<noteq> [] then s else v)"

definition settle_transaction :: "time \<Rightarrow> poll \<Rightarrow> string \<Rightarrow> transaction \<Rightarrow> transaction" where
  "settle_transaction now p provider_status tx0 =
     (let note = (if po_response p \<noteq> [] then JObj (po_response p)
                  else JObj [(''error'', jopt (po_error p))]);
          tx1 = tx0 \<lparr> tx_psp_response := jset ''provider_status'' (JStr (text_or (po_raw p) provider_status))
                        (jset ''reconciliation'' note (tx_psp_response tx0)) \<rparr>;
          tx2 = (if provider_phone_matches tx1 (JObj (po_response p))
                 then tx1 \<lparr> tx_mobile_money_owner_verified_at := Some now \<rparr> else tx1)
      in if po_normalized p = ''completed'' \<and> tx_status tx2 \<notin> {COMPLETED, REFUNDED}
         then tx2 \<lparr> tx_status := COMPLETED, tx_settled_at := Some now \<rparr>
         else if po_normalized p = ''failed'' \<and> tx_status tx2 \<notin> {COMPLETED, REFUNDED}
         then tx2 \<lparr> tx_status := FAILED,
                    tx_error_message := Some (text_or (po_raw p)
                      (case po_error p of None \<Rightarrow> ''Kora payment failed''
                       | Some e \<Rightarrow> text_or e ''Kora payment failed'')) \<rparr>
         else tx2)"

definition finish_task :: "time \<Rightarrow> poll \<Rightarrow> reconciliation \<Rightarrow> reconciliation" where
  "finish_task now p task =
     (if po_normalized p \<in> {''completed'', ''failed''}
      then task \<lparr> rc_state := po_normalized p, rc_next_attempt_at := None \<rparr>
      else if (case rc_expires_at task of None \<Rightarrow> False | Some t \<Rightarrow> t \<le> now)
      then task \<lparr> rc_state := ''expired'', rc_next_attempt_at := None \<rparr>
      else task \<lparr> rc_state := ''scheduled'',
                  rc_next_attempt_at := Some (now + seconds (next_backoff (rc_attempt_count task))) \<rparr>)"

definition polled_task :: "time \<Rightarrow> poll \<Rightarrow> reconciliation \<Rightarrow> reconciliation" where
  "polled_task now p task0 =
     task0 \<lparr> rc_provider_status := text_or (po_raw p) (rc_provider_status task0),
             rc_last_error := po_error p, rc_locked_at := None, rc_locked_by := None,
             rc_updated_at := now \<rparr>"

definition apply_poll :: "time \<Rightarrow> uuid \<Rightarrow> poll \<Rightarrow> db \<Rightarrow> exn + db" where
  "apply_poll now task_id p d =
     bindE (scalar_one_or_none (filter (\<lambda>r. rc_transaction_id r = task_id) (db_reconciliations d)))
       (\<lambda>found. case found of
          None \<Rightarrow> Inr d
        | Some task0 \<Rightarrow>
            let task = polled_task now p task0;
                txs = (case row_lookup tx_id (rc_transaction_id task) (db_transactions d) of
                         None \<Rightarrow> db_transactions d
                       | Some tx \<Rightarrow> row_update tx_id (settle_transaction now p (rc_provider_status task) tx)
                                      (db_transactions d))
            in Inr (d \<lparr> db_reconciliations :=
                          row_update rc_transaction_id (finish_task now p task) (db_reconciliations d),
                        db_transactions := txs \<rparr>))"

text \<open>
  The errors the database driver raises in the two sessions of a round (a lost connection, an exhausted
  pool, a refused commit): nothing of a session that raises is committed.  One of them is the program's
  own making: the status word Kora answers is written to a column of forty characters, which the
  database refuses to exceed at the commit of the task.
\<close>

record round_faults =
  fl_claim :: "exn option"
  fl_apply :: "exn option"

definition no_faults :: round_faults where
  "no_faults = \<lparr> fl_claim = None, fl_apply = None \<rparr>"

definition status_too_long :: exn where
  "status_too_long = DBAPIError ''value too long for type character varying(40)''"

definition apply_session :: "exn option \<Rightarrow> time \<Rightarrow> uuid \<Rightarrow> poll \<Rightarrow> db \<Rightarrow> exn + db" where
  "apply_session fault now task_id p d =
     (case fault of
        Some e \<Rightarrow> Inl e
      | None \<Rightarrow>
          (case apply_poll now task_id p d of
             Inl e \<Rightarrow> Inl e
           | Inr d' \<Rightarrow>
               if row_lookup rc_transaction_id task_id (db_reconciliations d) \<noteq> None \<and> 40 < length (po_raw p)
               then Inl status_too_long else Inr d'))"

text \<open>
  \<^verbatim>\<open>reconcile_due_once\<close>: \<open>now\<close> and \<open>now'\<close> are the two clock readings and \<open>meanwhile\<close> is what the
  other sessions commit during the provider call.  No error of the two sessions is caught.  When the
  call raises anything but the client's error, or the second session fails, the claim stays committed.
\<close>

definition reconcile_due_once ::
  "round_faults \<Rightarrow> (reconciliation \<Rightarrow> bool) \<Rightarrow> time \<Rightarrow> string \<Rightarrow> (string option \<Rightarrow> exn + jobj) \<Rightarrow> (db \<Rightarrow> db) \<Rightarrow> time
   \<Rightarrow> db \<Rightarrow> (exn + bool) \<times> db" where
  "reconcile_due_once faults free now worker provider meanwhile now' d =
     (case fl_claim faults of
        Some e \<Rightarrow> (Inl e, d)
      | None \<Rightarrow>
          (case claim_due free now worker d of
             (None, d1) \<Rightarrow> (Inr False, d1)
           | (Some task, d1) \<Rightarrow>
               let d2 = meanwhile d1 in
               case poll_of (provider (task_reference task)) of
                 Inl e \<Rightarrow> (Inl e, d2)
               | Inr p \<Rightarrow>
                   (case apply_session (fl_apply faults) now' (rc_transaction_id task) p d2 of
                      Inl e \<Rightarrow> (Inl e, d2)
                    | Inr d3 \<Rightarrow> (Inr True, d3))))"

section \<open>The worker as a machine\<close>

text \<open>
  The commits the workers and the enqueuing code make, in any order: a claim, the application of
  an answer to a claimed task, and the (re)scheduling of a payment's task.  A step that raises
  rolls back and leaves the database as it was.
\<close>

datatype worker_event =
    Claim "reconciliation \<Rightarrow> bool" time string
  | Apply time uuid poll
  | Enqueue time uuid jobj

fun worker_step :: "worker_event \<Rightarrow> db \<Rightarrow> db" where
  "worker_step (Claim free now worker) d = snd (claim_due free now worker d)"
| "worker_step (Apply now task_id p) d = (case apply_poll now task_id p d of Inl _ \<Rightarrow> d | Inr d' \<Rightarrow> d')"
| "worker_step (Enqueue now tid data) d =
     (case row_lookup tx_id tid (db_transactions d) of
        None \<Rightarrow> d
      | Some tx \<Rightarrow> (case enqueue_reconciliation now tx data d of Inl _ \<Rightarrow> d | Inr (_, d') \<Rightarrow> d'))"

subsection \<open>One task per payment\<close>

definition one_task_each :: "db \<Rightarrow> bool" where
  "one_task_each d \<longleftrightarrow> distinct (map rc_transaction_id (db_reconciliations d))"

lemma finish_task_key [simp]: "rc_transaction_id (finish_task now p t) = rc_transaction_id t"
  by (simp add: finish_task_def)

lemma refreshed_task_key [simp]: "rc_transaction_id (refreshed_task now a b data t) = rc_transaction_id t"
  by (simp add: refreshed_task_def Let_def)

lemma settle_transaction_key [simp]: "tx_id (settle_transaction now p s tx) = tx_id tx"
  by (simp add: settle_transaction_def Let_def)

lemma claim_due_transactions [simp]: "db_transactions (snd (claim_due free now w d)) = db_transactions d"
  by (simp add: claim_due_def Let_def split: option.split)

lemma claim_due_keys:
  "map rc_transaction_id (db_reconciliations (snd (claim_due free now w d)))
     = map rc_transaction_id (db_reconciliations d)"
  by (simp add: claim_due_def Let_def split: option.split)

text \<open>The two ways in which applying an answer, or scheduling a payment, returns.\<close>

lemma polled_task_key [simp]: "rc_transaction_id (polled_task now p t) = rc_transaction_id t"
  by (simp add: polled_task_def)

lemma apply_poll_InrE:
  assumes "apply_poll now tid p d = Inr d'"
  obtains (gone) "d' = d" "\<forall>r\<in>set (db_reconciliations d). rc_transaction_id r \<noteq> tid"
  | (task) t where "t \<in> set (db_reconciliations d)" "rc_transaction_id t = tid"
      "db_reconciliations d' =
         row_update rc_transaction_id (finish_task now p (polled_task now p t)) (db_reconciliations d)"
      "db_transactions d' = (case row_lookup tx_id tid (db_transactions d) of None \<Rightarrow> db_transactions d
         | Some tx \<Rightarrow> row_update tx_id
             (settle_transaction now p (rc_provider_status (polled_task now p t)) tx) (db_transactions d))"
proof -
  from assms obtain found where f: "scalar_one_or_none
      (filter (\<lambda>r. rc_transaction_id r = tid) (db_reconciliations d)) = Inr found"
    by (auto simp: apply_poll_def bindE_eq_Inr_iff)
  show thesis
  proof (cases found)
    case None
    with f have "\<forall>r\<in>set (db_reconciliations d). rc_transaction_id r \<noteq> tid"
      by (simp add: scalar_one_or_none_None)
    moreover have "d' = d" using assms f None by (simp add: apply_poll_def)
    ultimately show thesis by (rule gone [rotated])
  next
    case (Some t)
    from f have t: "t \<in> set (db_reconciliations d)" "rc_transaction_id t = tid"
      unfolding Some by (auto dest: scalar_one_or_none_Some)
    show thesis
      using t assms f Some by (intro task [of t]) (auto simp: apply_poll_def Let_def)
  qed
qed

lemma enqueue_InrE:
  assumes "enqueue_reconciliation now tx data d = Inr (t, d')"
  obtains rows md where "d' = d \<lparr> db_reconciliations := rows,
      db_transactions := row_update tx_id (tx \<lparr> tx_metadata := md \<rparr>) (db_transactions d) \<rparr>"
    and "(rows = db_reconciliations d @ [t] \<and> t = scheduled_task now (rc_payment_reference t)
            (str_field ''transaction_reference'' data) data (tx_id tx)
          \<and> (\<forall>r\<in>set (db_reconciliations d). rc_transaction_id r \<noteq> tx_id tx))
      \<or> (\<exists>t0 pref. t0 \<in> set (db_reconciliations d) \<and> rc_transaction_id t0 = tx_id tx
          \<and> t = refreshed_task now pref (str_field ''transaction_reference'' data) data t0
          \<and> rows = row_update rc_transaction_id t (db_reconciliations d))"
proof -
  from assms obtain found where f: "scalar_one_or_none
      (filter (\<lambda>r. rc_transaction_id r = tx_id tx) (db_reconciliations d)) = Inr found"
    by (auto simp: enqueue_reconciliation_def Let_def bindE_eq_Inr_iff)
  show thesis
  proof (cases found)
    case None
    with f have "\<forall>r\<in>set (db_reconciliations d). rc_transaction_id r \<noteq> tx_id tx"
      by (simp add: scalar_one_or_none_None)
    then show thesis using assms f None
      by (intro that [where rows = "db_reconciliations d @ [t]"])
        (auto simp: enqueue_reconciliation_def Let_def scheduled_task_def)
  next
    case (Some t0)
    from f have "t0 \<in> set (db_reconciliations d)" "rc_transaction_id t0 = tx_id tx"
      unfolding Some by (auto dest: scalar_one_or_none_Some)
    then show thesis using assms f Some
      by (intro that [where rows = "row_update rc_transaction_id t (db_reconciliations d)"])
        (auto simp: enqueue_reconciliation_def Let_def)
  qed
qed

lemma apply_poll_keys:
  "apply_poll now tid p d = Inr d' \<Longrightarrow>
     map rc_transaction_id (db_reconciliations d') = map rc_transaction_id (db_reconciliations d)"
  by (erule apply_poll_InrE) simp_all

lemma enqueue_one_task:
  assumes "enqueue_reconciliation now tx data d = Inr (t, d')" and "one_task_each d"
  shows "one_task_each d'"
  using assms(1)
proof (rule enqueue_InrE)
  fix rows md
  assume d': "d' = d \<lparr> db_reconciliations := rows,
      db_transactions := row_update tx_id (tx \<lparr> tx_metadata := md \<rparr>) (db_transactions d) \<rparr>"
    and "(rows = db_reconciliations d @ [t] \<and> t = scheduled_task now (rc_payment_reference t)
            (str_field ''transaction_reference'' data) data (tx_id tx)
          \<and> (\<forall>r\<in>set (db_reconciliations d). rc_transaction_id r \<noteq> tx_id tx))
      \<or> (\<exists>t0 pref. t0 \<in> set (db_reconciliations d) \<and> rc_transaction_id t0 = tx_id tx
          \<and> t = refreshed_task now pref (str_field ''transaction_reference'' data) data t0
          \<and> rows = row_update rc_transaction_id t (db_reconciliations d))"
  then show "one_task_each d'"
  proof (elim disjE conjE exE)
    assume rows: "rows = db_reconciliations d @ [t]"
      and t: "t = scheduled_task now (rc_payment_reference t) (str_field ''transaction_reference'' data) data (tx_id tx)"
      and new: "\<forall>r\<in>set (db_reconciliations d). rc_transaction_id r \<noteq> tx_id tx"
    have "rc_transaction_id t = tx_id tx" by (subst t) (simp add: scheduled_task_def)
    then show ?thesis using assms(2) new by (auto simp: d' rows one_task_each_def)
  next
    fix t0 pref assume "rows = row_update rc_transaction_id t (db_reconciliations d)"
    then show ?thesis using assms(2) by (simp add: d' one_task_each_def)
  qed
qed

lemma worker_step_one_task: "one_task_each d \<Longrightarrow> one_task_each (worker_step e d)"
  by (cases e)
    (auto simp: one_task_each_def claim_due_keys apply_poll_keys
      dest: enqueue_one_task [unfolded one_task_each_def] split: option.split sum.split)

subsection \<open>Settled payments stay settled\<close>

definition settled :: "uuid \<Rightarrow> db \<Rightarrow> (payment_status \<times> time option) option" where
  "settled tid d =
     (case row_lookup tx_id tid (db_transactions d) of
        None \<Rightarrow> None
      | Some tx \<Rightarrow> if tx_status tx \<in> {COMPLETED, REFUNDED} then Some (tx_status tx, tx_settled_at tx) else None)"

lemma settle_transaction_final:
  "tx_status tx \<in> {COMPLETED, REFUNDED} \<Longrightarrow>
     tx_status (settle_transaction now p s tx) = tx_status tx
   \<and> tx_settled_at (settle_transaction now p s tx) = tx_settled_at tx"
  by (auto simp: settle_transaction_def Let_def)

lemma settled_row_update:
  assumes "settled tid d = Some v" and "row_lookup tx_id k (db_transactions d) = Some tx"
    and "tx_id tx' = tx_id tx"
    and "tx_status tx \<in> {COMPLETED, REFUNDED} \<Longrightarrow>
           tx_status tx' = tx_status tx \<and> tx_settled_at tx' = tx_settled_at tx"
    and "db_transactions d' = row_update tx_id tx' (db_transactions d)"
  shows "settled tid d' = Some v"
proof -
  have "tx_id tx = k" using assms(2) by (rule txs.look_key)
  then show ?thesis using assms by (auto simp: settled_def txs.look_upd split: option.splits if_splits)
qed

lemma settled_cong: "db_transactions d' = db_transactions d \<Longrightarrow> settled tid d' = settled tid d"
  by (simp add: settled_def)

lemma apply_poll_settled:
  assumes "apply_poll now task_id p d = Inr d'" and "settled tid d = Some v"
  shows "settled tid d' = Some v"
  using assms(1)
proof (cases rule: apply_poll_InrE)
  case gone
  then show ?thesis using assms(2) by simp
next
  case (task t)
  show ?thesis
  proof (cases "row_lookup tx_id task_id (db_transactions d)")
    case None
    then show ?thesis using task(4) assms(2) by (simp add: settled_def)
  next
    case (Some tx)
    then show ?thesis
      using task(4) by (intro settled_row_update [OF assms(2) Some]) (simp_all add: settle_transaction_final)
  qed
qed

lemma enqueue_settled:
  assumes "enqueue_reconciliation now tx data d = Inr (t, d')"
    and look: "row_lookup tx_id k (db_transactions d) = Some tx" and v: "settled tid d = Some v"
  shows "settled tid d' = Some v"
  using assms(1) by (rule enqueue_InrE) (rule settled_row_update [OF v look], simp_all)

lemma worker_step_settled: "settled tid d = Some v \<Longrightarrow> settled tid (worker_step e d) = Some v"
proof (cases e)
  case (Claim free now worker)
  then show "settled tid d = Some v \<Longrightarrow> ?thesis" by (simp add: settled_def)
qed (auto simp: apply_poll_settled enqueue_settled split: option.split sum.split)

interpretation worker: absorbing_machine worker_step one_task_each "settled tid" for tid
  by unfold_locales (erule worker_step_one_task, erule worker_step_settled)

text \<open>
  Claim C3. A payment the worker has to leave alone stays as it is: once a transaction is completed
  or refunded, no sequence of claims, answers and reschedulings, in whatever order the workers
  commit them and whatever Kora reports, changes its status or the time it was settled.
\<close>

theorem worker_keeps_settled:
  assumes "one_task_each d" and "settled tid d = Some v"
  shows "settled tid (run worker_step es d) = Some v"
  using assms by (rule worker.run_final)

text \<open>A database with one payment and its task, scheduled at time 0 and due 15 seconds later.\<close>

definition demo_task :: reconciliation where
  "demo_task = scheduled_task 0 ''PAY-t1'' '''' [(''status'', JStr ''processing'')] ''t1''"

definition demo_db :: "payment_status \<Rightarrow> db" where
  "demo_db s = (sample_db s) \<lparr> db_reconciliations := [demo_task] \<rparr>"

definition demo_poll :: "string \<Rightarrow> poll" where
  "demo_poll word =
     \<lparr> po_response = [(''status'', JStr word)], po_raw = word,
       po_normalized = normalize_kora_status (JStr word), po_error = None \<rparr>"

lemma one_task_each_demo: "one_task_each (demo_db s)"
  by (simp add: one_task_each_def demo_db_def)

lemma worker_keeps_settled_witness:
  "settled ''t1'' (run worker_step [Claim (\<lambda>_. True) (seconds 20) ''w'', Apply (seconds 21) ''t1'' (demo_poll ''failed'')]
      (demo_db REFUNDED)) = Some (REFUNDED, None)"
  by (rule worker_keeps_settled [OF one_task_each_demo])
    (simp add: settled_def demo_db_def sample_db_def sample_transaction_def)

text \<open>
  There is at most one reconciliation task per payment, whatever the workers and the
  enqueuing code commit.
\<close>

theorem worker_one_task_each:
  assumes "one_task_each d"
  shows "one_task_each (run worker_step es d)"
  using assms by (rule worker.run_inv)

lemma worker_one_task_each_witness:
  "one_task_each (run worker_step [Enqueue 0 ''t1'' [], Claim (\<lambda>_. True) (seconds 20) ''w'',
      Enqueue (seconds 21) ''t1'' []] (sample_db PROCESSING))"
  by (rule worker_one_task_each) (simp add: one_task_each_def sample_db_def empty_db_def)

section \<open>The lease of a claimed task\<close>

definition held :: "time \<Rightarrow> uuid \<Rightarrow> db \<Rightarrow> bool" where
  "held t0 tid d \<longleftrightarrow>
     (case row_lookup rc_transaction_id tid (db_reconciliations d) of
        None \<Rightarrow> False
      | Some r \<Rightarrow> rc_state r = ''processing'' \<and> rc_last_checked_at r = Some t0)"

fun spares :: "time \<Rightarrow> uuid \<Rightarrow> worker_event \<Rightarrow> bool" where
  "spares t0 tid (Claim free now worker) = (now < t0 + minutes 5)"
| "spares t0 tid (Apply now task_id p) = (task_id \<noteq> tid)"
| "spares t0 tid (Enqueue now k data) = (k \<noteq> tid)"

lemma earliest_Some: "earliest rs = Some r \<Longrightarrow> r \<in> set rs"
  by (induction rs arbitrary: r) (auto split: option.splits if_splits)

lemma earliest_None_iff [simp]: "earliest rs = None \<longleftrightarrow> rs = []"
  by (cases rs) (auto split: option.split)

lemma claim_due_SomeE:
  assumes "claim_due free now w d = (Some t', d')"
  obtains t where "t \<in> set (db_reconciliations d)" "due now t" "free t"
    "rc_transaction_id t' = rc_transaction_id t" "rc_state t' = ''processing''"
    "rc_last_checked_at t' = Some now"
    "d' = d \<lparr> db_reconciliations := row_update rc_transaction_id t' (db_reconciliations d) \<rparr>"
proof -
  from assms obtain t where "earliest (filter (\<lambda>r. due now r \<and> free r) (db_reconciliations d)) = Some t"
    by (auto simp: claim_due_def split: option.splits)
  with earliest_Some [OF this] show thesis using assms
    by (intro that [of t]) (auto simp: claim_due_def Let_def)
qed

lemma held_not_due:
  assumes "one_task_each d" and "held t0 tid d" and "now < t0 + minutes 5"
    and "r \<in> set (db_reconciliations d)" and "due now r"
  shows "rc_transaction_id r \<noteq> tid"
proof
  assume "rc_transaction_id r = tid"
  then have "row_lookup rc_transaction_id tid (db_reconciliations d) = Some r"
    using assms(1,4) row_lookup_distinct by (force simp: one_task_each_def)
  then show False using assms by (auto simp: held_def due_def)
qed

lemma held_frame:
  assumes "db_reconciliations d' = row_update rc_transaction_id r (db_reconciliations d)"
    and "rc_transaction_id r \<noteq> tid"
  shows "held t0 tid d' = held t0 tid d"
  using assms by (simp add: held_def recs.upd_frame)

lemma worker_step_held:
  assumes "one_task_each d" and "held t0 tid d" and "spares t0 tid e"
  shows "held t0 tid (worker_step e d)"
proof (cases e)
  case (Claim free now w)
  obtain t d' where c: "claim_due free now w d = (t, d')" by (cases "claim_due free now w d")
  show ?thesis
  proof (cases t)
    case None
    then have "d' = d" using c by (auto simp: claim_due_def Let_def split: option.splits)
    then show ?thesis using assms(2) by (simp add: Claim c)
  next
    case (Some t')
    then obtain r where r: "r \<in> set (db_reconciliations d)" "due now r"
      and t': "rc_transaction_id t' = rc_transaction_id r"
        "d' = d \<lparr> db_reconciliations := row_update rc_transaction_id t' (db_reconciliations d) \<rparr>"
      using c by (auto elim: claim_due_SomeE)
    have "rc_transaction_id t' \<noteq> tid"
      using held_not_due [OF assms(1,2) _ r] assms(3) t'(1) by (simp add: Claim)
    then show ?thesis using assms(2) t'(2) held_frame [of d' t' d] by (simp add: Claim c)
  qed
next
  case (Apply now task_id p)
  show ?thesis
  proof (cases "apply_poll now task_id p d")
    case (Inr d')
    then show ?thesis
    proof (cases rule: apply_poll_InrE)
      case (task t)
      then have "held t0 tid d' = held t0 tid d"
        using assms(3) by (intro held_frame) (auto simp: Apply)
      then show ?thesis using assms(2) by (simp add: Apply Inr)
    qed (use assms(2) in \<open>simp add: Apply Inr\<close>)
  qed (use assms(2) in \<open>simp add: Apply\<close>)
next
  case (Enqueue now k data)
  show ?thesis
  proof (cases "row_lookup tx_id k (db_transactions d)")
    case (Some tx)
    then have k: "tx_id tx = k" by (rule txs.look_key)
    show ?thesis
    proof (cases "enqueue_reconciliation now tx data d")
      case (Inr td)
      obtain t d' where td: "td = (t, d')" by (cases td)
      from Inr have "held t0 tid d'" unfolding td
      proof (rule enqueue_InrE, elim disjE conjE exE, goal_cases)
        case (1 rows md)
        then show ?case using assms(2) by (auto simp: held_def row_lookup_append split: option.splits)
      next
        case (2 rows md t00 pref)
        then have "rc_transaction_id t \<noteq> tid" using assms(3) k by (auto simp: Enqueue)
        with 2 show ?case using assms(2) held_frame [of d' t d] by simp
      qed
      then show ?thesis by (simp add: Enqueue Some Inr td)
    qed (use assms(2) in \<open>simp add: Enqueue Some\<close>)
  qed (use assms(2) in \<open>simp add: Enqueue\<close>)
qed

lemma run_held:
  "one_task_each d \<Longrightarrow> held t0 tid d \<Longrightarrow> list_all (spares t0 tid) es \<Longrightarrow> held t0 tid (run worker_step es d)"
  by (induction es arbitrary: d) (simp_all add: worker_step_held worker_step_one_task)

lemma claim_due_held:
  assumes "one_task_each d" and "claim_due free t0 w d = (Some task, d1)"
  shows "one_task_each d1 \<and> held t0 (rc_transaction_id task) d1"
  using assms(2)
proof (cases rule: claim_due_SomeE)
  case (1 t)
  then have "row_lookup rc_transaction_id (rc_transaction_id task) (db_reconciliations d) \<noteq> None"
    by (auto simp: row_lookup_None_iff)
  then show ?thesis using 1 assms(1) by (auto simp: one_task_each_def held_def recs.look_upd)
qed

text \<open>
  Claim C4. A claimed task is leased for five minutes: between a claim at \<open>t0\<close> and the moment its
  own answer is applied or its payment is rescheduled, no worker claims the task again before
  \<open>t0 + 5 min\<close>, whatever the other workers claim, apply or schedule meanwhile.
\<close>

theorem claim_leases_task:
  assumes "one_task_each d" and "claim_due free t0 worker d = (Some task, d1)"
    and "list_all (spares t0 (rc_transaction_id task)) es" and "now < t0 + minutes 5"
    and "claim_due free' now worker' (run worker_step es d1) = (Some task', d2)"
  shows "rc_transaction_id task' \<noteq> rc_transaction_id task"
proof -
  have one: "one_task_each d1" and h: "held t0 (rc_transaction_id task) d1"
    using claim_due_held [OF assms(1,2)] by simp_all
  have h': "held t0 (rc_transaction_id task) (run worker_step es d1)"
    using one h assms(3) by (rule run_held)
  have one': "one_task_each (run worker_step es d1)" using one by (rule worker.run_inv)
  from assms(5) show ?thesis
    by (rule claim_due_SomeE) (use held_not_due [OF one' h' assms(4)] in simp)
qed

text \<open>Two payments with due tasks: the first worker takes one, a second worker the other.\<close>

definition demo_two :: db where
  "demo_two = (demo_db PROCESSING)
     \<lparr> db_reconciliations := [demo_task, demo_task \<lparr> rc_transaction_id := ''t2'' \<rparr>] \<rparr>"

lemma claim_leases_task_witness:
  "case claim_due (\<lambda>_. True) (seconds 20) ''w1'' demo_two of
     (Some task, d1) \<Rightarrow>
       (case claim_due (\<lambda>_. True) (seconds 25) ''w2'' d1 of
          (Some task', d2) \<Rightarrow> rc_transaction_id task' \<noteq> rc_transaction_id task
            \<and> claim_due (\<lambda>_. True) (seconds 30) ''w3'' d2 = (None, d2)
        | _ \<Rightarrow> False)
   | _ \<Rightarrow> False"
proof -
  obtain task d1 where c1: "claim_due (\<lambda>_. True) (seconds 20) ''w1'' demo_two = (Some task, d1)"
    by (simp add: claim_due_def demo_two_def demo_task_def scheduled_task_def due_def seconds_def Let_def)
  obtain task' d2 where c2: "claim_due (\<lambda>_. True) (seconds 25) ''w2'' d1 = (Some task', d2)"
    using c1 by (auto simp: claim_due_def demo_two_def demo_task_def scheduled_task_def due_def
        seconds_def minutes_def Let_def row_update_def)
  have "rc_transaction_id task' \<noteq> rc_transaction_id task"
    by (rule claim_leases_task [OF _ c1, where es = "[]" and now = "seconds 25"])
      (use c2 in \<open>simp_all add: one_task_each_def demo_two_def demo_task_def scheduled_task_def
        seconds_def minutes_def\<close>)
  moreover have "claim_due (\<lambda>_. True) (seconds 30) ''w3'' d2 = (None, d2)"
    using c1 c2 by (auto simp: claim_due_def demo_two_def demo_task_def scheduled_task_def due_def
        seconds_def minutes_def Let_def row_update_def)
  ultimately show ?thesis by (simp add: c1 c2)
qed

text \<open>
  The exception is real: rescheduling a payment while its task is being processed makes the task
  due again at once, and a second worker claims it within the lease.
\<close>

lemma enqueue_breaks_lease:
  "case claim_due (\<lambda>_. True) (seconds 20) ''w1'' (demo_db PROCESSING) of
     (Some task, d1) \<Rightarrow>
       (case claim_due (\<lambda>_. True) (seconds 22) ''w2'' (worker_step (Enqueue (seconds 21) ''t1'' []) d1) of
          (Some task', _) \<Rightarrow> rc_transaction_id task' = rc_transaction_id task
        | _ \<Rightarrow> False)
   | _ \<Rightarrow> False"
  by code_simp

section \<open>Progress\<close>

lemma next_backoff_range: "15 \<le> next_backoff n \<and> next_backoff n \<le> 300"
proof -
  have "1 \<le> (2::int) ^ nat (min (max (n - 1) 0) 4)" by simp
  then show ?thesis unfolding next_backoff_def by auto
qed

text \<open>
  The delay before the next poll is at least fifteen seconds and at most five minutes,
  never shrinks from one attempt to the next, and is five minutes from the sixth attempt on.
\<close>

theorem backoff_bounds:
  "15 \<le> next_backoff n \<and> next_backoff n \<le> 300 \<and> next_backoff n \<le> next_backoff (n + 1)
   \<and> (6 \<le> n \<longleftrightarrow> next_backoff n = 300)"
proof -
  consider "n \<le> 0" | "n = 1" | "n = 2" | "n = 3" | "n = 4" | "n = 5" | "6 \<le> n" by linarith
  then show ?thesis by cases (simp_all add: next_backoff_def max_def min_def)
qed



lemma apply_poll_total:
  assumes "one_task_each d"
  shows "\<exists>d'. apply_poll now tid p d = Inr d'"
proof (cases "row_lookup rc_transaction_id tid (db_reconciliations d)")
  case None
  then have "filter (\<lambda>r. rc_transaction_id r = tid) (db_reconciliations d) = []"
    by (auto simp: row_lookup_None_iff filter_empty_conv)
  then show ?thesis by (simp add: apply_poll_def scalar_one_or_none_def)
next
  case (Some t)
  then show ?thesis
    using row_lookup_SomeD [OF Some] distinct_filter_key [of rc_transaction_id _ t tid] assms
    by (simp add: apply_poll_def scalar_one_or_none_def one_task_each_def Let_def)
qed

lemma one_task_each_claim: "one_task_each d \<Longrightarrow> one_task_each (snd (claim_due free now w d))"
  by (simp add: one_task_each_def claim_due_keys)

lemma poll_of_Inl: "poll_of answer = Inl e \<Longrightarrow> answer = Inl e \<and> (\<forall>m. e \<noteq> KoraClientError m)"
  by (auto simp: poll_of_def split: sum.splits exn.splits)

lemma poll_of_Inr:
  "poll_of answer = Inr p \<Longrightarrow> 40 < length (po_raw p) \<Longrightarrow> \<exists>response. answer = Inr response \<and> po_raw p = status_of response"
  by (auto simp: poll_of_def split: sum.splits exn.splits)

text \<open>The errors that leave a claimed task unapplied.\<close>

definition round_error :: "round_faults \<Rightarrow> exn + jobj \<Rightarrow> exn \<Rightarrow> bool" where
  "round_error faults answer e \<longleftrightarrow>
     fl_apply faults = Some e
   \<or> answer = Inl e \<and> (\<forall>m. e \<noteq> KoraClientError m)
   \<or> e = status_too_long \<and> (\<exists>response. answer = Inr response \<and> 40 < length (status_of response))"

lemma apply_session_Inl:
  assumes "apply_session (fl_apply faults) now tid p d = Inl e" and "one_task_each d" and "poll_of answer = Inr p"
  shows "round_error faults answer e"
proof (cases "fl_apply faults")
  case None
  obtain d' where "apply_poll now tid p d = Inr d'" using apply_poll_total [OF assms(2)] by blast
  then have "e = status_too_long" "40 < length (po_raw p)"
    using assms(1) None by (auto simp: apply_session_def split: if_splits)
  then show ?thesis using poll_of_Inr [OF assms(3)] by (auto simp: round_error_def)
qed (use assms(1) in \<open>simp add: apply_session_def round_error_def\<close>)



text \<open>
  The provider's other errors do occur: an answer of Kora that is JSON but not an object is an
  attribute error in the client, the round raises, and the task stays claimed.  Repeated, that
  keeps the payment in processing past its expiry, because only an applied answer expires a task.
\<close>

lemma malformed_answer_keeps_task_claimed:
  "case reconcile_due_once no_faults (\<lambda>_. True) (hours 30) ''w''
      (verify_charge keyed_settings (\<lambda>_. Response 502 ''[]'' (Some (JArr [])))) (\<lambda>d. d) (hours 30)
      (demo_db PROCESSING) of
     (r, d) \<Rightarrow> r = Inl (AttributeError ''get'')
       \<and> map rc_state (db_reconciliations d) = [''processing'']"
  by code_simp

end
