(* ===== verification/AFM_Ledger.thy ===== *)
theory AFM_Ledger
  imports AFM_Models AFM_Settings "HOL-Library.Product_Lexorder" "HOL-Library.Multiset"
begin

text \<open>
  The virtual accounts of \<^verbatim>\<open>api_gateway/main.py\<close>: provisioning, the cash balance over the
  immutable ledger, the portfolio projection, the paginated ledger and the back-office summary.
  Handlers return a result or an exception together with the database they leave.
\<close>

section \<open>Provisioning\<close>

definition virtual_account_public_id :: "virtual_account \<Rightarrow> string" where
  "virtual_account_public_id a = ''AFM-VIRTUAL-'' @ py_upper (hd (split_on (CHR ''-'') (va_id a)))"

definition find_account :: "uuid \<Rightarrow> db \<Rightarrow> exn + virtual_account option" where
  "find_account user_id d = scalar_one_or_none (filter (\<lambda>a. va_user_id a = user_id) (db_accounts d))"

text \<open>
  \<open>get_or_create_virtual_account\<close>: \<open>meanwhile\<close> is what other sessions commit between the lookup
  and the insert, which then meets the unique column of the user.
\<close>

definition get_or_create_virtual_account ::
  "uuid \<Rightarrow> time \<Rightarrow> (db \<Rightarrow> db) \<Rightarrow> uuid \<Rightarrow> db \<Rightarrow> (exn + virtual_account) \<times> db" where
  "get_or_create_virtual_account fresh now meanwhile user_id d =
     (case find_account user_id d of
        Inl e \<Rightarrow> (Inl e, d)
      | Inr (Some account) \<Rightarrow> (Inr account, d)
      | Inr None \<Rightarrow>
          let account = \<lparr> va_id = fresh, va_user_id = user_id, va_status = ''active'',
                          va_currency = ''USD'', va_created_at = now \<rparr>;
              d' = meanwhile d
          in case row_insert va_user_id account (db_accounts d') of
               Some accounts \<Rightarrow> (Inr account, d' \<lparr> db_accounts := accounts \<rparr>)
             | None \<Rightarrow>
                 (case find_account user_id d' of
                    Inl e \<Rightarrow> (Inl e, d')
                  | Inr None \<Rightarrow>
                      (Inl (HTTPException 503 ''Virtual account provisioning is temporarily unavailable''), d')
                  | Inr (Some existing) \<Rightarrow> (Inr existing, d')))"

definition one_account_each :: "db \<Rightarrow> bool" where
  "one_account_each d \<longleftrightarrow> distinct (map va_user_id (db_accounts d))"

lemma find_account_lookup:
  assumes "one_account_each d"
  shows "find_account u d = Inr (row_lookup va_user_id u (db_accounts d))"
proof (cases "row_lookup va_user_id u (db_accounts d)")
  case None
  then have "filter (\<lambda>a. va_user_id a = u) (db_accounts d) = []"
    by (auto simp: row_lookup_None_iff filter_empty_conv)
  then show ?thesis by (simp add: find_account_def scalar_one_or_none_def None)
next
  case (Some a)
  then show ?thesis
    using row_lookup_SomeD [OF Some] assms distinct_filter_key [of va_user_id _ a u]
    by (simp add: find_account_def scalar_one_or_none_def one_account_each_def)
qed

text \<open>
  Claim C14. Provisioning gives every user exactly one virtual account, whatever other sessions
  commit in between (a concurrent insert of the same account included): it returns an account of
  the user, the table holds it as the user's only account afterwards, and a later call returns the
  same account without writing.
\<close>

theorem get_or_create_account_unique:
  assumes "one_account_each d" and "\<And>x. one_account_each x \<Longrightarrow> one_account_each (meanwhile x)"
  shows "\<exists>a d'. get_or_create_virtual_account fresh now meanwhile u d = (Inr a, d')
    \<and> va_user_id a = u \<and> one_account_each d'
    \<and> filter (\<lambda>x. va_user_id x = u) (db_accounts d') = [a]
    \<and> get_or_create_virtual_account fresh' now' meanwhile' u d' = (Inr a, d')"
proof -
  have "\<exists>a d'. get_or_create_virtual_account fresh now meanwhile u d = (Inr a, d')
      \<and> row_lookup va_user_id u (db_accounts d') = Some a \<and> one_account_each d'"
  proof (cases "row_lookup va_user_id u (db_accounts d)")
    case (Some a)
    then show ?thesis using assms(1)
      by (simp add: get_or_create_virtual_account_def find_account_lookup)
  next
    case None
    define a where "a = \<lparr> va_id = fresh, va_user_id = u, va_status = ''active'',
      va_currency = ''USD'', va_created_at = now \<rparr>"
    have one: "one_account_each (meanwhile d)" using assms by blast
    show ?thesis
    proof (cases "row_insert va_user_id a (db_accounts (meanwhile d))")
      case (Some rows)
      then have "row_lookup va_user_id u rows = Some a"
        using accts.ins_then_look [OF Some] by (simp add: a_def)
      moreover have "distinct (map va_user_id rows)"
        using accts.ins_distinct [OF Some] one by (simp add: one_account_each_def)
      ultimately show ?thesis using None assms(1) Some
        by (simp add: get_or_create_virtual_account_def find_account_lookup one_account_each_def
            flip: a_def)
    next
      case ins: None
      then obtain a' where "row_lookup va_user_id u (db_accounts (meanwhile d)) = Some a'"
        using accts.ins_fails [of a] by (auto simp: a_def)
      then show ?thesis using None assms(1) ins one
        by (simp add: get_or_create_virtual_account_def find_account_lookup flip: a_def)
    qed
  qed
  then obtain a d' where r: "get_or_create_virtual_account fresh now meanwhile u d = (Inr a, d')"
    and look: "row_lookup va_user_id u (db_accounts d') = Some a" and one: "one_account_each d'"
    by blast
  have "filter (\<lambda>x. va_user_id x = u) (db_accounts d') = [a]"
    using row_lookup_SomeD [OF look] one by (simp add: distinct_filter_key one_account_each_def)
  moreover have "get_or_create_virtual_account fresh' now' meanwhile' u d' = (Inr a, d')"
    by (simp add: get_or_create_virtual_account_def find_account_lookup one look)
  ultimately show ?thesis using r one row_lookup_SomeD [OF look] by blast
qed

text \<open>The instance: another session inserts the user's account first.\<close>

definition sample_account :: "uuid \<Rightarrow> uuid \<Rightarrow> virtual_account" where
  "sample_account i u =
     \<lparr> va_id = i, va_user_id = u, va_status = ''active'', va_currency = ''USD'', va_created_at = 0 \<rparr>"

definition other_session :: "db \<Rightarrow> db" where
  "other_session d =
     (case row_insert va_user_id (sample_account ''a-2'' ''u1'') (db_accounts d) of
        None \<Rightarrow> d | Some rows \<Rightarrow> d \<lparr> db_accounts := rows \<rparr>)"

lemma other_session_one: "one_account_each d \<Longrightarrow> one_account_each (other_session d)"
  by (auto simp: other_session_def one_account_each_def split: option.split dest: accts.ins_distinct)

lemma get_or_create_account_unique_witness:
  "\<exists>a d'. get_or_create_virtual_account ''a-1'' 0 other_session ''u1'' empty_db = (Inr a, d')
     \<and> filter (\<lambda>x. va_user_id x = ''u1'') (db_accounts d') = [a]"
proof -
  have "one_account_each empty_db" by (simp add: one_account_each_def empty_db_def)
  from get_or_create_account_unique [where meanwhile = other_session, OF this other_session_one]
  show ?thesis by blast
qed

section \<open>The cash balance\<close>

text \<open>\<^verbatim>\<open>Decimal(str(amount or 0))\<close>: the printed text reads back as the same decimal.\<close>

definition dec_or_0 :: "decimal \<Rightarrow> decimal" where
  "dec_or_0 d = (if coeff d = 0 then Dec 0 0 else d)"

definition entries_of :: "uuid \<Rightarrow> db \<Rightarrow> ledger_entry list" where
  "entries_of account_id d = filter (\<lambda>e. le_account_id e = account_id) (db_ledger d)"

definition signed_amount :: "ledger_entry \<Rightarrow> decimal" where
  "signed_amount e =
     (if le_direction e = ''credit'' then dec_or_0 (le_amount e) else dec_neg (dec_or_0 (le_amount e)))"

definition cash_of :: "ledger_entry list \<Rightarrow> decimal" where
  "cash_of es = foldl (\<lambda>balance e. dec_add balance (signed_amount e)) (Dec 0 0) es"

definition get_virtual_cash_balance :: "uuid \<Rightarrow> db \<Rightarrow> decimal" where
  "get_virtual_cash_balance account_id d = cash_of (entries_of account_id d)"

text \<open>The specification: what was credited less what was debited, as rational numbers.\<close>

definition credits_less_debits :: "ledger_entry list \<Rightarrow> rat" where
  "credits_less_debits es =
     (\<Sum>e\<leftarrow>es. if le_direction e = ''credit'' then dval (le_amount e) else - dval (le_amount e))"

definition ledger_ok :: "ledger_entry list \<Rightarrow> bool" where
  "ledger_ok es \<longleftrightarrow> list_all (\<lambda>e. numeric_19_8 (le_amount e)) es \<and> length es \<le> 10 ^ 8"

lemma dval_dec_or_0 [simp]: "dval (dec_or_0 d) = dval d"
  by (simp add: dec_or_0_def dval_def)

lemma numeric_dec_or_0: "numeric_19_8 d \<Longrightarrow> numeric_19_8 (dec_or_0 d)"
  by (simp add: numeric_19_8_iff) (simp add: dec_or_0_def)

lemma dec_neg_numeric:
  assumes "numeric_19_8 d"
  shows "dval (dec_neg d) = - dval d" and "numeric_19_8 (dec_neg d)"
proof -
  have "\<bar>coeff d\<bar> < 10 ^ (11 + 8)"
    using assms by (intro abs_coeff_less) (simp_all add: numeric_19_8_iff)
  then have "dec_neg d = Dec (- coeff d) (expo d)"
    by (simp add: dec_neg_def dec_fix_fits fits_iff)
  then show "dval (dec_neg d) = - dval d" and "numeric_19_8 (dec_neg d)"
    using assms by (simp_all add: dval_def numeric_19_8_iff)
qed

lemma signed_amount_numeric:
  assumes "numeric_19_8 (le_amount e)"
  shows "numeric_19_8 (signed_amount e)"
    and "dval (signed_amount e)
           = (if le_direction e = ''credit'' then dval (le_amount e) else - dval (le_amount e))"
  using numeric_dec_or_0 [OF assms] dec_neg_numeric [of "dec_or_0 (le_amount e)"]
  by (simp_all add: signed_amount_def)

text \<open>Running balances stay far inside the decimal context.\<close>

lemma cash_foldl:
  assumes "list_all (\<lambda>e. numeric_19_8 (le_amount e)) es" and "- 8 \<le> expo b"
    and "\<bar>dval b\<bar> \<le> of_nat n * 10 ^ 11" and "n + length es \<le> 10 ^ 8 - 1"
  shows "dval (foldl (\<lambda>balance e. dec_add balance (signed_amount e)) b es) = dval b + credits_less_debits es"
  using assms
proof (induction es arbitrary: b n)
  case Nil
  then show ?case by (simp add: credits_less_debits_def)
next
  case (Cons e es)
  note s = signed_amount_numeric [of e]
  have se: "- 8 \<le> expo (signed_amount e)" "\<bar>dval (signed_amount e)\<bar> \<le> 10 ^ 11"
    using s Cons.prems(1) by (simp_all add: numeric_19_8_iff less_imp_le)
  have "of_nat n * (10::rat) ^ 11 < 10 ^ 8 * 10 ^ 11"
    using Cons.prems(4) by (intro mult_strict_right_mono) simp_all
  then have b: "\<bar>dval b\<bar> < 10 ^ 19" using Cons.prems(3) by simp
  have "\<bar>dval (signed_amount e)\<bar> < 10 ^ 19" using se by simp
  with b se Cons.prems(2)
  have add: "dval (dec_add b (signed_amount e)) = dval b + dval (signed_amount e)"
    and ex: "- 8 \<le> expo (dec_add b (signed_amount e))"
    by (simp_all add: dec_add_numeric dec_add_expo)
  have "\<bar>dval b + dval (signed_amount e)\<bar> \<le> of_nat n * 10 ^ 11 + 10 ^ 11"
    using Cons.prems(3) se(2) by (rule order_trans [OF abs_triangle_ineq add_mono])
  then have "\<bar>dval (dec_add b (signed_amount e))\<bar> \<le> of_nat (Suc n) * 10 ^ 11"
    by (simp add: add distrib_right)
  with Cons.IH [of "dec_add b (signed_amount e)" "Suc n"] Cons.prems ex
  show ?case by (simp add: add s(2) credits_less_debits_def)
qed

text \<open>
  Claim C15. The cash balance of a virtual account is what its ledger credits less what it debits,
  with no rounding, for ledgers of up to ninety-nine million entries whose amounts fit their
  column; it therefore does not depend on the order in which the database returns the rows.
\<close>

theorem cash_balance_is_credits_less_debits:
  assumes "list_all (\<lambda>e. numeric_19_8 (le_amount e)) (entries_of account_id d)"
    and "length (entries_of account_id d) \<le> 99000000"
  shows "dval (get_virtual_cash_balance account_id d) = credits_less_debits (entries_of account_id d)
    \<and> (mset es = mset (entries_of account_id d) \<longrightarrow>
         dval (cash_of es) = dval (get_virtual_cash_balance account_id d))"
proof -
  have sum: "dval (cash_of xs) = credits_less_debits xs"
    if "mset xs = mset (entries_of account_id d)" for xs
  proof -
    have "set xs = set (entries_of account_id d)" using that by (rule mset_eq_setD)
    moreover have "length xs = length (entries_of account_id d)" using that by (rule mset_eq_length)
    ultimately have "list_all (\<lambda>e. numeric_19_8 (le_amount e)) xs" and "length xs \<le> 99000000"
      using assms by (simp_all add: list_all_iff)
    with cash_foldl [of xs "Dec 0 0" 0] show ?thesis by (simp add: cash_of_def dval_Dec)
  qed
  moreover have "credits_less_debits es = credits_less_debits (entries_of account_id d)"
    if "mset es = mset (entries_of account_id d)"
    unfolding credits_less_debits_def using that
    by (intro arg_cong [of "mset _" "mset _" sum_mset, simplified sum_mset_sum_list])
      (simp add: mset_map flip: that)
  ultimately show ?thesis by (simp add: get_virtual_cash_balance_def)
qed

definition sample_entry :: "uuid \<Rightarrow> time \<Rightarrow> string \<Rightarrow> decimal \<Rightarrow> string \<Rightarrow> ledger_entry" where
  "sample_entry i t dir amount cur =
     \<lparr> le_id = i, le_account_id = ''a1'', le_entry_type = ''deposit'', le_direction = dir,
       le_amount = amount, le_currency = cur, le_symbol = None, le_quantity = None,
       le_reference_type = None, le_reference_id = None, le_description = None, le_metadata = [],
       le_occurred_at = t \<rparr>"

definition sample_ledger :: db where
  "sample_ledger = empty_db \<lparr> db_ledger :=
     [sample_entry ''e1'' 1 ''credit'' (Dec 10050 (- 2)) ''USD'',
      sample_entry ''e2'' 2 ''debit'' (Dec 100 0) ''XAF''] \<rparr>"

lemma cash_balance_is_credits_less_debits_witness:
  "dval (get_virtual_cash_balance ''a1'' sample_ledger) = 1 / 2"
proof -
  have es: "entries_of ''a1'' sample_ledger =
      [sample_entry ''e1'' 1 ''credit'' (Dec 10050 (- 2)) ''USD'',
       sample_entry ''e2'' 2 ''debit'' (Dec 100 0) ''XAF'']"
    by (simp add: entries_of_def sample_ledger_def sample_entry_def)
  have "credits_less_debits (entries_of ''a1'' sample_ledger) = 1 / 2"
    by (simp add: es credits_less_debits_def sample_entry_def dval_Dec power_int_def power2_eq_square)
  moreover have "list_all (\<lambda>e. numeric_19_8 (le_amount e)) (entries_of ''a1'' sample_ledger)"
    by (simp add: es sample_entry_def numeric_19_8_iff dval_Dec power_int_def power2_eq_square)
  ultimately show ?thesis
    using cash_balance_is_credits_less_debits [of "''a1''" sample_ledger "[]"] by (simp add: es)
qed

text \<open>
  The balance ignores the entries' currencies, although the account is in US dollars: a
  debit of a hundred francs (as the refund webhook books it, in the refund's currency) takes a
  hundred off the dollar balance, so that 100.50 dollars become 0.50.
\<close>

lemma cash_balance_mixes_currencies:
  "get_virtual_cash_balance ''a1'' sample_ledger = Dec 50 (- 2)
   \<and> map le_currency (entries_of ''a1'' sample_ledger) = [''USD'', ''XAF'']"
  by code_simp

section \<open>The ledger by pages\<close>

text \<open>
  \<^verbatim>\<open>uuid.UUID(text)\<close>: an optional URN prefix or braces, hyphens anywhere, thirty-two hexadecimal
  digits; the result is printed in the canonical form.
\<close>

definition canonical_uuid :: "string \<Rightarrow> uuid" where
  "canonical_uuid h =
     take 8 h @ ''-'' @ take 4 (drop 8 h) @ ''-'' @ take 4 (drop 12 h) @ ''-'' @ take 4 (drop 16 h)
     @ ''-'' @ drop 20 h"

definition parse_uuid :: "string \<Rightarrow> exn + uuid" where
  "parse_uuid s =
     (let s1 = remove_all ''urn:'' s (length s); s2 = remove_all ''uuid:'' s1 (length s1);
          brace = (\<lambda>c. c = CHR ''{'' \<or> c = CHR ''}'');
          s3 = rev (dropWhile brace (rev (dropWhile brace s2)));
          h = filter (\<lambda>c. c \<noteq> CHR ''-'') s3
      in if length h = 32 \<and> list_all is_hex h then Inr (canonical_uuid (py_lower h))
         else Inl (ValueError ''badly formed hexadecimal UUID string''))"

definition entry_key :: "ledger_entry \<Rightarrow> time \<times> uuid" where
  "entry_key e = (le_occurred_at e, le_id e)"

text \<open>\<^verbatim>\<open>order_by(occurred_at.desc(), id.desc())\<close>: UUIDs compare like their canonical texts.\<close>

definition newest_first :: "ledger_entry list \<Rightarrow> ledger_entry list" where
  "newest_first es = rev (sort_key entry_key es)"

definition older_than :: "ledger_entry \<Rightarrow> ledger_entry \<Rightarrow> bool" where
  "older_than token e \<longleftrightarrow>
     le_occurred_at e < le_occurred_at token
     \<or> le_occurred_at e = le_occurred_at token \<and> le_id e < le_id token"

record ledger_row =
  lr_id :: string
  lr_activity_type :: string
  lr_symbol :: "string option"
  lr_side :: string
  lr_quantity :: "string option"
  lr_amount :: string
  lr_occurred_at :: string
  lr_description :: string

definition capitalize :: "string \<Rightarrow> string" where
  "capitalize s = (case s of [] \<Rightarrow> [] | c # r \<Rightarrow> upper_char c # py_lower r)"

definition ledger_row_of :: "ledger_entry \<Rightarrow> ledger_row" where
  "ledger_row_of e =
     \<lparr> lr_id = le_id e, lr_activity_type = py_upper (le_entry_type e), lr_symbol = le_symbol e,
       lr_side = le_direction e, lr_quantity = map_option dec_str (le_quantity e),
       lr_amount = dec_str (if le_direction e = ''credit'' then le_amount e else dec_neg (le_amount e)),
       lr_occurred_at = isoformat (le_occurred_at e),
       lr_description = (if is_set (le_description e) then the (le_description e)
          else capitalize (map (\<lambda>c. if c = CHR ''_'' then CHR '' '' else c) (le_entry_type e))) \<rparr>"

record ledger_page =
  lp_account_id :: string
  lp_transactions :: "ledger_row list"
  lp_count :: nat
  lp_next_page_token :: "string option"

definition bad_token :: exn where
  "bad_token = HTTPException 400 ''Invalid transaction page token''"

text \<open>The entries of the account, those behind the token's entry when there is a token.\<close>

definition selected_entries :: "virtual_account \<Rightarrow> string option \<Rightarrow> db \<Rightarrow> exn + ledger_entry list" where
  "selected_entries account page_token d =
     (let mine = entries_of (va_id account) d in
      case page_token of
        None \<Rightarrow> Inr mine
      | Some token \<Rightarrow>
          (case parse_uuid token of
             Inl _ \<Rightarrow> Inl bad_token
           | Inr token_id \<Rightarrow>
               bindE (scalar_one_or_none (filter (\<lambda>e. le_id e = token_id) mine)) (\<lambda>found.
               case found of None \<Rightarrow> Inl bad_token
               | Some token_entry \<Rightarrow> Inr (filter (older_than token_entry) mine))))"

definition ledger_page_of ::
  "virtual_account \<Rightarrow> int \<Rightarrow> string option \<Rightarrow> db \<Rightarrow> exn + ledger_page" where
  "ledger_page_of account limit page_token d =
     bindE (selected_entries account page_token d) (\<lambda>selected.
     let entries = take (nat limit) (newest_first selected);
         transactions = map ledger_row_of entries
     in Inr \<lparr> lp_account_id = virtual_account_public_id account,
              lp_transactions = transactions, lp_count = length transactions,
              lp_next_page_token =
                (if int (length entries) = limit \<and> entries \<noteq> [] then Some (le_id (last entries))
                 else None) \<rparr>)"

text \<open>The handler; FastAPI rejects limits and token lengths outside their bounds with a 422.\<close>

definition get_virtual_portfolio_transactions ::
  "uuid \<Rightarrow> time \<Rightarrow> (db \<Rightarrow> db) \<Rightarrow> int \<Rightarrow> string option \<Rightarrow> uuid \<Rightarrow> db \<Rightarrow> (exn + ledger_page) \<times> db" where
  "get_virtual_portfolio_transactions fresh now meanwhile limit page_token user_id d =
     (if limit < 1 \<or> 100 < limit
         \<or> (case page_token of None \<Rightarrow> False | Some t \<Rightarrow> t = [] \<or> 64 < length t)
      then (Inl (HTTPException 422 ''''), d)
      else case get_or_create_virtual_account fresh now meanwhile user_id d of
        (Inl e, d') \<Rightarrow> (Inl e, d')
      | (Inr account, d') \<Rightarrow> (ledger_page_of account limit page_token d', d'))"

section \<open>Following the page tokens\<close>

text \<open>A client that fetches pages until there is no next token, at most \<open>n\<close> of them.\<close>

primrec walk :: "nat \<Rightarrow> (string option \<Rightarrow> exn + ledger_page) \<Rightarrow> string option \<Rightarrow> exn + string list" where
  "walk 0 fetch tok = Inl (RuntimeError ''too many pages'')"
| "walk (Suc n) fetch tok =
     bindE (fetch tok) (\<lambda>p.
     let ids = map lr_id (lp_transactions p) in
     case lp_next_page_token p of
       None \<Rightarrow> Inr ids
     | Some t \<Rightarrow> bindE (walk n fetch (Some t)) (\<lambda>rest. Inr (ids @ rest)))"

text \<open>The primary keys of the ledger: distinct, and in the form the database prints them.\<close>

definition ledger_ids_ok :: "db \<Rightarrow> bool" where
  "ledger_ids_ok d \<longleftrightarrow>
     distinct (map le_id (db_ledger d)) \<and> list_all (\<lambda>e. parse_uuid (le_id e) = Inr (le_id e)) (db_ledger d)"

lemma parse_uuid_length: "parse_uuid s = Inr i \<Longrightarrow> length i = 36"
  by (auto simp: parse_uuid_def Let_def canonical_uuid_def split: if_splits)

lemma older_than_key: "older_than t e \<longleftrightarrow> entry_key e < entry_key t"
  by (auto simp: older_than_def entry_key_def)

lemma newest_first_sorted:
  assumes "distinct (map le_id es)"
  shows "sorted_wrt older_than (newest_first es)"
proof -
  have "distinct (map entry_key es)"
    using assms by (auto simp: distinct_map entry_key_def inj_on_def)
  then have "distinct (map entry_key (sort_key entry_key es))"
    by (metis distinct_map distinct_sort set_sort)
  then have "sorted_wrt (<) (map entry_key (sort_key entry_key es))"
    by (simp add: strict_sorted_iff)
  then show ?thesis
    by (simp add: newest_first_def sorted_wrt_rev sorted_wrt_map older_than_key)
qed

lemma set_newest_first [simp]: "set (newest_first es) = set es"
  by (simp add: newest_first_def)

lemma length_newest_first [simp]: "length (newest_first es) = length es"
  by (simp add: newest_first_def)

lemma newest_first_Nil_iff [simp]: "newest_first es = [] \<longleftrightarrow> es = []"
  by (metis length_0_conv length_newest_first)

lemma newest_first_filter: "newest_first (filter P es) = filter P (newest_first es)"
  by (simp add: newest_first_def filter_sort flip: rev_filter)

lemma older_than_after:
  assumes "sorted_wrt older_than (us @ t # vs)"
  shows "filter (older_than t) (us @ t # vs) = vs"
proof -
  have "\<not> older_than t u" if "u \<in> set us" for u
    using assms that by (auto simp: sorted_wrt_append older_than_key)
  moreover have "\<not> older_than t t" by (simp add: older_than_key)
  moreover have "older_than t v" if "v \<in> set vs" for v
    using assms that by (simp add: sorted_wrt_append)
  ultimately show ?thesis by (simp add: filter_empty_conv filter_id_conv)
qed

text \<open>What is left of the ledger behind a token.\<close>

definition behind :: "ledger_entry list \<Rightarrow> string option \<Rightarrow> ledger_entry list \<Rightarrow> bool" where
  "behind ledger tok rest \<longleftrightarrow>
     (case tok of None \<Rightarrow> rest = ledger
      | Some i \<Rightarrow> \<exists>us t. ledger = us @ t # rest \<and> le_id t = i)"

lemma lr_id_row [simp]: "map (lr_id \<circ> ledger_row_of) es = map le_id es"
  by (simp add: ledger_row_of_def)

lemma ledger_page_behind:
  assumes ids: "ledger_ids_ok d"
    and tok: "behind (newest_first (entries_of (va_id a) d)) tok rest" and limit: "1 \<le> limit"
  shows "\<exists>p. ledger_page_of a limit tok d = Inr p
    \<and> map lr_id (lp_transactions p) = map le_id (take (nat limit) rest)
    \<and> lp_next_page_token p = (if int (length (take (nat limit) rest)) = limit
         then Some (le_id (last (take (nat limit) rest))) else None)"
proof -
  let ?es = "entries_of (va_id a) d"
  have dist: "distinct (map le_id ?es)"
    using ids by (simp add: ledger_ids_ok_def entries_of_def distinct_map_filter)
  have "\<exists>sel. newest_first sel = rest \<and> selected_entries a tok d = Inr sel"
  proof (cases tok)
    case None
    then show ?thesis using tok by (simp add: behind_def selected_entries_def)
  next
    case (Some i)
    with tok obtain us t where split: "newest_first ?es = us @ t # rest" and i: "le_id t = i"
      by (auto simp: behind_def)
    have t: "t \<in> set ?es"
      by (subst set_newest_first [symmetric], subst split) simp
    then have "parse_uuid i = Inr i"
      using ids i by (auto simp: ledger_ids_ok_def entries_of_def list_all_iff)
    moreover have "filter (\<lambda>e. le_id e = i) ?es = [t]"
      using dist t i by (rule distinct_filter_key)
    moreover have "newest_first (filter (older_than t) ?es) = rest"
      using newest_first_sorted [OF dist] unfolding newest_first_filter split by (rule older_than_after)
    ultimately show ?thesis by (simp add: Some scalar_one_or_none_def selected_entries_def)
  qed
  then show ?thesis using limit by (auto simp: ledger_page_of_def Let_def)
qed

lemma behind_next:
  assumes "behind ledger tok rest" and "1 \<le> n" and "length (take n rest) = n"
  shows "behind ledger (Some (le_id (last (take n rest)))) (drop n rest)"
proof -
  have "take n rest \<noteq> []" using assms(2,3) by (cases "take n rest") auto
  then have rest: "rest = butlast (take n rest) @ last (take n rest) # drop n rest"
    by (metis append_take_drop_id append_butlast_last_id append_assoc append_Cons append_Nil)
  obtain us where "ledger = us @ rest"
    using assms(1) by (cases tok) (auto simp: behind_def dest: meta_spec [of _ "_ @ [_]"])
  then have "ledger = (us @ butlast (take n rest)) @ last (take n rest) # drop n rest"
    using rest by simp
  then show ?thesis unfolding behind_def option.case by blast
qed

lemma walk_behind:
  assumes "ledger_ids_ok d" and "1 \<le> limit"
    and fetch: "\<And>tok rest. behind (newest_first (entries_of (va_id a) d)) tok rest \<Longrightarrow>
          fetch tok = ledger_page_of a limit tok d"
  shows "behind (newest_first (entries_of (va_id a) d)) tok rest \<Longrightarrow> length rest < n \<Longrightarrow>
    walk n fetch tok = Inr (map le_id rest)"
proof (induction n arbitrary: tok rest)
  case (Suc n)
  obtain p where p: "fetch tok = Inr p" "map lr_id (lp_transactions p) = map le_id (take (nat limit) rest)"
    "lp_next_page_token p = (if int (length (take (nat limit) rest)) = limit
         then Some (le_id (last (take (nat limit) rest))) else None)"
    using ledger_page_behind [OF assms(1) Suc.prems(1) assms(2)] fetch [OF Suc.prems(1)] by auto
  show ?case
  proof (cases "int (length (take (nat limit) rest)) = limit")
    case True
    then have full: "length (take (nat limit) rest) = nat limit" and one: "1 \<le> nat limit"
      using assms(2) by linarith+
    have "walk n fetch (Some (le_id (last (take (nat limit) rest)))) = Inr (map le_id (drop (nat limit) rest))"
      by (rule Suc.IH [OF behind_next [OF Suc.prems(1) one full]]) (use full one Suc.prems(2) in auto)
    then show ?thesis using True by (simp add: p Let_def flip: map_append)
  next
    case False
    then have "take (nat limit) rest = rest" using assms(2) by auto
    then show ?thesis using False by (simp add: p)
  qed
qed simp

text \<open>
  Claim C16. Following the page tokens from the first page returns the whole ledger of the user's
  virtual account, newest entry first, every entry exactly once, for any page size from one to a
  hundred; as many requests as there are entries, plus one, are enough.
\<close>

theorem ledger_walk_complete:
  assumes "one_account_each d" and "row_lookup va_user_id u (db_accounts d) = Some a"
    and "ledger_ids_ok d" and "1 \<le> limit" and "limit \<le> 100"
    and "length (entries_of (va_id a) d) < n"
  shows "walk n (\<lambda>tok. fst (get_virtual_portfolio_transactions fresh now meanwhile limit tok u d)) None
           = Inr (map le_id (newest_first (entries_of (va_id a) d)))
    \<and> distinct (map le_id (newest_first (entries_of (va_id a) d)))"
proof
  show "walk n (\<lambda>tok. fst (get_virtual_portfolio_transactions fresh now meanwhile limit tok u d)) None
      = Inr (map le_id (newest_first (entries_of (va_id a) d)))"
  proof (rule walk_behind [OF assms(3,4)])
    fix tok rest assume b: "behind (newest_first (entries_of (va_id a) d)) tok rest"
    have "length i = 36" if "tok = Some i" for i
    proof -
      from b that obtain us t where "newest_first (entries_of (va_id a) d) = us @ t # rest" "le_id t = i"
        by (auto simp: behind_def)
      then have "t \<in> set (entries_of (va_id a) d)" by (subst set_newest_first [symmetric]) simp
      then have "parse_uuid i = Inr i" using assms(3) \<open>le_id t = i\<close>
        by (auto simp: ledger_ids_ok_def entries_of_def list_all_iff)
      then show ?thesis by (rule parse_uuid_length)
    qed
    then show "fst (get_virtual_portfolio_transactions fresh now meanwhile limit tok u d)
        = ledger_page_of a limit tok d"
      using assms(1,2,4,5)
      by (cases tok) (auto simp: get_virtual_portfolio_transactions_def get_or_create_virtual_account_def
          find_account_lookup)
  qed (use assms(6) in \<open>simp_all add: behind_def\<close>)
  have "distinct (map le_id (entries_of (va_id a) d))"
    using assms(3) by (simp add: ledger_ids_ok_def entries_of_def distinct_map_filter)
  then show "distinct (map le_id (newest_first (entries_of (va_id a) d)))"
    by (simp add: newest_first_def rev_map [symmetric] distinct_map)
qed

definition id_of :: "string \<Rightarrow> uuid" where
  "id_of c = concat [replicate 8 (hd c), ''-0000-4000-8000-'', replicate 12 (hd c)]"

definition walk_db :: db where
  "walk_db = empty_db \<lparr> db_accounts := [sample_account ''a1'' ''u1''],
     db_ledger := [sample_entry (id_of ''b'') 5 ''credit'' (Dec 1 0) ''USD'',
                   sample_entry (id_of ''a'') 5 ''debit'' (Dec 1 0) ''USD'',
                   sample_entry (id_of ''c'') 7 ''credit'' (Dec 2 0) ''USD''] \<rparr>"

lemma ledger_walk_complete_witness:
  "walk 4 (\<lambda>tok. fst (get_virtual_portfolio_transactions ''x'' 0 (\<lambda>d. d) 2 tok ''u1'' walk_db)) None
     = Inr [id_of ''c'', id_of ''b'', id_of ''a'']"
proof -
  have "ledger_ids_ok walk_db" by code_simp
  moreover have "newest_first (entries_of ''a1'' walk_db)
      = [sample_entry (id_of ''c'') 7 ''credit'' (Dec 2 0) ''USD'',
         sample_entry (id_of ''b'') 5 ''credit'' (Dec 1 0) ''USD'',
         sample_entry (id_of ''a'') 5 ''debit'' (Dec 1 0) ''USD'']" by code_simp
  moreover have "length (entries_of ''a1'' walk_db) < 4"
    by (simp add: entries_of_def walk_db_def)
  ultimately show ?thesis
    using ledger_walk_complete [of walk_db "''u1''" "sample_account ''a1'' ''u1''" 2 4 "''x''" 0 "\<lambda>d. d"]
    by (simp add: one_account_each_def walk_db_def sample_account_def sample_entry_def)
qed

text \<open>A page shows entries of the caller's own account only.\<close>

lemma ledger_page_own:
  assumes "ledger_page_of a limit tok d = Inr p" and "i \<in> set (map lr_id (lp_transactions p))"
  shows "\<exists>e\<in>set (db_ledger d). le_id e = i \<and> le_account_id e = va_id a"
proof -
  from assms(1) obtain sel where s: "selected_entries a tok d = Inr sel"
    and p: "map lr_id (lp_transactions p) = map le_id (take (nat limit) (newest_first sel))"
    by (auto simp: ledger_page_of_def Let_def bindE_eq_Inr_iff)
  from s have sel: "set sel \<subseteq> set (entries_of (va_id a) d)"
    by (auto simp: selected_entries_def Let_def bindE_eq_Inr_iff split: option.splits sum.splits)
  from assms(2) obtain e where "e \<in> set (take (nat limit) (newest_first sel))" "le_id e = i"
    unfolding p by auto
  moreover from this(1) have "e \<in> set sel" by (metis in_set_takeD set_newest_first)
  ultimately show ?thesis using sel by (auto simp: entries_of_def)
qed

section \<open>The portfolio projection\<close>

record portfolio_position =
  pp_asset_id :: string
  pp_symbol :: string
  pp_asset_class :: string
  pp_qty :: string
  pp_market_value :: "string option"
  pp_cost_basis :: string
  pp_unrealized_pl :: "string option"
  pp_unrealized_plpc :: "string option"
  pp_current_price :: "string option"

record portfolio =
  pf_account_id :: string
  pf_status :: string
  pf_currency :: string
  pf_cash :: string
  pf_equity :: string
  pf_buying_power :: string
  pf_portfolio_value :: string
  pf_unrealized_pl :: string
  pf_positions :: "portfolio_position list"
  pf_reconciliation_status :: string
  pf_read_only :: bool

text \<open>\<^verbatim>\<open>histories.get(symbol, {}).get("last_price")\<close>, read as a decimal.\<close>

definition current_price_of :: "(string \<times> jobj) list \<Rightarrow> string \<Rightarrow> exn + decimal option" where
  "current_price_of histories symbol =
     (let snapshot = (case map_of histories symbol of None \<Rightarrow> [] | Some s \<Rightarrow> s) in
      case jget ''last_price'' snapshot of
        JNull \<Rightarrow> Inr None
      | v \<Rightarrow> bindE (dec_parse (py_str v)) (\<lambda>x. Inr (Some x)))"

text \<open>One iteration: the position's row, and the two running totals.\<close>

definition position_step ::
  "(string \<times> jobj) list \<Rightarrow> virtual_position \<Rightarrow> portfolio_position list \<times> decimal \<times> decimal
   \<Rightarrow> exn + portfolio_position list \<times> decimal \<times> decimal" where
  "position_step histories pos acc =
     (case acc of (rows, total_value, total_pl) \<Rightarrow>
      let quantity = dec_or_0 (vp_quantity pos); average_cost = dec_or_0 (vp_average_cost pos) in
      bindE (current_price_of histories (vp_symbol pos)) (\<lambda>price.
      let market_value = map_option (dec_mul quantity) price;
          cost_basis = dec_mul quantity average_cost;
          unrealized_pl = map_option (\<lambda>m. dec_sub m cost_basis) market_value
      in
      bindE (case unrealized_pl of
               None \<Rightarrow> Inr None
             | Some pl \<Rightarrow> if coeff cost_basis = 0 then Inr None
                          else bindE (dec_div pl cost_basis) (\<lambda>q. Inr (Some (dec_str q)))) (\<lambda>plpc.
      Inr (rows @
             [\<lparr> pp_asset_id = vp_id pos, pp_symbol = vp_symbol pos,
                pp_asset_class = (if contains ''/'' (vp_symbol pos) then ''crypto'' else ''us_equity''),
                pp_qty = dec_str quantity, pp_market_value = map_option dec_str market_value,
                pp_cost_basis = dec_str cost_basis, pp_unrealized_pl = map_option dec_str unrealized_pl,
                pp_unrealized_plpc = plpc, pp_current_price = map_option dec_str price \<rparr>],
           (case market_value of None \<Rightarrow> total_value | Some m \<Rightarrow> dec_add total_value m),
           (case unrealized_pl of None \<Rightarrow> total_pl | Some pl \<Rightarrow> dec_add total_pl pl)))))"

primrec positions_loop ::
  "(string \<times> jobj) list \<Rightarrow> virtual_position list \<Rightarrow> portfolio_position list \<times> decimal \<times> decimal
   \<Rightarrow> exn + portfolio_position list \<times> decimal \<times> decimal" where
  "positions_loop histories [] acc = Inr acc"
| "positions_loop histories (pos # rest) acc =
     bindE (position_step histories pos acc) (positions_loop histories rest)"

text \<open>
  \<open>histories\<close> is what \<^verbatim>\<open>get_market_histories\<close> returns for the symbols.
\<close>

definition build_virtual_portfolio ::
  "(string list \<Rightarrow> (string \<times> jobj) list) \<Rightarrow> virtual_account \<Rightarrow> db \<Rightarrow> exn + portfolio" where
  "build_virtual_portfolio histories account d =
     (let held = sort_key vp_symbol (filter (\<lambda>p. vp_account_id p = va_id account) (db_positions d)) in
      bindE (positions_loop (if held = [] then [] else histories (map vp_symbol held)) held
               ([], Dec 0 0, Dec 0 0)) (\<lambda>(rows, total_value, total_pl).
      let cash = get_virtual_cash_balance (va_id account) d;
          equity = dec_add cash total_value;
          public_id = virtual_account_public_id account
      in Inr \<lparr> pf_account_id = public_id, pf_status = va_status account,
               pf_currency = va_currency account, pf_cash = dec_str cash, pf_equity = dec_str equity,
               pf_buying_power = dec_str (py_max cash (Dec 0 0)), pf_portfolio_value = dec_str equity,
               pf_unrealized_pl = dec_str total_pl, pf_positions = rows,
               pf_reconciliation_status = ''pending'', pf_read_only = True \<rparr>))"

definition get_virtual_portfolio ::
  "(string list \<Rightarrow> (string \<times> jobj) list) \<Rightarrow> uuid \<Rightarrow> time \<Rightarrow> (db \<Rightarrow> db) \<Rightarrow> uuid \<Rightarrow> db
   \<Rightarrow> (exn + portfolio) \<times> db" where
  "get_virtual_portfolio histories fresh now meanwhile user_id d =
     (case get_or_create_virtual_account fresh now meanwhile user_id d of
        (Inl e, d') \<Rightarrow> (Inl e, d')
      | (Inr account, d') \<Rightarrow> (build_virtual_portfolio histories account d', d'))"

section \<open>The back-office summary\<close>

record summary_row =
  sr_account_id :: string
  sr_status :: string
  sr_currency :: string
  sr_cash_balance :: string
  sr_position_count :: nat
  sr_ledger_entry_count :: nat
  sr_reconciliation_status :: string
  sr_last_reconciled_at :: "string option"

record summary =
  sm_accounts :: "summary_row list"
  sm_account_count :: nat
  sm_pending_reconciliation_count :: nat
  sm_position_count :: nat
  sm_aggregate_cash_balance :: string

definition latest_time :: "time option list \<Rightarrow> time option" where
  "latest_time ts =
     (let known = map the (filter (\<lambda>t. t \<noteq> None) ts) in
      if known = [] then None else Some (foldl max (hd known) (tl known)))"

definition positions_of :: "uuid \<Rightarrow> db \<Rightarrow> virtual_position list" where
  "positions_of account_id d = filter (\<lambda>p. vp_account_id p = account_id) (db_positions d)"

definition last_reconciled :: "db \<Rightarrow> virtual_account \<Rightarrow> time option" where
  "last_reconciled d account = latest_time (map vp_reconciled_at (positions_of (va_id account) d))"

definition summary_row_of :: "db \<Rightarrow> virtual_account \<Rightarrow> summary_row" where
  "summary_row_of d account =
     \<lparr> sr_account_id = virtual_account_public_id account, sr_status = va_status account,
       sr_currency = va_currency account,
       sr_cash_balance = dec_str (get_virtual_cash_balance (va_id account) d),
       sr_position_count = length (positions_of (va_id account) d),
       sr_ledger_entry_count = length (entries_of (va_id account) d),
       sr_reconciliation_status = (if last_reconciled d account \<noteq> None then ''reconciled'' else ''pending''),
       sr_last_reconciled_at = map_option isoformat (last_reconciled d account) \<rparr>"

definition summary_accounts :: "db \<Rightarrow> virtual_account list" where
  "summary_accounts d = take 100 (sort_key (\<lambda>a. - va_created_at a) (db_accounts d))"

definition get_virtual_reconciliation_summary :: "db \<Rightarrow> summary" where
  "get_virtual_reconciliation_summary d =
     (let accounts = summary_accounts d; rows = map (summary_row_of d) accounts in
      \<lparr> sm_accounts = rows,
        sm_account_count = length rows,
        sm_pending_reconciliation_count =
          length (filter (\<lambda>r. sr_reconciliation_status r = ''pending'') rows),
        sm_position_count = foldl (\<lambda>n r. n + sr_position_count r) 0 rows,
        sm_aggregate_cash_balance =
          dec_str (foldl (\<lambda>total a. dec_add total (get_virtual_cash_balance (va_id a) d)) (Dec 0 0) accounts) \<rparr>)"

lemma position_step_ok:
  assumes "current_price_of h (vp_symbol pos) = Inr price"
  shows "is_ok (position_step h pos acc)"
proof -
  have "\<exists>q. dec_div a b = Inr q" if "coeff b \<noteq> 0" for a b
    using that by (auto simp: dec_div_def Let_def split: prod.splits)
  then show ?thesis using assms
    by (cases acc; cases price)
      (auto simp: position_step_def Let_def is_ok_iff bindE_eq_Inr_iff split: option.splits)
qed

text \<open>
  The portfolio never fails on a position: with every price missing or a number, no division by a
  zero cost basis happens and the projection returns.
\<close>

lemma positions_loop_ok:
  assumes "\<And>pos. pos \<in> set held \<Longrightarrow> is_ok (current_price_of h (vp_symbol pos))"
  shows "is_ok (positions_loop h held acc)"
  using assms
proof (induction held arbitrary: acc)
  case (Cons pos held)
  then obtain price where "current_price_of h (vp_symbol pos) = Inr price" by (fastforce simp: is_ok_iff)
  then have "is_ok (position_step h pos acc)" by (rule position_step_ok)
  then obtain acc' where "position_step h pos acc = Inr acc'" by (auto simp: is_ok_iff)
  moreover have "is_ok (positions_loop h held acc')" by (rule Cons.IH) (use Cons.prems in simp)
  ultimately show ?case by simp
qed simp

lemma build_virtual_portfolio_ok:
  assumes "\<And>pos. pos \<in> set (positions_of (va_id a) d) \<Longrightarrow>
      is_ok (current_price_of (histories (map vp_symbol (sort_key vp_symbol (positions_of (va_id a) d)))) (vp_symbol pos))"
  shows "is_ok (build_virtual_portfolio histories a d)"
proof -
  let ?held = "sort_key vp_symbol (positions_of (va_id a) d)"
  have "is_ok (positions_loop (if ?held = [] then [] else histories (map vp_symbol ?held)) ?held ([], Dec 0 0, Dec 0 0))"
  proof (cases "?held = []")
    case True
    then show ?thesis by simp
  next
    case False
    have "is_ok (positions_loop (histories (map vp_symbol ?held)) ?held ([], Dec 0 0, Dec 0 0))"
      by (rule positions_loop_ok) (use assms in simp)
    with False show ?thesis by simp
  qed
  then show ?thesis
    by (auto simp: build_virtual_portfolio_def positions_of_def is_ok_iff Let_def)
qed

end
