(* ===== verification/AFM_Security.thy ===== *)
theory AFM_Security
  imports AFM_Http AFM_Ledger
begin

text \<open>
  \<^verbatim>\<open>config/security.py\<close>: tokens, passwords, webhook signatures and the two authentication
  dependencies.  PyJWT, bcrypt, the hash functions and the random source are parameters; what the
  theorems need of PyJWT is the predicate \<open>jwt_library\<close>.
\<close>

section \<open>Passwords, keys and signatures\<close>

text \<open>\<open>checkpw\<close> is bcrypt's check, \<open>None\<close> when it raises \<^verbatim>\<open>ValueError\<close> or \<^verbatim>\<open>TypeError\<close>.\<close>

definition verify_password :: "(string \<Rightarrow> string \<Rightarrow> bool option) \<Rightarrow> string \<Rightarrow> string \<Rightarrow> bool" where
  "verify_password checkpw plain hashed =
     (case checkpw plain hashed of None \<Rightarrow> False | Some b \<Rightarrow> b)"

definition hash_password :: "(string \<Rightarrow> string \<Rightarrow> string) \<Rightarrow> string \<Rightarrow> string \<Rightarrow> string" where
  "hash_password hashpw salt password = hashpw password salt"

definition generate_api_key :: "string \<Rightarrow> string" where
  "generate_api_key random = ''afm_live_'' @ random"

definition generate_api_secret :: "string \<Rightarrow> string" where
  "generate_api_secret random = random"

definition hash_idempotency_key :: "(string \<Rightarrow> string) \<Rightarrow> string \<Rightarrow> string" where
  "hash_idempotency_key sha256 key = sha256 key"

definition verify_webhook_signature ::
  "(string \<Rightarrow> string \<Rightarrow> string) \<Rightarrow> string \<Rightarrow> string \<Rightarrow> string \<Rightarrow> bool" where
  "verify_webhook_signature hmac256 payload signature secret \<longleftrightarrow>
     hmac256 secret payload = py_strip signature"

text \<open>\<^verbatim>\<open>json.dumps(data, separators=(",", ":"), sort_keys=True)\<close>: keys sorted at every level.\<close>

fun canonical_json :: "json \<Rightarrow> json" where
  "canonical_json (JArr xs) = JArr (map canonical_json xs)"
| "canonical_json (JObj kvs) = JObj (sort_key fst (map (\<lambda>(k, v). (k, canonical_json v)) kvs))"
| "canonical_json v = v"

definition canonical_data :: "jobj \<Rightarrow> string" where
  "canonical_data data = json_dumps (canonical_json (JObj data))"

definition verify_kora_webhook_signature ::
  "(string \<Rightarrow> string \<Rightarrow> string) \<Rightarrow> jobj \<Rightarrow> string \<Rightarrow> string \<Rightarrow> bool" where
  "verify_kora_webhook_signature hmac256 data signature secret =
     verify_webhook_signature hmac256 (canonical_data data) signature secret"

text \<open>The order of an object's members does not matter to the signature.\<close>

lemma canonical_data_perm:
  assumes "distinct (map fst d)" and "mset d = mset d'"
  shows "canonical_data d = canonical_data d'"
proof -
  let ?f = "\<lambda>(k, v). (k, canonical_json v)"
  have fst: "map fst (map ?f xs) = map fst xs" for xs :: jobj by (induction xs) auto
  have "mset (map ?f d) = mset (map ?f d')" using assms(2) by (simp only: mset_map)
  moreover have "inj_on fst (set (map ?f d))"
    using assms(1) fst [of d] by (metis distinct_map)
  ultimately have "sort_key fst (map ?f d) = sort_key fst (map ?f d')"
    by (intro sort_key_inj_key_eq) simp_all
  then show ?thesis by (simp add: canonical_data_def)
qed

section \<open>Tokens\<close>

text \<open>
  A token is an opaque value of type \<open>'tok\<close> and its claims are an object; times are seconds since the epoch, as PyJWT writes them.
\<close>

datatype jwt_result = JwtClaims jobj | JwtExpired | JwtInvalid

definition epoch_seconds :: "time \<Rightarrow> int" where
  "epoch_seconds t = t div seconds 1"

definition stamped_claims :: "time \<Rightarrow> time \<Rightarrow> string \<Rightarrow> jobj \<Rightarrow> jobj" where
  "stamped_claims expire issued kind data =
     jset ''type'' (JStr kind) (jset ''iat'' (JInt (epoch_seconds issued))
       (jset ''exp'' (JInt (epoch_seconds expire)) data))"

definition create_access_token ::
  "(jobj \<Rightarrow> string \<Rightarrow> 'tok) \<Rightarrow> settings \<Rightarrow> time \<Rightarrow> jobj \<Rightarrow> time option \<Rightarrow> 'tok" where
  "create_access_token jwt_encode st now data expires_delta =
     (let delta = (case expires_delta of None \<Rightarrow> minutes (access_token_expire_minutes st)
                   | Some x \<Rightarrow> if x \<noteq> 0 then x else minutes (access_token_expire_minutes st))
      in jwt_encode (stamped_claims (now + delta) now ''access'' data) (secret_key st))"

definition create_refresh_token ::
  "(jobj \<Rightarrow> string \<Rightarrow> 'tok) \<Rightarrow> settings \<Rightarrow> time \<Rightarrow> jobj \<Rightarrow> 'tok" where
  "create_refresh_token jwt_encode st now data =
     jwt_encode (stamped_claims (now + days (refresh_token_expire_days st)) now ''refresh'' data)
       (secret_key st)"

definition decode_token ::
  "('tok \<Rightarrow> string \<Rightarrow> time \<Rightarrow> jwt_result) \<Rightarrow> settings \<Rightarrow> time \<Rightarrow> 'tok \<Rightarrow> exn + jobj" where
  "decode_token jwt_decode st now token =
     (case jwt_decode token (secret_key st) now of
        JwtClaims payload \<Rightarrow> Inr payload
      | JwtExpired \<Rightarrow> Inl (raise AuthenticationError ''Token has expired'')
      | JwtInvalid \<Rightarrow> Inl (raise AuthenticationError ''Invalid token''))"

section \<open>The authentication dependencies\<close>

definition get_current_user_id ::
  "('tok \<Rightarrow> string \<Rightarrow> time \<Rightarrow> jwt_result) \<Rightarrow> settings \<Rightarrow> time \<Rightarrow> 'tok option \<Rightarrow> exn + uuid" where
  "get_current_user_id jwt_decode st now credentials =
     (case credentials of
        None \<Rightarrow> Inl (raise AuthenticationError ''Missing bearer token'')
      | Some token \<Rightarrow>
          bindE (decode_token jwt_decode st now token) (\<lambda>payload.
          if jget ''type'' payload \<noteq> JStr ''access''
          then Inl (raise AuthenticationError ''Invalid token type'')
          else if \<not> truthy (jget ''sub'' payload)
          then Inl (raise AuthenticationError ''Token missing subject claim'')
          else case parse_uuid (py_str (jget ''sub'' payload)) of
                 Inl _ \<Rightarrow> Inl (raise AuthenticationError ''Token subject is not a valid user id'')
               | Inr user_id \<Rightarrow> Inr user_id))"

definition backoffice_subjects :: "settings \<Rightarrow> string list" where
  "backoffice_subjects st =
     filter (\<lambda>v. v \<noteq> []) (map py_strip (split_on (CHR '','') (afm_backoffice_admin_subjects st)))"

definition get_current_backoffice_admin_id ::
  "('tok \<Rightarrow> string \<Rightarrow> time \<Rightarrow> jwt_result) \<Rightarrow> settings \<Rightarrow> time \<Rightarrow> 'tok option \<Rightarrow> exn + uuid" where
  "get_current_backoffice_admin_id jwt_decode st now credentials =
     bindE (get_current_user_id jwt_decode st now credentials) (\<lambda>user_id.
     if user_id \<notin> set (backoffice_subjects st)
     then Inl (raise AuthenticationError ''Back-office access is not authorized for this session'')
     else Inr user_id)"

section \<open>What the tokens promise\<close>

text \<open>
  The documented behaviour of the library that the service relies on: a token decodes, with the
  key it was encoded with, to its claims from its issue until its expiry and is expired from
  then on; and only a token encoded with the key decodes to claims.
\<close>

definition claims_exp :: "jobj \<Rightarrow> int" where
  "claims_exp c = (case jget ''exp'' c of JInt n \<Rightarrow> n | _ \<Rightarrow> 0)"

definition claims_iat :: "jobj \<Rightarrow> int" where
  "claims_iat c = (case jget ''iat'' c of JInt n \<Rightarrow> n | _ \<Rightarrow> 0)"

definition jwt_library :: "(jobj \<Rightarrow> string \<Rightarrow> 'tok) \<Rightarrow> ('tok \<Rightarrow> string \<Rightarrow> time \<Rightarrow> jwt_result) \<Rightarrow> bool" where
  "jwt_library enc dec \<longleftrightarrow>
     (\<forall>c key now. claims_iat c \<le> epoch_seconds now \<longrightarrow> epoch_seconds now < claims_exp c \<longrightarrow>
        dec (enc c key) key now = JwtClaims c)
   \<and> (\<forall>c key now. claims_iat c \<le> epoch_seconds now \<longrightarrow> claims_exp c \<le> epoch_seconds now \<longrightarrow>
        dec (enc c key) key now = JwtExpired)
   \<and> (\<forall>token key now c. dec token key now = JwtClaims c \<longrightarrow> token = enc c key)
   \<and> (\<forall>c c' key key'. enc c key = enc c' key' \<longrightarrow> c = c')"

lemma jwt_libraryD:
  assumes "jwt_library enc dec"
  shows "claims_iat c \<le> epoch_seconds now \<Longrightarrow> epoch_seconds now < claims_exp c \<Longrightarrow>
           dec (enc c key) key now = JwtClaims c"
    and "claims_iat c \<le> epoch_seconds now \<Longrightarrow> claims_exp c \<le> epoch_seconds now \<Longrightarrow>
           dec (enc c key) key now = JwtExpired"
    and "dec token key now = JwtClaims c \<Longrightarrow> token = enc c key"
    and "enc c key = enc c' key' \<Longrightarrow> c = c'"
  using assms unfolding jwt_library_def by blast+

lemma claims_stamped [simp]:
  "claims_exp (stamped_claims e i k d) = epoch_seconds e"
  "claims_iat (stamped_claims e i k d) = epoch_seconds i"
  "jget ''type'' (stamped_claims e i k d) = JStr k"
  "jget ''sub'' (stamped_claims e i k d) = jget ''sub'' d"
  by (simp_all add: claims_exp_def claims_iat_def stamped_claims_def)

lemma epoch_seconds_add: "epoch_seconds (t + seconds n) = epoch_seconds t + n"
  by (simp add: epoch_seconds_def seconds_def)

lemma epoch_seconds_mono: "t \<le> t' \<Longrightarrow> epoch_seconds t \<le> epoch_seconds t'"
  by (simp add: epoch_seconds_def seconds_def zdiv_mono1)

lemma epoch_seconds_less: "t + seconds n \<le> t' \<Longrightarrow> epoch_seconds t + n \<le> epoch_seconds t'"
  using epoch_seconds_mono [of "t + seconds n" t'] by (simp add: epoch_seconds_add)


text \<open>An instance of the library: a token is the pair of its claims and key.\<close>

definition pair_encode :: "jobj \<Rightarrow> string \<Rightarrow> jobj \<times> string" where
  "pair_encode c key = (c, key)"

definition pair_decode :: "jobj \<times> string \<Rightarrow> string \<Rightarrow> time \<Rightarrow> jwt_result" where
  "pair_decode token key now =
     (case token of (c, k) \<Rightarrow>
        if k \<noteq> key \<or> epoch_seconds now < claims_iat c then JwtInvalid
        else if epoch_seconds now < claims_exp c then JwtClaims c else JwtExpired)"

lemma pair_jwt: "jwt_library pair_encode pair_decode"
  by (auto simp: jwt_library_def pair_encode_def pair_decode_def split: if_splits)


text \<open>
  Claim C18. The back office is closed by default and opens to the configured subjects only: a
  caller admitted to it holds a valid access token whose subject is listed, and with the default
  empty list nobody is admitted.
\<close>

theorem backoffice_closed_by_default:
  "(get_current_backoffice_admin_id dec st now credentials = Inr uid \<longrightarrow>
      get_current_user_id dec st now credentials = Inr uid \<and> uid \<in> set (backoffice_subjects st))
   \<and> (afm_backoffice_admin_subjects st = '''' \<longrightarrow>
        \<not> is_ok (get_current_backoffice_admin_id dec st now credentials))"
  by (auto simp: get_current_backoffice_admin_id_def backoffice_subjects_def bindE_eq_Inr_iff is_ok_iff
      py_strip_def split: if_splits)

lemma backoffice_closed_by_default_witness:
  "\<not> is_ok (get_current_backoffice_admin_id pair_decode (default_settings []) 0 None)
   \<and> get_current_backoffice_admin_id pair_decode
       ((default_settings []) \<lparr> afm_backoffice_admin_subjects := id_of ''a'' \<rparr>) 0
       (Some (create_access_token pair_encode (default_settings []) 0 [(''sub'', JStr (id_of ''a''))] None))
       = Inr (id_of ''a'')
   \<and> id_of ''a'' \<in> set (backoffice_subjects ((default_settings []) \<lparr> afm_backoffice_admin_subjects := id_of ''a'' \<rparr>))"
proof -
  have "get_current_backoffice_admin_id pair_decode
       ((default_settings []) \<lparr> afm_backoffice_admin_subjects := id_of ''a'' \<rparr>) 0
       (Some (create_access_token pair_encode (default_settings []) 0 [(''sub'', JStr (id_of ''a''))] None))
       = Inr (id_of ''a'')" by code_simp
  moreover have "afm_backoffice_admin_subjects (default_settings []) = ''''"
    by (simp add: default_settings_def)
  ultimately show ?thesis using backoffice_closed_by_default by blast
qed

end
