(* ===== verification/AFM_Kora_Webhook.thy ===== *)
theory AFM_Kora_Webhook
  imports AFM_Reconciliation AFM_Security
begin

text \<open>
  The Kora webhook of \<^verbatim>\<open>api_gateway/main.py\<close> and its alert (\<^verbatim>\<open>api_gateway/kora_alerts.py\<close>): the
  signature check, the event store that deduplicates deliveries, and the reconciliation of the
  payment, payout or refund the event is about.  The handler commits the event first, processes it
  in a second transaction, and on an exception rolls that one back and marks the event as failed.
  HMAC-SHA-256, SHA-256 and the fresh row identifiers are parameters, and a request carries its
  text together with what \<^verbatim>\<open>json.loads\<close> makes of it.
\<close>

section \<open>Refund events\<close>

definition lower_status :: "jobj \<Rightarrow> string" where
  "lower_status data = py_lower (str_field ''status'' data)"

text \<open>\<^verbatim>\<open>{**(d or {}), ...}\<close>: several members set at once.\<close>

definition jset_all :: "(string \<times> json) list \<Rightarrow> jobj \<Rightarrow> jobj" where
  "jset_all kvs d = foldl (\<lambda>d (k, v). jset k v d) d kvs"

definition find_ledger_entry :: "string \<Rightarrow> string \<Rightarrow> db \<Rightarrow> exn + ledger_entry option" where
  "find_ledger_entry ref_type ref_id d =
     scalar_one_or_none (filter (\<lambda>e. le_reference_type e = Some ref_type \<and> le_reference_id e = Some ref_id)
       (db_ledger d))"

definition refund_ledger_entry :: "uuid \<Rightarrow> time \<Rightarrow> uuid \<Rightarrow> transaction \<Rightarrow> refund \<Rightarrow> ledger_entry" where
  "refund_ledger_entry fresh now account tx rf =
     \<lparr> le_id = fresh, le_account_id = account, le_entry_type = ''refund'', le_direction = ''debit'',
       le_amount = rf_amount rf, le_currency = rf_currency rf, le_symbol = None, le_quantity = None,
       le_reference_type = Some ''kora_refund'', le_reference_id = Some (rf_refund_reference rf),
       le_description = Some ''Kora pay-in refund reconciled'',
       le_metadata = [(''transaction_id'', JStr (tx_id tx)),
                      (''payment_reference'', JStr (rf_payment_reference rf)),
                      (''reconciliation_status'', JStr ''matched''), (''balance_affecting'', JBool True)],
       le_occurred_at = now \<rparr>"

text \<open>\<^verbatim>\<open>order_by(created_at.desc())\<close> and \<^verbatim>\<open>first()\<close> over the refunds either reference matches.\<close>

definition matching_refund :: "string \<Rightarrow> string \<Rightarrow> db \<Rightarrow> refund option" where
  "matching_refund refund_reference payment_reference d =
     latest_by rf_created_at
       (filter (\<lambda>r. rf_refund_reference r = refund_reference \<or> rf_payment_reference r = payment_reference)
         (db_refunds d))"

definition process_kora_refund_webhook :: "uuid \<Rightarrow> time \<Rightarrow> jobj \<Rightarrow> db \<Rightarrow> exn + db" where
  "process_kora_refund_webhook fresh now data d =
     (let refund_reference = str_field ''reference'' data;
          payment_reference = str_field ''payment_reference'' data
      in if refund_reference = [] \<or> payment_reference = []
      then Inl (ValueError ''Kora refund webhook is missing refund or payment reference'')
      else case matching_refund refund_reference payment_reference d of
        None \<Rightarrow> Inl (ValueError ''Kora refund webhook reference does not match an AFM refund'')
      | Some rf \<Rightarrow>
          (case row_lookup tx_id (rf_transaction_id rf) (db_transactions d) of
             None \<Rightarrow> Inl (ValueError ''Kora refund parent transaction is outside AFM payment ledger'')
           | Some tx \<Rightarrow>
               if tx_ledger_namespace tx \<noteq> ''afm_payments''
               then Inl (ValueError ''Kora refund parent transaction is outside AFM payment ledger'')
               else
                 let status_value = lower_status data;
                     rf1 = rf \<lparr> rf_psp_response := jset ''webhook'' (JObj data) (rf_psp_response rf) \<rparr>;
                     save = (\<lambda>rf' tx' ledger. d \<lparr> db_refunds := row_update rf_idempotency_key rf' (db_refunds d),
                        db_transactions := row_update tx_id tx' (db_transactions d), db_ledger := ledger \<rparr>)
                 in if status_value \<in> set SUCCESS_STATUSES
                 then
                   let rf2 = rf1 \<lparr> rf_status := ''success'', rf_completed_at := Some now \<rparr>;
                       tx2 = tx \<lparr> tx_status := REFUNDED, tx_metadata := jset_all
                          [(''refund_status'', JStr ''success''),
                           (''refund_reference'', JStr (rf_refund_reference rf)),
                           (''reconciliation_status'', JStr ''matched'')] (tx_metadata tx) \<rparr>
                   in (case tx_virtual_account_id tx of
                         None \<Rightarrow> Inr (save rf2 tx2 (db_ledger d))
                       | Some account \<Rightarrow>
                           bindE (find_ledger_entry ''kora_refund'' (rf_refund_reference rf) d) (\<lambda>existing.
                           Inr (save rf2 tx2 (case existing of
                               None \<Rightarrow> db_ledger d @ [refund_ledger_entry fresh now account tx rf]
                             | Some _ \<Rightarrow> db_ledger d))))
                 else if status_value \<in> set FAILURE_STATUSES
                 then Inr (save
                   (rf1 \<lparr> rf_status := ''failed'', rf_error_message := Some (take 255
                      (py_str (py_or (py_or (jget ''status_reason'' data) (jget ''message'' data))
                                     (JStr ''Kora refund failed'')))) \<rparr>)
                   (tx \<lparr> tx_metadata := jset_all
                      [(''refund_status'', JStr ''failed''),
                       (''refund_reference'', JStr (rf_refund_reference rf)),
                       (''reconciliation_status'', JStr ''exception'')] (tx_metadata tx) \<rparr>)
                   (db_ledger d))
                 else Inr (save (rf1 \<lparr> rf_status := ''processing'' \<rparr>)
                   (tx \<lparr> tx_metadata := jset_all
                      [(''refund_status'', JStr ''processing''),
                       (''refund_reference'', JStr (rf_refund_reference rf))] (tx_metadata tx) \<rparr>)
                   (db_ledger d))))"

section \<open>Payment and payout events\<close>

definition payout_ledger_entry :: "uuid \<Rightarrow> time \<Rightarrow> uuid \<Rightarrow> string \<Rightarrow> transaction \<Rightarrow> ledger_entry" where
  "payout_ledger_entry fresh now account reference tx =
     \<lparr> le_id = fresh, le_account_id = account, le_entry_type = ''payout'', le_direction = ''debit'',
       le_amount = tx_amount tx, le_currency = tx_currency tx, le_symbol = None, le_quantity = None,
       le_reference_type = Some ''kora_payout'', le_reference_id = Some reference,
       le_description = Some ''Kora payout reconciled'',
       le_metadata = [(''transaction_id'', JStr (tx_id tx)),
                      (''reconciliation_status'', JStr ''matched''), (''balance_affecting'', JBool True)],
       le_occurred_at = now \<rparr>"

definition event_reference :: "jobj \<Rightarrow> json" where
  "event_reference data =
     py_or (py_or (jget ''reference'' data) (jget ''transaction_reference'' data))
           (jget ''payment_reference'' data)"

definition is_payout_event :: "string \<Rightarrow> bool" where
  "is_payout_event event_name \<longleftrightarrow>
     list_ex (\<lambda>p. starts_with p event_name) [''transfer'', ''payout'', ''disbursement'']"

definition matching_transactions :: "string \<Rightarrow> db \<Rightarrow> transaction list" where
  "matching_transactions reference d =
     filter (\<lambda>t. (tx_idempotency_key t = reference \<or> tx_psp_transaction_id t = Some reference
                    \<or> tx_psp_payment_reference t = Some reference)
               \<and> tx_ledger_namespace t = ''afm_payments'') (db_transactions d)"

text \<open>The three outcomes of an event for its transaction.\<close>

definition settle_event :: "uuid \<Rightarrow> time \<Rightarrow> bool \<Rightarrow> string \<Rightarrow> transaction \<Rightarrow> db \<Rightarrow> exn + db" where
  "settle_event fresh now is_payout reference tx1 d =
     (let tx2 = tx1 \<lparr> tx_status := COMPLETED, tx_settled_at := Some now \<rparr>;
          save = (\<lambda>tx' ledger. d \<lparr> db_transactions := row_update tx_id tx' (db_transactions d),
                                 db_ledger := ledger \<rparr>)
      in case (if is_payout then tx_virtual_account_id tx1 else None) of
           None \<Rightarrow> Inr (save tx2 (db_ledger d))
         | Some account \<Rightarrow>
             bindE (find_ledger_entry ''kora_payout'' reference d) (\<lambda>existing.
             case existing of
               Some _ \<Rightarrow> Inr (save tx2 (db_ledger d))
             | None \<Rightarrow>
                 bindE (py_int (jget_default (JInt 0) ''ledger_entry_count'' (tx_metadata tx2))) (\<lambda>n.
                 Inr (save (tx2 \<lparr> tx_metadata := jset_all
                        [(''reconciliation_status'', JStr ''matched''), (''ledger_entry_count'', JInt (n + 1))]
                        (tx_metadata tx2) \<rparr>)
                      (db_ledger d @ [payout_ledger_entry fresh now account reference tx2])))))"

definition reject_event :: "string \<Rightarrow> jobj \<Rightarrow> transaction \<Rightarrow> db \<Rightarrow> db" where
  "reject_event word data tx1 d =
     d \<lparr> db_transactions := row_update tx_id
         (tx1 \<lparr> tx_status := FAILED,
               tx_error_message := Some (take 255 (py_str (py_or (jget ''message'' data)
                  (JStr (''Kora payout status: '' @ word))))),
               tx_metadata := jset ''reconciliation_status'' (JStr ''exception'') (tx_metadata tx1) \<rparr>)
         (db_transactions d) \<rparr>"

definition pending_event :: "time \<Rightarrow> string \<Rightarrow> jobj \<Rightarrow> transaction \<Rightarrow> db \<Rightarrow> exn + db" where
  "pending_event now word data tx1 d =
     (let tx2 = tx1 \<lparr> tx_status := PROCESSING \<rparr> in
      bindE (enqueue_reconciliation now tx2 data d) (\<lambda>(task, d').
      case row_lookup tx_id (tx_id tx2) (db_transactions d') of
        None \<Rightarrow> Inr d'
      | Some tx3 \<Rightarrow> Inr (d' \<lparr> db_transactions := row_update tx_id
          (tx3 \<lparr> tx_metadata := jset_all
             [(''reconciliation_status'', JStr ''scheduled''), (''provider_status'', JStr word)]
             (tx_metadata tx3) \<rparr>) (db_transactions d') \<rparr>)))"

definition process_kora_payment_event ::
  "uuid \<Rightarrow> time \<Rightarrow> jobj \<Rightarrow> string \<Rightarrow> db \<Rightarrow> exn + db" where
  "process_kora_payment_event fresh now data event_name d =
     (let reference = py_str (py_or (event_reference data) (JStr ''''));
          is_payout = is_payout_event event_name
      in if reference = [] then Inl (ValueError ''Kora webhook is missing a transaction reference'')
      else
        bindE (scalar_one_or_none (matching_transactions reference d)) (\<lambda>found.
        case found of
          None \<Rightarrow>
            if is_payout
            then Inl (ValueError ''Kora payout webhook reference does not match an AFM transaction'')
            else Inr d
        | Some tx \<Rightarrow>
            let status_value = lower_status data;
                tx1 = tx \<lparr> tx_webhook_received_at := Some now,
                           tx_psp_response := jset ''webhook'' (JObj data) (tx_psp_response tx) \<rparr>
            in if status_value \<in> set SUCCESS_STATUSES then settle_event fresh now is_payout reference tx1 d
               else if status_value \<in> set FAILURE_STATUSES then Inr (reject_event status_value data tx1 d)
               else pending_event now status_value data tx1 d))"

definition process_kora_webhook_business_event ::
  "uuid \<Rightarrow> time \<Rightarrow> jobj \<Rightarrow> string \<Rightarrow> db \<Rightarrow> exn + db" where
  "process_kora_webhook_business_event fresh now body event_type d =
     (let data = (case jget ''data'' body of JObj x \<Rightarrow> x | _ \<Rightarrow> body);
          event_name = py_lower event_type
      in if starts_with ''refund'' event_name then process_kora_refund_webhook fresh now data d
         else process_kora_payment_event fresh now data event_name d)"

section \<open>The session of an event\<close>

text \<open>
  The handler awaits the database before every statement, and other sessions can commit then:
  before its first lookup, between the lookup of a refund and that of its transaction, before the
  lookup of the ledger entry or of the reconciliation task, and before its commit.
\<close>

record webhook_pauses =
  ps_before :: "db \<Rightarrow> db"
  ps_load :: "db \<Rightarrow> db"
  ps_lookup :: "db \<Rightarrow> db"
  ps_during :: "db \<Rightarrow> db"

definition no_pause :: webhook_pauses where
  "no_pause = \<lparr> ps_before = (\<lambda>d. d), ps_load = (\<lambda>d. d), ps_lookup = (\<lambda>d. d), ps_during = (\<lambda>d. d) \<rparr>"

text \<open>Each table as the session reads it, and the database its commit finds.\<close>

definition session_view :: "webhook_pauses \<Rightarrow> db \<Rightarrow> db" where
  "session_view pz d =
     (let s1 = ps_before pz d; s2 = ps_load pz s1; s3 = ps_lookup pz s2
      in s2 \<lparr> db_refunds := db_refunds s1, db_ledger := db_ledger s3,
              db_reconciliations := db_reconciliations s3 \<rparr>)"

definition at_commit :: "webhook_pauses \<Rightarrow> db \<Rightarrow> db" where
  "at_commit pz d = ps_during pz (ps_lookup pz (ps_load pz (ps_before pz d)))"

text \<open>The columns the session writes.\<close>

definition merge_tx :: "transaction \<Rightarrow> transaction \<Rightarrow> transaction \<Rightarrow> transaction" where
  "merge_tx a b c = c \<lparr> tx_psp_response := pick (tx_psp_response a) (tx_psp_response b) (tx_psp_response c),
     tx_status := pick (tx_status a) (tx_status b) (tx_status c),
     tx_metadata := pick (tx_metadata a) (tx_metadata b) (tx_metadata c),
     tx_error_message := pick (tx_error_message a) (tx_error_message b) (tx_error_message c),
     tx_webhook_received_at := pick (tx_webhook_received_at a) (tx_webhook_received_at b) (tx_webhook_received_at c),
     tx_settled_at := pick (tx_settled_at a) (tx_settled_at b) (tx_settled_at c) \<rparr>"

definition merge_refund :: "refund \<Rightarrow> refund \<Rightarrow> refund \<Rightarrow> refund" where
  "merge_refund a b c = c \<lparr> rf_status := pick (rf_status a) (rf_status b) (rf_status c),
     rf_psp_response := pick (rf_psp_response a) (rf_psp_response b) (rf_psp_response c),
     rf_error_message := pick (rf_error_message a) (rf_error_message b) (rf_error_message c),
     rf_completed_at := pick (rf_completed_at a) (rf_completed_at b) (rf_completed_at c) \<rparr>"

definition merge_task :: "reconciliation \<Rightarrow> reconciliation \<Rightarrow> reconciliation \<Rightarrow> reconciliation" where
  "merge_task a b c = c
     \<lparr> rc_payment_reference := pick (rc_payment_reference a) (rc_payment_reference b) (rc_payment_reference c),
       rc_transaction_reference := pick (rc_transaction_reference a) (rc_transaction_reference b) (rc_transaction_reference c),
       rc_provider_status := pick (rc_provider_status a) (rc_provider_status b) (rc_provider_status c),
       rc_state := pick (rc_state a) (rc_state b) (rc_state c),
       rc_next_attempt_at := pick (rc_next_attempt_at a) (rc_next_attempt_at b) (rc_next_attempt_at c),
       rc_updated_at := pick (rc_updated_at a) (rc_updated_at b) (rc_updated_at c) \<rparr>"

text \<open>
  The commit of a session that read \<open>view\<close> and made \<open>d'\<close> of it, on the database \<open>cur\<close>.  A new task
  clashes with one that another session scheduled meanwhile for the same payment; the references of a
  ledger entry are not unique.
\<close>

definition commit_event :: "db \<Rightarrow> db \<Rightarrow> db \<Rightarrow> exn + db" where
  "commit_event view d' cur =
     (let tasks = merge_rows rc_transaction_id merge_task (db_reconciliations view) (db_reconciliations d')
            (db_reconciliations cur);
          new_tasks = drop (length (db_reconciliations view)) (db_reconciliations d')
      in if list_ex (\<lambda>t. rc_transaction_id t \<in> rc_transaction_id ` set tasks) new_tasks then Inl IntegrityError
      else Inr (cur \<lparr> db_transactions :=
                        merge_rows tx_id merge_tx (db_transactions view) (db_transactions d') (db_transactions cur),
                      db_ledger := db_ledger cur @ drop (length (db_ledger view)) (db_ledger d'),
                      db_refunds := merge_rows rf_idempotency_key merge_refund (db_refunds view) (db_refunds d')
                        (db_refunds cur),
                      db_reconciliations := tasks @ new_tasks \<rparr>))"

definition apply_event :: "uuid \<Rightarrow> time \<Rightarrow> jobj \<Rightarrow> string \<Rightarrow> db \<Rightarrow> db \<Rightarrow> exn + db" where
  "apply_event fresh now body event_type view cur =
     (case process_kora_webhook_business_event fresh now body event_type view of
        Inl e \<Rightarrow> Inl e
      | Inr d' \<Rightarrow> commit_event view d' cur)"

section \<open>The endpoint\<close>

record webhook_request =
  wr_payload :: string
  wr_parsed :: "json option"
  wr_korapay_signature :: "string option"
  wr_kora_signature :: "string option"

record webhook_response =
  wp_status :: string
  wp_event_id :: "string option"
  wp_reason :: "string option"

record kora_alert =
  al_event_id :: string
  al_event_type :: string
  al_failure_count :: int
  al_error :: string

text \<open>
  \<^verbatim>\<open>notify_kora_failure\<close>: the alert that is posted, if the threshold is reached and a destination
  is configured; a failed delivery is only logged.
\<close>

definition notify_kora_failure :: "settings \<Rightarrow> string \<Rightarrow> string \<Rightarrow> int \<Rightarrow> string \<Rightarrow> kora_alert option" where
  "notify_kora_failure st event_id event_type failure_count error =
     (if failure_count < kora_webhook_alert_threshold st then None
      else if \<not> is_set (kora_webhook_alert_url st) then None
      else Some \<lparr> al_event_id = event_id, al_event_type = event_type,
                  al_failure_count = failure_count, al_error = take 255 error \<rparr>)"

definition request_signature :: "webhook_request \<Rightarrow> string" where
  "request_signature r =
     (if is_set (wr_korapay_signature r) then the (wr_korapay_signature r)
      else case wr_kora_signature r of None \<Rightarrow> '''' | Some s \<Rightarrow> s)"

definition webhook_secret :: "settings \<Rightarrow> string option" where
  "webhook_secret st =
     (if is_set (kora_webhook_secret st) then kora_webhook_secret st else kora_secret_key st)"

definition authentic ::
  "(string \<Rightarrow> string \<Rightarrow> string) \<Rightarrow> settings \<Rightarrow> jobj \<Rightarrow> string \<Rightarrow> bool" where
  "authentic hmac256 st signed_data signature \<longleftrightarrow>
     is_set (webhook_secret st)
   \<and> verify_kora_webhook_signature hmac256 signed_data signature (the (webhook_secret st))"

definition event_type_of :: "jobj \<Rightarrow> string" where
  "event_type_of body =
     take 80 (py_str (py_or (py_or (jget ''event'' body) (jget ''type'' body)) (JStr ''unknown'')))"

definition event_id_of :: "jobj \<Rightarrow> jobj \<Rightarrow> string \<Rightarrow> string" where
  "event_id_of body signed_data payload_hash =
     take 128 (py_str (py_or (py_or (jget ''id'' body) (jget ''id'' signed_data))
       (JStr (event_type_of body @ '':''
          @ py_str (py_or (event_reference signed_data) (JStr ''unknown'')) @ '':'' @ payload_hash))))"

definition recent_failures :: "string \<Rightarrow> time \<Rightarrow> db \<Rightarrow> int" where
  "recent_failures event_type now d =
     int (length (filter (\<lambda>e. we_event_type e = event_type \<and> we_status e = ''failed''
                            \<and> now - minutes 5 \<le> we_received_at e) (db_events d)))"

definition set_event :: "string \<Rightarrow> (webhook_event \<Rightarrow> webhook_event) \<Rightarrow> db \<Rightarrow> db" where
  "set_event event_id f d =
     (case row_lookup we_event_id event_id (db_events d) of
        None \<Rightarrow> d
      | Some e \<Rightarrow> d \<lparr> db_events := row_update we_event_id (f e) (db_events d) \<rparr>)"

text \<open>
  The part of the handler behind the signature check: the event is committed first, its effects in a
  second session, and a failure is recorded on the database as the interruptions left it.
\<close>

definition kora_webhook_event ::
  "settings \<Rightarrow> webhook_pauses \<Rightarrow> uuid \<Rightarrow> time \<Rightarrow> string \<Rightarrow> jobj \<Rightarrow> jobj \<Rightarrow> db
   \<Rightarrow> (exn + webhook_response) \<times> db \<times> kora_alert option" where
  "kora_webhook_event st pz fresh now payload_hash body signed_data d =
     (let event_type = event_type_of body;
          event_id = event_id_of body signed_data payload_hash;
          event = \<lparr> we_event_id = event_id, we_event_type = event_type, we_payload_hash = payload_hash,
                    we_status = ''received'', we_payload = body, we_received_at = now,
                    we_processed_at = None, we_error_message = None \<rparr>
      in case row_insert we_event_id event (db_events d) of
           None \<Rightarrow>
             (case row_lookup we_event_id event_id (db_events d) of
                Some existing \<Rightarrow>
                  (Inr \<lparr> wp_status = ''already_'' @ we_status existing, wp_event_id = Some event_id,
                         wp_reason = None \<rparr>, d, None)
              | None \<Rightarrow> (Inl (HTTPException 503 ''Webhook idempotency store unavailable''), d, None))
         | Some events \<Rightarrow>
             let d1 = d \<lparr> db_events := events \<rparr> in
             case apply_event fresh now body event_type (session_view pz d1) (at_commit pz d1) of
               Inr d2 \<Rightarrow>
                 (Inr \<lparr> wp_status = ''processed'', wp_event_id = Some event_id, wp_reason = None \<rparr>,
                  set_event event_id (\<lambda>e. e \<lparr> we_status := ''processed'', we_processed_at := Some now \<rparr>) d2,
                  None)
             | Inl e \<Rightarrow>
                 let d2 = set_event event_id (\<lambda>ev. ev \<lparr> we_status := ''failed'',
                            we_error_message := Some (take 255 (exn_str e)) \<rparr>) (at_commit pz d1)
                 in (Inl (HTTPException 500 ''Webhook processing failed''), d2,
                     notify_kora_failure st event_id event_type (recent_failures event_type now d2) (exn_str e)))"

definition kora_webhook ::
  "(string \<Rightarrow> string \<Rightarrow> string) \<Rightarrow> (string \<Rightarrow> string) \<Rightarrow> settings \<Rightarrow> webhook_pauses \<Rightarrow> uuid \<Rightarrow> time
   \<Rightarrow> webhook_request \<Rightarrow> db \<Rightarrow> (exn + webhook_response) \<times> db \<times> kora_alert option" where
  "kora_webhook hmac256 sha256 st pz fresh now r d =
     (case wr_parsed r of
        None \<Rightarrow> (Inl (HTTPException 400 ''Malformed webhook payload''), d, None)
      | Some (JObj body) \<Rightarrow>
          (case jget_default (JObj body) ''data'' body of
             JObj signed_data \<Rightarrow>
               if \<not> authentic hmac256 st signed_data (request_signature r)
               then (Inr \<lparr> wp_status = ''ignored'', wp_event_id = None,
                          wp_reason = Some ''invalid_signature'' \<rparr>, d, None)
               else kora_webhook_event st pz fresh now (sha256 (wr_payload r)) body signed_data d
           | _ \<Rightarrow> (Inl (HTTPException 400 ''Webhook data must be an object''), d, None))
      | Some _ \<Rightarrow> (Inl (HTTPException 400 ''Webhook payload must be an object''), d, None))"

section \<open>What a processed event changes\<close>

text \<open>
  The frame of an event: the event store is left to the handler, the ledger is only appended to,
  by at most one debit whose reference is new, the row of at most one transaction changes, which
  belongs to the payment ledger, and that of at most one refund; what identifies them stays.
\<close>

definition kora_debit :: "ledger_entry \<Rightarrow> bool" where
  "kora_debit e \<longleftrightarrow> le_reference_type e = Some ''kora_refund'' \<or> le_reference_type e = Some ''kora_payout''"

definition entry_ref :: "ledger_entry \<Rightarrow> string option \<times> string option" where
  "entry_ref e = (le_reference_type e, le_reference_id e)"

definition books :: "ledger_entry list \<Rightarrow> ledger_entry list \<Rightarrow> bool" where
  "books old new \<longleftrightarrow>
     new = old
   \<or> (\<exists>e. new = old @ [e] \<and> le_direction e = ''debit'' \<and> kora_debit e \<and> entry_ref e \<notin> entry_ref ` set old)"

definition touches :: "transaction list \<Rightarrow> transaction list \<Rightarrow> bool" where
  "touches old new \<longleftrightarrow>
     new = old
   \<or> (\<exists>tx tx'. tx \<in> set old \<and> tx_ledger_namespace tx = ''afm_payments''
        \<and> tx_core tx' = tx_core tx \<and> new = row_update tx_id tx' old)"

definition amends :: "refund list \<Rightarrow> refund list \<Rightarrow> bool" where
  "amends old new \<longleftrightarrow>
     new = old
   \<or> (\<exists>rf rf'. rf \<in> set old \<and> rf_core rf' = rf_core rf \<and> new = row_update rf_idempotency_key rf' old)"

definition event_frame :: "db \<Rightarrow> db \<Rightarrow> bool" where
  "event_frame d d' \<longleftrightarrow>
     db_events d' = db_events d \<and> books (db_ledger d) (db_ledger d')
   \<and> touches (db_transactions d) (db_transactions d') \<and> amends (db_refunds d) (db_refunds d')
   \<and> (one_task_each d \<longrightarrow> one_task_each d')
   \<and> db_users d' = db_users d \<and> db_challenges d' = db_challenges d \<and> db_links d' = db_links d
   \<and> db_accounts d' = db_accounts d \<and> db_positions d' = db_positions d"

lemma find_ledger_entry_None:
  "find_ledger_entry ty i d = Inr None \<Longrightarrow> (Some ty, Some i) \<notin> entry_ref ` set (db_ledger d)"
  by (auto simp: find_ledger_entry_def scalar_one_or_none_None entry_ref_def)

lemma booksI:
  "(ty, i) \<notin> entry_ref ` set old \<Longrightarrow> le_reference_type e = ty \<Longrightarrow> le_reference_id e = i \<Longrightarrow>
     le_direction e = ''debit'' \<Longrightarrow> kora_debit e \<Longrightarrow> books old (old @ [e])"
  by (simp add: books_def entry_ref_def)

lemma touchesI:
  "tx \<in> set old \<Longrightarrow> tx_ledger_namespace tx = ''afm_payments'' \<Longrightarrow> tx_core tx' = tx_core tx \<Longrightarrow>
     touches old (row_update tx_id tx' old)"
  by (auto simp: touches_def)

lemma amendsI: "rf \<in> set old \<Longrightarrow> rf_core rf' = rf_core rf \<Longrightarrow> amends old (row_update rf_idempotency_key rf' old)"
  by (auto simp: amends_def)

lemma frame_refl [simp]: "books l l" "touches ts ts" "amends rs rs"
  by (simp_all add: books_def touches_def amends_def)

lemma event_frame_refl [simp]: "event_frame d d"
  by (simp add: event_frame_def)

lemma matching_refund_set: "matching_refund a b d = Some rf \<Longrightarrow> rf \<in> set (db_refunds d)"
  by (auto simp: matching_refund_def dest: latest_by_Some)

lemma row_update_twice: "key b = key a \<Longrightarrow> row_update key b (row_update key a rows) = row_update key b rows"
  by (induction rows) (auto simp: row_update_def)

lemma refund_webhook_frame:
  assumes "process_kora_refund_webhook fresh now data d = Inr d'"
  shows "event_frame d d'"
proof -
  let ?rref = "str_field ''reference'' data" and ?pref = "str_field ''payment_reference'' data"
  from assms obtain rf tx where rf: "matching_refund ?rref ?pref d = Some rf"
    and look: "row_lookup tx_id (rf_transaction_id rf) (db_transactions d) = Some tx"
    and ns: "tx_ledger_namespace tx = ''afm_payments''" and refs: "?rref \<noteq> []" "?pref \<noteq> []"
    by (auto simp: process_kora_refund_webhook_def Let_def split: if_splits option.splits)
  have tx: "tx \<in> set (db_transactions d)" using row_lookup_SomeD [OF look] by simp
  have rfs: "rf \<in> set (db_refunds d)" using rf by (rule matching_refund_set)
  note unfold = assms [unfolded process_kora_refund_webhook_def Let_def rf look option.case]
  show ?thesis
  proof (cases "lower_status data \<in> set SUCCESS_STATUSES")
    case True
    show ?thesis
    proof (cases "tx_virtual_account_id tx")
      case None
      then show ?thesis using unfold refs ns True tx rfs
        by (auto simp: event_frame_def one_task_each_def tx_core_def rf_core_def intro!: touchesI amendsI)
    next
      case (Some account)
      then obtain existing where ex: "find_ledger_entry ''kora_refund'' (rf_refund_reference rf) d = Inr existing"
        using unfold refs ns True by (auto simp: bindE_eq_Inr_iff)
      have "books (db_ledger d) (db_ledger d @ [refund_ledger_entry fresh now account tx rf])"
        if "existing = None"
        using find_ledger_entry_None [of "''kora_refund''" "rf_refund_reference rf" d] ex that
        by (intro booksI) (simp_all add: refund_ledger_entry_def kora_debit_def)
      then show ?thesis using unfold refs ns True tx rfs Some ex
        by (cases existing) (auto simp: event_frame_def one_task_each_def tx_core_def rf_core_def intro!: touchesI amendsI)
    qed
  next
    case False
    then show ?thesis using unfold refs ns tx rfs
      by (auto simp: event_frame_def one_task_each_def tx_core_def rf_core_def intro!: touchesI amendsI split: if_splits)
  qed
qed

lemma settle_event_frame:
  assumes "settle_event fresh now is_payout reference tx1 d = Inr d'" and "tx \<in> set (db_transactions d)"
    and "tx_ledger_namespace tx = ''afm_payments''" and "tx_core tx1 = tx_core tx"
  shows "event_frame d d'"
proof -
  have t: "touches (db_transactions d) (row_update tx_id tx' (db_transactions d))"
    if "tx_core tx' = tx_core tx1" for tx'
    using assms(2-4) that by (intro touchesI) simp_all
  show ?thesis
  proof (cases "if is_payout then tx_virtual_account_id tx1 else None")
    case None
    then show ?thesis using assms(1) by (auto simp: settle_event_def Let_def event_frame_def one_task_each_def tx_core_def intro!: t)
  next
    case (Some account)
    note unfold = assms(1) [unfolded settle_event_def Let_def Some option.case]
    then obtain existing where ex: "find_ledger_entry ''kora_payout'' reference d = Inr existing"
      by (auto simp: bindE_eq_Inr_iff)
    show ?thesis
    proof (cases existing)
      case None
      then have "books (db_ledger d) (db_ledger d @ [payout_ledger_entry fresh now account reference tx'])" for tx'
        using find_ledger_entry_None [of "''kora_payout''" reference d] ex
        by (intro booksI) (simp_all add: payout_ledger_entry_def kora_debit_def)
      then show ?thesis using unfold ex None
        by (auto simp: event_frame_def one_task_each_def tx_core_def bindE_eq_Inr_iff intro!: t)
    next
      case (Some e)
      then show ?thesis using unfold ex by (auto simp: event_frame_def one_task_each_def tx_core_def intro!: t)
    qed
  qed
qed

lemma pending_event_frame:
  assumes "pending_event now w data tx1 d = Inr d'" and "tx \<in> set (db_transactions d)"
    and "tx_ledger_namespace tx = ''afm_payments''" and "tx_core tx1 = tx_core tx"
  shows "event_frame d d'"
proof -
  define tx2 where "tx2 = tx1 \<lparr> tx_status := PROCESSING \<rparr>"
  obtain task dm where e: "enqueue_reconciliation now tx2 data d = Inr (task, dm)"
    using assms(1) by (auto simp: pending_event_def Let_def tx2_def bindE_eq_Inr_iff split: prod.splits)
  then obtain rows md where dm: "dm = d \<lparr> db_reconciliations := rows,
      db_transactions := row_update tx_id (tx2 \<lparr> tx_metadata := md \<rparr>) (db_transactions d) \<rparr>"
    by (rule enqueue_InrE)
  have t2: "tx_id tx2 = tx_id tx" "\<And>m. tx_core (tx2 \<lparr> tx_metadata := m \<rparr>) = tx_core tx"
    using assms(4) by (simp_all add: tx2_def tx_core_def)
  have one: "one_task_each d \<Longrightarrow> one_task_each dm" using enqueue_one_task [OF e] .
  have "row_lookup tx_id (tx_id tx2) (db_transactions dm) = Some (tx2 \<lparr> tx_metadata := md \<rparr>)"
    using assms(2) t2(1) by (auto simp: dm row_lookup_update)
  then show ?thesis
    using assms(1-3) e t2 one
    by (auto simp: pending_event_def Let_def dm event_frame_def row_update_twice one_task_each_def
        simp flip: tx2_def intro!: touchesI)
qed

lemma matching_transactions_set:
  "tx \<in> set (matching_transactions reference d) \<Longrightarrow>
     tx \<in> set (db_transactions d) \<and> tx_ledger_namespace tx = ''afm_payments''"
  by (simp add: matching_transactions_def)

lemma payment_event_frame:
  assumes "process_kora_payment_event fresh now data event_name d = Inr d'"
  shows "event_frame d d'"
proof -
  let ?ref = "py_str (py_or (event_reference data) (JStr ''''))"
  from assms obtain found where f: "scalar_one_or_none (matching_transactions ?ref d) = Inr found"
    by (auto simp: process_kora_payment_event_def Let_def bindE_eq_Inr_iff split: if_splits)
  show ?thesis
  proof (cases found)
    case None
    then have "d' = d" using assms f
      by (auto simp: process_kora_payment_event_def Let_def split: if_splits)
    then show ?thesis by simp
  next
    case (Some tx)
    have tx: "tx \<in> set (db_transactions d)" "tx_ledger_namespace tx = ''afm_payments''"
      using scalar_one_or_none_Some [of _ "db_transactions d" tx] f
      unfolding Some matching_transactions_def by blast+
    define tx1 where "tx1 = tx \<lparr> tx_webhook_received_at := Some now,
        tx_psp_response := jset ''webhook'' (JObj data) (tx_psp_response tx) \<rparr>"
    have tx1: "tx_core tx1 = tx_core tx" by (simp add: tx1_def tx_core_def)
    consider (settle) "settle_event fresh now (is_payout_event event_name) ?ref tx1 d = Inr d'"
      | (reject) "d' = reject_event (lower_status data) data tx1 d"
      | (pending) "pending_event now (lower_status data) data tx1 d = Inr d'"
      using assms f Some
      by (auto simp: process_kora_payment_event_def Let_def simp flip: tx1_def split: if_splits)
    then show ?thesis
    proof cases
      case settle
      then show ?thesis using tx tx1 by (rule settle_event_frame)
    next
      case reject
      then show ?thesis using tx tx1
        by (auto simp: reject_event_def event_frame_def one_task_each_def tx_core_def intro!: touchesI)
    next
      case pending
      then show ?thesis using tx tx1 by (rule pending_event_frame)
    qed
  qed
qed

lemma business_event_frame:
  "process_kora_webhook_business_event fresh now body event_type d = Inr d' \<Longrightarrow> event_frame d d'"
  by (auto simp: process_kora_webhook_business_event_def Let_def
      split: if_splits intro: refund_webhook_frame payment_event_frame)

lemma set_event_frame [simp]:
  "db_ledger (set_event i f d) = db_ledger d"
  "db_transactions (set_event i f d) = db_transactions d"
  "db_refunds (set_event i f d) = db_refunds d"
  "db_reconciliations (set_event i f d) = db_reconciliations d"
  "db_users (set_event i f d) = db_users d"
  "db_challenges (set_event i f d) = db_challenges d"
  "db_links (set_event i f d) = db_links d"
  "db_accounts (set_event i f d) = db_accounts d"
  "db_positions (set_event i f d) = db_positions d"
  by (simp_all add: set_event_def split: option.split)

section \<open>What a commit changes\<close>

lemma merge_keys [simp]:
  "tx_core (merge_tx t t' t'') = tx_core t''" "tx_id (merge_tx t t' t'') = tx_id t''"
  "rf_core (merge_refund f f' f'') = rf_core f''"
  "rf_idempotency_key (merge_refund f f' f'') = rf_idempotency_key f''"
  "rc_transaction_id (merge_task k k' k'') = rc_transaction_id k''"
  by (simp_all add: merge_tx_def merge_refund_def merge_task_def tx_core_def rf_core_def)

lemma merge_unchanged [simp]: "merge_tx t t t' = t'" "merge_refund f f f' = f'" "merge_task k k k' = k'"
  by (simp_all add: merge_tx_def merge_refund_def merge_task_def)

text \<open>
  The tables that the commit of an event writes: rows keep what identifies them, the ledger grows by at
  most one debit, whose reference is new to the ledger the session has read.
\<close>

definition merged :: "db \<Rightarrow> db \<Rightarrow> db \<Rightarrow> bool" where
  "merged view cur d \<longleftrightarrow>
     map tx_core (db_transactions d) = map tx_core (db_transactions cur)
   \<and> map rf_core (db_refunds d) = map rf_core (db_refunds cur)
   \<and> (\<exists>es. db_ledger d = db_ledger cur @ es \<and> books (db_ledger view) (db_ledger view @ es))
   \<and> (one_task_each view \<longrightarrow> one_task_each cur \<longrightarrow> one_task_each d)
   \<and> (\<forall>k t. distinct (map tx_id (db_transactions view)) \<longrightarrow> row_lookup tx_id k (db_transactions view) = Some t \<longrightarrow>
        tx_ledger_namespace t \<noteq> ''afm_payments'' \<longrightarrow>
        row_lookup tx_id k (db_transactions d) = row_lookup tx_id k (db_transactions cur))
   \<and> db_events d = db_events cur
   \<and> db_users d = db_users cur \<and> db_challenges d = db_challenges cur \<and> db_links d = db_links cur
   \<and> db_accounts d = db_accounts cur \<and> db_positions d = db_positions cur"

lemma touches_foreign:
  assumes "touches old new" and "distinct (map tx_id old)" and "row_lookup tx_id k old = Some t"
    and "tx_ledger_namespace t \<noteq> ''afm_payments''"
  shows "row_lookup tx_id k new = Some t"
proof -
  have "row_lookup tx_id k (row_update tx_id tx' old) = Some t"
    if "tx \<in> set old" "tx_ledger_namespace tx = ''afm_payments''" "tx_core tx' = tx_core tx" for tx tx'
  proof -
    have key: "tx_id tx' = tx_id tx" using that(3) by (simp add: tx_core_def)
    have "row_lookup tx_id (tx_id tx) old = Some tx" using assms(2) that(1) by (rule row_lookup_distinct)
    then have "k \<noteq> tx_id tx'" using assms(3,4) that(2) key by auto
    then show ?thesis using assms(3) by (simp add: txs.upd_frame)
  qed
  then show ?thesis using assms(1,3) by (auto simp: touches_def)
qed

lemma merge_tasks_keys:
  "map rc_transaction_id (merge_rows rc_transaction_id merge_task old new cur) = map rc_transaction_id cur"
  by (rule map_merge_rows) simp

lemma commit_event_merged:
  assumes frame: "event_frame view d'" and commit: "commit_event view d' cur = Inr d"
  shows "merged view cur d"
proof -
  let ?tasks = "merge_rows rc_transaction_id merge_task (db_reconciliations view) (db_reconciliations d')
      (db_reconciliations cur)"
  let ?new = "drop (length (db_reconciliations view)) (db_reconciliations d')"
  let ?txs = "merge_rows tx_id merge_tx (db_transactions view) (db_transactions d') (db_transactions cur)"
  let ?rfs = "merge_rows rf_idempotency_key merge_refund (db_refunds view) (db_refunds d') (db_refunds cur)"
  from commit have fresh: "list_all (\<lambda>t. rc_transaction_id t \<notin> rc_transaction_id ` set (db_reconciliations cur)) ?new"
    and d: "d = cur \<lparr> db_transactions := ?txs,
        db_ledger := db_ledger cur @ drop (length (db_ledger view)) (db_ledger d'),
        db_refunds := ?rfs, db_reconciliations := ?tasks @ ?new \<rparr>"
    by (auto simp: commit_event_def Let_def list_ex_iff list_all_iff merge_tasks_keys simp flip: set_map split: if_splits)
  have "map tx_core ?txs = map tx_core (db_transactions cur)" by (rule map_merge_rows) simp
  moreover have "map rf_core ?rfs = map rf_core (db_refunds cur)" by (rule map_merge_rows) simp
  moreover have "books (db_ledger view) (db_ledger view @ drop (length (db_ledger view)) (db_ledger d'))"
    using frame by (auto simp: event_frame_def books_def)
  moreover have "one_task_each d" if "one_task_each view" "one_task_each cur"
  proof -
    have "distinct (map rc_transaction_id ?new)"
      using frame that(1) by (simp add: event_frame_def one_task_each_def drop_map [symmetric])
    moreover have "set (map rc_transaction_id (db_reconciliations cur)) \<inter> set (map rc_transaction_id ?new) = {}"
      using fresh by (auto simp: list_all_iff) (metis imageI)
    ultimately show ?thesis using that(2) by (simp add: d one_task_each_def merge_tasks_keys)
  qed
  moreover have "row_lookup tx_id k ?txs = row_lookup tx_id k (db_transactions cur)"
    if "distinct (map tx_id (db_transactions view))" "row_lookup tx_id k (db_transactions view) = Some t"
      "tx_ledger_namespace t \<noteq> ''afm_payments''" for k t
    using touches_foreign [OF _ that] frame that(2)
    by (simp add: event_frame_def merge_rows_lookup option.map_ident)
  ultimately show ?thesis by (auto simp: merged_def d)
qed

text \<open>The endpoint returns without a change, or it stores one event and applies it or not.\<close>

definition stored_event :: "webhook_event \<Rightarrow> db \<Rightarrow> db" where
  "stored_event e d = d \<lparr> db_events := db_events d @ [e] \<rparr>"

lemma kora_webhook_event_cases:
  assumes "kora_webhook_event st pz fresh now ph body data d = (res, d', al)"
  obtains (known) "d' = d" "event_id_of body data ph \<in> we_event_id ` set (db_events d)"
  | (fresh) e f d2 where "we_event_id e = event_id_of body data ph"
      "event_id_of body data ph \<notin> we_event_id ` set (db_events d)"
      "\<And>x. we_event_id (f x) = we_event_id x" "d' = set_event (we_event_id e) f d2"
      "d2 = at_commit pz (stored_event e d)
        \<or> merged (session_view pz (stored_event e d)) (at_commit pz (stored_event e d)) d2"
proof -
  define e where "e = \<lparr> we_event_id = event_id_of body data ph,
      we_event_type = event_type_of body, we_payload_hash = ph, we_status = ''received'',
      we_payload = body, we_received_at = now, we_processed_at = None, we_error_message = None \<rparr>"
  have key: "we_event_id e = event_id_of body data ph" by (simp add: e_def)
  note unfold = assms [unfolded kora_webhook_event_def Let_def, folded e_def]
  show thesis
  proof (cases "row_insert we_event_id e (db_events d)")
    case None
    then have "we_event_id e \<in> we_event_id ` set (db_events d)" by (simp add: row_insert_def split: if_splits)
    moreover have "d' = d" using unfold None by (auto split: option.splits)
    ultimately show thesis using key by (intro known) simp_all
  next
    case (Some events)
    then have ev: "d \<lparr> db_events := events \<rparr> = stored_event e d" "we_event_id e \<notin> we_event_id ` set (db_events d)"
      by (auto simp: row_insert_def stored_event_def split: if_splits)
    let ?view = "session_view pz (stored_event e d)" and ?cur = "at_commit pz (stored_event e d)"
    note unfold = unfold [unfolded Some option.case ev(1)]
    show thesis
    proof (cases "apply_event fresh now body (event_type_of body) ?view ?cur")
      case (Inl err)
      then show thesis using unfold key ev(2)
        by (intro fresh [of e "\<lambda>ev. ev \<lparr> we_status := ''failed'', we_error_message := Some (take 255 (exn_str err)) \<rparr>" ?cur])
          auto
    next
      case (Inr d2)
      then obtain dm where "process_kora_webhook_business_event fresh now body (event_type_of body) ?view = Inr dm"
        "commit_event ?view dm ?cur = Inr d2" by (auto simp: apply_event_def split: sum.splits)
      then have "merged ?view ?cur d2" by (blast intro: commit_event_merged business_event_frame)
      then show thesis using unfold Inr key ev(2)
        by (intro fresh [of e "\<lambda>ev. ev \<lparr> we_status := ''processed'', we_processed_at := Some now \<rparr>" d2]) auto
    qed
  qed
qed

lemma kora_webhook_cases:
  assumes "kora_webhook hm sh st pz fresh now r d = (res, d', al)"
  obtains (unchanged) "d' = d"
  | (stored) body data e f d2 where "wr_parsed r = Some (JObj body)"
      "jget_default (JObj body) ''data'' body = JObj data"
      "authentic hm st data (request_signature r)"
      "we_event_id e \<notin> we_event_id ` set (db_events d)"
      "\<And>x. we_event_id (f x) = we_event_id x" "d' = set_event (we_event_id e) f d2"
      "d2 = at_commit pz (stored_event e d)
        \<or> merged (session_view pz (stored_event e d)) (at_commit pz (stored_event e d)) d2"
proof (cases "d' = d")
  case False
  then obtain body data where b: "wr_parsed r = Some (JObj body)"
    "jget_default (JObj body) ''data'' body = JObj data" "authentic hm st data (request_signature r)"
    and ev: "kora_webhook_event st pz fresh now (sh (wr_payload r)) body data d = (res, d', al)"
    using assms by (auto simp: kora_webhook_def split: option.splits json.splits if_splits)
  from ev show thesis
  proof (cases rule: kora_webhook_event_cases)
    case known
    then show thesis using False by simp
  next
    case (fresh e f d2)
    with b show thesis by (intro stored [of body data e f d2]) simp_all
  qed
qed (rule unchanged)

section \<open>Only signed events count\<close>

text \<open>
  Claim C19. A delivery changes the database only if its text is a JSON object whose data object
  carries, in one of the two signature headers, the HMAC of its canonical form under the configured
  secret; any other delivery is refused or ignored and leaves no trace, not even in the event store.
\<close>

theorem webhook_writes_only_if_signed:
  assumes "kora_webhook hm sh st pz fresh now r d = (res, d', al)" and "d' \<noteq> d"
  shows "\<exists>body data secret. wr_parsed r = Some (JObj body)
    \<and> jget_default (JObj body) ''data'' body = JObj data
    \<and> webhook_secret st = Some secret \<and> secret \<noteq> ''''
    \<and> hm secret (canonical_data data) = py_strip (request_signature r)"
  using assms(1)
proof (cases rule: kora_webhook_cases)
  case unchanged
  then show ?thesis using assms(2) by simp
next
  case (stored body data e f d2)
  from stored(3) obtain secret where "webhook_secret st = Some secret" "secret \<noteq> ''''"
    by (cases "webhook_secret st") (auto simp: authentic_def)
  with stored show ?thesis
    by (auto simp: authentic_def verify_kora_webhook_signature_def verify_webhook_signature_def)
qed

text \<open>
  A deployment for the instances: the MAC of a text is the text prefixed with the key, and a hash
  is the text itself.
\<close>

definition demo_mac :: "string \<Rightarrow> string \<Rightarrow> string" where
  "demo_mac key msg = key @ '':'' @ msg"

definition hook_settings :: settings where
  "hook_settings = (default_settings []) \<lparr> kora_webhook_secret := Some ''whsec'' \<rparr>"

definition delivery :: "string \<Rightarrow> json \<Rightarrow> jobj \<Rightarrow> webhook_request" where
  "delivery event event_id data =
     (let body = [(''event'', JStr event), (''id'', event_id), (''data'', JObj data)] in
      \<lparr> wr_payload = json_dumps (JObj body), wr_parsed = Some (JObj body),
        wr_korapay_signature = Some (demo_mac ''whsec'' (canonical_data data)),
        wr_kora_signature = None \<rparr>)"

definition deliver :: "webhook_request \<Rightarrow> uuid \<Rightarrow> db \<Rightarrow> (exn + webhook_response) \<times> db \<times> kora_alert option" where
  "deliver r fresh d = kora_webhook demo_mac (\<lambda>x. x) hook_settings no_pause fresh 1000000 r d"

text \<open>A payment of the payment ledger whose virtual account is \<open>a1\<close>.\<close>

definition payout_tx :: "payment_status \<Rightarrow> transaction" where
  "payout_tx s = (sample_transaction ''t1'' ''u1'' s)
     \<lparr> tx_idempotency_key := ''AFM-PO-1'', tx_psp_transaction_id := Some ''KPY-1'',
       tx_ledger_namespace := ''afm_payments'', tx_virtual_account_id := Some ''a1'' \<rparr>"

definition payout_db :: "payment_status \<Rightarrow> db" where
  "payout_db s = empty_db \<lparr> db_transactions := [payout_tx s] \<rparr>"

definition success_data :: "string \<Rightarrow> jobj" where
  "success_data reference = [(''reference'', JStr reference), (''status'', JStr ''success'')]"

lemma webhook_writes_only_if_signed_witness:
  "\<exists>secret. webhook_secret hook_settings = Some secret
     \<and> demo_mac secret (canonical_data (success_data ''KPY-1''))
         = py_strip (request_signature (delivery ''transfer.success'' JNull (success_data ''KPY-1'')))"
proof -
  obtain res d' al where w: "kora_webhook demo_mac (\<lambda>x. x) hook_settings no_pause ''e1'' 1000000
      (delivery ''transfer.success'' JNull (success_data ''KPY-1'')) (payout_db PROCESSING) = (res, d', al)"
    by (rule prod_cases3)
  have "map tx_status (db_transactions (fst (snd (kora_webhook demo_mac (\<lambda>x. x) hook_settings no_pause ''e1'' 1000000
      (delivery ''transfer.success'' JNull (success_data ''KPY-1'')) (payout_db PROCESSING))))) = [COMPLETED]"
    by code_simp
  then have "map tx_status (db_transactions d') = [COMPLETED]" by (simp only: w fst_conv snd_conv)
  then have "d' \<noteq> payout_db PROCESSING"
    by (auto simp: payout_db_def payout_tx_def sample_transaction_def)
  from webhook_writes_only_if_signed [OF w this] show ?thesis
    by (auto simp: delivery_def Let_def jget_default_def)
qed

section \<open>Redelivery\<close>

lemma set_event_stored:
  assumes "row_lookup we_event_id i (db_events d) = Some e" and "\<And>e. we_event_id (f e) = we_event_id e"
  shows "row_lookup we_event_id i (db_events (set_event i f d)) = Some (f e)"
  using assms evts.look_key [OF assms(1)] by (simp add: set_event_def evts.look_upd)

text \<open>Sessions that lose no event.\<close>

definition events_stay :: "(db \<Rightarrow> db) \<Rightarrow> bool" where
  "events_stay f \<longleftrightarrow> (\<forall>d. we_event_id ` set (db_events d) \<subseteq> we_event_id ` set (db_events (f d)))"

lemma kora_webhook_event_stores:
  assumes "kora_webhook_event st pz fresh now ph body data d = (res, d', al)"
    and stay: "events_stay (ps_before pz)" "events_stay (ps_load pz)" "events_stay (ps_lookup pz)" "events_stay (ps_during pz)"
  shows "row_lookup we_event_id (event_id_of body data ph) (db_events d') \<noteq> None"
  using assms(1)
proof (cases rule: kora_webhook_event_cases)
  case known
  then show ?thesis by (simp add: row_lookup_None_iff)
next
  case (fresh e f d2)
  note keep = stay [unfolded events_stay_def, rule_format, THEN subsetD]
  have "we_event_id e \<in> we_event_id ` set (db_events (at_commit pz (stored_event e d)))"
    unfolding at_commit_def by (rule keep(4), rule keep(3), rule keep(2), rule keep(1)) (simp add: stored_event_def)
  then have "we_event_id e \<in> we_event_id ` set (db_events d2)" using fresh(5) by (auto simp: merged_def)
  then obtain ev where "row_lookup we_event_id (we_event_id e) (db_events d2) = Some ev"
    by (cases "row_lookup we_event_id (we_event_id e) (db_events d2)") (simp_all add: row_lookup_None_iff)
  then have "row_lookup we_event_id (we_event_id e) (db_events d') = Some (f ev)"
    unfolding fresh(4) using fresh(3) by (rule set_event_stored)
  then show ?thesis using fresh(1) by simp
qed

text \<open>
  Claim C20. A delivery counts once: once a signed delivery has been handled, with whatever outcome and
  whatever other sessions did during it short of deleting events, its event is stored, and delivering
  the same request again changes nothing at all: it answers with the identifier and the status of that
  stored event.
\<close>

theorem webhook_replay_has_no_effect:
  assumes "wr_parsed r = Some (JObj body)" and "jget_default (JObj body) ''data'' body = JObj data"
    and "authentic hm st data (request_signature r)"
    and "kora_webhook hm sh st pz fresh now r d = (res, d1, al)"
    and "events_stay (ps_before pz)" and "events_stay (ps_load pz)"
    and "events_stay (ps_lookup pz)" and "events_stay (ps_during pz)"
  shows "\<exists>e. row_lookup we_event_id (event_id_of body data (sh (wr_payload r))) (db_events d1) = Some e
    \<and> kora_webhook hm sh st pz' fresh' now' r d1
        = (Inr \<lparr> wp_status = ''already_'' @ we_status e,
                 wp_event_id = Some (event_id_of body data (sh (wr_payload r))), wp_reason = None \<rparr>, d1, None)"
proof -
  let ?i = "event_id_of body data (sh (wr_payload r))"
  have "kora_webhook_event st pz fresh now (sh (wr_payload r)) body data d = (res, d1, al)"
    using assms(1-4) by (simp add: kora_webhook_def)
  then obtain e where e: "row_lookup we_event_id ?i (db_events d1) = Some e"
    using kora_webhook_event_stores assms(5-8) by blast
  then have "row_insert we_event_id ev (db_events d1) = None" if "we_event_id ev = ?i" for ev
    using that by (simp add: evts.ins_fails)
  then have "kora_webhook_event st pz' fresh' now' (sh (wr_payload r)) body data d1
      = (Inr \<lparr> wp_status = ''already_'' @ we_status e, wp_event_id = Some ?i, wp_reason = None \<rparr>, d1, None)"
    using e by (simp add: kora_webhook_event_def Let_def)
  then show ?thesis using e assms(1-3) by (auto simp: kora_webhook_def)
qed

lemma webhook_replay_has_no_effect_witness:
  "let r = delivery ''transfer.success'' (JStr ''evt-7'') (success_data ''KPY-1'');
       d1 = fst (snd (deliver r ''e1'' (payout_db PROCESSING)))
   in kora_webhook demo_mac (\<lambda>x. x) hook_settings no_pause ''e2'' 2000000 r d1
     = (Inr \<lparr> wp_status = ''already_processed'', wp_event_id = Some ''evt-7'', wp_reason = None \<rparr>, d1, None)"
proof -
  let ?r = "delivery ''transfer.success'' (JStr ''evt-7'') (success_data ''KPY-1'')"
  let ?body = "[(''event'', JStr ''transfer.success''), (''id'', JStr ''evt-7''), (''data'', JObj (success_data ''KPY-1''))]"
  let ?d1 = "fst (snd (deliver ?r ''e1'' (payout_db PROCESSING)))"
  let ?i = "event_id_of ?body (success_data ''KPY-1'') (wr_payload ?r)"
  have parsed: "wr_parsed ?r = Some (JObj ?body)" by (simp add: delivery_def Let_def)
  have data: "jget_default (JObj ?body) ''data'' ?body = JObj (success_data ''KPY-1'')"
    by (simp add: jget_default_def)
  have signed: "authentic demo_mac hook_settings (success_data ''KPY-1'') (request_signature ?r)" by code_simp
  have first: "kora_webhook demo_mac (\<lambda>x. x) hook_settings no_pause ''e1'' 1000000 ?r (payout_db PROCESSING)
      = (fst (deliver ?r ''e1'' (payout_db PROCESSING)), ?d1, snd (snd (deliver ?r ''e1'' (payout_db PROCESSING))))"
    by (simp add: deliver_def)
  obtain e where e: "row_lookup we_event_id ?i (db_events ?d1) = Some e"
    and again: "kora_webhook demo_mac (\<lambda>x. x) hook_settings no_pause ''e2'' 2000000 ?r ?d1
        = (Inr \<lparr> wp_status = ''already_'' @ we_status e, wp_event_id = Some ?i, wp_reason = None \<rparr>, ?d1, None)"
    using webhook_replay_has_no_effect [OF parsed data signed first, where pz' = no_pause and fresh' = "''e2''" and now' = 2000000]
    unfolding no_pause_def events_stay_def webhook_pauses.simps by blast
  have i: "?i = ''evt-7''" by code_simp
  have "map_option we_status (row_lookup we_event_id ''evt-7'' (db_events ?d1)) = Some ''processed''" by code_simp
  then have "we_status e = ''processed''" using e unfolding i by simp
  then show ?thesis using again unfolding i Let_def by simp
qed

section \<open>Deliveries that interrupt each other\<close>

text \<open>A delivery with the deliveries that are handled during its pauses, which may be interrupted in turn.\<close>

datatype hook_event =
  HookEvent uuid time webhook_request "hook_event list" "hook_event list" "hook_event list" "hook_event list"

lemma run_cong [fundef_cong]:
  assumes "xs = ys" and "\<And>x. x \<in> set ys \<Longrightarrow> f x = g x"
  shows "run f xs = run g ys"
proof
  show "run f xs s = run g ys s" for s
    unfolding assms(1) using assms(2) by (induction ys arbitrary: s) simp_all
qed

fun hook_step ::
  "(string \<Rightarrow> string \<Rightarrow> string) \<Rightarrow> (string \<Rightarrow> string) \<Rightarrow> settings \<Rightarrow> hook_event \<Rightarrow> db \<Rightarrow> db" where
  "hook_step hm sh st (HookEvent fresh now r b1 b2 b3 b4) =
     (\<lambda>d. fst (snd (kora_webhook hm sh st
        \<lparr> ps_before = run (hook_step hm sh st) b1, ps_load = run (hook_step hm sh st) b2,
          ps_lookup = run (hook_step hm sh st) b3, ps_during = run (hook_step hm sh st) b4 \<rparr> fresh now r d)))"

text \<open>
  A relation that holds across the storing of an event, across the commit of one and across the change
  of its status holds across every delivery whose interruptions keep it.
\<close>

locale webhook_relation =
  fixes R :: "db \<Rightarrow> db \<Rightarrow> bool"
  assumes same: "R d d" and chain: "R d d1 \<Longrightarrow> R d1 d2 \<Longrightarrow> R d d2"
    and store: "we_event_id e \<notin> we_event_id ` set (db_events d) \<Longrightarrow> R d (stored_event e d)"
    and commit: "merged (session_view pz d) (at_commit pz d) d' \<Longrightarrow>
          (\<And>x. R x (ps_before pz x)) \<Longrightarrow> (\<And>x. R x (ps_load pz x)) \<Longrightarrow> (\<And>x. R x (ps_lookup pz x)) \<Longrightarrow>
          (\<And>x. R x (ps_during pz x)) \<Longrightarrow> R d d'"
    and mark: "(\<And>x. we_event_id (f x) = we_event_id x) \<Longrightarrow> R d (set_event i f d)"
begin

lemma webhook_kept:
  assumes "\<And>x. R x (ps_before pz x)" and "\<And>x. R x (ps_load pz x)" and "\<And>x. R x (ps_lookup pz x)"
    and "\<And>x. R x (ps_during pz x)"
  shows "R d (fst (snd (kora_webhook hm sh st pz fresh now r d)))"
proof -
  obtain res d' al where w: "kora_webhook hm sh st pz fresh now r d = (res, d', al)" by (rule prod_cases3)
  from w have "R d d'"
  proof (cases rule: kora_webhook_cases)
    case (stored body data e f d2)
    have cur: "R x (at_commit pz x)" for x
      unfolding at_commit_def by (rule chain [OF chain [OF chain [OF assms(1,2)] assms(3)] assms(4)])
    from stored(7) have "R (stored_event e d) d2"
    proof
      assume "d2 = at_commit pz (stored_event e d)"
      then show ?thesis by (simp only: cur)
    next
      assume "merged (session_view pz (stored_event e d)) (at_commit pz (stored_event e d)) d2"
      then show ?thesis using assms by (rule commit)
    qed
    then show "R d d'" unfolding stored(6)
      by (rule chain [OF chain [OF store [OF stored(4)]] mark [OF stored(5)]])
  qed (simp add: same)
  then show ?thesis by (simp add: w)
qed

lemma run_kept: "(\<And>ev x. ev \<in> set evs \<Longrightarrow> R x (f ev x)) \<Longrightarrow> R d (run f evs d)"
proof (induction evs arbitrary: d)
  case (Cons ev evs)
  have "R d (f ev d)" by (rule Cons.prems) simp
  moreover have "R (f ev d) (run f evs (f ev d))" by (rule Cons.IH) (use Cons.prems in simp)
  ultimately show ?case unfolding run.simps by (rule chain)
qed (simp add: same)

lemma hook_step_kept: "R d (hook_step hm sh st ev d)"
proof (induction ev arbitrary: d)
  case (HookEvent fresh now r b1 b2 b3 b4)
  then show ?case by (auto intro!: webhook_kept run_kept)
qed

lemma hooks_kept: "R d (run (hook_step hm sh st) evs d)"
  by (rule run_kept) (rule hook_step_kept)

end

section \<open>The ledger\<close>

text \<open>The ledger is only appended to, by debits of refunds and payouts.\<close>

definition only_debits :: "db \<Rightarrow> db \<Rightarrow> bool" where
  "only_debits d d' \<longleftrightarrow>
     (\<exists>es. db_ledger d' = db_ledger d @ es \<and> list_all (\<lambda>e. kora_debit e \<and> le_direction e = ''debit'') es)"

lemma only_debits_trans: "only_debits d d1 \<Longrightarrow> only_debits d1 d2 \<Longrightarrow> only_debits d d2"
  unfolding only_debits_def by (elim exE conjE) (simp add: list_all_append)

interpretation debits: webhook_relation only_debits
proof unfold_locales
  show "only_debits d d2" if "only_debits d d1" "only_debits d1 d2" for d d1 d2
    using that by (rule only_debits_trans)
  show "only_debits d d'"
    if "merged (session_view pz d) (at_commit pz d) d'" "\<And>x. only_debits x (ps_before pz x)"
      "\<And>x. only_debits x (ps_load pz x)" "\<And>x. only_debits x (ps_lookup pz x)" "\<And>x. only_debits x (ps_during pz x)"
    for pz d d'
  proof -
    have "only_debits d (at_commit pz d)"
      unfolding at_commit_def
      by (rule only_debits_trans [OF only_debits_trans [OF only_debits_trans [OF that(2,3)] that(4)] that(5)])
    moreover have "only_debits (at_commit pz d) d'"
      using that(1) by (auto simp: merged_def books_def only_debits_def)
    ultimately show ?thesis by (rule only_debits_trans)
  qed
qed (simp_all add: only_debits_def stored_event_def)

lemma webhooks_only_append_debits: "only_debits d (run (hook_step hm sh st) evs d)"
  by (rule debits.hooks_kept)

definition one_debit_each :: "db \<Rightarrow> bool" where
  "one_debit_each d \<longleftrightarrow> distinct (map entry_ref (filter kora_debit (db_ledger d)))"

text \<open>
  The debit of an event is the only one of its reference when the ledger is not debited between the
  session's lookup and its commit.
\<close>

lemma merged_one_debit:
  assumes "merged view cur d" and "one_debit_each cur"
    and "filter kora_debit (db_ledger cur) = filter kora_debit (db_ledger view)"
  shows "one_debit_each d"
proof -
  have "entry_ref e \<notin> entry_ref ` set (filter kora_debit (db_ledger cur))"
    if "entry_ref e \<notin> entry_ref ` set (db_ledger view)" for e
    unfolding assms(3) using that by auto
  then show ?thesis using assms(1,2) by (fastforce simp: merged_def books_def one_debit_each_def)
qed

section \<open>The payment ledger's boundary\<close>

definition distinct_transactions :: "db \<Rightarrow> bool" where
  "distinct_transactions d \<longleftrightarrow> distinct (map tx_id (db_transactions d))"

text \<open>The transactions of other namespaces stay as they are.\<close>

definition foreign_kept :: "db \<Rightarrow> db \<Rightarrow> bool" where
  "foreign_kept d d' \<longleftrightarrow>
     (distinct_transactions d \<longrightarrow> distinct_transactions d'
      \<and> (\<forall>k t. row_lookup tx_id k (db_transactions d) = Some t \<longrightarrow> tx_ledger_namespace t \<noteq> ''afm_payments'' \<longrightarrow>
           row_lookup tx_id k (db_transactions d') = Some t))"

lemma foreign_kept_trans: "foreign_kept d d1 \<Longrightarrow> foreign_kept d1 d2 \<Longrightarrow> foreign_kept d d2"
  unfolding foreign_kept_def by blast

lemma same_ids: "map tx_core xs = map tx_core ys \<Longrightarrow> map tx_id xs = map tx_id ys"
  by (drule arg_cong [where f = "map fst"]) (simp add: comp_def tx_core_def)

interpretation foreigners: webhook_relation foreign_kept
proof unfold_locales
  show "foreign_kept d d2" if "foreign_kept d d1" "foreign_kept d1 d2" for d d1 d2
    using that by (rule foreign_kept_trans)
  show "foreign_kept d d'"
    if merged: "merged (session_view pz d) (at_commit pz d) d'" and "\<And>x. foreign_kept x (ps_before pz x)"
      "\<And>x. foreign_kept x (ps_load pz x)" "\<And>x. foreign_kept x (ps_lookup pz x)" "\<And>x. foreign_kept x (ps_during pz x)"
    for pz d d'
  proof -
    have view: "db_transactions (session_view pz d) = db_transactions (ps_load pz (ps_before pz d))"
      by (simp add: session_view_def Let_def)
    have v: "foreign_kept d (ps_load pz (ps_before pz d))" by (rule foreign_kept_trans [OF that(2,3)])
    then have c: "foreign_kept d (at_commit pz d)"
      unfolding at_commit_def by (rule foreign_kept_trans [OF foreign_kept_trans [OF _ that(4)] that(5)])
    have "distinct_transactions d' \<longleftrightarrow> distinct_transactions (at_commit pz d)"
      using same_ids [OF merged [unfolded merged_def, THEN conjunct1]] by (simp add: distinct_transactions_def)
    moreover have "row_lookup tx_id k (db_transactions d') = Some t"
      if "distinct_transactions d" "row_lookup tx_id k (db_transactions d) = Some t"
        "tx_ledger_namespace t \<noteq> ''afm_payments''" for k t
    proof -
      have "distinct (map tx_id (db_transactions (session_view pz d)))"
        "row_lookup tx_id k (db_transactions (session_view pz d)) = Some t"
        "row_lookup tx_id k (db_transactions (at_commit pz d)) = Some t"
        using v c that unfolding view foreign_kept_def distinct_transactions_def by blast+
      with merged that(3) show ?thesis unfolding merged_def by metis
    qed
    ultimately show ?thesis using c by (simp add: foreign_kept_def)
  qed
qed (simp_all add: foreign_kept_def distinct_transactions_def stored_event_def)

text \<open>
  Claim C21. Payment webhooks stay inside the payment ledger: no sequence of deliveries, however they
  interrupt each other, changes a transaction of another namespace (the trading and core ledgers),
  whatever references the events carry.
\<close>

theorem webhooks_respect_ledger_namespace:
  assumes "distinct_transactions d" and "row_lookup tx_id k (db_transactions d) = Some t"
    and "tx_ledger_namespace t \<noteq> ''afm_payments''"
  shows "row_lookup tx_id k (db_transactions (run (hook_step hm sh st) evs d)) = Some t"
  using foreigners.hooks_kept [of d hm sh st evs] assms unfolding foreign_kept_def by blast

lemma webhooks_respect_ledger_namespace_witness:
  "row_lookup tx_id ''t9'' (db_transactions (run (hook_step demo_mac (\<lambda>x. x) hook_settings)
     [HookEvent ''e1'' 1 (delivery ''transfer.failed'' JNull (success_data ''PAY-t9'')) [] []
        [HookEvent ''e2'' 2 (delivery ''transfer.success'' JNull (success_data ''PAY-t9'')) [] [] [] []] []]
     (sample_db COMPLETED \<lparr> db_transactions := [sample_transaction ''t9'' ''u1'' COMPLETED] \<rparr>)))
   = Some (sample_transaction ''t9'' ''u1'' COMPLETED)"
  by (rule webhooks_respect_ledger_namespace)
    (simp_all add: distinct_transactions_def sample_transaction_def)

text \<open>
  One payout is debited twice when two events of it are handled at once: each finds no ledger entry of
  the reference, each appends its own, and nothing in the ledger's table keeps the second one out.
\<close>

lemma interrupted_delivery_debits_twice:
  "(let d = run (hook_step demo_mac (\<lambda>x. x) hook_settings)
       [HookEvent ''e1'' 1 (delivery ''transfer.success'' (JStr ''evt-1'') (success_data ''KPY-1'')) [] [] []
          [HookEvent ''e2'' 2 (delivery ''transfer.success'' (JStr ''evt-2'') (success_data ''KPY-1'')) [] [] [] []]]
       (payout_db PROCESSING)
    in map we_status (db_events d) = [''processed'', ''processed'']
     \<and> map (\<lambda>e. (le_direction e, le_amount e, entry_ref e)) (db_ledger d)
         = replicate 2 (''debit'', Dec 10000 0, (Some ''kora_payout'', Some ''KPY-1''))
     \<and> \<not> one_debit_each d)"
  by code_simp

section \<open>What the endpoint does not guarantee\<close>

definition after :: "webhook_request list \<Rightarrow> db \<Rightarrow> db" where
  "after rs d = foldl (\<lambda>d r. fst (snd (deliver r (nat_str (int (length (db_ledger d)))) d))) d rs"

text \<open>
  One payout can be debited twice: the ledger entry is keyed by the reference the event
  happens to carry, and a payout answers to two of them, the one AFM chose and the one Kora
  assigned.  Two success events that name the payout differently leave two debits of the full
  amount for the one transaction.
\<close>

lemma payout_debited_twice:
  "(let d = after [delivery ''transfer.success'' JNull (success_data ''AFM-PO-1''),
                   delivery ''transfer.success'' JNull (success_data ''KPY-1'')] (payout_db PROCESSING)
    in map tx_id (db_transactions d) = [''t1'']
     \<and> map (\<lambda>e. (le_account_id e, le_direction e, le_amount e)) (db_ledger d)
         = [(''a1'', ''debit'', Dec 10000 0), (''a1'', ''debit'', Dec 10000 0)]
     \<and> map (\<lambda>e. jget ''transaction_id'' (le_metadata e)) (db_ledger d) = [JStr ''t1'', JStr ''t1''])"
  by code_simp

definition sample_refund :: "string \<Rightarrow> time \<Rightarrow> refund" where
  "sample_refund reference t =
     \<lparr> rf_transaction_id = ''t1'', rf_refund_reference = reference, rf_idempotency_key = reference,
       rf_payment_reference = ''KPY-1'', rf_amount = Dec 4000 0, rf_currency = ''XAF'', rf_reason = None,
       rf_status = ''processing'', rf_psp_response = [], rf_error_message = None,
       rf_completed_at = None, rf_created_at = t \<rparr>"

definition two_refunds :: db where
  "two_refunds = (payout_db COMPLETED)
     \<lparr> db_refunds := [sample_refund ''AFM-RF-1'' 10, sample_refund ''AFM-RF-2'' 20] \<rparr>"

definition refund_event :: "string \<Rightarrow> jobj" where
  "refund_event reference =
     [(''reference'', JStr reference), (''payment_reference'', JStr ''KPY-1''), (''status'', JStr ''success'')]"

text \<open>
  A refund event can settle the wrong refund: the lookup also accepts every refund of the
  same payment and takes the newest, so that the success of the first of two partial refunds is
  booked on the second, while the first stays in processing.
\<close>

lemma refund_event_settles_newest_refund:
  "(let d = after [delivery ''refund.success'' JNull (refund_event ''AFM-RF-1'')] two_refunds
    in map (\<lambda>r. (rf_refund_reference r, rf_status r)) (db_refunds d)
         = [(''AFM-RF-1'', ''processing''), (''AFM-RF-2'', ''success'')]
     \<and> map le_reference_id (db_ledger d) = [Some ''AFM-RF-2''])"
  by code_simp

text \<open>
  Unlike the reconciliation worker, the webhook does not protect settled payments: a late
  or repeated event moves a refunded transaction back to completed, and a completed payout, debit
  and all, to failed.
\<close>

lemma webhook_reopens_settled_payments:
  "map tx_status (db_transactions (after [delivery ''charge.success'' JNull (success_data ''KPY-1'')]
       (payout_db REFUNDED))) = [COMPLETED]
   \<and> (let d = after [delivery ''transfer.success'' JNull (success_data ''KPY-1''),
                      delivery ''transfer.failed'' JNull [(''reference'', JStr ''KPY-1''), (''status'', JStr ''failed'')]]
               (payout_db PROCESSING)
      in map tx_status (db_transactions d) = [FAILED] \<and> length (db_ledger d) = 1)"
proof
  show "map tx_status (db_transactions (after [delivery ''charge.success'' JNull (success_data ''KPY-1'')]
       (payout_db REFUNDED))) = [COMPLETED]" by code_simp
  show "let d = after [delivery ''transfer.success'' JNull (success_data ''KPY-1''),
                      delivery ''transfer.failed'' JNull [(''reference'', JStr ''KPY-1''), (''status'', JStr ''failed'')]]
               (payout_db PROCESSING)
      in map tx_status (db_transactions d) = [FAILED] \<and> length (db_ledger d) = 1" by code_simp
qed

text \<open>
  The signature covers the data object only, neither the event's name nor its identifier:
  whoever holds one signed delivery can change both and the endpoint accepts the result, and with
  the success of a pay-in renamed to a transfer it debits the payer's virtual account.
\<close>

theorem signature_ignores_event_name:
  "(wr_parsed r = Some (JObj body) \<and> wr_parsed r' = Some (JObj body')
      \<and> jget_default (JObj body) ''data'' body = JObj data \<and> jget_default (JObj body') ''data'' body' = JObj data
      \<and> request_signature r' = request_signature r \<and> authentic hm st data (request_signature r)
    \<longrightarrow> kora_webhook hm sh st pz fresh now r' d
          = kora_webhook_event st pz fresh now (sh (wr_payload r')) body' data d)
   \<and> length (db_ledger (after [delivery ''charge.success'' (JStr ''1'') (success_data ''KPY-1'')] (payout_db PROCESSING))) = 0
   \<and> length (db_ledger (after [delivery ''charge.success'' (JStr ''1'') (success_data ''KPY-1''),
        delivery ''transfer.success'' (JStr ''2'') (success_data ''KPY-1'')] (payout_db PROCESSING))) = 1"
proof (intro conjI)
  show "length (db_ledger (after [delivery ''charge.success'' (JStr ''1'') (success_data ''KPY-1'')] (payout_db PROCESSING))) = 0"
    by code_simp
  show "length (db_ledger (after [delivery ''charge.success'' (JStr ''1'') (success_data ''KPY-1''),
        delivery ''transfer.success'' (JStr ''2'') (success_data ''KPY-1'')] (payout_db PROCESSING))) = 1"
    by code_simp
qed (simp add: kora_webhook_def)

lemma signature_ignores_event_name_witness:
  "kora_webhook demo_mac (\<lambda>x. x) hook_settings no_pause ''e1'' 0 (delivery ''transfer.success'' (JStr ''2'') (success_data ''KPY-1'')) empty_db
     = kora_webhook_event hook_settings no_pause ''e1'' 0
         (wr_payload (delivery ''transfer.success'' (JStr ''2'') (success_data ''KPY-1'')))
         [(''event'', JStr ''transfer.success''), (''id'', JStr ''2''), (''data'', JObj (success_data ''KPY-1''))]
         (success_data ''KPY-1'') empty_db"
proof -
  have "authentic demo_mac hook_settings (success_data ''KPY-1'')
      (request_signature (delivery ''charge.success'' (JStr ''1'') (success_data ''KPY-1'')))" by code_simp
  then show ?thesis
    by (intro signature_ignores_event_name [THEN conjunct1, rule_format,
          where r = "delivery ''charge.success'' (JStr ''1'') (success_data ''KPY-1'')"
            and body = "[(''event'', JStr ''charge.success''), (''id'', JStr ''1''), (''data'', JObj (success_data ''KPY-1''))]"])
      (simp add: delivery_def Let_def jget_default_def request_signature_def)
qed

text \<open>
  A failed event is never processed again: the payout's event that arrives before the payout's row
  is stored as failed, and when Kora redelivers it after the row exists it is acknowledged with
  \<^verbatim>\<open>already_failed\<close> and the payout stays in processing.
\<close>

lemma failed_event_is_final:
  "(let r = delivery ''transfer.success'' JNull (success_data ''KPY-1'');
        d1 = after [r] empty_db;
        (res, d2, al) = deliver r ''e2'' (d1 \<lparr> db_transactions := [payout_tx PROCESSING] \<rparr>)
    in map we_status (db_events d1) = [''failed'']
     \<and> map_sum (\<lambda>_. ()) wp_status res = Inr ''already_failed''
     \<and> map tx_status (db_transactions d2) = [PROCESSING])"
  by code_simp

end
