(* ===== verification/AFM_Payout.thy ===== *)
theory AFM_Payout
  imports AFM_Ledger AFM_Kora_Client
begin

text \<open>
  The transfer gates and the payout route of \<^verbatim>\<open>api_gateway/main.py\<close>: the verified-user gate, the
  monthly KYC1 limit and \<^verbatim>\<open>create_kora_payout\<close>.  The route is one database session; a result
  carries the database as the session's commits leave it.  Fresh identifiers are parameters.
\<close>

section \<open>The verified-user gate\<close>

definition require_verified_user :: "settings \<Rightarrow> uuid \<Rightarrow> db \<Rightarrow> exn + uuid" where
  "require_verified_user st user_id d =
     (if \<not> is_production st then Inr user_id
      else
        bindE (scalar_one_or_none (filter (\<lambda>u. us_id u = user_id) (db_users d))) (\<lambda>found.
        case found of
          None \<Rightarrow> Inl (HTTPException 401 ''User account is unavailable'')
        | Some u \<Rightarrow>
            if us_is_active u \<noteq> ''1'' then Inl (HTTPException 401 ''User account is unavailable'')
            else if us_email_verified_at u = None
            then Inl (HTTPException 403 ''Email verification is required before transfers'')
            else if us_terms_accepted_at u = None \<or> us_terms_version u \<noteq> Some (terms_version st)
                    \<or> us_aml_policy_version u \<noteq> Some (aml_policy_version st)
            then Inl (HTTPException 403
              ''Acceptance of the current terms and AML policy is required before transfers'')
            else Inr user_id))"

section \<open>The monthly limit\<close>

text \<open>\<^verbatim>\<open>func.sum\<close> adds exactly; an empty sum is coalesced to zero.\<close>

definition sql_add :: "decimal \<Rightarrow> decimal \<Rightarrow> decimal" where
  "sql_add a b = (let m = min (expo a) (expo b) in Dec (align a m + align b m) m)"

definition sql_sum :: "decimal list \<Rightarrow> decimal" where
  "sql_sum ds = foldr sql_add ds (Dec 0 0)"

definition counts_for_limit :: "time \<Rightarrow> uuid \<Rightarrow> transaction \<Rightarrow> bool" where
  "counts_for_limit now user_id t \<longleftrightarrow>
     tx_user_id t = user_id \<and> tx_ledger_namespace t = ''afm_payments''
   \<and> tx_currency t \<in> {''XAF'', ''XOF''} \<and> month_start now \<le> tx_created_at t
   \<and> tx_status t \<notin> {FAILED, REFUNDED}"

definition month_total :: "time \<Rightarrow> uuid \<Rightarrow> db \<Rightarrow> decimal" where
  "month_total now user_id d =
     sql_sum (map tx_amount (filter (counts_for_limit now user_id) (db_transactions d)))"

definition enforce_kyc1_monthly_limit ::
  "settings \<Rightarrow> time \<Rightarrow> uuid \<Rightarrow> decimal \<Rightarrow> string \<Rightarrow> db \<Rightarrow> exn + unit" where
  "enforce_kyc1_monthly_limit st now user_id amount currency d =
     (if \<not> is_production st then Inr ()
      else if py_upper currency \<notin> {''XAF'', ''XOF''}
      then Inl (HTTPException 403 ''This corridor requires enhanced verification'')
      else
        let proposed_total = dec_add (dec_or_0 (month_total now user_id d)) amount;
            limit = Dec (kyc1_monthly_limit_xaf st) 0
        in if limit < proposed_total
           then Inl (HTTPException 403 ''Monthly KYC1 limit exceeded; enhanced verification is required'')
           else Inr ())"

section \<open>The payout route\<close>

record payout_request =
  po_amount :: decimal
  po_currency :: string
  po_customer_email :: string
  po_customer_name :: "string option"
  po_narration :: "string option"
  po_mobile_money_operator :: "string option"
  po_mobile_number :: "string option"
  po_bank_country :: "string option"
  po_bank_name :: "string option"
  po_bank_code :: "string option"
  po_account_number :: "string option"
  po_execute :: bool

text \<open>The constraints of the request model, which FastAPI checks before the route runs.\<close>

definition valid_payout_request :: "payout_request \<Rightarrow> bool" where
  "valid_payout_request p \<longleftrightarrow>
     Dec 0 0 < po_amount p \<and> length (po_currency p) = 3 \<and> 3 \<le> length (po_customer_email p)"

record payout_response =
  pr_reference :: string
  pr_transaction_id :: uuid
  pr_status :: string
  pr_execution_mode :: string
  pr_destination_type :: string
  pr_amount :: "string option"
  pr_kora_response :: "jobj option"
  pr_funds_movement :: bool
  pr_ledger_write :: bool

definition payout_reference :: "string \<Rightarrow> string" where
  "payout_reference fresh_hex = ''afm-payout-'' @ fresh_hex"

definition destination_type :: "payout_request \<Rightarrow> string" where
  "destination_type p = (if is_set (po_mobile_money_operator p) then ''mobile_money'' else ''bank_account'')"

definition payout_transaction ::
  "uuid \<Rightarrow> string \<Rightarrow> time \<Rightarrow> uuid \<Rightarrow> payout_request \<Rightarrow> virtual_account \<Rightarrow> transaction" where
  "payout_transaction fresh reference now user_id p account =
     \<lparr> tx_id = fresh, tx_idempotency_key = reference, tx_user_id = user_id, tx_psp = KORA,
       tx_psp_transaction_id = None, tx_psp_payment_reference = None, tx_psp_response = [],
       tx_amount = po_amount p, tx_currency = py_upper (po_currency p), tx_fee_amount = Dec 0 0,
       tx_fee_currency = py_upper (po_currency p), tx_net_amount = po_amount p, tx_status = PROCESSING,
       tx_metadata = [(''operation'', JStr ''payout''), (''destination_type'', JStr (destination_type p)),
                      (''reconciliation_status'', JStr ''pending''), (''balance_affecting'', JBool False)],
       tx_ledger_namespace = ''afm_payments'', tx_virtual_account_id = Some (va_id account),
       tx_corridor = None, tx_beneficiary_currency = None, tx_mobile_money_phone = po_mobile_number p,
       tx_mobile_money_provider_reference = None, tx_mobile_money_owner_verified_at = None,
       tx_total_fee_amount = Dec 0 0, tx_error_message = None, tx_webhook_received_at = None,
       tx_settled_at = None, tx_created_at = now, tx_updated_at = now \<rparr>"

definition payout_call_args :: "string \<Rightarrow> payout_request \<Rightarrow> payout_args" where
  "payout_call_args reference p =
     \<lparr> pa_reference = reference, pa_amount = po_amount p, pa_currency = po_currency p,
       pa_customer_email = po_customer_email p, pa_customer_name = po_customer_name p,
       pa_narration = po_narration p, pa_mobile_money_operator = po_mobile_money_operator p,
       pa_mobile_number = po_mobile_number p, pa_bank_country = po_bank_country p,
       pa_bank_name = po_bank_name p, pa_bank_code = po_bank_code p,
       pa_account_number = po_account_number p \<rparr>"

definition accepted_payout :: "string \<Rightarrow> jobj \<Rightarrow> transaction \<Rightarrow> transaction" where
  "accepted_payout reference result tx =
     (let ref = py_or (jget ''reference'' result) (jget ''transaction_reference'' result);
          given = py_str (py_or ref (JStr ''''))
      in tx \<lparr> tx_psp_transaction_id := Some (py_str (py_or ref (JStr reference))),
              tx_mobile_money_provider_reference := (if given \<noteq> [] then Some given else None),
              tx_psp_response := result, tx_status := PROCESSING \<rparr>)"

definition rejected_payout :: "transaction \<Rightarrow> transaction" where
  "rejected_payout tx =
     tx \<lparr> tx_status := FAILED, tx_error_message := Some ''Kora payout is temporarily unavailable'',
          tx_metadata := jset ''reconciliation_status'' (JStr ''exception'') (tx_metadata tx) \<rparr>"

record payout_env =
  pe_now :: time
  pe_fresh_account :: uuid
  pe_fresh_hex :: string
  pe_fresh_transaction :: uuid
  pe_meanwhile :: "db \<Rightarrow> db"
  pe_during :: "db \<Rightarrow> db"

text \<open>
  The route behind its dependencies.  The payout row is flushed before the provider is called, where
  a taken key is an integrity error, and committed after the provider answered: an exception other
  than the client's own rolls the row back.  What other sessions commit between the limit's check and
  that commit is \<open>pe_during\<close>; no session sees the flushed row before its commit, so that their
  commits can be taken before the flush.
\<close>

definition create_kora_payout ::
  "settings \<Rightarrow> http \<Rightarrow> payout_env \<Rightarrow> payout_request \<Rightarrow> string option \<Rightarrow> uuid \<Rightarrow> db
   \<Rightarrow> (exn + payout_response) \<times> db" where
  "create_kora_payout st h env p confirmation user_id d =
     (if is_set (po_mobile_money_operator p) \<noteq> is_set (po_mobile_number p)
      then (Inl (HTTPException 422 ''Mobile Money operator and number must be provided together''), d)
      else if \<not> (is_set (po_mobile_money_operator p) \<and> is_set (po_mobile_number p))
              \<and> \<not> is_set (po_account_number p)
      then (Inl (HTTPException 422 ''A Mobile Money destination or bank account is required''), d)
      else if po_execute p \<and> confirmation \<noteq> Some ''CONFIRM''
      then (Inl (HTTPException 428 ''Explicit payout confirmation is required''), d)
      else case (if po_execute p
                 then enforce_kyc1_monthly_limit st (pe_now env) user_id (po_amount p) (po_currency p) d
                 else Inr ()) of
        Inl e \<Rightarrow> (Inl e, d)
      | Inr _ \<Rightarrow>
        (case get_or_create_virtual_account (pe_fresh_account env) (pe_now env) (pe_meanwhile env) user_id d of
           (Inl e, d1) \<Rightarrow> (Inl e, d1)
         | (Inr account, d0) \<Rightarrow>
           let d1 = pe_during env d0;
               reference = payout_reference (pe_fresh_hex env);
               tx = payout_transaction (pe_fresh_transaction env) reference (pe_now env) user_id p account;
               commit = (\<lambda>t. d1 \<lparr> db_transactions := db_transactions d1 @ [t] \<rparr>)
           in if add_transaction tx d1 = None then (Inl IntegrityError, d1)
              else if \<not> po_execute p
              then case dec_quantize round_half_even (- 2) (po_amount p) of
                     Inl e \<Rightarrow> (Inl e, commit tx)
                   | Inr shown \<Rightarrow>
                       (Inr \<lparr> pr_reference = reference, pr_transaction_id = tx_id tx,
                              pr_status = ''validated'', pr_execution_mode = ''validation_only'',
                              pr_destination_type = destination_type p, pr_amount = Some (dec_str shown),
                              pr_kora_response = None, pr_funds_movement = False,
                              pr_ledger_write = False \<rparr>, commit tx)
              else if is_development st
              then (Inl (HTTPException 409 ''Live payout is disabled in development''), d1)
              else case create_payout st h (payout_call_args reference p) of
                Inl (KoraClientError _) \<Rightarrow>
                  (Inl (HTTPException 502 ''Kora payout is temporarily unavailable''), commit (rejected_payout tx))
              | Inl e \<Rightarrow> (Inl e, d1)
              | Inr result \<Rightarrow>
                  (Inr \<lparr> pr_reference = reference, pr_transaction_id = tx_id tx,
                         pr_status = py_str (py_or (jget ''status'' result) (JStr ''processing'')),
                         pr_execution_mode = ''kora_live'', pr_destination_type = destination_type p,
                         pr_amount = None, pr_kora_response = Some result, pr_funds_movement = True,
                         pr_ledger_write = False \<rparr>, commit (accepted_payout reference result tx))))"

text \<open>The route with its dependencies: request validation and the verified-user gate.\<close>

definition kora_payout_route ::
  "settings \<Rightarrow> http \<Rightarrow> payout_env \<Rightarrow> payout_request \<Rightarrow> string option \<Rightarrow> uuid \<Rightarrow> db
   \<Rightarrow> (exn + payout_response) \<times> db" where
  "kora_payout_route st h env p confirmation user_id d =
     (case require_verified_user st user_id d of
        Inl e \<Rightarrow> (Inl e, d)
      | Inr verified \<Rightarrow>
          if \<not> valid_payout_request p then (Inl (HTTPException 422 ''''), d)
          else create_kora_payout st h env p confirmation verified d)"

section \<open>When a payout leaves\<close>

lemma require_verified_user_Inr:
  assumes "require_verified_user st u d = Inr v"
  shows "v = u"
    and "is_production st \<Longrightarrow> \<exists>x\<in>set (db_users d). us_id x = u \<and> us_is_active x = ''1''
           \<and> us_email_verified_at x \<noteq> None \<and> us_terms_accepted_at x \<noteq> None
           \<and> us_terms_version x = Some (terms_version st) \<and> us_aml_policy_version x = Some (aml_policy_version st)"
proof -
  have prod: "\<exists>x. scalar_one_or_none (filter (\<lambda>x. us_id x = u) (db_users d)) = Inr (Some x)
      \<and> us_is_active x = ''1'' \<and> us_email_verified_at x \<noteq> None \<and> us_terms_accepted_at x \<noteq> None
      \<and> us_terms_version x = Some (terms_version st) \<and> us_aml_policy_version x = Some (aml_policy_version st)
      \<and> v = u" if "is_production st"
  proof -
    from assms that obtain found where f: "scalar_one_or_none (filter (\<lambda>x. us_id x = u) (db_users d)) = Inr found"
      by (auto simp: require_verified_user_def bindE_eq_Inr_iff)
    show ?thesis
    proof (cases found)
      case None
      then show ?thesis using assms that f by (simp add: require_verified_user_def)
    next
      case (Some x)
      then show ?thesis using assms that f
        by (simp add: require_verified_user_def split: if_splits)
    qed
  qed
  show "v = u"
  proof (cases "is_production st")
    case False
    then show ?thesis using assms by (simp add: require_verified_user_def)
  qed (use prod in blast)
  assume "is_production st"
  then show "\<exists>x\<in>set (db_users d). us_id x = u \<and> us_is_active x = ''1''
           \<and> us_email_verified_at x \<noteq> None \<and> us_terms_accepted_at x \<noteq> None
           \<and> us_terms_version x = Some (terms_version st) \<and> us_aml_policy_version x = Some (aml_policy_version st)"
    using prod scalar_one_or_none_Some [of "\<lambda>x. us_id x = u" "db_users d"] by metis
qed

text \<open>The two ways in which a payout that does not raise ends.\<close>

lemma create_kora_payout_db:
  assumes "create_kora_payout st h env p c u d = (r, d')"
    and "get_or_create_virtual_account (pe_fresh_account env) (pe_now env) (pe_meanwhile env) u d = (a, d1)"
  shows "d' = d \<or> d' = d1 \<or> d' = pe_during env d1
    \<or> (\<exists>t. tx_user_id t = u \<and> tx_status t \<in> {PROCESSING, FAILED} \<and> tx_settled_at t = None
          \<and> add_transaction t (pe_during env d1) = Some d')"
proof -
  let ?d2 = "pe_during env d1"
  let ?ref = "payout_reference (pe_fresh_hex env)"
  let ?tx = "payout_transaction (pe_fresh_transaction env) ?ref (pe_now env) u p"
  have keys: "tx_id (rejected_payout t) = tx_id t" "tx_idempotency_key (rejected_payout t) = tx_idempotency_key t"
    "tx_user_id (rejected_payout t) = tx_user_id t" "tx_status (rejected_payout t) = FAILED"
    "tx_settled_at (rejected_payout t) = tx_settled_at t"
    "tx_id (accepted_payout s j t) = tx_id t" "tx_idempotency_key (accepted_payout s j t) = tx_idempotency_key t"
    "tx_user_id (accepted_payout s j t) = tx_user_id t" "tx_status (accepted_payout s j t) = PROCESSING"
    "tx_settled_at (accepted_payout s j t) = tx_settled_at t" for s j t
    by (simp_all add: rejected_payout_def accepted_payout_def Let_def)
  have new: "tx_user_id (?tx x) = u" "tx_status (?tx x) = PROCESSING" "tx_settled_at (?tx x) = None" for x
    by (simp_all add: payout_transaction_def)
  let ?outcome = "\<lambda>x. add_transaction (?tx x) ?d2 \<noteq> None
    \<and> (\<exists>t\<in>{?tx x, rejected_payout (?tx x)} \<union> range (\<lambda>j. accepted_payout ?ref j (?tx x)).
          d' = ?d2 \<lparr> db_transactions := db_transactions ?d2 @ [t] \<rparr>)"
  have "?thesis" if out: "?outcome x" for x
  proof -
    from out obtain t where d': "d' = ?d2 \<lparr> db_transactions := db_transactions ?d2 @ [t] \<rparr>"
      and t: "tx_id t = tx_id (?tx x)" "tx_idempotency_key t = tx_idempotency_key (?tx x)" "tx_user_id t = u"
        "tx_status t \<in> {PROCESSING, FAILED}" "tx_settled_at t = None"
      by (elim conjE bexE UnE) (auto simp: keys new)
    from out obtain dx where "add_transaction (?tx x) ?d2 = Some dx" by blast
    then have "add_transaction t ?d2 = Some d'"
      by (simp add: add_transaction_Some_iff d' t(1,2))
    with t show ?thesis by blast
  qed
  moreover have "d' = d \<or> d' = d1 \<or> d' = ?d2 \<or> (\<exists>x. ?outcome x)"
  proof (cases a)
    case (Inl e)
    then have "d' = d \<or> d' = d1"
      using assms by (simp add: create_kora_payout_def split: if_splits sum.splits)
    then show ?thesis by blast
  next
    case (Inr x)
    note unfold = assms(1) [unfolded create_kora_payout_def Let_def assms(2) Inr, simplified]
    have "d' = d \<or> d' = d1 \<or> d' = ?d2 \<or> ?outcome x"
    proof (cases "po_execute p")
      case False
      then show ?thesis using unfold by (simp split: if_splits sum.splits)
    next
      case True
      show ?thesis
      proof (cases "create_payout st h (payout_call_args ?ref p)")
        case (Inl e)
        then show ?thesis using unfold True by (cases e) (simp_all split: if_splits sum.splits)
      next
        case (Inr j)
        then show ?thesis using unfold True by (simp split: if_splits sum.splits) auto
      qed
    qed
    then show ?thesis by blast
  qed
  ultimately show ?thesis by blast
qed

lemma create_kora_payout_InrE:
  assumes "create_kora_payout st h env p c u d = (Inr resp, d')"
  obtains account d0 d1 where
      "get_or_create_virtual_account (pe_fresh_account env) (pe_now env) (pe_meanwhile env) u d = (Inr account, d0)" "d1 = pe_during env d0"
      "\<not> po_execute p" "\<not> pr_funds_movement resp"
      "d' = d1 \<lparr> db_transactions := db_transactions d1
          @ [payout_transaction (pe_fresh_transaction env) (payout_reference (pe_fresh_hex env)) (pe_now env) u p account] \<rparr>"
  | account d0 d1 result where
      "get_or_create_virtual_account (pe_fresh_account env) (pe_now env) (pe_meanwhile env) u d = (Inr account, d0)" "d1 = pe_during env d0"
      "po_execute p" "c = Some ''CONFIRM''" "\<not> is_development st" "pr_funds_movement resp"
      "enforce_kyc1_monthly_limit st (pe_now env) u (po_amount p) (po_currency p) d = Inr ()"
      "create_payout st h (payout_call_args (payout_reference (pe_fresh_hex env)) p) = Inr result"
      "d' = d1 \<lparr> db_transactions := db_transactions d1
          @ [accepted_payout (payout_reference (pe_fresh_hex env)) result
              (payout_transaction (pe_fresh_transaction env) (payout_reference (pe_fresh_hex env)) (pe_now env) u p account)] \<rparr>"
proof -
  note unfold = assms [unfolded create_kora_payout_def]
  obtain r d1 where g: "get_or_create_virtual_account (pe_fresh_account env) (pe_now env) (pe_meanwhile env) u d = (r, d1)"
    by (cases "get_or_create_virtual_account (pe_fresh_account env) (pe_now env) (pe_meanwhile env) u d")
  show thesis
  proof (cases "po_execute p")
    case False
    with unfold g show thesis
      by (cases r) (auto simp: Let_def split: if_splits sum.splits intro: that(1))
  next
    case True
    then obtain x where k: "enforce_kyc1_monthly_limit st (pe_now env) u (po_amount p) (po_currency p) d = Inr x"
      using unfold by (auto split: if_splits sum.splits)
    obtain account where r: "r = Inr account" using unfold True k g by (cases r) (auto split: if_splits)
    show thesis
      using unfold True k g r
      by (auto simp: Let_def split: if_splits sum.splits exn.splits intro: that(2))
  qed
qed

text \<open>
  Claim C22. A payout leaves only when it is asked for: a request that is not executed, not
  confirmed in its header or made in development has an outcome in which the provider plays no
  part; and a response that reports a movement of funds was executed, confirmed, well-formed for
  the provider and, in production, came from an active user who verified the e-mail address and
  accepted the current terms, in a currency of the KYC1 tier.
\<close>

theorem payout_moves_funds_only_when_confirmed:
  "(\<not> (po_execute p \<and> c = Some ''CONFIRM'' \<and> \<not> is_development st) \<longrightarrow>
      kora_payout_route st h env p c u d = kora_payout_route st h' env p c u d)
   \<and> (kora_payout_route st h env p c u d = (Inr resp, d') \<and> pr_funds_movement resp \<longrightarrow>
        po_execute p \<and> c = Some ''CONFIRM'' \<and> \<not> is_development st
      \<and> kora_configured st \<and> payout_request_ok (payout_call_args (payout_reference (pe_fresh_hex env)) p)
      \<and> (is_production st \<longrightarrow> py_upper (po_currency p) \<in> {''XAF'', ''XOF''}
          \<and> (\<exists>x\<in>set (db_users d). us_id x = u \<and> us_is_active x = ''1'' \<and> us_email_verified_at x \<noteq> None
               \<and> us_terms_accepted_at x \<noteq> None \<and> us_terms_version x = Some (terms_version st)
               \<and> us_aml_policy_version x = Some (aml_policy_version st))))"
proof (rule conjI; rule impI)
  assume "\<not> (po_execute p \<and> c = Some ''CONFIRM'' \<and> \<not> is_development st)"
  then have "create_kora_payout st h env p c v d = create_kora_payout st h' env p c v d" for v
    unfolding create_kora_payout_def Let_def
    by (auto split: sum.splits prod.splits)
  then show "kora_payout_route st h env p c u d = kora_payout_route st h' env p c u d"
    by (simp add: kora_payout_route_def split: sum.split)
next
  assume a: "kora_payout_route st h env p c u d = (Inr resp, d') \<and> pr_funds_movement resp"
  then obtain v where v: "require_verified_user st u d = Inr v"
    and r: "create_kora_payout st h env p c v d = (Inr resp, d')"
    by (auto simp: kora_payout_route_def split: sum.splits if_splits)
  note vu = require_verified_user_Inr [OF v]
  from r a show "po_execute p \<and> c = Some ''CONFIRM'' \<and> \<not> is_development st
      \<and> kora_configured st \<and> payout_request_ok (payout_call_args (payout_reference (pe_fresh_hex env)) p)
      \<and> (is_production st \<longrightarrow> py_upper (po_currency p) \<in> {''XAF'', ''XOF''}
          \<and> (\<exists>x\<in>set (db_users d). us_id x = u \<and> us_is_active x = ''1'' \<and> us_email_verified_at x \<noteq> None
               \<and> us_terms_accepted_at x \<noteq> None \<and> us_terms_version x = Some (terms_version st)
               \<and> us_aml_policy_version x = Some (aml_policy_version st)))"
  proof (elim create_kora_payout_InrE)
    fix account d0 d1 result
    assume "po_execute p" "c = Some ''CONFIRM''" "\<not> is_development st"
      and k: "enforce_kyc1_monthly_limit st (pe_now env) v (po_amount p) (po_currency p) d = Inr ()"
      and cp: "create_payout st h (payout_call_args (payout_reference (pe_fresh_hex env)) p) = Inr result"
    moreover have "is_production st \<Longrightarrow> py_upper (po_currency p) \<in> {''XAF'', ''XOF''}"
      using k by (auto simp: enforce_kyc1_monthly_limit_def split: if_splits)
    ultimately show ?thesis using payout_call.opened [OF cp] vu(2) by blast
  qed simp
qed

text \<open>A staging deployment whose provider accepts every request, and a complete payout.\<close>

definition staging_settings :: settings where
  "staging_settings = keyed_settings \<lparr> environment := Staging \<rparr>"

definition production_settings :: settings where
  "production_settings = keyed_settings \<lparr> environment := Production \<rparr>"

definition sample_payout :: "decimal \<Rightarrow> bool \<Rightarrow> payout_request" where
  "sample_payout amount execute =
     \<lparr> po_amount = amount, po_currency = ''XAF'', po_customer_email = ''a@b.cm'', po_customer_name = None,
       po_narration = None, po_mobile_money_operator = Some ''mtn-cm'', po_mobile_number = Some ''237670000000'',
       po_bank_country = None, po_bank_name = None, po_bank_code = None, po_account_number = None,
       po_execute = execute \<rparr>"

definition sample_env :: "string \<Rightarrow> payout_env" where
  "sample_env i =
     \<lparr> pe_now = days 20000, pe_fresh_account = ''a1'', pe_fresh_hex = i, pe_fresh_transaction = ''tx-'' @ i,
       pe_meanwhile = (\<lambda>d. d), pe_during = (\<lambda>d. d) \<rparr>"

definition verified_user :: "uuid \<Rightarrow> user" where
  "verified_user i =
     \<lparr> us_id = i, us_email = ''a@b.cm'', us_oauth_subject = None, us_hashed_password = None,
       us_full_name = None, us_phone = None, us_whatsapp_phone = None, us_mobile_money_phone = None,
       us_country = Some ''CM'', us_is_active = ''1'', us_kyc_status = ''verified'', us_date_of_birth = None,
       us_mobile_money_owner_verified_at = None, us_email_verified_at = Some 1, us_phone_verified_at = None,
       us_identity_consent_at = Some 1, us_terms_accepted_at = Some 1, us_terms_version = Some ''2026-08-27'',
       us_aml_policy_version = Some ''2.1'', us_created_at = 0 \<rparr>"

definition user_db :: db where
  "user_db = empty_db \<lparr> db_users := [verified_user ''u1''],
     db_accounts := [sample_account ''a1'' ''u1''] \<rparr>"

definition kora_ok :: http where
  "kora_ok = demo_answer [(''reference'', JStr ''KPY-1''), (''status'', JStr ''processing'')]"

lemma payout_moves_funds_only_when_confirmed_witness:
  "kora_payout_route production_settings kora_ok (sample_env ''x'') (sample_payout (Dec 5000 0) True) None ''u1'' user_db
     = kora_payout_route production_settings (\<lambda>_. TransportError) (sample_env ''x'') (sample_payout (Dec 5000 0) True)
         None ''u1'' user_db
   \<and> (case fst (kora_payout_route production_settings kora_ok (sample_env ''x'') (sample_payout (Dec 5000 0) True)
         (Some ''CONFIRM'') ''u1'' user_db) of Inl _ \<Rightarrow> False | Inr resp \<Rightarrow> pr_funds_movement resp)
   \<and> payout_request_ok (payout_call_args (payout_reference ''x'') (sample_payout (Dec 5000 0) True))"
proof -
  let ?run = "kora_payout_route production_settings kora_ok (sample_env ''x'') (sample_payout (Dec 5000 0) True)
         (Some ''CONFIRM'') ''u1'' user_db"
  have moved: "case fst ?run of Inl _ \<Rightarrow> False | Inr resp \<Rightarrow> pr_funds_movement resp" by code_simp
  then obtain resp d' where run: "?run = (Inr resp, d')" and "pr_funds_movement resp"
    by (cases ?run) (auto split: sum.splits)
  then have "payout_request_ok (payout_call_args (payout_reference (pe_fresh_hex (sample_env ''x'')))
      (sample_payout (Dec 5000 0) True))"
    using payout_moves_funds_only_when_confirmed by blast
  moreover have "kora_payout_route production_settings kora_ok (sample_env ''x'') (sample_payout (Dec 5000 0) True) None ''u1'' user_db
     = kora_payout_route production_settings (\<lambda>_. TransportError) (sample_env ''x'') (sample_payout (Dec 5000 0) True)
         None ''u1'' user_db"
    using payout_moves_funds_only_when_confirmed by blast
  ultimately show ?thesis using moved by (simp add: sample_env_def)
qed

section \<open>The limit holds\<close>

lemma dval_sql_add: "dval (sql_add a b) = dval a + dval b"
proof -
  let ?m = "min (expo a) (expo b)"
  have "dval (sql_add a b) = dval (Dec (align a ?m) ?m) + dval (Dec (align b ?m) ?m)"
    by (simp add: sql_add_def Let_def dval_Dec distrib_right)
  then show ?thesis by (simp add: dval_align)
qed

lemma dval_sql_sum: "dval (sql_sum ds) = sum_list (map dval ds)"
  by (induction ds) (simp_all add: sql_sum_def dval_sql_add dval_Dec)

lemma expo_sql_sum: "list_all (\<lambda>x. - 8 \<le> expo x) ds \<Longrightarrow> - 8 \<le> expo (sql_sum ds)"
  by (induction ds) (auto simp: sql_sum_def sql_add_def Let_def)

lemma abs_sql_sum:
  "list_all numeric_19_8 ds \<Longrightarrow> \<bar>dval (sql_sum ds)\<bar> \<le> of_nat (length ds) * 10 ^ 11"
proof (induction ds)
  case (Cons x ds)
  then have "\<bar>dval x + dval (sql_sum ds)\<bar> \<le> 10 ^ 11 + of_nat (length ds) * 10 ^ 11"
    by (intro order_trans [OF abs_triangle_ineq] add_mono) (simp_all add: numeric_19_8_iff)
  then show ?case by (simp add: sql_sum_def dval_sql_add distrib_right add.commute)
qed (simp add: sql_sum_def dval_Dec)

lemma month_total_numeric:
  assumes "list_all (\<lambda>t. numeric_19_8 (tx_amount t)) (db_transactions d)"
    and "length (db_transactions d) \<le> 99000000"
  shows "\<bar>dval (month_total now u d)\<bar> < 10 ^ 19 \<and> - 8 \<le> expo (month_total now u d)"
proof -
  let ?ds = "map tx_amount (filter (counts_for_limit now u) (db_transactions d))"
  have num: "list_all numeric_19_8 ?ds" using assms(1) by (auto simp: list_all_iff)
  have "length ?ds \<le> length (db_transactions d)"
    by (simp only: length_map length_filter_le)
  with assms(2) have "length ?ds \<le> 99000000" by (rule le_trans [rotated])
  then have "of_nat (length ?ds) * (10::rat) ^ 11 \<le> 99000000 * 10 ^ 11"
    by (intro mult_right_mono) simp_all
  also have "\<dots> < (10::rat) ^ 19" by simp
  finally have "\<bar>dval (month_total now u d)\<bar> < 10 ^ 19"
    using abs_sql_sum [OF num] unfolding month_total_def by linarith
  moreover have "- 8 \<le> expo (month_total now u d)"
    unfolding month_total_def using num by (intro expo_sql_sum) (auto simp: list_all_iff numeric_19_8_iff)
  ultimately show ?thesis by blast
qed

lemma enforce_limit_bound:
  assumes "enforce_kyc1_monthly_limit st now u amount cur d = Inr ()" and "is_production st"
    and "list_all (\<lambda>t. numeric_19_8 (tx_amount t)) (db_transactions d)"
    and "length (db_transactions d) \<le> 99000000" and "numeric_19_8 amount"
  shows "dval (month_total now u d) + dval amount \<le> of_int (kyc1_monthly_limit_xaf st)"
    and "py_upper cur \<in> {''XAF'', ''XOF''}"
proof -
  let ?t = "dec_or_0 (month_total now u d)"
  have t: "\<bar>dval ?t\<bar> < 10 ^ 19" "- 8 \<le> expo ?t"
    using month_total_numeric [OF assms(3,4), of now u] by (simp_all add: dec_or_0_def dval_Dec)
  have "\<not> Dec (kyc1_monthly_limit_xaf st) 0 < dec_add ?t amount" and cur: "py_upper cur \<in> {''XAF'', ''XOF''}"
    using assms(1,2) by (auto simp: enforce_kyc1_monthly_limit_def Let_def split: if_splits)
  then have "dval (dec_add ?t amount) \<le> of_int (kyc1_monthly_limit_xaf st)"
    by (simp add: less_decimal_dval dval_Dec not_less)
  moreover have "dval (dec_add ?t amount) = dval ?t + dval amount"
    using t assms(5) by (intro dec_add_numeric) (auto simp: numeric_19_8_iff)
  ultimately show "dval (month_total now u d) + dval amount \<le> of_int (kyc1_monthly_limit_xaf st)" by simp
  show "py_upper cur \<in> {''XAF'', ''XOF''}" by (rule cur)
qed

lemma get_or_create_transactions:
  assumes "get_or_create_virtual_account fresh now meanwhile u d = (r, d1)"
    and "\<And>x. db_transactions (meanwhile x) = db_transactions x"
  shows "db_transactions d1 = db_transactions d"
  using assms by (auto simp: get_or_create_virtual_account_def Let_def split: sum.splits option.splits)



section \<open>What the route does not guarantee\<close>

primrec payouts :: "(string \<times> payout_request \<times> string option) list \<Rightarrow> db \<Rightarrow> db" where
  "payouts [] d = d"
| "payouts (x # xs) d =
     payouts xs (case x of (i, p, c) \<Rightarrow>
       snd (kora_payout_route production_settings kora_ok (sample_env i) p c ''u1'' d))"

text \<open>
  A preview is not free of effects, although it reports neither a movement of funds nor a
  ledger write: it commits a payment in processing that counts towards the monthly limit and never
  settles.  One preview of the whole limit makes every executed payout of the month fail.
\<close>

lemma preview_consumes_monthly_limit:
  "(let d = payouts [(''p'', sample_payout (Dec 10000000 0) False, None)] user_db in
    map (\<lambda>t. (tx_status t, tx_amount t)) (db_transactions d) = [(PROCESSING, Dec 10000000 0)]
    \<and> fst (kora_payout_route production_settings kora_ok (sample_env ''q'') (sample_payout (Dec 1 0) True)
              (Some ''CONFIRM'') ''u1'' d)
        = Inl (HTTPException 403 ''Monthly KYC1 limit exceeded; enhanced verification is required''))"
  by code_simp

text \<open>
  The limit is checked before the row is written and nothing holds it in between: of two payouts of
  the whole limit that run at the same time both pass, and the month adds up to twice the limit.
\<close>

lemma concurrent_payouts_exceed_limit:
  "(let other = (\<lambda>d. snd (kora_payout_route production_settings kora_ok (sample_env ''y'')
                 (sample_payout (Dec 10000000 0) True) (Some ''CONFIRM'') ''u1'' d));
        (r, d) = kora_payout_route production_settings kora_ok (sample_env ''x'' \<lparr> pe_during := other \<rparr>)
                 (sample_payout (Dec 10000000 0) True) (Some ''CONFIRM'') ''u1'' user_db
    in map_sum (\<lambda>_. ()) pr_funds_movement r = Inr True
     \<and> map (\<lambda>t. (tx_status t, tx_amount t)) (db_transactions d)
         = [(PROCESSING, Dec 10000000 0), (PROCESSING, Dec 10000000 0)]
     \<and> month_total (days 20000) ''u1'' d = Dec 20000000 0
     \<and> kyc1_monthly_limit_xaf production_settings = 10000000)"
  by code_simp

text \<open>
  A payout is not covered by the virtual account: the route never reads the cash balance,
  so that a user whose ledger is empty moves five thousand francs.
\<close>

lemma payout_ignores_cash_balance:
  "get_virtual_cash_balance ''a1'' user_db = Dec 0 0
   \<and> (case kora_payout_route production_settings kora_ok (sample_env ''x'') (sample_payout (Dec 5000 0) True)
         (Some ''CONFIRM'') ''u1'' user_db of
        (Inr resp, d') \<Rightarrow> pr_funds_movement resp \<and> tx_virtual_account_id (last (db_transactions d')) = Some ''a1''
      | _ \<Rightarrow> False)"
  by code_simp

text \<open>
  The payout row is committed only after the provider answered: when its answer is JSON but not an
  object, the attribute error rolls the row back, and a payout that Kora accepted leaves no trace.
\<close>

lemma unreadable_answer_loses_payout:
  "(case kora_payout_route production_settings (\<lambda>_. Response 200 ''[]'' (Some (JArr []))) (sample_env ''x'')
         (sample_payout (Dec 5000 0) True) (Some ''CONFIRM'') ''u1'' user_db of
      (r, d') \<Rightarrow> r = Inl (AttributeError ''get'') \<and> db_transactions d' = [])"
  by code_simp

end
