(* ===== verification/AFM_Refund.thy ===== *)
theory AFM_Refund
  imports AFM_Kora_Webhook
begin

text \<open>
  \<^verbatim>\<open>create_kora_refund\<close> of \<^verbatim>\<open>api_gateway/main.py\<close>: the refund of a settled pay-in.  The refund
  row is committed before the provider is called; its idempotency key makes a repetition return the
  stored row.  SHA-256 is a parameter.
\<close>

record refund_request =
  rq_transaction_id :: uuid
  rq_amount :: "decimal option"
  rq_reason :: "string option"
  rq_execute :: bool

definition valid_refund_request :: "refund_request \<Rightarrow> bool" where
  "valid_refund_request r \<longleftrightarrow>
     (case rq_amount r of None \<Rightarrow> True | Some a \<Rightarrow> Dec 0 0 < a)
   \<and> (case rq_reason r of None \<Rightarrow> True | Some s \<Rightarrow> length s \<le> 200)"

record refund_response =
  rs_status :: string
  rs_execution_mode :: "string option"
  rs_transaction_id :: "uuid option"
  rs_refund_reference :: "string option"
  rs_payment_reference :: string
  rs_amount :: string
  rs_currency :: string
  rs_idempotent_replay :: "bool option"
  rs_funds_movement :: bool
  rs_ledger_write :: "bool option"

record refund_headers =
  rh_idempotency_key :: "string option"
  rh_confirmation :: "string option"

definition refund_webhook_url :: string where
  "refund_webhook_url = ''https://africafrontiermarkets.com/webhooks/kora''"

definition refund_reference_of :: "(string \<Rightarrow> string) \<Rightarrow> string \<Rightarrow> string" where
  "refund_reference_of sha256 key = ''afm-ref-'' @ take 40 (sha256 key)"

text \<open>The checks on the payment; \<open>Inr\<close> is the payment with its provider reference.\<close>

definition refundable ::
  "uuid \<Rightarrow> uuid \<Rightarrow> refund_request \<Rightarrow> db \<Rightarrow> exn + transaction \<times> string" where
  "refundable transaction_id user_id r d =
     (if rq_transaction_id r \<noteq> transaction_id
      then Inl (HTTPException 422 ''Transaction id does not match the request path'')
      else case row_lookup tx_id transaction_id (db_transactions d) of
        None \<Rightarrow> Inl (raise NotFoundError ''Payment transaction not found'')
      | Some tx \<Rightarrow>
          if tx_user_id tx \<noteq> user_id \<or> tx_psp tx \<noteq> KORA \<or> tx_ledger_namespace tx \<noteq> ''afm_payments''
          then Inl (raise NotFoundError ''Payment transaction not found'')
          else if py_lower (str_field ''operation'' (tx_metadata tx)) = ''payout''
          then Inl (HTTPException 409 ''Payouts cannot be refunded through the pay-in refund route'')
          else if tx_status tx \<notin> {COMPLETED, REFUNDED}
          then Inl (HTTPException 409 ''Only a completed pay-in can be refunded'')
          else if \<not> is_set (tx_psp_transaction_id tx)
          then Inl (HTTPException 409 ''Kora payment reference is missing'')
          else Inr (tx, the (tx_psp_transaction_id tx)))"

definition refund_amount :: "refund_request \<Rightarrow> transaction \<Rightarrow> exn + decimal" where
  "refund_amount r tx =
     bindE (dec_quantize round_half_even (- 2)
              (case rq_amount r of None \<Rightarrow> tx_amount tx
               | Some a \<Rightarrow> if coeff a \<noteq> 0 then a else tx_amount tx)) (\<lambda>amount.
     if tx_amount tx < amount
     then Inl (HTTPException 422 ''Refund amount cannot exceed the payment amount'')
     else Inr amount)"

definition refund_key :: "refund_headers \<Rightarrow> string" where
  "refund_key hs = py_strip (case rh_idempotency_key hs of None \<Rightarrow> '''' | Some k \<Rightarrow> k)"

definition refund_preview :: "transaction \<Rightarrow> string \<Rightarrow> decimal \<Rightarrow> refund_response" where
  "refund_preview tx payment_reference amount =
     \<lparr> rs_status = ''validated'', rs_execution_mode = Some ''validation_only'',
       rs_transaction_id = Some (tx_id tx), rs_refund_reference = None,
       rs_payment_reference = payment_reference, rs_amount = dec_str amount,
       rs_currency = tx_currency tx, rs_idempotent_replay = None, rs_funds_movement = False,
       rs_ledger_write = Some False \<rparr>"

definition refund_replay :: "refund \<Rightarrow> refund_response" where
  "refund_replay rf =
     \<lparr> rs_status = rf_status rf, rs_execution_mode = None, rs_transaction_id = None,
       rs_refund_reference = Some (rf_refund_reference rf),
       rs_payment_reference = rf_payment_reference rf, rs_amount = dec_str (rf_amount rf),
       rs_currency = rf_currency rf, rs_idempotent_replay = Some True,
       rs_funds_movement = (rf_status rf \<in> {''requested'', ''processing'', ''success''}),
       rs_ledger_write = None \<rparr>"

definition requested_refund ::
  "time \<Rightarrow> transaction \<Rightarrow> string \<Rightarrow> string \<Rightarrow> string \<Rightarrow> decimal \<Rightarrow> string option \<Rightarrow> refund" where
  "requested_refund now tx refund_reference key payment_reference amount reason =
     \<lparr> rf_transaction_id = tx_id tx, rf_refund_reference = refund_reference, rf_idempotency_key = key,
       rf_payment_reference = payment_reference, rf_amount = amount, rf_currency = tx_currency tx,
       rf_reason = reason, rf_status = ''requested'', rf_psp_response = [], rf_error_message = None,
       rf_completed_at = None, rf_created_at = now \<rparr>"

text \<open>
  A commit writes the columns whose value is not the one that was loaded; the row's other columns
  keep what other sessions have committed since.
\<close>

definition write_back :: "'a \<Rightarrow> 'a \<Rightarrow> 'a \<Rightarrow> 'a" where
  "write_back loaded new current = (if new = loaded then current else new)"

definition update_refund :: "string \<Rightarrow> (refund \<Rightarrow> refund) \<Rightarrow> db \<Rightarrow> db" where
  "update_refund key f d =
     d \<lparr> db_refunds := map (\<lambda>x. if rf_idempotency_key x = key then f x else x) (db_refunds d) \<rparr>"

definition update_transaction :: "uuid \<Rightarrow> (transaction \<Rightarrow> transaction) \<Rightarrow> db \<Rightarrow> db" where
  "update_transaction i f d =
     d \<lparr> db_transactions := map (\<lambda>x. if tx_id x = i then f x else x) (db_transactions d) \<rparr>"

text \<open>
  The executed refund of a checked payment.  Both references of the row are unique columns: the
  first commit fails with an integrity error when one is taken.  \<open>meanwhile\<close> is what other sessions
  commit while the provider is called, between that commit and the second one.
\<close>

definition execute_refund ::
  "(string \<Rightarrow> string) \<Rightarrow> settings \<Rightarrow> http \<Rightarrow> time \<Rightarrow> (db \<Rightarrow> db) \<Rightarrow> refund_request \<Rightarrow> string
   \<Rightarrow> transaction \<Rightarrow> string \<Rightarrow> decimal \<Rightarrow> db \<Rightarrow> (exn + refund_response) \<times> db" where
  "execute_refund sha256 st h now meanwhile r key tx payment_reference amount d =
     (let refund_reference = refund_reference_of sha256 key in
      case scalar_one_or_none (filter (\<lambda>x. rf_idempotency_key x = key) (db_refunds d)) of
        Inl e \<Rightarrow> (Inl e, d)
      | Inr (Some existing) \<Rightarrow> (Inr (refund_replay existing), d)
      | Inr None \<Rightarrow>
          let rf = requested_refund now tx refund_reference key payment_reference amount (rq_reason r) in
          if refund_reference \<in> rf_refund_reference ` set (db_refunds d) then (Inl IntegrityError, d)
          else case row_insert rf_idempotency_key rf (db_refunds d) of
            None \<Rightarrow> (Inl IntegrityError, d)
          | Some rows \<Rightarrow>
              let d1 = meanwhile (d \<lparr> db_refunds := rows \<rparr>) in
              case initiate_refund st h payment_reference refund_reference (Some amount) (rq_reason r)
                     (Some refund_webhook_url) None None of
                Inl (KoraClientError _) \<Rightarrow>
                  (Inl (HTTPException 502 ''Kora refund is temporarily unavailable''),
                   update_refund key (\<lambda>x. x \<lparr> rf_status := ''failed'',
                     rf_error_message := Some ''Kora refund is temporarily unavailable'' \<rparr>) d1)
              | Inl e \<Rightarrow> (Inl e, d1)
              | Inr result \<Rightarrow>
                  let status_value = py_lower (py_str (py_or (jget ''status'' result) (JStr ''processing'')));
                      metadata = jset_all [(''refund_status'', JStr status_value),
                                           (''refund_reference'', JStr refund_reference)] (tx_metadata tx)
                  in (Inr \<lparr> rs_status = status_value, rs_execution_mode = None, rs_transaction_id = None,
                            rs_refund_reference = Some refund_reference,
                            rs_payment_reference = payment_reference, rs_amount = dec_str amount,
                            rs_currency = tx_currency tx, rs_idempotent_replay = Some False,
                            rs_funds_movement = True, rs_ledger_write = Some False \<rparr>,
                      update_transaction (tx_id tx)
                        (\<lambda>x. x \<lparr> tx_metadata := write_back (tx_metadata tx) metadata (tx_metadata x) \<rparr>)
                        (update_refund key
                          (\<lambda>x. x \<lparr> rf_status := write_back (rf_status rf) status_value (rf_status x),
                                  rf_psp_response := write_back (rf_psp_response rf) result (rf_psp_response x) \<rparr>)
                          d1)))"

definition create_kora_refund ::
  "(string \<Rightarrow> string) \<Rightarrow> settings \<Rightarrow> http \<Rightarrow> time \<Rightarrow> (db \<Rightarrow> db) \<Rightarrow> uuid \<Rightarrow> refund_request
   \<Rightarrow> refund_headers \<Rightarrow> uuid \<Rightarrow> db \<Rightarrow> (exn + refund_response) \<times> db" where
  "create_kora_refund sha256 st h now meanwhile transaction_id r hs user_id d =
     (case refundable transaction_id user_id r d of
        Inl e \<Rightarrow> (Inl e, d)
      | Inr (tx, payment_reference) \<Rightarrow>
          (case refund_amount r tx of
             Inl e \<Rightarrow> (Inl e, d)
           | Inr amount \<Rightarrow>
               let key = refund_key hs in
               if rq_execute r \<and> length key < 8
               then (Inl (HTTPException 400 ''X-Idempotency-Key is required for an executed refund''), d)
               else if rq_execute r \<and> rh_confirmation hs \<noteq> Some ''CONFIRM''
               then (Inl (HTTPException 428 ''Explicit refund confirmation is required''), d)
               else if \<not> rq_execute r then (Inr (refund_preview tx payment_reference amount), d)
               else if is_development st
               then (Inl (HTTPException 409 ''Executed refunds are disabled in development''), d)
               else execute_refund sha256 st h now meanwhile r key tx payment_reference amount d))"

text \<open>The route; FastAPI rejects a malformed request with a 422.\<close>

definition kora_refund_route ::
  "(string \<Rightarrow> string) \<Rightarrow> settings \<Rightarrow> http \<Rightarrow> time \<Rightarrow> (db \<Rightarrow> db) \<Rightarrow> uuid \<Rightarrow> refund_request
   \<Rightarrow> refund_headers \<Rightarrow> uuid \<Rightarrow> db \<Rightarrow> (exn + refund_response) \<times> db" where
  "kora_refund_route sha256 st h now meanwhile transaction_id r hs user_id d =
     (if \<not> valid_refund_request r then (Inl (HTTPException 422 ''''), d)
      else create_kora_refund sha256 st h now meanwhile transaction_id r hs user_id d)"

section \<open>Refunds are asked for, once\<close>

definition refund_confirmed :: "settings \<Rightarrow> refund_request \<Rightarrow> refund_headers \<Rightarrow> bool" where
  "refund_confirmed st r hs \<longleftrightarrow>
     rq_execute r \<and> 8 \<le> length (refund_key hs) \<and> rh_confirmation hs = Some ''CONFIRM'' \<and> \<not> is_development st"

text \<open>Where the route changes anything, it has reached the execution of a checked refund.\<close>

lemma kora_refund_route_cases:
  assumes "kora_refund_route sh st h now mw tid r hs u d = (res, d')"
  obtains (idle) "d' = d" "\<And>h' mw'. kora_refund_route sh st h' now mw' tid r hs u d = (res, d)"
      "\<And>resp. res = Inr resp \<Longrightarrow> \<not> rs_funds_movement resp"
  | (execute) tx pref amount where "refund_confirmed st r hs"
      "refundable tid u r d = Inr (tx, pref)" "refund_amount r tx = Inr amount"
      "\<And>h'. kora_refund_route sh st h' now mw tid r hs u d
         = execute_refund sh st h' now mw r (refund_key hs) tx pref amount d"
proof (cases "valid_refund_request r")
  case False
  then show thesis using assms by (intro idle) (auto simp: kora_refund_route_def)
next
  case valid: True
  show thesis
  proof (cases "refundable tid u r d")
    case (Inl e)
    then show thesis using assms valid by (intro idle) (auto simp: kora_refund_route_def create_kora_refund_def)
  next
    case (Inr tp)
    obtain tx pref where tp: "tp = (tx, pref)" by (cases tp)
    show thesis
    proof (cases "refund_amount r tx")
      case (Inl e)
      then show thesis using assms valid Inr tp
        by (intro idle) (auto simp: kora_refund_route_def create_kora_refund_def)
    next
      case amount: (Inr amount)
      show thesis
      proof (cases "refund_confirmed st r hs")
        case True
        then have "rq_execute r" "\<not> length (refund_key hs) < 8" "rh_confirmation hs = Some ''CONFIRM''"
          "\<not> is_development st" by (auto simp: refund_confirmed_def)
        then show thesis using Inr tp amount valid True
          by (intro execute [of tx pref amount]) (simp_all add: kora_refund_route_def create_kora_refund_def)
      next
        case False
        then show thesis using assms Inr tp amount valid
          by (intro idle)
            (auto simp: kora_refund_route_def create_kora_refund_def Let_def refund_confirmed_def
              refund_preview_def split: if_splits)
      qed
    qed
  qed
qed

text \<open>
  Claim C24. A refund leaves only when it is asked for: unless the request is executed, carries an
  idempotency key of at least eight characters and the confirmation header, and the deployment is
  not a development one, the route writes nothing, reports no movement of funds and depends neither
  on the provider nor on what other sessions commit.
\<close>

theorem refund_preview_has_no_effect:
  assumes "\<not> refund_confirmed st r hs"
    and "kora_refund_route sh st h now mw tid r hs u d = (res, d')"
  shows "d' = d \<and> kora_refund_route sh st h' now mw' tid r hs u d = (res, d)
    \<and> (\<forall>resp. res = Inr resp \<longrightarrow> \<not> rs_funds_movement resp)"
  using assms(2)
proof (cases rule: kora_refund_route_cases)
  case idle
  then show ?thesis by blast
next
  case (execute tx pref amount)
  then show ?thesis using assms(1) by blast
qed

text \<open>The instances: a staging deployment, a completed pay-in of another service, and two headers.\<close>

definition staging_hook :: settings where
  "staging_hook = keyed_settings \<lparr> environment := Staging \<rparr>"

definition refund_of :: "uuid \<Rightarrow> decimal option \<Rightarrow> bool \<Rightarrow> refund_request" where
  "refund_of tid amount execute =
     \<lparr> rq_transaction_id = tid, rq_amount = amount, rq_reason = None, rq_execute = execute \<rparr>"

definition confirmed_key :: "string \<Rightarrow> refund_headers" where
  "confirmed_key key = \<lparr> rh_idempotency_key = Some key, rh_confirmation = Some ''CONFIRM'' \<rparr>"

definition accepts_refund :: http where
  "accepts_refund = demo_answer [(''status'', JStr ''processing'')]"

lemma refund_preview_has_no_effect_witness:
  "kora_refund_route (\<lambda>x. x) staging_hook accepts_refund 0 id ''t1'' (refund_of ''t1'' None False)
      (confirmed_key ''key-0001'') ''u1'' (payout_db COMPLETED)
    = kora_refund_route (\<lambda>x. x) staging_hook (\<lambda>_. TransportError) 0 id ''t1'' (refund_of ''t1'' None False)
      (confirmed_key ''key-0001'') ''u1'' (payout_db COMPLETED)
   \<and> is_ok (fst (kora_refund_route (\<lambda>x. x) staging_hook accepts_refund 0 id ''t1'' (refund_of ''t1'' None False)
      (confirmed_key ''key-0001'') ''u1'' (payout_db COMPLETED)))"
proof -
  let ?run = "\<lambda>h. kora_refund_route (\<lambda>x. x) staging_hook h 0 id ''t1'' (refund_of ''t1'' None False)
      (confirmed_key ''key-0001'') ''u1'' (payout_db COMPLETED)"
  have "\<not> refund_confirmed staging_hook (refund_of ''t1'' None False) (confirmed_key ''key-0001'')"
    by (simp add: refund_confirmed_def refund_of_def)
  then have "?run accepts_refund = ?run (\<lambda>_. TransportError)"
    using refund_preview_has_no_effect [of staging_hook "refund_of ''t1'' None False" "confirmed_key ''key-0001''"]
    by (metis prod.collapse)
  moreover have "is_ok (fst (?run accepts_refund))" by code_simp
  ultimately show ?thesis by blast
qed

definition distinct_refund_keys :: "db \<Rightarrow> bool" where
  "distinct_refund_keys d \<longleftrightarrow> distinct (map rf_idempotency_key (db_refunds d))"

lemma lookup_refund:
  assumes "distinct_refund_keys d"
  shows "scalar_one_or_none (filter (\<lambda>x. rf_idempotency_key x = key) (db_refunds d))
    = Inr (row_lookup rf_idempotency_key key (db_refunds d))"
proof (cases "row_lookup rf_idempotency_key key (db_refunds d)")
  case None
  then have "filter (\<lambda>x. rf_idempotency_key x = key) (db_refunds d) = []"
    by (auto simp: row_lookup_None_iff filter_empty_conv)
  then show ?thesis using None by (simp add: scalar_one_or_none_def)
next
  case (Some rf)
  then show ?thesis
    using row_lookup_SomeD [OF Some] distinct_filter_key [of rf_idempotency_key _ rf key] assms
    by (simp add: scalar_one_or_none_def distinct_refund_keys_def)
qed

lemma execute_refund_replay:
  assumes "distinct_refund_keys d" and "row_lookup rf_idempotency_key key (db_refunds d) = Some rf"
  shows "execute_refund sh st h now mw r key tx pref amount d = (Inr (refund_replay rf), d)"
  using assms by (simp add: execute_refund_def lookup_refund Let_def)

text \<open>
  Stored refunds are kept: where the keys are unique they stay so, and the row of a key stays, about
  the same payment and amount.
\<close>

definition refunds_kept :: "db \<Rightarrow> db \<Rightarrow> bool" where
  "refunds_kept d d' \<longleftrightarrow>
     (distinct_refund_keys d \<longrightarrow> distinct_refund_keys d'
      \<and> (\<forall>k rf. row_lookup rf_idempotency_key k (db_refunds d) = Some rf \<longrightarrow>
           (\<exists>rf'. row_lookup rf_idempotency_key k (db_refunds d') = Some rf'
             \<and> rf_amount rf' = rf_amount rf \<and> rf_transaction_id rf' = rf_transaction_id rf)))"

lemma refunds_kept_refl [simp]: "refunds_kept d d"
  by (simp add: refunds_kept_def)

lemma refunds_kept_trans: "refunds_kept d d1 \<Longrightarrow> refunds_kept d1 d2 \<Longrightarrow> refunds_kept d d2"
  unfolding refunds_kept_def by metis

lemma refunds_kept_cong: "db_refunds d' = db_refunds d \<Longrightarrow> refunds_kept d d'"
  by (simp add: refunds_kept_def distinct_refund_keys_def)

lemma refunds_kept_map:
  assumes "db_refunds d' = map f (db_refunds d)"
    and "\<And>x. x \<in> set (db_refunds d) \<Longrightarrow> rf_idempotency_key (f x) = rf_idempotency_key x \<and> rf_amount (f x) = rf_amount x
           \<and> rf_transaction_id (f x) = rf_transaction_id x"
  shows "refunds_kept d d'"
proof -
  have look: "row_lookup rf_idempotency_key k (map f xs) = map_option f (row_lookup rf_idempotency_key k xs)"
    if "\<And>x. x \<in> set xs \<Longrightarrow> rf_idempotency_key (f x) = rf_idempotency_key x" for k and xs :: "refund list"
    using that by (induction xs) auto
  have keys: "map (rf_idempotency_key \<circ> f) (db_refunds d) = map rf_idempotency_key (db_refunds d)"
    using assms(2) by simp
  have "distinct_refund_keys d' = distinct_refund_keys d"
    unfolding distinct_refund_keys_def assms(1) map_map keys ..
  moreover have "row_lookup rf_idempotency_key k (db_refunds d')
      = map_option f (row_lookup rf_idempotency_key k (db_refunds d))" for k
    unfolding assms(1) by (rule look) (use assms(2) in blast)
  ultimately show ?thesis using assms(2) by (auto simp: refunds_kept_def dest: row_lookup_SomeD)
qed

lemma refunds_kept_insert:
  assumes "row_insert rf_idempotency_key rf (db_refunds d) = Some rows"
  shows "refunds_kept d (d \<lparr> db_refunds := rows \<rparr>)"
  using rfds.ins_distinct [OF assms] rfds.look_ins [OF assms] rfds.ins_fails [of rf "db_refunds d"] assms
  by (auto simp: refunds_kept_def distinct_refund_keys_def)

lemma refunds_kept_update:
  assumes "\<And>x. rf_core (f x) = rf_core x"
  shows "refunds_kept d (update_refund key f d)"
  using assms
  by (intro refunds_kept_map [where f = "\<lambda>x. if rf_idempotency_key x = key then f x else x"])
    (auto simp: update_refund_def rf_core_def)

lemma refunds_kept_transaction [simp]: "refunds_kept d (update_transaction i g d') = refunds_kept d d'"
  by (simp add: refunds_kept_def update_transaction_def distinct_refund_keys_def)

text \<open>An execution changes nothing, or it has stored a new refund before other sessions went on.\<close>

lemma execute_refund_cases:
  assumes "execute_refund sh st h now mw r key tx pref amount d = (res, d')"
  obtains (unchanged) "d' = d" "\<And>h' mw'. execute_refund sh st h' now mw' r key tx pref amount d = (res, d)"
  | (stored) rf rows f g where "rf = requested_refund now tx (refund_reference_of sh key) key pref amount (rq_reason r)"
      "rf_refund_reference rf \<notin> rf_refund_reference ` set (db_refunds d)"
      "row_insert rf_idempotency_key rf (db_refunds d) = Some rows"
      "d' = update_transaction (tx_id tx) g (update_refund key f (mw (d \<lparr> db_refunds := rows \<rparr>)))"
      "\<And>x. rf_core (f x) = rf_core x"
      "\<And>x. \<exists>m. g x = x \<lparr> tx_metadata := m \<rparr>"
proof -
  define ref where "ref = refund_reference_of sh key"
  define rf where "rf = requested_refund now tx ref key pref amount (rq_reason r)"
  have key: "rf_idempotency_key rf = key" "rf_refund_reference rf = ref"
    by (simp_all add: rf_def requested_refund_def)
  note unfold = execute_refund_def [of sh st _ now _ r key tx pref amount d, unfolded Let_def,
    folded ref_def, folded rf_def]
  have same: "update_transaction i (\<lambda>x. x) e = e" "update_refund k (\<lambda>x. x) e = e" for i k e
    by (simp_all add: update_transaction_def update_refund_def)
  have keep: "\<exists>m. x = x \<lparr> tx_metadata := m \<rparr>" for x :: transaction
    by (rule exI [of _ "tx_metadata x"]) simp
  show thesis
  proof (cases "scalar_one_or_none (filter (\<lambda>x. rf_idempotency_key x = key) (db_refunds d))")
    case (Inl e)
    show thesis
    proof (rule unchanged)
      show "d' = d" using assms Inl unfolding unfold by simp
      show "execute_refund sh st h' now mw' r key tx pref amount d = (res, d)" for h' mw'
        using assms Inl unfolding unfold by simp
    qed
  next
    case (Inr found)
    show thesis
    proof (cases "found = None \<and> ref \<notin> rf_refund_reference ` set (db_refunds d)
        \<and> row_insert rf_idempotency_key rf (db_refunds d) \<noteq> None")
      case False
      show thesis
      proof (rule unchanged)
        show "d' = d" using assms Inr False unfolding unfold by (auto split: option.splits if_splits)
        show "execute_refund sh st h' now mw' r key tx pref amount d = (res, d)" for h' mw'
          using assms Inr False unfolding unfold by (auto split: option.splits if_splits)
      qed
    next
      case True
      then obtain rows where new: "found = None" "ref \<notin> rf_refund_reference ` set (db_refunds d)"
        and rows: "row_insert rf_idempotency_key rf (db_refunds d) = Some rows" by blast
      let ?call = "initiate_refund st h pref ref (Some amount) (rq_reason r) (Some refund_webhook_url) None None"
      note run = assms [unfolded unfold, simplified Inr new rows, simplified]
      note fin = stored [OF rf_def [unfolded ref_def] _ rows, unfolded key(2), OF new(2)]
      show thesis
      proof (cases ?call)
        case (Inr result)
        define w where "w = py_lower (py_str (py_or (jget ''status'' result) (JStr ''processing'')))"
        define md where "md = jset_all [(''refund_status'', JStr w), (''refund_reference'', JStr ref)] (tx_metadata tx)"
        show thesis
          by (rule fin [of "\<lambda>x. x \<lparr> tx_metadata := write_back (tx_metadata tx) md (tx_metadata x) \<rparr>"
                "\<lambda>x. x \<lparr> rf_status := write_back (rf_status rf) w (rf_status x),
                         rf_psp_response := write_back (rf_psp_response rf) result (rf_psp_response x) \<rparr>"])
            (use run Inr in \<open>auto simp: w_def md_def rf_core_def\<close>)
      next
        case (Inl e)
        show thesis
        proof (cases "\<exists>m. e = KoraClientError m")
          case True
          then show thesis using run new Inl
            by (intro fin [of "\<lambda>x. x" "\<lambda>x. x \<lparr> rf_status := ''failed'',
              rf_error_message := Some ''Kora refund is temporarily unavailable'' \<rparr>"]) (auto simp: same rf_core_def intro: keep)
        next
          case False
          then have "d' = mw (d \<lparr> db_refunds := rows \<rparr>)"
            using run Inl by (cases e) simp_all
          then show thesis by (intro fin [of "\<lambda>x. x" "\<lambda>x. x"]) (simp_all add: same keep)
        qed
      qed
    qed
  qed
qed

text \<open>An execution whose outcome depends on the provider has stored its key.\<close>

lemma execute_refund_stores:
  assumes "distinct_refund_keys d" and "\<And>x. refunds_kept x (mw x)"
    and "execute_refund sh st h now mw r key tx pref amount d = (res, d1)"
    and "execute_refund sh st h' now mw r key tx pref amount d \<noteq> (res, d1)"
  shows "distinct_refund_keys d1
    \<and> (\<exists>rf. row_lookup rf_idempotency_key key (db_refunds d1) = Some rf \<and> rf_amount rf = amount
         \<and> rf_transaction_id rf = tx_id tx)"
  using assms(3)
proof (cases rule: execute_refund_cases)
  case unchanged
  then show ?thesis using assms(4) by simp
next
  case (stored rf rows f g)
  have key: "rf_idempotency_key rf = key" "rf_amount rf = amount" "rf_transaction_id rf = tx_id tx"
    by (simp_all add: stored(1) requested_refund_def)
  let ?d0 = "d \<lparr> db_refunds := rows \<rparr>"
  have "distinct_refund_keys ?d0"
    using refunds_kept_insert [OF stored(3)] assms(1) by (simp add: refunds_kept_def)
  moreover have "row_lookup rf_idempotency_key key (db_refunds ?d0) = Some rf"
    using rfds.ins_then_look [OF stored(3)] key(1) by simp
  moreover have "refunds_kept ?d0 d1"
    unfolding stored(4) refunds_kept_transaction
    using assms(2) by (rule refunds_kept_trans) (rule refunds_kept_update [OF stored(5)])
  ultimately show ?thesis using key unfolding refunds_kept_def by metis
qed

lemma refund_once:
  assumes "distinct_refund_keys d" and "\<And>x. refunds_kept x (mw x)"
    and "kora_refund_route sh st h now mw tid r hs u d = (res, d1)"
    and "kora_refund_route sh st h' now mw tid r hs u d \<noteq> (res, d1)"
  shows "\<exists>rf tx. row_lookup rf_idempotency_key (refund_key hs) (db_refunds d1) = Some rf
      \<and> row_lookup tx_id tid (db_transactions d) = Some tx
      \<and> rf_transaction_id rf = tid \<and> rf_amount rf \<le> tx_amount tx"
    and "refund_key hs' = refund_key hs \<Longrightarrow>
      kora_refund_route sh st h1 now' mw1 tid' r' hs' u' d1 = kora_refund_route sh st h2 now' mw1 tid' r' hs' u' d1
    \<and> snd (kora_refund_route sh st h1 now' mw1 tid' r' hs' u' d1) = d1"
proof -
  obtain tx pref amount where chk: "refundable tid u r d = Inr (tx, pref)" "refund_amount r tx = Inr amount"
    and ex: "\<And>h'. kora_refund_route sh st h' now mw tid r hs u d
         = execute_refund sh st h' now mw r (refund_key hs) tx pref amount d"
    using kora_refund_route_cases [OF assms(3)] assms(3,4) by metis
  have st: "distinct_refund_keys d1
    \<and> (\<exists>rf. row_lookup rf_idempotency_key (refund_key hs) (db_refunds d1) = Some rf \<and> rf_amount rf = amount
         \<and> rf_transaction_id rf = tx_id tx)"
    using assms(3,4) unfolding ex by (rule execute_refund_stores [OF assms(1,2)])
  have look: "row_lookup tx_id tid (db_transactions d) = Some tx"
    using chk(1) by (auto simp: refundable_def split: if_splits option.splits)
  moreover have "tx_id tx = tid" using look by (rule txs.look_key)
  moreover have "amount \<le> tx_amount tx"
    using chk(2) by (auto simp: refund_amount_def bindE_eq_Inr_iff less_eq_decimal_dval less_decimal_dval split: if_splits)
  ultimately show "\<exists>rf tx. row_lookup rf_idempotency_key (refund_key hs) (db_refunds d1) = Some rf
      \<and> row_lookup tx_id tid (db_transactions d) = Some tx
      \<and> rf_transaction_id rf = tid \<and> rf_amount rf \<le> tx_amount tx"
    using st by auto
  assume key: "refund_key hs' = refund_key hs"
  obtain rf where rf: "row_lookup rf_idempotency_key (refund_key hs') (db_refunds d1) = Some rf"
    using st key by auto
  obtain res' d2 where run: "kora_refund_route sh st h1 now' mw1 tid' r' hs' u' d1 = (res', d2)"
    by (cases "kora_refund_route sh st h1 now' mw1 tid' r' hs' u' d1")
  then show "kora_refund_route sh st h1 now' mw1 tid' r' hs' u' d1 = kora_refund_route sh st h2 now' mw1 tid' r' hs' u' d1
    \<and> snd (kora_refund_route sh st h1 now' mw1 tid' r' hs' u' d1) = d1"
  proof (cases rule: kora_refund_route_cases)
    case idle
    then show ?thesis using run by simp
  next
    case (execute tx2 pref2 amount2)
    then show ?thesis using execute_refund_replay rf st by simp
  qed
qed



section \<open>What the route does not guarantee\<close>

text \<open>
  The refunds of one payment are not added up: with a second idempotency key the same
  payment of ten thousand francs is refunded in full a second time, also when it already is in the
  state refunded.
\<close>

lemma refunds_exceed_payment:
  "(let d1 = snd (kora_refund_route (\<lambda>x. x) staging_hook accepts_refund 0 id ''t1'' (refund_of ''t1'' None True)
                   (confirmed_key ''key-0001'') ''u1'' (payout_db REFUNDED));
        (r2, d2) = kora_refund_route (\<lambda>x. x) staging_hook accepts_refund 1 id ''t1'' (refund_of ''t1'' None True)
                     (confirmed_key ''key-0002'') ''u1'' d1
    in map_sum (\<lambda>_. ()) rs_funds_movement r2 = Inr True
     \<and> map tx_amount (db_transactions d2) = [Dec 10000 0]
     \<and> map rf_amount (db_refunds d2) = [Dec 1000000 (- 2), Dec 1000000 (- 2)]
     \<and> map rf_status (db_refunds d2) = [''processing'', ''processing''])"
  by code_simp

text \<open>
  A stored key answers to everybody: a second user, executing a refund of a payment of
  their own under a key another user has used, is shown the other user's refund, and their own
  refund is never made.
\<close>

lemma refund_replay_crosses_users:
  "(let other = (payout_tx COMPLETED) \<lparr> tx_id := ''t2'', tx_user_id := ''u2'', tx_idempotency_key := ''k2'' \<rparr>;
        d0 = (payout_db COMPLETED) \<lparr> db_transactions := [payout_tx COMPLETED, other] \<rparr>;
        d1 = snd (kora_refund_route (\<lambda>x. x) staging_hook accepts_refund 0 id ''t1'' (refund_of ''t1'' None True)
                   (confirmed_key ''key-0001'') ''u1'' d0);
        (r2, d2) = kora_refund_route (\<lambda>x. x) staging_hook accepts_refund 1 id ''t2'' (refund_of ''t2'' None True)
                     (confirmed_key ''key-0001'') ''u2'' d1
    in map_sum (\<lambda>_. ()) (\<lambda>x. (rs_refund_reference x, rs_amount x)) r2
         = Inr (Some ''afm-ref-key-0001'', ''10000.00'')
     \<and> map rf_transaction_id (db_refunds d2) = [''t1''])"
  by code_simp

text \<open>
  The provider's answer is written over what the webhook committed while the call was under way: the
  refund that Kora has reported as a success, and that the ledger has debited, is left in processing,
  and so is the note on the payment.
\<close>

lemma late_answer_reopens_refund:
  "(let event = delivery ''refund.success'' JNull (refund_event ''afm-ref-key-0001'');
        (r, d) = kora_refund_route (\<lambda>x. x) staging_hook accepts_refund 0 (\<lambda>d. fst (snd (deliver event ''e1'' d)))
                   ''t1'' (refund_of ''t1'' None True) (confirmed_key ''key-0001'') ''u1'' (payout_db COMPLETED)
    in is_ok r \<and> map we_status (db_events d) = [''processed'']
     \<and> map rf_status (db_refunds d) = [''processing''] \<and> map rf_completed_at (db_refunds d) = [Some 1000000]
     \<and> map tx_status (db_transactions d) = [REFUNDED]
     \<and> map (\<lambda>t. jget ''refund_status'' (tx_metadata t)) (db_transactions d) = [JStr ''processing'']
     \<and> map le_reference_id (db_ledger d) = [Some ''afm-ref-key-0001''])"
  by code_simp

text \<open>
  A full refund is refused when the payment's amount is not in whole cents: the default amount is
  rounded to cents before it is compared with the payment.
\<close>

lemma full_refund_of_sub_cent_payment_refused:
  "(let d = (payout_db COMPLETED) \<lparr> db_transactions := [(payout_tx COMPLETED) \<lparr> tx_amount := Dec 10015 (- 3) \<rparr>] \<rparr>
    in fst (kora_refund_route (\<lambda>x. x) staging_hook accepts_refund 0 id ''t1'' (refund_of ''t1'' None False)
              (confirmed_key ''key-0001'') ''u1'' d)
        = Inl (HTTPException 422 ''Refund amount cannot exceed the payment amount''))"
  by code_simp

end
