(* ===== verification/AFM_Payment_Service.thy ===== *)
theory AFM_Payment_Service
  imports AFM_Fees AFM_Router AFM_Payout AFM_Security
begin

text \<open>
  \<^verbatim>\<open>payment_hub/payment_service.py\<close>: the payment service as Python runs it.  The class defines
  \<^verbatim>\<open>verify_webhook\<close> and \<^verbatim>\<open>close\<close> twice, and the second definition of each is the one that counts; the
  tail of the first \<^verbatim>\<open>close\<close>, where the rest of the payment pipeline ended up, is code no call
  reaches, and is left out.  SHA-256 and the text of a transport error are parameters.
\<close>

section \<open>Keys\<close>

definition SUPPORTED_CURRENCIES :: "string list" where
  "SUPPORTED_CURRENCIES = [''XOF'', ''XAF'', ''NGN'', ''KES'', ''GHS'', ''ZAR'', ''USD'', ''EUR'', ''GBP'']"

definition generate_lock_id :: "(string \<Rightarrow> string) \<Rightarrow> string \<Rightarrow> string \<Rightarrow> string \<Rightarrow> string \<Rightarrow> string" where
  "generate_lock_id sha256 user_id amount currency timestamp =
     sha256 (user_id @ '':'' @ amount @ '':'' @ currency @ '':'' @ timestamp)"

definition DEFAULT_IDEMPOTENCY_WINDOW_SECONDS :: int where
  "DEFAULT_IDEMPOTENCY_WINDOW_SECONDS = 300"

definition idempotency_text ::
  "time \<Rightarrow> string \<Rightarrow> string \<Rightarrow> string \<Rightarrow> string option \<Rightarrow> string \<Rightarrow> string option \<Rightarrow> string" where
  "idempotency_text now user_id amount currency client_key meth phone_number =
     (if is_set client_key then ''client:'' @ user_id @ '':'' @ the client_key
      else
        let time_bucket = now div seconds DEFAULT_IDEMPOTENCY_WINDOW_SECONDS in
        user_id @ '':'' @ amount @ '':'' @ currency @ '':'' @ meth @ '':''
          @ (case phone_number of None \<Rightarrow> '''' | Some p \<Rightarrow> p) @ '':'' @ int_str time_bucket)"

definition generate_idempotency_key ::
  "(string \<Rightarrow> string) \<Rightarrow> time \<Rightarrow> string \<Rightarrow> string \<Rightarrow> string \<Rightarrow> string option \<Rightarrow> string \<Rightarrow> string option
   \<Rightarrow> string" where
  "generate_idempotency_key sha256 now user_id amount currency client_key meth phone_number =
     sha256 (idempotency_text now user_id amount currency client_key meth phone_number)"

section \<open>Processing a payment\<close>

text \<open>
  The attributes a \<^verbatim>\<open>PaymentService\<close> object answers to: those its constructor sets and those of its
  class.  Looking up another one is an attribute error.
\<close>

definition service_attributes :: "string list" where
  "service_attributes =
     [''_pending_locks'', ''_http_client'', ''SUPPORTED_CURRENCIES'', ''DEFAULT_IDEMPOTENCY_WINDOW_SECONDS'',
      ''_generate_lock_id'', ''_get_http_client'', ''_generate_idempotency_key'', ''_convert_fee_bounds'',
      ''_calculate_afm_fee'', ''process_payment'', ''verify_webhook'', ''close'', ''_call_psp_api'',
      ''_call_kora'', ''_call_fincra'', ''_call_flutterwave'', ''_call_stripe'', ''_detect_provider'',
      ''get_transaction'']"

definition service_attribute :: "string \<Rightarrow> exn + string" where
  "service_attribute name =
     (if name \<in> set service_attributes then Inr name
      else Inl (AttributeError (''PaymentService object has no attribute '' @ name)))"

text \<open>
  The payment built under the lock.  Nothing is added to a session, so the columns whose defaults
  the database layer fills in are unset; they are shown here as they print or as their defaults.
\<close>

definition pending_transaction ::
  "string \<Rightarrow> uuid \<Rightarrow> psp_type \<Rightarrow> decimal \<Rightarrow> string \<Rightarrow> jobj \<Rightarrow> time \<Rightarrow> transaction" where
  "pending_transaction key user_id psp amount currency metadata now =
     \<lparr> tx_id = ''None'', tx_idempotency_key = key, tx_user_id = user_id, tx_psp = psp,
       tx_psp_transaction_id = None, tx_psp_payment_reference = None, tx_psp_response = [],
       tx_amount = amount, tx_currency = currency, tx_fee_amount = Dec 0 0, tx_fee_currency = ''USD'',
       tx_net_amount = Dec 0 0, tx_status = PENDING, tx_metadata = metadata,
       tx_ledger_namespace = ''afm_payments'', tx_virtual_account_id = None, tx_corridor = None,
       tx_beneficiary_currency = None, tx_mobile_money_phone = None,
       tx_mobile_money_provider_reference = None, tx_mobile_money_owner_verified_at = None,
       tx_total_fee_amount = Dec 0 0, tx_error_message = None, tx_webhook_received_at = None,
       tx_settled_at = None, tx_created_at = now, tx_updated_at = now \<rparr>"

text \<open>
  \<open>acquire\<close> is whether Redis grants the lock; the lock is released whatever the body does.
\<close>

definition process_payment ::
  "settings \<Rightarrow> (string \<Rightarrow> string) \<Rightarrow> time \<Rightarrow> (string \<Rightarrow> bool) \<Rightarrow> uuid \<Rightarrow> decimal \<Rightarrow> string \<Rightarrow> string
   \<Rightarrow> string \<Rightarrow> jobj \<Rightarrow> exn + transaction" where
  "process_payment st sha256 now acquire user_id amount currency0 meth region metadata =
     (let currency = py_upper currency0 in
      if currency \<notin> set SUPPORTED_CURRENCIES
      then Inl (raise CurrencyNotSupportedError (''Currency '' @ currency @ '' not supported''))
      else if amount \<le> Dec 0 0 then Inl (raise PaymentError ''Amount must be greater than 0'')
      else
        let key = generate_lock_id sha256 user_id (dec_str amount) currency (take 10 (isoformat now)) in
        bindE (service_attribute ''_acquire_lock'') (\<lambda>_.
        if \<not> acquire key
        then Inl (raise ConflictError ''Duplicate payment detected (already processing)'')
        else
          let body = bindE (select_psp st currency meth region) (\<lambda>psp.
                     Inr (pending_transaction key user_id psp amount currency metadata now))
          in bindE (service_attribute ''_release_lock'') (\<lambda>_. body)))"

record payment_request =
  pq_amount :: decimal
  pq_currency :: string
  pq_method :: string
  pq_region :: string
  pq_metadata :: jobj

text \<open>The route: the gates of a transfer, then the service.  It returns what the service returned.\<close>

definition create_payment ::
  "settings \<Rightarrow> (string \<Rightarrow> string) \<Rightarrow> time \<Rightarrow> (string \<Rightarrow> bool) \<Rightarrow> payment_request \<Rightarrow> uuid \<Rightarrow> db
   \<Rightarrow> exn + transaction" where
  "create_payment st sha256 now acquire r user_id d =
     bindE (require_verified_user st user_id d) (\<lambda>verified.
     if \<not> Dec 0 0 < pq_amount r \<or> length (pq_currency r) \<noteq> 3 then Inl (HTTPException 422 '''')
     else
       bindE (enforce_kyc1_monthly_limit st now verified (pq_amount r) (pq_currency r) d) (\<lambda>_.
       process_payment st sha256 now acquire verified (pq_amount r) (pq_currency r)
         (pq_method r) (pq_region r) (pq_metadata r)))"

section \<open>Calling a provider\<close>

definition simulated_id :: "(string \<Rightarrow> string) \<Rightarrow> string \<Rightarrow> transaction \<Rightarrow> json" where
  "simulated_id sha256 prefix tx = JStr (prefix @ take 16 (sha256 (tx_idempotency_key tx)))"

definition call_kora ::
  "(string \<Rightarrow> string) \<Rightarrow> settings \<Rightarrow> http \<Rightarrow> transaction \<Rightarrow> string option \<Rightarrow> exn + jobj" where
  "call_kora sha256 st h tx phone_number =
     (if is_development st
      then Inr [(''success'', JBool True), (''status'', JStr ''success''),
                (''psp_transaction_id'', simulated_id sha256 ''kora_sim_'' tx)]
      else if \<not> is_set (kora_secret_key st)
      then Inl (raise PSPAPIError ''Kora secret key not configured in production'')
      else if \<not> is_set phone_number
      then Inl (raise ValidationError ''phone_number required for Kora mobile_money'')
      else
        let md = tx_metadata tx in
        case initiate_mobile_money_charge st h (tx_amount tx) (tx_currency tx) (tx_idempotency_key tx)
               (the phone_number) (jget_default (JStr ''customer@afm.com'') ''email'' md) (jget ''name'' md)
               (jget ''notification_url'' md) (jget ''redirect_url'' md)
               (jget_default (JStr ''AFM Mobile Money payment'') ''description'' md)
               (truthy (jget_default (JBool True) ''merchant_bears_cost'' md))
               [(''afm_reference'', JStr (tx_idempotency_key tx))] of
          Inl (KoraClientError m) \<Rightarrow> Inl (raise PSPAPIError m)
        | Inl e \<Rightarrow> Inl e
        | Inr result \<Rightarrow>
            let word = py_lower (py_str (py_or (jget ''status'' result) (JStr ''processing''))) in
            Inr [(''success'', JBool (word \<in> {''success'', ''successful'', ''completed''})),
                 (''status'', JStr word), (''auth_model'', jget ''auth_model'' result),
                 (''psp_transaction_id'', py_or (jget ''transaction_reference'' result) (jget ''reference'' result)),
                 (''payment_reference'', jget ''payment_reference'' result),
                 (''authorization'', jget ''authorization'' result), (''raw_response'', JObj result)])"

text \<open>
  \<^verbatim>\<open>client.post\<close>, \<^verbatim>\<open>raise_for_status\<close> and \<^verbatim>\<open>json\<close>: a transport or status error is an
  \<^verbatim>\<open>httpx.HTTPError\<close>, kept apart from the other exceptions because the caller catches it.
\<close>

datatype 'a call_result = Got 'a | HTTPError string | Raised exn

definition post_json ::
  "(http_request \<Rightarrow> http_result \<Rightarrow> string) \<Rightarrow> http \<Rightarrow> http_request \<Rightarrow> json call_result" where
  "post_json error_text h rq =
     (case h rq of
        TransportError \<Rightarrow> HTTPError (error_text rq TransportError)
      | Response code txt parsed \<Rightarrow>
          if \<not> is_success code then HTTPError (error_text rq (Response code txt parsed))
          else (case parsed of None \<Rightarrow> Raised (ValueError ''json'') | Some j \<Rightarrow> Got j))"

definition post_request :: "string \<Rightarrow> (string \<times> string) list \<Rightarrow> body \<Rightarrow> http_request" where
  "post_request url headers payload =
     \<lparr> rq_method = ''POST'', rq_url = url, rq_headers = headers, rq_body = payload \<rparr>"

text \<open>\<^verbatim>\<open>data.get("data", {}).get(k)\<close> for a parsed answer.\<close>

definition nested_get :: "string \<Rightarrow> jobj \<Rightarrow> exn + json" where
  "nested_get k data =
     (case jget_default (JObj []) ''data'' data of
        JObj inner \<Rightarrow> Inr (jget k inner) | _ \<Rightarrow> Inl (AttributeError ''get''))"

definition nested_answer :: "string \<Rightarrow> json call_result \<Rightarrow> jobj call_result" where
  "nested_answer id_key r =
     (case r of
        HTTPError e \<Rightarrow> HTTPError e
      | Raised e \<Rightarrow> Raised e
      | Got (JObj data) \<Rightarrow>
          (case nested_get id_key data of
             Inl e \<Rightarrow> Raised e
           | Inr i \<Rightarrow> Got [(''success'', JBool (jget ''status'' data = JStr ''success'')),
                           (''psp_transaction_id'', i), (''raw_response'', JObj data)])
      | Got _ \<Rightarrow> Raised (AttributeError ''get''))"

definition call_fincra ::
  "(string \<Rightarrow> string) \<Rightarrow> (http_request \<Rightarrow> http_result \<Rightarrow> string) \<Rightarrow> settings \<Rightarrow> http \<Rightarrow> transaction
   \<Rightarrow> jobj call_result" where
  "call_fincra sha256 error_text st h tx =
     (if is_development st
      then Got [(''success'', JBool True), (''psp_transaction_id'', simulated_id sha256 ''fincra_sim_'' tx)]
      else if \<not> is_set (fincra_secret_key st)
      then Raised (raise PSPAPIError ''Fincra secret key not configured in production'')
      else nested_answer ''reference'' (post_json error_text h
        (post_request ''https://api.fincra.com/disbursements/payouts''
           [(''api-key'', the (fincra_secret_key st)), (''Content-Type'', ''application/json'')]
           (JsonBody (JObj [(''amount'', py_float (tx_amount tx)), (''currency'', JStr (tx_currency tx)),
            (''reference'', JStr (tx_idempotency_key tx))])))))"

definition call_flutterwave ::
  "(string \<Rightarrow> string) \<Rightarrow> (http_request \<Rightarrow> http_result \<Rightarrow> string) \<Rightarrow> settings \<Rightarrow> http \<Rightarrow> transaction
   \<Rightarrow> string option \<Rightarrow> jobj call_result" where
  "call_flutterwave sha256 error_text st h tx phone_number =
     (if is_development st
      then Got [(''success'', JBool True), (''psp_transaction_id'', simulated_id sha256 ''fw_sim_'' tx)]
      else if \<not> is_set (flutterwave_secret_key st)
      then Raised (raise PSPAPIError ''Flutterwave secret key not configured in production'')
      else nested_answer ''id'' (post_json error_text h
        (post_request ''https://api.flutterwave.com/v3/charges?type=mobile_money_''
           [(''Authorization'', ''Bearer '' @ the (flutterwave_secret_key st)),
            (''Content-Type'', ''application/json'')]
           (JsonBody (JObj [(''amount'', py_float (tx_amount tx)), (''currency'', JStr (tx_currency tx)),
            (''tx_ref'', JStr (tx_idempotency_key tx)), (''phone_number'', jopt phone_number)])))))"

definition call_stripe ::
  "(string \<Rightarrow> string) \<Rightarrow> (http_request \<Rightarrow> http_result \<Rightarrow> string) \<Rightarrow> settings \<Rightarrow> http \<Rightarrow> transaction
   \<Rightarrow> jobj call_result" where
  "call_stripe sha256 error_text st h tx =
     (if is_development st
      then Got [(''success'', JBool True), (''psp_transaction_id'', simulated_id sha256 ''stripe_sim_'' tx),
                (''status'', JStr ''requires_confirmation'')]
      else if \<not> is_set (stripe_secret_key st)
      then Raised (raise PSPAPIError ''Stripe secret key not configured in production'')
      else case post_json error_text h
        (post_request ''https://api.stripe.com/v1/payment_intents''
           [(''Authorization'', ''Bearer '' @ the (stripe_secret_key st))]
           (FormBody [(''amount'', JInt (dec_trunc (dec_mul (tx_amount tx) (Dec 100 0)))),
            (''currency'', JStr (py_lower (tx_currency tx))),
            (''metadata[afm_reference]'', JStr (tx_idempotency_key tx))])) of
          HTTPError e \<Rightarrow> HTTPError e
        | Raised e \<Rightarrow> Raised e
        | Got (JObj data) \<Rightarrow>
            Got [(''success'', JBool (jget ''status'' data \<in> {JStr ''succeeded'', JStr ''requires_confirmation''})),
                 (''psp_transaction_id'', jget ''id'' data), (''client_secret'', jget ''client_secret'' data),
                 (''raw_response'', JObj data)]
        | Got _ \<Rightarrow> Raised (AttributeError ''get''))"

definition lift_call :: "exn + jobj \<Rightarrow> jobj call_result" where
  "lift_call r = (case r of Inl e \<Rightarrow> Raised e | Inr x \<Rightarrow> Got x)"

definition dispatch_psp ::
  "(string \<Rightarrow> string) \<Rightarrow> (http_request \<Rightarrow> http_result \<Rightarrow> string) \<Rightarrow> settings \<Rightarrow> http \<Rightarrow> psp_type
   \<Rightarrow> transaction \<Rightarrow> string option \<Rightarrow> jobj call_result" where
  "dispatch_psp sha256 error_text st h psp tx phone_number =
     (case psp of
        KORA \<Rightarrow> lift_call (call_kora sha256 st h tx phone_number)
      | FINCRA \<Rightarrow> call_fincra sha256 error_text st h tx
      | FLUTTERWAVE \<Rightarrow> call_flutterwave sha256 error_text st h tx phone_number
      | STRIPE \<Rightarrow> call_stripe sha256 error_text st h tx
      | AZA \<Rightarrow> Raised (raise PSPAPIError ''Unsupported PSP: PSPType.AZA'')
      | _ \<Rightarrow>
          if is_set (kora_secret_key st) then lift_call (call_kora sha256 st h tx phone_number)
          else if is_set (flutterwave_secret_key st)
          then call_flutterwave sha256 error_text st h tx phone_number
          else if is_development st then lift_call (call_kora sha256 st h tx phone_number)
          else Raised (raise PSPAPIError
            (''No aggregator credentials configured for '' @ psp_value psp @ '' in production'')))"

definition call_psp_api ::
  "(string \<Rightarrow> string) \<Rightarrow> (http_request \<Rightarrow> http_result \<Rightarrow> string) \<Rightarrow> settings \<Rightarrow> http \<Rightarrow> psp_type
   \<Rightarrow> transaction \<Rightarrow> string option \<Rightarrow> exn + jobj" where
  "call_psp_api sha256 error_text st h psp tx phone_number =
     (case dispatch_psp sha256 error_text st h psp tx phone_number of
        Got r \<Rightarrow> Inr r
      | HTTPError e \<Rightarrow> Inr [(''success'', JBool False), (''error'', JStr (''HTTP error: '' @ e))]
      | Raised e \<Rightarrow> Inl e)"

section \<open>Other methods\<close>

definition detect_provider :: "string \<Rightarrow> string \<Rightarrow> string" where
  "detect_provider phone_number currency =
     (let begins = (\<lambda>p. starts_with (CHR ''+'' # p) phone_number \<or> starts_with p phone_number) in
      if currency = ''XOF''
      then if begins ''223'' then ''orange_money''
           else if begins ''225'' then ''mtn''
           else if begins ''221'' then ''wave'' else ''mtn''
      else if currency = ''XAF'' then ''mtn''
      else if currency = ''NGN'' then ''mtn''
      else if currency = ''KES'' then ''mpesa''
      else ''mtn'')"

definition get_transaction :: "uuid \<Rightarrow> db \<Rightarrow> exn + transaction" where
  "get_transaction transaction_id d =
     bindE (scalar_one_or_none (filter (\<lambda>t. tx_id t = transaction_id) (db_transactions d))) (\<lambda>found.
     case found of
       None \<Rightarrow> Inl (raise NotFoundError (''Transaction '' @ transaction_id @ '' not found''))
     | Some t \<Rightarrow> Inr t)"

definition verify_webhook ::
  "(string \<Rightarrow> string \<Rightarrow> string) \<Rightarrow> settings \<Rightarrow> string \<Rightarrow> string \<Rightarrow> string \<Rightarrow> bool" where
  "verify_webhook hmac256 st psp payload signature =
     (let secret = (if psp = ''kora'' then kora_webhook_secret st
                    else if psp = ''fincra'' then fincra_webhook_secret st else None)
      in is_set secret \<and> verify_webhook_signature hmac256 payload signature (the secret))"

text \<open>The Fincra webhook: the route verifies the signature and acknowledges, and does nothing else.\<close>

definition fincra_webhook ::
  "(string \<Rightarrow> string \<Rightarrow> string) \<Rightarrow> settings \<Rightarrow> string \<Rightarrow> string option \<Rightarrow> exn + string" where
  "fincra_webhook hmac256 st payload signature =
     (if \<not> verify_webhook hmac256 st ''fincra'' payload (case signature of None \<Rightarrow> '''' | Some s \<Rightarrow> s)
      then Inl (HTTPException 401 ''Invalid signature'') else Inr ''received'')"

definition get_payment :: "string \<Rightarrow> uuid \<Rightarrow> db \<Rightarrow> exn + transaction" where
  "get_payment transaction_id user_id d =
     (case parse_uuid transaction_id of
        Inl _ \<Rightarrow> Inl (raise ValidationError
                  ([CHR 0x27] @ transaction_id @ [CHR 0x27] @ '' is not a valid transaction id''))
      | Inr parsed_id \<Rightarrow>
          bindE (get_transaction parsed_id d) (\<lambda>t.
          if tx_user_id t \<noteq> user_id
          then Inl (raise NotFoundError (''Transaction '' @ transaction_id @ '' not found''))
          else Inr t))"

section \<open>What the service does\<close>

text \<open>
  Claim C26. No payment can be made: \<^verbatim>\<open>process_payment\<close> looks up its lock methods on a class that
  does not define them (they belong to an unused legacy class), so that after its validation it
  raises an attribute error for every input, and the payment route, whatever its gates say, never
  returns a payment.
\<close>

theorem process_payment_never_succeeds:
  "\<not> is_ok (process_payment st sha256 now acquire user_id amount currency meth region metadata)
   \<and> \<not> is_ok (create_payment st sha256 now acquire r user_id d)
   \<and> (py_upper currency \<in> set SUPPORTED_CURRENCIES \<and> Dec 0 0 < amount \<longrightarrow>
        process_payment st sha256 now acquire user_id amount currency meth region metadata
          = Inl (AttributeError ''PaymentService object has no attribute _acquire_lock''))"
proof -
  have attr: "service_attribute ''_acquire_lock''
      = Inl (AttributeError ''PaymentService object has no attribute _acquire_lock'')"
    by (simp add: service_attribute_def service_attributes_def)
  have no: "\<not> is_ok (process_payment st sha256 now acquire u a c m g md)" for u a c m g md
    unfolding process_payment_def Let_def attr by simp
  have "\<not> is_ok (create_payment st sha256 now acquire r user_id d)"
    using no by (auto simp: create_payment_def is_ok_iff bindE_eq_Inr_iff split: if_splits)
  moreover have "process_payment st sha256 now acquire user_id amount currency meth region metadata
      = Inl (AttributeError ''PaymentService object has no attribute _acquire_lock'')"
    if "py_upper currency \<in> set SUPPORTED_CURRENCIES" "Dec 0 0 < amount"
    using that unfolding process_payment_def Let_def attr
    by (simp add: less_decimal_dval less_eq_decimal_dval)
  ultimately show ?thesis using no by blast
qed

lemma process_payment_never_succeeds_witness:
  "process_payment keyed_settings (\<lambda>x. x) 0 (\<lambda>_. True) ''u1'' (Dec 100 0) ''xof'' ''card'' ''west_africa'' []
     = Inl (AttributeError ''PaymentService object has no attribute _acquire_lock'')"
proof -
  have "py_upper ''xof'' \<in> set SUPPORTED_CURRENCIES" and "Dec 0 0 < Dec 100 0" by code_simp+
  then show ?thesis using process_payment_never_succeeds by blast
qed

lemma uuid_second_hex:
  assumes "parse_uuid s = Inr u"
  shows "2 \<le> length u \<and> is_hex (u ! 1)"
proof -
  obtain h where h: "length h = 32" "list_all is_hex h" and u: "u = canonical_uuid (py_lower h)"
    using assms by (auto simp: parse_uuid_def Let_def split: if_splits)
  have "is_hex (h ! 1)" using h by (simp add: list_all_length)
  then have "is_hex (lower_char (h ! 1))"
    by (simp add: is_hex_def Let_def) (auto simp: is_digit_def lower_char_def Let_def)
  moreover have "u ! 1 = lower_char (h ! 1)"
    using h by (simp add: u canonical_uuid_def py_lower_def nth_append)
  ultimately show ?thesis using h by (simp add: u canonical_uuid_def)
qed

text \<open>
  An idempotency key sent by a client is scoped to the user: two users' keys, or two keys
  of one user, or a client's key and an automatic one, never name the same payment, unless the hash
  collides on the two texts.
\<close>

theorem client_keys_scoped:
  assumes "parse_uuid u = Inr u" and "parse_uuid u' = Inr u'" and "is_set k"
    and "inj_on sha256 {idempotency_text now u amount currency k meth phone,
                        idempotency_text now' u' amount' currency' k' meth' phone'}"
    and "generate_idempotency_key sha256 now u amount currency k meth phone
       = generate_idempotency_key sha256 now' u' amount' currency' k' meth' phone'"
  shows "u = u' \<and> k = k'"
proof -
  have eq: "idempotency_text now u amount currency k meth phone
      = idempotency_text now' u' amount' currency' k' meth' phone'"
    using inj_onD [OF assms(4)] assms(5) unfolding generate_idempotency_key_def by blast
  show ?thesis
  proof (cases "is_set k'")
    case True
    have "length u = length u'" using parse_uuid_length assms(1,2) by metis
    moreover have "u @ '':'' @ the k = u' @ '':'' @ the k'"
      using eq assms(3) True by (simp add: idempotency_text_def)
    ultimately have "u = u' \<and> the k = the k'" by simp
    then show ?thesis using assms(3) True by (cases k; cases k') auto
  next
    case False
    obtain rest where "idempotency_text now' u' amount' currency' k' meth' phone' = u' @ rest"
      using False by (auto simp: idempotency_text_def Let_def)
    moreover have "idempotency_text now u amount currency k meth phone = ''client:'' @ u @ '':'' @ the k"
      using assms(3) by (simp add: idempotency_text_def)
    ultimately have "(u' @ rest) ! 1 = CHR ''l''" using eq by simp
    then have "u' ! 1 = CHR ''l''" using uuid_second_hex [OF assms(2)] by (simp add: nth_append)
    moreover have "\<not> is_hex (CHR ''l'')" by code_simp
    ultimately show ?thesis using uuid_second_hex [OF assms(2)] by simp
  qed
qed

lemma client_keys_scoped_witness:
  "generate_idempotency_key (\<lambda>x. x) 0 (id_of ''a'') ''1'' ''XAF'' (Some ''k'') ''card'' None
     \<noteq> generate_idempotency_key (\<lambda>x. x) 0 (id_of ''b'') ''1'' ''XAF'' (Some ''k'') ''card'' None"
proof
  assume eq: "generate_idempotency_key (\<lambda>x. x) 0 (id_of ''a'') ''1'' ''XAF'' (Some ''k'') ''card'' None
     = generate_idempotency_key (\<lambda>x. x) 0 (id_of ''b'') ''1'' ''XAF'' (Some ''k'') ''card'' None"
  have "parse_uuid (id_of ''a'') = Inr (id_of ''a'')" "parse_uuid (id_of ''b'') = Inr (id_of ''b'')"
    by code_simp+
  from client_keys_scoped [OF this _ _ eq] have "id_of ''a'' = id_of ''b''" by simp
  then show False by (simp add: id_of_def)
qed

text \<open>
  The automatic key is the same for equal requests of one five-minute bucket of the clock, and only
  of one: a retry a second later that crosses the end of the bucket gets another key.
\<close>

lemma automatic_key_window:
  "\<not> is_set k \<Longrightarrow> now div seconds 300 = now' div seconds 300 \<Longrightarrow>
     idempotency_text now u a c k m p = idempotency_text now' u a c k m p"
  by (simp add: idempotency_text_def DEFAULT_IDEMPOTENCY_WINDOW_SECONDS_def)

lemma automatic_key_changes_at_bucket_end:
  "idempotency_text (seconds 299) ''u'' ''1'' ''XAF'' None ''card'' None
     \<noteq> idempotency_text (seconds 300) ''u'' ''1'' ''XAF'' None ''card'' None"
  by code_simp

section \<open>Success comes from a provider\<close>

lemma call_kora_answered:
  assumes "call_kora sha st h tx phone = Inr r" and "\<not> is_development st"
  shows "answered h"
proof -
  obtain result a c ref ph em nm nu ru de mb md where
    "initiate_mobile_money_charge st h a c ref ph em nm nu ru de mb md = Inr result"
    using assms by (auto simp: call_kora_def Let_def split: if_splits sum.splits exn.splits)
  then have "\<exists>payload. kora_request st h ''POST'' ''charges/mobile-money'' payload = Inr result"
    by (auto simp: initiate_mobile_money_charge_def split: if_splits)
  then show ?thesis using kora_request_answered by blast
qed

lemma post_json_answered: "post_json et h rq = Got (JObj d) \<Longrightarrow> answered h"
  unfolding answered_def post_json_def
  by (auto split: http_result.splits if_splits option.splits)

lemma nested_answer_Got:
  "nested_answer k r = Got x \<Longrightarrow> \<exists>d. r = Got (JObj d)"
  by (auto simp: nested_answer_def split: call_result.splits json.splits sum.splits)

lemma call_answered:
  assumes "\<not> is_development st"
  shows "call_fincra sha et st h tx = Got x \<Longrightarrow> answered h"
    and "call_flutterwave sha et st h tx phone = Got x \<Longrightarrow> answered h"
    and "call_stripe sha et st h tx = Got x \<Longrightarrow> answered h"
  using assms
  by (auto simp: call_fincra_def call_flutterwave_def call_stripe_def
      split: if_splits call_result.splits json.splits
      dest!: nested_answer_Got intro: post_json_answered)

text \<open>
  Claim C27. Outside development no provider call is simulated: whenever the service obtains a result
  that reports success, for any provider and rail and whatever credentials are missing, some
  request of it was answered by the provider with a 2xx response that carries an object.
\<close>

theorem no_simulated_success_outside_development:
  assumes "call_psp_api sha et st h psp tx phone = Inr r" and "truthy (jget ''success'' r)"
    and "\<not> is_development st"
  shows "answered h"
proof -
  obtain x where "dispatch_psp sha et st h psp tx phone = Got x"
    using assms(1,2)
    by (auto simp: call_psp_api_def jget_def jget_default_def split: call_result.splits)
  then show ?thesis
    using assms(3) call_answered [OF assms(3)] call_kora_answered [OF _ assms(3)]
    by (cases psp) (auto simp: dispatch_psp_def lift_call_def split: if_splits sum.splits)
qed

definition stripe_settings :: settings where
  "stripe_settings = (default_settings []) \<lparr> environment := Production, stripe_secret_key := Some ''sk'' \<rparr>"

definition stripe_unconfirmed :: http where
  "stripe_unconfirmed rq =
     Response 200 '''' (Some (JObj [(''id'', JStr ''pi_1''), (''status'', JStr ''requires_confirmation'')]))"

lemma no_simulated_success_outside_development_witness:
  "answered stripe_unconfirmed
   \<and> truthy (jget ''success'' (the (case call_psp_api (\<lambda>x. x) (\<lambda>_ _. '''') stripe_settings stripe_unconfirmed STRIPE
        (sample_transaction ''t1'' ''u1'' PENDING) None of Inl _ \<Rightarrow> None | Inr r \<Rightarrow> Some r)))"
proof -
  let ?call = "call_psp_api (\<lambda>x. x) (\<lambda>_ _. '''') stripe_settings stripe_unconfirmed STRIPE
        (sample_transaction ''t1'' ''u1'' PENDING) None"
  have s: "case ?call of Inl _ \<Rightarrow> False | Inr r \<Rightarrow> truthy (jget ''success'' r)" by code_simp
  then obtain r where r: "?call = Inr r" "truthy (jget ''success'' r)" by (cases ?call) auto
  have "\<not> is_development stripe_settings"
    by (simp add: is_development_def stripe_settings_def)
  from no_simulated_success_outside_development [OF r this] r show ?thesis by simp
qed

text \<open>
  A Stripe payment that still waits for the payer's confirmation is reported as a
  success, although no money has moved.
\<close>

lemma stripe_unconfirmed_counts_as_success:
  "(case call_psp_api (\<lambda>x. x) (\<lambda>_ _. '''') stripe_settings stripe_unconfirmed STRIPE
        (sample_transaction ''t1'' ''u1'' PENDING) None of
      Inl _ \<Rightarrow> False
    | Inr r \<Rightarrow> jget ''success'' r = JBool True
        \<and> (case jget ''raw_response'' r of JObj d \<Rightarrow> jget ''status'' d = JStr ''requires_confirmation'' | _ \<Rightarrow> False))"
  by code_simp

text \<open>A payment is shown to its owner only.\<close>

lemma get_payment_own: "get_payment i u d = Inr t \<Longrightarrow> tx_user_id t = u \<and> t \<in> set (db_transactions d)"
  by (auto simp: get_payment_def get_transaction_def bindE_eq_Inr_iff
      split: sum.splits if_splits option.splits dest: scalar_one_or_none_Some)

end
