(* ===== verification/AFM_Whatsapp.thy ===== *)
theory AFM_Whatsapp
  imports AFM_Http
begin

text \<open>
  \<^verbatim>\<open>api_gateway/whatsapp.py\<close>: the client that sends an authentication code through the WhatsApp
  Cloud API, over a service that is a parameter.  \<^verbatim>\<open>WhatsAppApiError\<close> is a runtime error.
\<close>

definition only_digits :: "string \<Rightarrow> string" where
  "only_digits s = filter is_digit s"

definition normalize_whatsapp_number :: "string \<Rightarrow> exn + string" where
  "normalize_whatsapp_number value =
     (let number = only_digits value in
      if 8 \<le> length number \<and> length number \<le> 15 \<and> hd number \<noteq> CHR ''0'' then Inr number
      else Inl (RuntimeError ''WhatsApp number must use international format''))"

definition template_payload :: "settings \<Rightarrow> string \<Rightarrow> string \<Rightarrow> jobj" where
  "template_payload st recipient code =
     [(''messaging_product'', JStr ''whatsapp''), (''to'', JStr recipient), (''type'', JStr ''template''),
      (''template'', JObj
         [(''name'', JStr (whatsapp_otp_template_name st)),
          (''language'', JObj [(''code'', JStr (whatsapp_otp_template_language st))]),
          (''components'', JArr [JObj [(''type'', JStr ''body''),
             (''parameters'', JArr [JObj [(''type'', JStr ''text''), (''text'', JStr code)]])]])])]"

definition send_template :: "settings \<Rightarrow> http \<Rightarrow> string \<Rightarrow> string \<Rightarrow> exn + unit" where
  "send_template st h recipient code =
     (if \<not> is_set (whatsapp_access_token st) \<or> \<not> is_set (whatsapp_phone_number_id st)
      then Inl (RuntimeError ''WhatsApp Business is not configured'')
      else case h
        \<lparr> rq_method = ''POST'',
          rq_url = ''https://graph.facebook.com/'' @ whatsapp_api_version st @ ''/''
                     @ the (whatsapp_phone_number_id st) @ ''/messages'',
          rq_headers = [(''Authorization'', ''Bearer '' @ the (whatsapp_access_token st)),
                        (''Content-Type'', ''application/json''), (''Accept'', ''application/json''),
                        (''User-Agent'', ''afm-whatsapp-auth/1.0'')],
          rq_body = JsonBody (JObj (template_payload st recipient code)) \<rparr> of
          TransportError \<Rightarrow> Inl (RuntimeError ''WhatsApp authentication message failed'')
        | Response status txt parsed \<Rightarrow>
            if \<not> is_success status then Inl (RuntimeError ''WhatsApp authentication message failed'')
            else case parsed of
              None \<Rightarrow> Inl (ValueError ''json'')
            | Some (JObj body) \<Rightarrow>
                if truthy (jget ''messages'' body) then Inr ()
                else Inl (RuntimeError ''WhatsApp returned no message receipt'')
            | Some _ \<Rightarrow> Inl (AttributeError ''get''))"

definition send_authentication_code :: "settings \<Rightarrow> http \<Rightarrow> string \<Rightarrow> string \<Rightarrow> exn + unit" where
  "send_authentication_code st h phone code =
     bindE (normalize_whatsapp_number phone) (\<lambda>recipient. send_template st h recipient code)"

text \<open>A code counts as sent only when the service acknowledged the message with a receipt.\<close>

lemma send_authentication_code_InrD:
  assumes "send_authentication_code st h phone code = Inr ()"
  shows "\<exists>rq status txt body. h rq = Response status txt (Some (JObj body)) \<and> is_success status
           \<and> truthy (jget ''messages'' body) \<and> (\<exists>n. normalize_whatsapp_number phone = Inr n
           \<and> rq_body rq = JsonBody (JObj (template_payload st n code)))"
proof -
  obtain n where n: "normalize_whatsapp_number phone = Inr n" and "send_template st h n code = Inr ()"
    using assms by (auto simp: send_authentication_code_def elim: bindE_InrE)
  from this(2) show ?thesis using n unfolding send_template_def
    by (fastforce split: if_splits http_result.splits option.splits json.splits)
qed

lemma normalize_whatsapp_number_idem:
  "normalize_whatsapp_number s = Inr n \<Longrightarrow> normalize_whatsapp_number n = Inr n"
  by (auto simp: normalize_whatsapp_number_def only_digits_def Let_def split: if_splits)

end
