(* ===== verification/AFM_Auth.thy ===== *)
theory AFM_Auth
  imports AFM_Whatsapp AFM_Security
begin

text \<open>
  \<^verbatim>\<open>api_gateway/auth.py\<close>: registration, login, one-time codes by mail and by WhatsApp, the identity
  profile, token refresh and the exchange of a mobile identity.  Mail delivery, bcrypt, HMAC and the
  JWT library are parameters, and so are the fresh identifiers and the random number of a code.  A
  route is a function of the database that returns its answer and the database it leaves; what was
  not committed when it raises is rolled back.
\<close>

section \<open>Requests\<close>

definition phone_pattern :: "string \<Rightarrow> bool" where
  "phone_pattern s \<longleftrightarrow>
     8 \<le> length s \<and> length s \<le> 20
   \<and> (let t = (if s \<noteq> [] \<and> hd s = CHR ''+'' then tl s else s) in
        t \<noteq> [] \<and> is_digit (hd t) \<and> 7 \<le> length (tl t) \<and> length (tl t) \<le> 18
      \<and> list_all (\<lambda>c. is_digit c \<or> c \<in> {CHR '' '', CHR ''.'', CHR ''-''}) (tl t))"

definition phone_pattern_opt :: "string option \<Rightarrow> bool" where
  "phone_pattern_opt p = (case p of None \<Rightarrow> True | Some s \<Rightarrow> phone_pattern s)"

definition code_pattern :: "string \<Rightarrow> bool" where
  "code_pattern s \<longleftrightarrow> length s = 6 \<and> list_all is_digit s"

definition date_pattern :: "string \<Rightarrow> bool" where
  "date_pattern s \<longleftrightarrow>
     length s = 10 \<and> s ! 4 = CHR ''-'' \<and> s ! 7 = CHR ''-''
   \<and> list_all is_digit (take 4 s @ take 2 (drop 5 s) @ drop 8 s)"

definition at_most :: "nat \<Rightarrow> string option \<Rightarrow> bool" where
  "at_most n v = (case v of None \<Rightarrow> True | Some s \<Rightarrow> length s \<le> n)"

record register_request =
  rg_email :: string
  rg_password :: string
  rg_full_name :: "string option"
  rg_phone :: "string option"
  rg_country :: "string option"

definition valid_register_request :: "register_request \<Rightarrow> bool" where
  "valid_register_request r \<longleftrightarrow>
     8 \<le> length (rg_password r) \<and> length (rg_password r) \<le> 128
   \<and> at_most 255 (rg_full_name r) \<and> at_most 50 (rg_phone r)
   \<and> (case rg_country r of None \<Rightarrow> True | Some c \<Rightarrow> length c = 2)"

record otp_request =
  or_email :: string
  or_identity_consent :: bool
  or_terms_accepted :: bool

record otp_verify_request =
  ov_email :: string
  ov_code :: string
  ov_full_name :: string
  ov_whatsapp_phone :: "string option"
  ov_mobile_money_phone :: "string option"
  ov_country :: string
  ov_date_of_birth :: string
  ov_identity_consent :: bool
  ov_terms_accepted :: bool

definition valid_otp_verify_request :: "otp_verify_request \<Rightarrow> bool" where
  "valid_otp_verify_request r \<longleftrightarrow>
     code_pattern (ov_code r) \<and> 2 \<le> length (ov_full_name r) \<and> length (ov_full_name r) \<le> 255
   \<and> phone_pattern_opt (ov_whatsapp_phone r) \<and> phone_pattern_opt (ov_mobile_money_phone r)
   \<and> length (ov_country r) = 2 \<and> date_pattern (ov_date_of_birth r)"

record phone_otp_verify_request =
  pv_whatsapp_phone :: string
  pv_code :: string

definition valid_phone_otp_verify_request :: "phone_otp_verify_request \<Rightarrow> bool" where
  "valid_phone_otp_verify_request r \<longleftrightarrow> phone_pattern (pv_whatsapp_phone r) \<and> code_pattern (pv_code r)"

record identity_profile_request =
  ip_full_name :: string
  ip_whatsapp_phone :: string
  ip_mobile_money_phone :: "string option"
  ip_country :: string
  ip_date_of_birth :: string
  ip_identity_consent :: bool

definition valid_identity_profile_request :: "identity_profile_request \<Rightarrow> bool" where
  "valid_identity_profile_request r \<longleftrightarrow>
     2 \<le> length (ip_full_name r) \<and> length (ip_full_name r) \<le> 255
   \<and> phone_pattern (ip_whatsapp_phone r) \<and> phone_pattern_opt (ip_mobile_money_phone r)
   \<and> length (ip_country r) = 2 \<and> date_pattern (ip_date_of_birth r)"

record login_request =
  lg_email :: string
  lg_password :: string

record mobile_exchange_request =
  mx_oauth_subject :: string
  mx_email :: string
  mx_full_name :: "string option"
  mx_date_of_birth :: "string option"
  mx_identity_consent :: bool
  mx_terms_accepted :: bool

definition valid_mobile_exchange_request :: "mobile_exchange_request \<Rightarrow> bool" where
  "valid_mobile_exchange_request r \<longleftrightarrow>
     1 \<le> length (mx_oauth_subject r) \<and> length (mx_oauth_subject r) \<le> 128
   \<and> at_most 255 (mx_full_name r)
   \<and> (case mx_date_of_birth r of None \<Rightarrow> True | Some s \<Rightarrow> date_pattern s)"

section \<open>Helpers\<close>

record 'tok token_response =
  tr_access_token :: 'tok
  tr_refresh_token :: 'tok
  tr_user_id :: string

definition issue_tokens ::
  "(jobj \<Rightarrow> string \<Rightarrow> 'tok) \<Rightarrow> settings \<Rightarrow> time \<Rightarrow> uuid \<Rightarrow> 'tok token_response" where
  "issue_tokens jwt_encode st now user_id =
     \<lparr> tr_access_token = create_access_token jwt_encode st now [(''sub'', JStr user_id)] None,
       tr_refresh_token = create_refresh_token jwt_encode st now [(''sub'', JStr user_id)],
       tr_user_id = user_id \<rparr>"

definition is_valid_mobile_exchange_secret :: "string option \<Rightarrow> string option \<Rightarrow> bool" where
  "is_valid_mobile_exchange_secret presented configured \<longleftrightarrow>
     is_set presented \<and> is_set configured \<and> the presented = the configured"

definition normalize_phone :: "string \<Rightarrow> string" where
  "normalize_phone phone = ''+'' @ lstrip_char (CHR ''+'') (only_digits phone)"

definition otp_digest ::
  "(string \<Rightarrow> string \<Rightarrow> string) \<Rightarrow> settings \<Rightarrow> string \<Rightarrow> string \<Rightarrow> string \<Rightarrow> string" where
  "otp_digest hmac256 st purpose target code =
     hmac256 (secret_key st) (purpose @ '':'' @ target @ '':'' @ code)"

text \<open>\<^verbatim>\<open>f"{secrets.randbelow(1_000_000):06d}"\<close>.\<close>

definition otp_code :: "int \<Rightarrow> string" where
  "otp_code n = zero_pad 6 (int_str n)"

text \<open>\<open>smtp\<close> is the mail server: whether it takes the code for the address or raises.\<close>

definition send_otp ::
  "settings \<Rightarrow> (string \<Rightarrow> string \<Rightarrow> exn + unit) \<Rightarrow> string \<Rightarrow> string \<Rightarrow> exn + unit" where
  "send_otp st smtp to_email code =
     (if \<not> (is_set (smtp_host st) \<and> is_set (smtp_username st) \<and> is_set (smtp_password st)
             \<and> is_set (smtp_from_email st))
      then Inl (RuntimeError ''Email OTP delivery is not configured'')
      else smtp to_email code)"

definition find_user :: "uuid \<Rightarrow> db \<Rightarrow> exn + user option" where
  "find_user user_id d = scalar_one_or_none (filter (\<lambda>u. us_id u = user_id) (db_users d))"

definition find_email :: "string \<Rightarrow> db \<Rightarrow> exn + user option" where
  "find_email email d = scalar_one_or_none (filter (\<lambda>u. us_email u = email) (db_users d))"

text \<open>\<^verbatim>\<open>db.add(user)\<close> and a commit: the columns \<^verbatim>\<open>id\<close>, \<^verbatim>\<open>email\<close> and \<^verbatim>\<open>oauth_subject\<close> are unique.\<close>

definition add_user :: "user \<Rightarrow> db \<Rightarrow> db option" where
  "add_user u d =
     (if us_email u \<in> us_email ` set (db_users d)
         \<or> us_oauth_subject u \<noteq> None \<and> us_oauth_subject u \<in> us_oauth_subject ` set (db_users d)
      then None
      else map_option (\<lambda>rows. d \<lparr> db_users := rows \<rparr>) (row_insert us_id u (db_users d)))"

definition save_user :: "user \<Rightarrow> db \<Rightarrow> db" where
  "save_user u d = d \<lparr> db_users := row_update us_id u (db_users d) \<rparr>"

definition save_challenge :: "otp_challenge \<Rightarrow> db \<Rightarrow> db" where
  "save_challenge c d = d \<lparr> db_challenges := row_update ch_id c (db_challenges d) \<rparr>"

text \<open>A user row with the column defaults.\<close>

definition new_user :: "uuid \<Rightarrow> string \<Rightarrow> time \<Rightarrow> user" where
  "new_user fresh email now =
     \<lparr> us_id = fresh, us_email = email, us_oauth_subject = None, us_hashed_password = None,
       us_full_name = None, us_phone = None, us_whatsapp_phone = None, us_mobile_money_phone = None,
       us_country = None, us_is_active = ''1'', us_kyc_status = ''pending'', us_date_of_birth = None,
       us_mobile_money_owner_verified_at = None, us_email_verified_at = None, us_phone_verified_at = None,
       us_identity_consent_at = None, us_terms_accepted_at = None, us_terms_version = None,
       us_aml_policy_version = None, us_created_at = now \<rparr>"

section \<open>Passwords\<close>

definition register ::
  "(jobj \<Rightarrow> string \<Rightarrow> 'tok) \<Rightarrow> (string \<Rightarrow> string \<Rightarrow> string) \<Rightarrow> settings \<Rightarrow> uuid \<Rightarrow> string \<Rightarrow> time
   \<Rightarrow> register_request \<Rightarrow> db \<Rightarrow> (exn + 'tok token_response) \<times> db" where
  "register jwt_encode hashpw st fresh salt now r d =
     (if \<not> valid_register_request r then (Inl (HTTPException 422 ''''), d)
      else if is_production st
      then (Inl (HTTPException 410 ''Password registration is unavailable; use email OTP onboarding''), d)
      else case find_email (rg_email r) d of
        Inl e \<Rightarrow> (Inl e, d)
      | Inr (Some _) \<Rightarrow> (Inl (raise ConflictError ''An account with this email already exists''), d)
      | Inr None \<Rightarrow>
          let u = (new_user fresh (rg_email r) now)
                \<lparr> us_hashed_password := Some (hash_password hashpw salt (rg_password r)),
                  us_full_name := rg_full_name r, us_phone := rg_phone r,
                  us_country := (if is_set (rg_country r) then Some (py_upper (the (rg_country r))) else None) \<rparr>
          in case add_user u d of
               None \<Rightarrow> (Inl IntegrityError, d)
             | Some d' \<Rightarrow> (Inr (issue_tokens jwt_encode st now fresh), d'))"

definition login ::
  "(jobj \<Rightarrow> string \<Rightarrow> 'tok) \<Rightarrow> (string \<Rightarrow> string \<Rightarrow> bool option) \<Rightarrow> settings \<Rightarrow> time \<Rightarrow> login_request \<Rightarrow> db
   \<Rightarrow> exn + 'tok token_response" where
  "login jwt_encode checkpw st now r d =
     bindE (find_email (lg_email r) d) (\<lambda>found.
     case found of
       None \<Rightarrow> Inl (raise AuthenticationError ''Invalid email or password'')
     | Some u \<Rightarrow>
         if \<not> is_set (us_hashed_password u)
            \<or> \<not> verify_password checkpw (lg_password r) (the (us_hashed_password u))
         then Inl (raise AuthenticationError ''Invalid email or password'')
         else if us_is_active u \<noteq> ''1'' then Inl (raise AuthenticationError ''Account is disabled'')
         else Inr (issue_tokens jwt_encode st now (us_id u)))"

section \<open>One-time codes\<close>

record otp_sent =
  os_expires_in_seconds :: int
  os_dev_code :: "string option"

definition sent_response :: "settings \<Rightarrow> string \<Rightarrow> otp_sent" where
  "sent_response st code =
     \<lparr> os_expires_in_seconds = otp_expire_minutes st * 60,
       os_dev_code = (if otp_expose_dev_code st \<and> \<not> is_production st then Some code else None) \<rparr>"

definition matching_challenges :: "string \<Rightarrow> string option \<Rightarrow> string \<Rightarrow> db \<Rightarrow> otp_challenge list" where
  "matching_challenges email phone purpose d =
     filter (\<lambda>c. ch_email c = email \<and> ch_purpose c = purpose \<and> (phone \<noteq> None \<longrightarrow> ch_phone c = phone))
       (db_challenges d)"

definition recently_sent :: "time \<Rightarrow> otp_challenge list \<Rightarrow> bool" where
  "recently_sent now cs = list_ex (\<lambda>c. now - seconds 60 \<le> ch_created_at c) cs"

definition new_challenge ::
  "settings \<Rightarrow> uuid \<Rightarrow> time \<Rightarrow> string \<Rightarrow> string option \<Rightarrow> string \<Rightarrow> string \<Rightarrow> otp_challenge" where
  "new_challenge st fresh now email phone purpose digest =
     \<lparr> ch_id = fresh, ch_email = email, ch_phone = phone, ch_purpose = purpose, ch_code_digest = digest,
       ch_attempts = 0, ch_expires_at = now + minutes (otp_expire_minutes st), ch_consumed_at = None,
       ch_created_at = now \<rparr>"

text \<open>
  The part both request routes share: the challenge is committed, then the code is sent, and a
  delivery that raises consumes the challenge.
\<close>

definition send_challenge ::
  "settings \<Rightarrow> time \<Rightarrow> otp_challenge \<Rightarrow> string \<Rightarrow> (exn + unit) \<Rightarrow> string \<Rightarrow> db \<Rightarrow> (exn + otp_sent) \<times> db" where
  "send_challenge st now c code delivery failure d =
     (case row_insert ch_id c (db_challenges d) of
        None \<Rightarrow> (Inl IntegrityError, d)
      | Some rows \<Rightarrow>
          let d1 = d \<lparr> db_challenges := rows \<rparr> in
          case delivery of
            Inr () \<Rightarrow> (Inr (sent_response st code), d1)
          | Inl _ \<Rightarrow> (Inl (HTTPException 503 failure), save_challenge (c \<lparr> ch_consumed_at := Some now \<rparr>) d1))"

definition request_signup_otp ::
  "(string \<Rightarrow> string \<Rightarrow> string) \<Rightarrow> settings \<Rightarrow> (string \<Rightarrow> string \<Rightarrow> exn + unit) \<Rightarrow> uuid \<Rightarrow> int \<Rightarrow> time
   \<Rightarrow> otp_request \<Rightarrow> db \<Rightarrow> (exn + otp_sent) \<times> db" where
  "request_signup_otp hmac256 st smtp fresh random now r d =
     (if \<not> or_identity_consent r then (Inl (HTTPException 400 ''Identity sharing consent is required''), d)
      else if \<not> or_terms_accepted r
      then (Inl (HTTPException 400 ''Acceptance of the terms and AML policy is required''), d)
      else
        let email = py_lower (py_strip (or_email r)) in
        if recently_sent now (matching_challenges email None ''signup'' d)
        then (Inl (HTTPException 429 ''Please wait before requesting another code''), d)
        else
          let code = otp_code random in
          send_challenge st now
            (new_challenge st fresh now email None ''signup'' (otp_digest hmac256 st ''signup'' email code))
            code (send_otp st smtp email code) ''Email verification is temporarily unavailable'' d)"

text \<open>The newest unconsumed challenge, and the check of a code against it.\<close>

definition open_challenge :: "string \<Rightarrow> string option \<Rightarrow> string \<Rightarrow> db \<Rightarrow> otp_challenge option" where
  "open_challenge email phone purpose d =
     latest_by ch_created_at
       (filter (\<lambda>c. ch_consumed_at c = None) (matching_challenges email phone purpose d))"

text \<open>
  \<open>Inr c\<close> is the challenge with the attempt counted, not yet committed; a wrong code commits the
  attempt before it raises.
\<close>

definition try_code ::
  "settings \<Rightarrow> time \<Rightarrow> string \<Rightarrow> otp_challenge option \<Rightarrow> db \<Rightarrow> (exn + otp_challenge) \<times> db" where
  "try_code st now digest challenge d =
     (case challenge of
        None \<Rightarrow> (Inl (HTTPException 400 ''Code expired or invalid''), d)
      | Some c \<Rightarrow>
          if ch_expires_at c \<le> now then (Inl (HTTPException 400 ''Code expired or invalid''), d)
          else if otp_max_attempts st \<le> ch_attempts c
          then (Inl (HTTPException 429 ''Too many verification attempts''), d)
          else
            let c1 = c \<lparr> ch_attempts := ch_attempts c + 1 \<rparr> in
            if ch_code_digest c \<noteq> digest
            then (Inl (HTTPException 400 ''Code expired or invalid''), save_challenge c1 d)
            else (Inr c1, d))"

definition signup_profile :: "settings \<Rightarrow> time \<Rightarrow> otp_verify_request \<Rightarrow> user \<Rightarrow> user" where
  "signup_profile st now r u =
     (let whatsapp = (if is_set (ov_whatsapp_phone r)
                      then Some (normalize_phone (the (ov_whatsapp_phone r))) else None);
          mobile_money = (if is_set (ov_mobile_money_phone r)
                          then Some (normalize_phone (the (ov_mobile_money_phone r))) else None)
      in u \<lparr> us_full_name := Some (py_strip (ov_full_name r)), us_phone := whatsapp,
             us_whatsapp_phone := whatsapp, us_mobile_money_phone := mobile_money,
             us_country := Some (py_upper (ov_country r)), us_date_of_birth := Some (ov_date_of_birth r),
             us_email_verified_at := Some now, us_identity_consent_at := Some now,
             us_terms_accepted_at := Some now, us_terms_version := Some (terms_version st),
             us_aml_policy_version := Some (aml_policy_version st), us_kyc_status := ''pending'' \<rparr>)"

definition verify_signup_otp ::
  "(jobj \<Rightarrow> string \<Rightarrow> 'tok) \<Rightarrow> (string \<Rightarrow> string \<Rightarrow> string) \<Rightarrow> settings \<Rightarrow> uuid \<Rightarrow> time
   \<Rightarrow> otp_verify_request \<Rightarrow> db \<Rightarrow> (exn + 'tok token_response) \<times> db" where
  "verify_signup_otp jwt_encode hmac256 st fresh now r d =
     (if \<not> valid_otp_verify_request r then (Inl (HTTPException 422 ''''), d)
      else
        let email = py_lower (py_strip (ov_email r)) in
        case try_code st now (otp_digest hmac256 st ''signup'' email (ov_code r))
               (open_challenge email None ''signup'' d) d of
          (Inl e, d1) \<Rightarrow> (Inl e, d1)
        | (Inr c, _) \<Rightarrow>
            if \<not> ov_identity_consent r
            then (Inl (HTTPException 400 ''Identity sharing consent is required''), save_challenge c d)
            else if \<not> ov_terms_accepted r
            then (Inl (HTTPException 400 ''Acceptance of the terms and AML policy is required''),
                  save_challenge c d)
            else
              let d1 = save_challenge (c \<lparr> ch_consumed_at := Some now \<rparr>) d in
              case find_email email d1 of
                Inl e \<Rightarrow> (Inl e, d)
              | Inr None \<Rightarrow>
                  (case add_user (signup_profile st now r (new_user fresh email now)) d1 of
                     None \<Rightarrow> (Inl IntegrityError, d)
                   | Some d2 \<Rightarrow> (Inr (issue_tokens jwt_encode st now fresh), d2))
              | Inr (Some u) \<Rightarrow>
                  if us_is_active u \<noteq> ''1'' then (Inl (raise AuthenticationError ''Account is disabled''), d)
                  else (Inr (issue_tokens jwt_encode st now (us_id u)),
                        save_user (signup_profile st now r u) d1))"

definition profile_phone :: "user \<Rightarrow> string" where
  "profile_phone u =
     normalize_phone (if is_set (us_whatsapp_phone u) then the (us_whatsapp_phone u)
                      else if is_set (us_phone u) then the (us_phone u) else '''')"

definition request_phone_otp ::
  "(string \<Rightarrow> string \<Rightarrow> string) \<Rightarrow> settings \<Rightarrow> http \<Rightarrow> uuid \<Rightarrow> int \<Rightarrow> time \<Rightarrow> string \<Rightarrow> uuid \<Rightarrow> db
   \<Rightarrow> (exn + otp_sent) \<times> db" where
  "request_phone_otp hmac256 st h fresh random now whatsapp_phone user_id d =
     (if \<not> phone_pattern whatsapp_phone then (Inl (HTTPException 422 ''''), d)
      else
        let phone = normalize_phone whatsapp_phone in
        case find_user user_id d of
          Inl e \<Rightarrow> (Inl e, d)
        | Inr None \<Rightarrow> (Inl (raise AuthenticationError ''Email verification is required''), d)
        | Inr (Some u) \<Rightarrow>
            if us_email_verified_at u = None
            then (Inl (raise AuthenticationError ''Email verification is required''), d)
            else if profile_phone u \<noteq> phone
            then (Inl (HTTPException 422 ''WhatsApp number does not match the signup profile''), d)
            else if recently_sent now (matching_challenges (us_email u) (Some phone) ''phone_verify'' d)
            then (Inl (HTTPException 429 ''Please wait before requesting another code''), d)
            else
              let code = otp_code random in
              send_challenge st now
                (new_challenge st fresh now (us_email u) (Some phone) ''phone_verify''
                   (otp_digest hmac256 st ''phone_verify'' phone code))
                code (send_authentication_code st h phone code)
                ''Phone verification is temporarily unavailable'' d)"

definition verify_phone_otp ::
  "(string \<Rightarrow> string \<Rightarrow> string) \<Rightarrow> settings \<Rightarrow> time \<Rightarrow> phone_otp_verify_request \<Rightarrow> uuid \<Rightarrow> db
   \<Rightarrow> (exn + string) \<times> db" where
  "verify_phone_otp hmac256 st now r user_id d =
     (if \<not> valid_phone_otp_verify_request r then (Inl (HTTPException 422 ''''), d)
      else
        let phone = normalize_phone (pv_whatsapp_phone r) in
        case find_user user_id d of
          Inl e \<Rightarrow> (Inl e, d)
        | Inr None \<Rightarrow> (Inl (HTTPException 422 ''WhatsApp number does not match the signup profile''), d)
        | Inr (Some u) \<Rightarrow>
            if profile_phone u \<noteq> phone
            then (Inl (HTTPException 422 ''WhatsApp number does not match the signup profile''), d)
            else case try_code st now (otp_digest hmac256 st ''phone_verify'' phone (pv_code r))
                        (open_challenge (us_email u) (Some phone) ''phone_verify'' d) d of
              (Inl e, d1) \<Rightarrow> (Inl e, d1)
            | (Inr c, _) \<Rightarrow>
                let status = (if us_email_verified_at u \<noteq> None then ''verified'' else ''pending'') in
                (Inr status,
                 save_user (u \<lparr> us_phone_verified_at := Some now, us_kyc_status := status \<rparr>)
                   (save_challenge (c \<lparr> ch_consumed_at := Some now \<rparr>) d)))"

section \<open>The identity profile\<close>

record kyc_view =
  kv_status :: string
  kv_email_verified :: bool
  kv_phone_verified :: bool

definition kyc_word :: "user \<Rightarrow> string" where
  "kyc_word u = (if us_email_verified_at u \<noteq> None \<and> us_phone_verified_at u \<noteq> None
                 then ''verified'' else ''pending'')"

definition get_kyc :: "uuid \<Rightarrow> db \<Rightarrow> exn + kyc_view" where
  "get_kyc user_id d =
     bindE (find_user user_id d) (\<lambda>found.
     case found of
       None \<Rightarrow> Inl (raise AuthenticationError ''User not found'')
     | Some u \<Rightarrow> Inr \<lparr> kv_status = kyc_word u, kv_email_verified = (us_email_verified_at u \<noteq> None),
                       kv_phone_verified = (us_phone_verified_at u \<noteq> None) \<rparr>)"

definition identity_profile :: "time \<Rightarrow> identity_profile_request \<Rightarrow> user \<Rightarrow> user" where
  "identity_profile now r u =
     (let u1 = u \<lparr> us_full_name := Some (ip_full_name r) \<rparr>;
          u2 = (if ip_whatsapp_phone r \<noteq> []
                then u1 \<lparr> us_whatsapp_phone := Some (normalize_phone (ip_whatsapp_phone r)),
                          us_phone := Some (normalize_phone (ip_whatsapp_phone r)) \<rparr> else u1);
          u3 = (if is_set (ip_mobile_money_phone r)
                then u2 \<lparr> us_mobile_money_phone := Some (normalize_phone (the (ip_mobile_money_phone r))) \<rparr>
                else u2)
      in u3 \<lparr> us_country := Some (py_upper (ip_country r)), us_date_of_birth := Some (ip_date_of_birth r),
              us_identity_consent_at := Some now, us_kyc_status := kyc_word u3 \<rparr>)"

definition submit_kyc ::
  "time \<Rightarrow> identity_profile_request \<Rightarrow> uuid \<Rightarrow> db \<Rightarrow> (exn + string) \<times> db" where
  "submit_kyc now r user_id d =
     (if \<not> valid_identity_profile_request r then (Inl (HTTPException 422 ''''), d)
      else if \<not> ip_identity_consent r
      then (Inl (HTTPException 400 ''Identity sharing consent is required''), d)
      else case find_user user_id d of
        Inl e \<Rightarrow> (Inl e, d)
      | Inr None \<Rightarrow> (Inl (raise AuthenticationError ''User not found''), d)
      | Inr (Some u) \<Rightarrow>
          let u' = identity_profile now r u in (Inr (us_kyc_status u'), save_user u' d))"

section \<open>Refresh and mobile exchange\<close>

definition refresh ::
  "(jobj \<Rightarrow> string \<Rightarrow> 'tok) \<Rightarrow> ('tok \<Rightarrow> string \<Rightarrow> time \<Rightarrow> jwt_result) \<Rightarrow> settings \<Rightarrow> time \<Rightarrow> 'tok \<Rightarrow> db
   \<Rightarrow> exn + 'tok" where
  "refresh jwt_encode jwt_decode st now refresh_token d =
     bindE (decode_token jwt_decode st now refresh_token) (\<lambda>claims.
     if jget ''type'' claims \<noteq> JStr ''refresh''
     then Inl (raise ValidationError ''Provided token is not a refresh token'')
     else if \<not> truthy (jget ''sub'' claims)
     then Inl (raise AuthenticationError ''Token missing subject claim'')
     else case parse_uuid (py_str (jget ''sub'' claims)) of
       Inl _ \<Rightarrow> Inl (raise AuthenticationError ''Token subject is not a valid user id'')
     | Inr user_id \<Rightarrow>
         bindE (find_user user_id d) (\<lambda>found.
         case found of
           None \<Rightarrow> Inl (raise AuthenticationError ''Account is unavailable'')
         | Some u \<Rightarrow>
             if us_is_active u \<noteq> ''1'' then Inl (raise AuthenticationError ''Account is unavailable'')
             else Inr (create_access_token jwt_encode st now [(''sub'', JStr user_id)] None)))"

definition exchanged_user :: "settings \<Rightarrow> uuid \<Rightarrow> time \<Rightarrow> mobile_exchange_request \<Rightarrow> user" where
  "exchanged_user st fresh now r =
     (new_user fresh (mx_email r) now)
       \<lparr> us_oauth_subject := Some (mx_oauth_subject r), us_full_name := mx_full_name r,
         us_date_of_birth := mx_date_of_birth r, us_email_verified_at := Some now,
         us_identity_consent_at := (if mx_identity_consent r then Some now else None),
         us_terms_accepted_at := (if mx_terms_accepted r then Some now else None),
         us_terms_version := (if mx_terms_accepted r then Some (terms_version st) else None),
         us_aml_policy_version := (if mx_terms_accepted r then Some (aml_policy_version st) else None) \<rparr>"

definition linked_user :: "settings \<Rightarrow> time \<Rightarrow> mobile_exchange_request \<Rightarrow> user \<Rightarrow> user" where
  "linked_user st now r u =
     (let u1 = u \<lparr> us_oauth_subject := Some (mx_oauth_subject r) \<rparr>;
          u2 = (if is_set (mx_full_name r) then u1 \<lparr> us_full_name := mx_full_name r \<rparr> else u1);
          u3 = (if is_set (mx_date_of_birth r) then u2 \<lparr> us_date_of_birth := mx_date_of_birth r \<rparr> else u2);
          u4 = u3 \<lparr> us_email_verified_at :=
                      (if us_email_verified_at u3 \<noteq> None then us_email_verified_at u3 else Some now) \<rparr>;
          u5 = (if mx_identity_consent r then u4 \<lparr> us_identity_consent_at := Some now \<rparr> else u4)
      in if mx_terms_accepted r
         then u5 \<lparr> us_terms_accepted_at := Some now, us_terms_version := Some (terms_version st),
                   us_aml_policy_version := Some (aml_policy_version st) \<rparr>
         else u5)"

text \<open>The user of a mobile identity: found by subject, linked by mail address, or created.\<close>

definition mobile_user ::
  "settings \<Rightarrow> uuid \<Rightarrow> time \<Rightarrow> mobile_exchange_request \<Rightarrow> db \<Rightarrow> (exn + user) \<times> db" where
  "mobile_user st fresh now r d =
     (case scalar_one_or_none (filter (\<lambda>u. us_oauth_subject u = Some (mx_oauth_subject r)) (db_users d)) of
        Inl e \<Rightarrow> (Inl e, d)
      | Inr (Some u) \<Rightarrow> (Inr u, d)
      | Inr None \<Rightarrow>
          (case find_email (mx_email r) d of
             Inl e \<Rightarrow> (Inl e, d)
           | Inr None \<Rightarrow>
               (case add_user (exchanged_user st fresh now r) d of
                  None \<Rightarrow> (Inl IntegrityError, d)
                | Some d' \<Rightarrow> (Inr (exchanged_user st fresh now r), d'))
           | Inr (Some u) \<Rightarrow>
               if us_oauth_subject u \<notin> {None, Some (mx_oauth_subject r)}
               then (Inl (raise ConflictError ''Email is already linked to another OAuth identity''), d)
               else (Inr (linked_user st now r u), save_user (linked_user st now r u) d)))"

definition exchange_mobile_oauth ::
  "(jobj \<Rightarrow> string \<Rightarrow> 'tok) \<Rightarrow> settings \<Rightarrow> uuid \<Rightarrow> time \<Rightarrow> mobile_exchange_request \<Rightarrow> string option \<Rightarrow> db
   \<Rightarrow> (exn + 'tok) \<times> db" where
  "exchange_mobile_oauth jwt_encode st fresh now r exchange_secret d =
     (if \<not> valid_mobile_exchange_request r then (Inl (HTTPException 422 ''''), d)
      else if \<not> is_set (mobile_oauth_exchange_secret st)
      then (Inl (HTTPException 503 ''Mobile OAuth exchange is not configured''), d)
      else if \<not> is_valid_mobile_exchange_secret exchange_secret (mobile_oauth_exchange_secret st)
      then (Inl (raise AuthenticationError ''Invalid mobile OAuth exchange credentials''), d)
      else case mobile_user st fresh now r d of
        (Inl e, d1) \<Rightarrow> (Inl e, d1)
      | (Inr u, d1) \<Rightarrow>
          if us_is_active u \<noteq> ''1'' then (Inl (raise AuthenticationError ''Account is disabled''), d1)
          else
            (Inr (create_access_token jwt_encode st now [(''sub'', JStr (us_id u))] None),
             if us_email_verified_at u = None then save_user (u \<lparr> us_email_verified_at := Some now \<rparr>) d1
             else d1))"

end
