(* ===== verification/AFM_Auth_Facts.thy ===== *)
theory AFM_Auth_Facts
  imports AFM_Auth
begin

text \<open>
  What the authentication routes promise, for any sequence of requests in any order: how often a
  one-time code can be guessed, that it is used once, who receives tokens, and that the user table
  keeps its unique columns.
\<close>

section \<open>The routes as a machine\<close>

datatype auth_event =
    RequestSignup uuid int time otp_request
  | VerifySignup uuid time otp_verify_request
  | RequestPhone uuid int time string uuid
  | VerifyPhone time phone_otp_verify_request uuid
  | SubmitKyc time identity_profile_request uuid
  | Register uuid string time register_request
  | Exchange uuid time mobile_exchange_request "string option"

text \<open>What the routes are given from outside.\<close>

record 'tok auth_env =
  ae_settings :: settings
  ae_encode :: "jobj \<Rightarrow> string \<Rightarrow> 'tok"
  ae_hmac :: "string \<Rightarrow> string \<Rightarrow> string"
  ae_hashpw :: "string \<Rightarrow> string \<Rightarrow> string"
  ae_smtp :: "string \<Rightarrow> string \<Rightarrow> exn + unit"
  ae_http :: http

fun auth_step :: "'tok auth_env \<Rightarrow> auth_event \<Rightarrow> db \<Rightarrow> db" where
  "auth_step E (RequestSignup fresh n now r) d =
     snd (request_signup_otp (ae_hmac E) (ae_settings E) (ae_smtp E) fresh n now r d)"
| "auth_step E (VerifySignup fresh now r) d =
     snd (verify_signup_otp (ae_encode E) (ae_hmac E) (ae_settings E) fresh now r d)"
| "auth_step E (RequestPhone fresh n now phone uid) d =
     snd (request_phone_otp (ae_hmac E) (ae_settings E) (ae_http E) fresh n now phone uid d)"
| "auth_step E (VerifyPhone now r uid) d =
     snd (verify_phone_otp (ae_hmac E) (ae_settings E) now r uid d)"
| "auth_step E (SubmitKyc now r uid) d = snd (submit_kyc now r uid d)"
| "auth_step E (Register fresh salt now r) d =
     snd (register (ae_encode E) (ae_hashpw E) (ae_settings E) fresh salt now r d)"
| "auth_step E (Exchange fresh now r secret) d =
     snd (exchange_mobile_oauth (ae_encode E) (ae_settings E) fresh now r secret d)"

text \<open>
  The challenge an event compares its code with, and whether the code is right.  No other event, and
  no event that is stopped before the comparison, learns anything about a code.
\<close>

definition compared :: "settings \<Rightarrow> time \<Rightarrow> string \<Rightarrow> otp_challenge option \<Rightarrow> (uuid \<times> bool) option" where
  "compared st now digest challenge =
     (case challenge of
        None \<Rightarrow> None
      | Some c \<Rightarrow> if ch_expires_at c \<le> now \<or> otp_max_attempts st \<le> ch_attempts c then None
                  else Some (ch_id c, ch_code_digest c = digest))"

fun tested :: "'tok auth_env \<Rightarrow> auth_event \<Rightarrow> db \<Rightarrow> (uuid \<times> bool) option" where
  "tested E (VerifySignup fresh now r) d =
     (if \<not> valid_otp_verify_request r then None
      else let email = py_lower (py_strip (ov_email r)) in
        compared (ae_settings E) now (otp_digest (ae_hmac E) (ae_settings E) ''signup'' email (ov_code r))
          (open_challenge email None ''signup'' d))"
| "tested E (VerifyPhone now r uid) d =
     (if \<not> valid_phone_otp_verify_request r then None
      else let phone = normalize_phone (pv_whatsapp_phone r) in
        case find_user uid d of
          Inr (Some u) \<Rightarrow>
            if profile_phone u \<noteq> phone then None
            else compared (ae_settings E) now
                   (otp_digest (ae_hmac E) (ae_settings E) ''phone_verify'' phone (pv_code r))
                   (open_challenge (us_email u) (Some phone) ''phone_verify'' d)
        | _ \<Rightarrow> None)"
| "tested E _ d = None"

section \<open>How a route moves the challenges\<close>

inductive challenge_move ::
  "settings \<Rightarrow> (uuid \<times> bool) option \<Rightarrow> otp_challenge list \<Rightarrow> otp_challenge list \<Rightarrow> bool"
  for st :: settings where
  idle: "(\<forall>i. t \<noteq> Some (i, False)) \<Longrightarrow> challenge_move st t cs cs"
| issue: "ch_id c \<notin> ch_id ` set cs \<Longrightarrow> ch_attempts c = 0 \<Longrightarrow> challenge_move st None cs (cs @ [c])"
| attempt: "c \<in> set cs \<Longrightarrow> ch_consumed_at c = None \<Longrightarrow> ch_attempts c < otp_max_attempts st \<Longrightarrow>
    challenge_move st (Some (ch_id c, b)) cs (row_update ch_id (c \<lparr> ch_attempts := ch_attempts c + 1 \<rparr>) cs)"
| consume: "c \<in> set cs \<Longrightarrow> ch_consumed_at c = None \<Longrightarrow> ch_attempts c < otp_max_attempts st \<Longrightarrow>
    challenge_move st (Some (ch_id c, True)) cs
      (row_update ch_id (c \<lparr> ch_attempts := ch_attempts c + 1, ch_consumed_at := Some now \<rparr>) cs)"

lemma open_challenge_SomeD:
  assumes "open_challenge email phone purpose d = Some c"
  shows "c \<in> set (db_challenges d)" and "ch_consumed_at c = None"
  using latest_by_Some [OF assms [unfolded open_challenge_def]]
  by (simp_all add: matching_challenges_def)

text \<open>The outcomes of a check, with what was compared.\<close>

lemma try_code_cases:
  assumes "try_code st now digest (open_challenge email phone purpose d) d = (res, d1)"
  obtains (refused) e where "res = Inl e" "d1 = d"
      "compared st now digest (open_challenge email phone purpose d) = None"
  | (wrong) c e where "res = Inl e" "d1 = save_challenge (c \<lparr> ch_attempts := ch_attempts c + 1 \<rparr>) d"
      "c \<in> set (db_challenges d)" "ch_consumed_at c = None" "ch_attempts c < otp_max_attempts st"
      "compared st now digest (open_challenge email phone purpose d) = Some (ch_id c, False)"
  | (right) c where "res = Inr (c \<lparr> ch_attempts := ch_attempts c + 1 \<rparr>)" "d1 = d"
      "c \<in> set (db_challenges d)" "ch_consumed_at c = None" "ch_attempts c < otp_max_attempts st"
      "compared st now digest (open_challenge email phone purpose d) = Some (ch_id c, True)"
proof (cases "open_challenge email phone purpose d")
  case None
  with assms refused show thesis by (auto simp: try_code_def compared_def)
next
  case (Some c)
  note c = open_challenge_SomeD [OF Some]
  show thesis
    using assms Some c refused wrong [of _ c] right [of c]
    by (auto simp: try_code_def compared_def Let_def split: if_splits)
qed

lemma db_challenges_save [simp]:
  "db_challenges (save_challenge c d) = row_update ch_id c (db_challenges d)"
  "db_challenges (save_user u d) = db_challenges d"
  "db_users (save_challenge c d) = db_users d"
  "db_users (save_user u d) = row_update us_id u (db_users d)"
  by (simp_all add: save_challenge_def save_user_def)

lemma add_user_SomeD:
  assumes "add_user u d = Some d'"
  shows "db_challenges d' = db_challenges d" and "row_insert us_id u (db_users d) = Some (db_users d')"
    and "us_email u \<notin> us_email ` set (db_users d)"
    and "us_oauth_subject u = None \<or> us_oauth_subject u \<notin> us_oauth_subject ` set (db_users d)"
  using assms by (auto simp: add_user_def split: if_splits)

lemma send_challenge_move:
  assumes "send_challenge st now (new_challenge st f n em ph pu dg) code delivery fl d = (res, d1)"
  shows "challenge_move st None (db_challenges d) (db_challenges d1)" and "db_users d1 = db_users d"
proof -
  let ?c = "new_challenge st f n em ph pu dg"
  have fresh: "row_update ch_id (?c \<lparr> ch_consumed_at := x \<rparr>) (cs @ [?c]) = cs @ [?c \<lparr> ch_consumed_at := x \<rparr>]"
    if "ch_id ?c \<notin> ch_id ` set cs" for cs x
    using that row_update_absent [of ch_id "?c \<lparr> ch_consumed_at := x \<rparr>" cs] by (simp add: row_update_def)
  show "challenge_move st None (db_challenges d) (db_challenges d1)"
  proof (cases "ch_id ?c \<in> ch_id ` set (db_challenges d)")
    case True
    then have "d1 = d" using assms by (auto simp: send_challenge_def row_insert_def)
    then show ?thesis by (simp add: challenge_move.idle)
  next
    case False
    then have "db_challenges d1 = db_challenges d @ [?c]
        \<or> db_challenges d1 = db_challenges d @ [?c \<lparr> ch_consumed_at := Some now \<rparr>]"
      using assms fresh [OF False]
      by (auto simp: send_challenge_def row_insert_def Let_def split: sum.splits unit.splits)
    then show ?thesis
      using False challenge_move.issue [of ?c "db_challenges d" st]
        challenge_move.issue [of "?c \<lparr> ch_consumed_at := Some now \<rparr>" "db_challenges d" st]
      by (auto simp: new_challenge_def)
  qed
  show "db_users d1 = db_users d" using assms
    by (auto simp: send_challenge_def Let_def split: option.splits sum.splits unit.splits)
qed

lemma verify_signup_move:
  assumes "verify_signup_otp enc hm st f now r d = (res, d1)" and "ae_settings E = st" and "ae_hmac E = hm"
  shows "challenge_move st (tested E (VerifySignup f now r) d) (db_challenges d) (db_challenges d1)"
proof (cases "valid_otp_verify_request r")
  case True
  define email where "email = py_lower (py_strip (ov_email r))"
  define dg where "dg = otp_digest hm st ''signup'' email (ov_code r)"
  obtain out d2 where t: "try_code st now dg (open_challenge email None ''signup'' d) d = (out, d2)"
    by fastforce
  have tested: "tested E (VerifySignup f now r) d
      = compared st now dg (open_challenge email None ''signup'' d)"
    using True assms(2,3) by (simp add: email_def dg_def Let_def)
  note v = assms(1) [unfolded verify_signup_otp_def Let_def, folded email_def, folded dg_def]
  from t show ?thesis
  proof (cases rule: try_code_cases)
    case refused
    with v t True have "d1 = d" by simp
    with refused tested show ?thesis by (simp add: challenge_move.idle)
  next
    case (wrong c e)
    with v t True have "d1 = save_challenge (c \<lparr> ch_attempts := ch_attempts c + 1 \<rparr>) d" by simp
    with wrong tested show ?thesis by (simp add: challenge_move.attempt)
  next
    case (right c)
    let ?c1 = "c \<lparr> ch_attempts := ch_attempts c + 1 \<rparr>"
    have "db_challenges d1 = db_challenges d
        \<or> db_challenges d1 = row_update ch_id ?c1 (db_challenges d)
        \<or> db_challenges d1 = row_update ch_id (?c1 \<lparr> ch_consumed_at := Some now \<rparr>) (db_challenges d)"
      using v t True right(1)
      by (auto split: if_splits sum.splits option.splits dest!: add_user_SomeD(1))
    with right tested show ?thesis
      using challenge_move.idle [of "Some (ch_id c, True)" st "db_challenges d"]
        challenge_move.attempt [OF right(3-5), of True] challenge_move.consume [OF right(3-5), of now]
      by auto
  qed
next
  case False
  with assms(1) show ?thesis by (simp add: verify_signup_otp_def challenge_move.idle)
qed

lemma verify_phone_move:
  assumes "verify_phone_otp hm st now r uid d = (res, d1)" and "ae_settings E = st" and "ae_hmac E = hm"
  shows "challenge_move st (tested E (VerifyPhone now r uid) d) (db_challenges d) (db_challenges d1)"
proof (cases "valid_phone_otp_verify_request r \<and>
    (\<exists>u. find_user uid d = Inr (Some u) \<and> profile_phone u = normalize_phone (pv_whatsapp_phone r))")
  case True
  define phone where "phone = normalize_phone (pv_whatsapp_phone r)"
  define dg where "dg = otp_digest hm st ''phone_verify'' phone (pv_code r)"
  from True obtain u where u: "valid_phone_otp_verify_request r" "find_user uid d = Inr (Some u)"
    "profile_phone u = phone" by (auto simp: phone_def)
  obtain out d2 where t: "try_code st now dg (open_challenge (us_email u) (Some phone) ''phone_verify'' d) d
      = (out, d2)" by fastforce
  have tested: "tested E (VerifyPhone now r uid) d
      = compared st now dg (open_challenge (us_email u) (Some phone) ''phone_verify'' d)"
    using u assms(2,3) by (simp add: phone_def dg_def Let_def)
  have v: "verify_phone_otp hm st now r uid d =
      (case (out, d2) of
         (Inl e, d1) \<Rightarrow> (Inl e, d1)
       | (Inr c, _) \<Rightarrow>
           (Inr (if us_email_verified_at u \<noteq> None then ''verified'' else ''pending''),
            save_user (u \<lparr> us_phone_verified_at := Some now,
              us_kyc_status := (if us_email_verified_at u \<noteq> None then ''verified'' else ''pending'') \<rparr>)
              (save_challenge (c \<lparr> ch_consumed_at := Some now \<rparr>) d)))"
    using u t unfolding verify_phone_otp_def Let_def phone_def [symmetric] dg_def [symmetric] by simp
  from t show ?thesis
  proof (cases rule: try_code_cases)
    case refused
    with v assms(1) have "d1 = d" by simp
    with refused tested show ?thesis by (simp add: challenge_move.idle)
  next
    case (wrong c e)
    with v assms(1) have "d1 = save_challenge (c \<lparr> ch_attempts := ch_attempts c + 1 \<rparr>) d" by simp
    with wrong tested show ?thesis by (simp add: challenge_move.attempt)
  next
    case (right c)
    with v assms(1) have "db_challenges d1 = row_update ch_id
        (c \<lparr> ch_attempts := ch_attempts c + 1, ch_consumed_at := Some now \<rparr>) (db_challenges d)" by auto
    with right tested show ?thesis by (simp add: challenge_move.consume)
  qed
next
  case False
  then have "d1 = d \<and> tested E (VerifyPhone now r uid) d = None" using assms
    by (auto simp: verify_phone_otp_def Let_def split: if_splits sum.splits option.splits)
  then show ?thesis by (simp add: challenge_move.idle)
qed

text \<open>The other routes issue a challenge or leave them alone.\<close>

lemma request_signup_move:
  assumes "request_signup_otp hm st smtp f n now r d = (res, d1)"
  shows "challenge_move st None (db_challenges d) (db_challenges d1)" and "db_users d1 = db_users d"
  using assms send_challenge_move [of st now f now]
  by (auto simp: request_signup_otp_def Let_def challenge_move.idle split: if_splits)

lemma request_phone_move:
  assumes "request_phone_otp hm st h f n now phone uid d = (res, d1)"
  shows "challenge_move st None (db_challenges d) (db_challenges d1)" and "db_users d1 = db_users d"
  using assms send_challenge_move [of st now f now]
  by (auto simp: request_phone_otp_def Let_def challenge_move.idle
      split: if_splits sum.splits option.splits)

lemma mobile_user_challenges:
  "mobile_user st f now r d = (res, d1) \<Longrightarrow> db_challenges d1 = db_challenges d"
  by (auto simp: mobile_user_def split: if_splits sum.splits option.splits dest: add_user_SomeD(1))

lemma auth_step_move:
  "challenge_move (ae_settings E) (tested E ev d) (db_challenges d) (db_challenges (auth_step E ev d))"
proof (cases ev)
  case RequestSignup
  then show ?thesis by (auto intro: request_signup_move(1) [OF prod.collapse [symmetric]])
next
  case RequestPhone
  then show ?thesis by (auto intro: request_phone_move(1) [OF prod.collapse [symmetric]])
next
  case VerifySignup
  then show ?thesis
    using verify_signup_move [OF prod.collapse [symmetric] refl refl] by (simp del: tested.simps)
next
  case VerifyPhone
  then show ?thesis
    using verify_phone_move [OF prod.collapse [symmetric] refl refl] by (simp del: tested.simps)
next
  case SubmitKyc
  then have "db_challenges (auth_step E ev d) = db_challenges d"
    by (simp add: submit_kyc_def Let_def split: sum.split option.split)
  with SubmitKyc show ?thesis by (simp add: challenge_move.idle)
next
  case Register
  then have "db_challenges (auth_step E ev d) = db_challenges d"
    by (simp add: register_def Let_def split: sum.split option.split) (auto dest: add_user_SomeD(1))
  with Register show ?thesis by (simp add: challenge_move.idle)
next
  case (Exchange f now r secret)
  obtain res d1 where m: "mobile_user (ae_settings E) f now r d = (res, d1)" by fastforce
  have "db_challenges (auth_step E ev d) = db_challenges d"
    using Exchange mobile_user_challenges [OF m] by (auto simp: exchange_mobile_oauth_def m split: sum.split)
  with Exchange show ?thesis by (simp add: challenge_move.idle)
qed

section \<open>Guessing a code\<close>

definition attempts_in :: "uuid \<Rightarrow> otp_challenge list \<Rightarrow> int" where
  "attempts_in i cs = (case row_lookup ch_id i cs of None \<Rightarrow> 0 | Some c \<Rightarrow> ch_attempts c)"

definition attempts_of :: "uuid \<Rightarrow> db \<Rightarrow> int" where
  "attempts_of i d = attempts_in i (db_challenges d)"

lemmas attempts_defs = attempts_of_def attempts_in_def

definition challenges_ok :: "settings \<Rightarrow> db \<Rightarrow> bool" where
  "challenges_ok st d \<longleftrightarrow> distinct (map ch_id (db_challenges d))
     \<and> (\<forall>c\<in>set (db_challenges d). 0 \<le> ch_attempts c \<and> ch_attempts c \<le> otp_max_attempts st)"

text \<open>How many of the events of a run compare a wrong code with one challenge.\<close>

fun wrong_guesses :: "'tok auth_env \<Rightarrow> uuid \<Rightarrow> auth_event list \<Rightarrow> db \<Rightarrow> nat" where
  "wrong_guesses E i [] d = 0"
| "wrong_guesses E i (ev # evs) d =
     (if tested E ev d = Some (i, False) then 1 else 0) + wrong_guesses E i evs (auth_step E ev d)"

lemma attempts_of_update:
  assumes "distinct (map ch_id cs)" and "c \<in> set cs" and "ch_id c' = ch_id c"
  shows "row_lookup ch_id i (row_update ch_id c' cs)
       = (if i = ch_id c then Some c' else row_lookup ch_id i cs)"
  using assms by (auto simp: row_lookup_update)

lemma challenge_move_ok:
  assumes "challenge_move st t cs cs'" and "distinct (map ch_id cs)"
    and "\<forall>c\<in>set cs. 0 \<le> ch_attempts c \<and> ch_attempts c \<le> otp_max_attempts st" and "0 \<le> otp_max_attempts st"
  shows "distinct (map ch_id cs') \<and> (\<forall>c\<in>set cs'. 0 \<le> ch_attempts c \<and> ch_attempts c \<le> otp_max_attempts st)"
  using assms by cases (auto dest!: in_row_updateD)

lemma challenges_ok_step:
  "challenges_ok (ae_settings E) d \<and> 0 \<le> otp_max_attempts (ae_settings E) \<Longrightarrow>
     challenges_ok (ae_settings E) (auth_step E ev d) \<and> 0 \<le> otp_max_attempts (ae_settings E)"
  using challenge_move_ok [OF auth_step_move, of d E ev] unfolding challenges_ok_def by blast

interpretation otp: invariant_machine "auth_step E"
  "\<lambda>d. challenges_ok (ae_settings E) d \<and> 0 \<le> otp_max_attempts (ae_settings E)" for E :: "'tok auth_env"
  by unfold_locales (rule challenges_ok_step)

text \<open>A wrong guess uses up an attempt, and nothing gives one back.\<close>

lemma challenge_move_attempts:
  assumes "challenge_move st t cs cs'" and "distinct (map ch_id cs)" and "\<forall>c\<in>set cs. 0 \<le> ch_attempts c"
  shows "attempts_in i cs + (if t = Some (i, False) then 1 else 0) \<le> attempts_in i cs'"
  using assms(1)
proof cases
  case (attempt c b)
  have "row_lookup ch_id (ch_id c) cs = Some c" using assms(2) attempt(3) by (rule row_lookup_distinct)
  then show ?thesis using attempt attempts_of_update [OF assms(2) attempt(3)] by (auto simp: attempts_in_def)
next
  case (consume c now)
  have "row_lookup ch_id (ch_id c) cs = Some c" using assms(2) consume(3) by (rule row_lookup_distinct)
  then show ?thesis using consume attempts_of_update [OF assms(2) consume(3)] by (auto simp: attempts_in_def)
qed (auto simp: attempts_in_def row_lookup_append split: option.split)

lemma wrong_guesses_le:
  assumes "challenges_ok (ae_settings E) d" and "0 \<le> otp_max_attempts (ae_settings E)"
  shows "attempts_of i d + int (wrong_guesses E i evs d) \<le> otp_max_attempts (ae_settings E)"
  using assms
proof (induction evs arbitrary: d)
  case Nil
  then show ?case
    by (auto simp: attempts_defs challenges_ok_def split: option.split dest: row_lookup_SomeD)
next
  case (Cons ev evs)
  have "attempts_of i (auth_step E ev d) + int (wrong_guesses E i evs (auth_step E ev d))
      \<le> otp_max_attempts (ae_settings E)"
    using Cons.IH challenges_ok_step [of E d ev] Cons.prems by blast
  moreover have "attempts_of i d + (if tested E ev d = Some (i, False) then 1 else 0)
      \<le> attempts_of i (auth_step E ev d)"
    using challenge_move_attempts [OF auth_step_move, of d i E ev] Cons.prems
    by (simp add: attempts_of_def challenges_ok_def)
  ultimately show ?case by (simp split: if_splits)
qed


section \<open>A code is used once\<close>

definition consumed_challenge :: "uuid \<Rightarrow> db \<Rightarrow> otp_challenge option" where
  "consumed_challenge i d =
     (case row_lookup ch_id i (db_challenges d) of
        None \<Rightarrow> None | Some c \<Rightarrow> if ch_consumed_at c = None then None else Some c)"

lemma challenge_move_consumed:
  assumes "challenge_move st t cs cs'" and "distinct (map ch_id cs)"
    and "row_lookup ch_id i cs = Some c" and "ch_consumed_at c \<noteq> None"
  shows "row_lookup ch_id i cs' = Some c"
  using assms(1)
proof cases
  case (attempt c' b)
  have "row_lookup ch_id (ch_id c') cs = Some c'" using assms(2) attempt(3) by (rule row_lookup_distinct)
  then show ?thesis using attempt assms(3,4) attempts_of_update [OF assms(2) attempt(3)] by auto
next
  case (consume c' now)
  have "row_lookup ch_id (ch_id c') cs = Some c'" using assms(2) consume(3) by (rule row_lookup_distinct)
  then show ?thesis using consume assms(3,4) attempts_of_update [OF assms(2) consume(3)] by auto
qed (use assms(3) in \<open>auto simp: row_lookup_append\<close>)

interpretation otp_used: absorbing_machine "auth_step E"
  "\<lambda>d. challenges_ok (ae_settings E) d \<and> 0 \<le> otp_max_attempts (ae_settings E)" "consumed_challenge i"
  for E :: "'tok auth_env" and i :: uuid
proof unfold_locales
  fix d ev v
  assume "challenges_ok (ae_settings E) d \<and> 0 \<le> otp_max_attempts (ae_settings E)"
    and "consumed_challenge i d = Some v"
  then show "consumed_challenge i (auth_step E ev d) = Some v"
    using challenge_move_consumed [OF auth_step_move, of d i v E ev]
    by (auto simp: consumed_challenge_def challenges_ok_def split: option.splits if_splits)
qed

lemma tested_open:
  assumes "tested E ev d = Some (i, b)" and "distinct (map ch_id (db_challenges d))"
  shows "\<exists>c. row_lookup ch_id i (db_challenges d) = Some c \<and> ch_consumed_at c = None"
proof -
  have "\<exists>c. open_challenge em ph pu d = Some c \<and> ch_id c = i"
    if "compared st now dg (open_challenge em ph pu d) = Some (i, b)" for st now dg em ph pu
    using that by (auto simp: compared_def split: option.splits if_splits)
  then have "\<exists>em ph pu c. open_challenge em ph pu d = Some c \<and> ch_id c = i"
    using assms(1)
    by (cases ev) (fastforce simp: Let_def split: if_splits sum.splits option.splits)+
  then show ?thesis using open_challenge_SomeD row_lookup_distinct [OF assms(2)] by metis
qed

lemma consumed_not_tested:
  "consumed_challenge i d = Some c \<Longrightarrow> distinct (map ch_id (db_challenges d)) \<Longrightarrow> tested E ev d \<noteq> Some (i, b)"
  using tested_open [of E ev d i b] by (auto simp: consumed_challenge_def split: option.splits if_splits)

text \<open>Whether a verification route accepts an event.\<close>

fun accepted :: "'tok auth_env \<Rightarrow> auth_event \<Rightarrow> db \<Rightarrow> bool" where
  "accepted E (VerifySignup fresh now r) d =
     is_ok (fst (verify_signup_otp (ae_encode E) (ae_hmac E) (ae_settings E) fresh now r d))"
| "accepted E (VerifyPhone now r uid) d =
     is_ok (fst (verify_phone_otp (ae_hmac E) (ae_settings E) now r uid d))"
| "accepted E _ d = False"

lemma verify_signup_accepted:
  assumes "verify_signup_otp enc hm st f now r d = (Inr t, d1)" and "ae_settings E = st" and "ae_hmac E = hm"
  shows "\<exists>c. c \<in> set (db_challenges d) \<and> ch_consumed_at c = None
       \<and> tested E (VerifySignup f now r) d = Some (ch_id c, True)
       \<and> db_challenges d1 = row_update ch_id
           (c \<lparr> ch_attempts := ch_attempts c + 1, ch_consumed_at := Some now \<rparr>) (db_challenges d)"
proof -
  define email where "email = py_lower (py_strip (ov_email r))"
  define dg where "dg = otp_digest hm st ''signup'' email (ov_code r)"
  note v = assms(1) [unfolded verify_signup_otp_def Let_def, folded email_def, folded dg_def]
  then have valid: "valid_otp_verify_request r" by (auto split: if_splits)
  obtain out d2 where t: "try_code st now dg (open_challenge email None ''signup'' d) d = (out, d2)"
    by fastforce
  from t show ?thesis
  proof (cases rule: try_code_cases)
    case (right c)
    have "tested E (VerifySignup f now r) d = Some (ch_id c, True)"
      using valid right assms(2,3) by (simp add: email_def dg_def Let_def)
    moreover have "db_challenges d1 = row_update ch_id
        (c \<lparr> ch_attempts := ch_attempts c + 1, ch_consumed_at := Some now \<rparr>) (db_challenges d)"
      using v t valid right(1) by (auto split: if_splits sum.splits option.splits dest!: add_user_SomeD(1))
    ultimately show ?thesis using right by blast
  qed (use v t valid in \<open>auto split: if_splits\<close>)
qed

lemma verify_phone_accepted:
  assumes "verify_phone_otp hm st now r uid d = (Inr t, d1)" and "ae_settings E = st" and "ae_hmac E = hm"
  shows "\<exists>c. c \<in> set (db_challenges d) \<and> ch_consumed_at c = None
       \<and> tested E (VerifyPhone now r uid) d = Some (ch_id c, True)
       \<and> db_challenges d1 = row_update ch_id
           (c \<lparr> ch_attempts := ch_attempts c + 1, ch_consumed_at := Some now \<rparr>) (db_challenges d)"
proof -
  define phone where "phone = normalize_phone (pv_whatsapp_phone r)"
  define dg where "dg = otp_digest hm st ''phone_verify'' phone (pv_code r)"
  note v = assms(1) [unfolded verify_phone_otp_def Let_def, folded phone_def, folded dg_def]
  then obtain u where u: "valid_phone_otp_verify_request r" "find_user uid d = Inr (Some u)"
    "profile_phone u = phone" by (auto split: if_splits sum.splits option.splits)
  obtain out d2 where t: "try_code st now dg (open_challenge (us_email u) (Some phone) ''phone_verify'' d) d
      = (out, d2)" by fastforce
  from t show ?thesis
  proof (cases rule: try_code_cases)
    case (right c)
    have "tested E (VerifyPhone now r uid) d = Some (ch_id c, True)"
      using u right assms(2,3) by (simp add: phone_def dg_def Let_def)
    moreover have "db_challenges d1 = row_update ch_id
        (c \<lparr> ch_attempts := ch_attempts c + 1, ch_consumed_at := Some now \<rparr>) (db_challenges d)"
      using v t u right(1) by auto
    ultimately show ?thesis using right by blast
  qed (use v t u in auto)
qed

lemma accepted_consumes:
  assumes "accepted E ev d" and "distinct (map ch_id (db_challenges d))"
  shows "\<exists>i. tested E ev d = Some (i, True) \<and> consumed_challenge i (auth_step E ev d) \<noteq> None"
proof -
  obtain c now where c: "c \<in> set (db_challenges d)" "tested E ev d = Some (ch_id c, True)"
    "db_challenges (auth_step E ev d) = row_update ch_id
       (c \<lparr> ch_attempts := ch_attempts c + 1, ch_consumed_at := Some now \<rparr>) (db_challenges d)"
  proof (cases ev)
    case (VerifySignup f now r)
    with assms(1) obtain t d1 where v: "verify_signup_otp (ae_encode E) (ae_hmac E) (ae_settings E) f now r d
        = (Inr t, d1)" by (auto simp: is_ok_iff prod_eq_iff)
    with that [of _ now] verify_signup_accepted [OF v refl refl] VerifySignup show thesis by auto
  next
    case (VerifyPhone now r uid)
    with assms(1) obtain t d1 where v: "verify_phone_otp (ae_hmac E) (ae_settings E) now r uid d = (Inr t, d1)"
      by (auto simp: is_ok_iff prod_eq_iff)
    with that [of _ now] verify_phone_accepted [OF v refl refl] VerifyPhone show thesis by auto
  qed (use assms(1) in auto)
  then show ?thesis
    using attempts_of_update [OF assms(2) c(1)] by (simp add: consumed_challenge_def)
qed

text \<open>
  Claim C29. A code opens one session: a verification route accepts an event only by comparing its
  code, rightly, with an open challenge, and whatever requests follow, that challenge is never
  compared with a code again.
\<close>

theorem otp_code_single_use:
  assumes "valid_settings (ae_settings E)" and "challenges_ok (ae_settings E) d" and "accepted E ev d"
  shows "\<exists>i. tested E ev d = Some (i, True)
       \<and> (\<forall>evs ev' b. tested E ev' (run (auth_step E) evs (auth_step E ev d)) \<noteq> Some (i, b))"
proof -
  let ?inv = "\<lambda>d. challenges_ok (ae_settings E) d \<and> 0 \<le> otp_max_attempts (ae_settings E)"
  have inv: "?inv d" using assms(1,2) by (simp add: valid_settings_def)
  obtain i v where i: "tested E ev d = Some (i, True)" "consumed_challenge i (auth_step E ev d) = Some v"
    using accepted_consumes [OF assms(3)] inv by (auto simp: challenges_ok_def)
  have "tested E ev' (run (auth_step E) evs (auth_step E ev d)) \<noteq> Some (i, b)" for evs ev' b
  proof (rule consumed_not_tested)
    show "consumed_challenge i (run (auth_step E) evs (auth_step E ev d)) = Some v"
      by (rule otp_used.run_final) (use challenges_ok_step [OF inv] i(2) in auto)
    show "distinct (map ch_id (db_challenges (run (auth_step E) evs (auth_step E ev d))))"
      using otp.run_inv [OF challenges_ok_step [OF inv]] by (simp add: challenges_ok_def)
  qed
  with i(1) show ?thesis by blast
qed

section \<open>Who receives tokens\<close>

definition active :: "uuid \<Rightarrow> db \<Rightarrow> bool" where
  "active user_id d \<longleftrightarrow> (\<exists>u\<in>set (db_users d). us_id u = user_id \<and> us_is_active u = ''1'')"

lemma find_user_SomeD: "find_user i d = Inr (Some u) \<Longrightarrow> u \<in> set (db_users d) \<and> us_id u = i"
  unfolding find_user_def by (rule scalar_one_or_none_Some)

lemma find_email_SomeD: "find_email e d = Inr (Some u) \<Longrightarrow> u \<in> set (db_users d) \<and> us_email u = e"
  unfolding find_email_def by (rule scalar_one_or_none_Some)

lemma add_user_rows: "add_user u d = Some d' \<Longrightarrow> db_users d' = db_users d @ [u]"
  by (auto simp: row_insert_def split: if_splits dest!: add_user_SomeD(2))

lemma active_add: "add_user u d = Some d' \<Longrightarrow> us_is_active u = ''1'' \<Longrightarrow> active (us_id u) d'"
  by (auto simp: active_def dest!: add_user_rows)

lemma active_save:
  "v \<in> set (db_users d) \<Longrightarrow> us_id v = us_id u \<Longrightarrow> us_is_active u = ''1'' \<Longrightarrow> active (us_id u) (save_user u d)"
  by (force simp: active_def row_update_def)

lemma signup_profile_keeps [simp]:
  "us_id (signup_profile st now r u) = us_id u"
  "us_email (signup_profile st now r u) = us_email u"
  "us_oauth_subject (signup_profile st now r u) = us_oauth_subject u"
  "us_is_active (signup_profile st now r u) = us_is_active u"
  by (simp_all add: signup_profile_def Let_def)

lemma new_user_simps [simp]:
  "us_id (new_user f e now) = f" "us_email (new_user f e now) = e"
  "us_oauth_subject (new_user f e now) = None" "us_is_active (new_user f e now) = ''1''"
  by (simp_all add: new_user_def)

lemma linked_user_keeps [simp]:
  "us_id (linked_user st now r u) = us_id u"
  "us_email (linked_user st now r u) = us_email u"
  "us_is_active (linked_user st now r u) = us_is_active u"
  "us_oauth_subject (linked_user st now r u) = Some (mx_oauth_subject r)"
  "us_kyc_status (linked_user st now r u) = us_kyc_status u"
  "us_phone_verified_at (linked_user st now r u) = us_phone_verified_at u"
  "us_email_verified_at (linked_user st now r u) \<noteq> None"
  by (simp_all add: linked_user_def Let_def)

lemma exchanged_user_simps [simp]:
  "us_id (exchanged_user st f now r) = f" "us_email (exchanged_user st f now r) = mx_email r"
  "us_oauth_subject (exchanged_user st f now r) = Some (mx_oauth_subject r)"
  "us_is_active (exchanged_user st f now r) = ''1''"
  "us_kyc_status (exchanged_user st f now r) = ''pending''"
  "us_email_verified_at (exchanged_user st f now r) \<noteq> None"
  by (simp_all add: exchanged_user_def new_user_def)

lemma mobile_user_InrE:
  assumes "mobile_user st f now r d = (Inr u, d1)"
  obtains (found) "d1 = d" "u \<in> set (db_users d)"
  | (created) "u = exchanged_user st f now r" "add_user u d = Some d1"
  | (linked) v where "v \<in> set (db_users d)" "u = linked_user st now r v" "d1 = save_user u d"
      "\<forall>w\<in>set (db_users d). us_oauth_subject w \<noteq> Some (mx_oauth_subject r)"
proof (cases "scalar_one_or_none (filter (\<lambda>u. us_oauth_subject u = Some (mx_oauth_subject r)) (db_users d))")
  case (Inr v)
  show thesis
  proof (cases v)
    case None
    with Inr have none: "\<forall>w\<in>set (db_users d). us_oauth_subject w \<noteq> Some (mx_oauth_subject r)"
      by (simp add: scalar_one_or_none_None)
    show thesis using assms Inr None created linked none
      by (auto simp: mobile_user_def split: sum.splits option.splits if_splits dest: find_email_SomeD)
  next
    case (Some w)
    with Inr have "w \<in> set (db_users d)" by (auto dest: scalar_one_or_none_Some)
    with Some Inr assms found show thesis by (simp add: mobile_user_def)
  qed
qed (use assms in \<open>simp add: mobile_user_def\<close>)

lemma mobile_user_stored:
  assumes "mobile_user st f now r d = (Inr u, d1)"
  shows "\<exists>v\<in>set (db_users d1). us_id v = us_id u \<and> us_is_active v = us_is_active u"
  using assms
proof (cases rule: mobile_user_InrE)
  case created
  then show ?thesis by (auto dest: add_user_rows)
next
  case (linked v)
  then have "u \<in> set (db_users d1)" by (simp add: row_update_in [where v = v])
  then show ?thesis by blast
qed auto


section \<open>The user table\<close>

definition user_ok :: "user \<Rightarrow> bool" where
  "user_ok u \<longleftrightarrow> us_kyc_status u \<in> {''pending'', ''verified''} \<and> us_is_active u \<in> {''0'', ''1''}
     \<and> (us_kyc_status u = ''verified'' \<longrightarrow> us_email_verified_at u \<noteq> None \<and> us_phone_verified_at u \<noteq> None)"

text \<open>No two users share a mobile identity.\<close>

definition subjects_ok :: "user set \<Rightarrow> bool" where
  "subjects_ok us \<longleftrightarrow> (\<forall>u\<in>us. \<forall>v\<in>us. us_oauth_subject u \<noteq> None \<longrightarrow>
     us_oauth_subject u = us_oauth_subject v \<longrightarrow> us_id u = us_id v)"

lemma subjects_ok_insert:
  assumes "subjects_ok us"
    and "us_oauth_subject u = None \<or> (\<forall>v\<in>us. us_oauth_subject v = us_oauth_subject u \<longrightarrow> us_id v = us_id u)"
  shows "subjects_ok (insert u us)"
  unfolding subjects_ok_def
proof (intro ballI impI)
  fix x y
  assume "x \<in> insert u us" "y \<in> insert u us" "us_oauth_subject x \<noteq> None"
    "us_oauth_subject x = us_oauth_subject y"
  then show "us_id x = us_id y"
    using assms(1) [unfolded subjects_ok_def, rule_format, of x y] assms(2) by (metis insert_iff)
qed

lemma subjects_ok_subset: "subjects_ok us \<Longrightarrow> vs \<subseteq> us \<Longrightarrow> subjects_ok vs"
  unfolding subjects_ok_def by blast

definition users_ok :: "db \<Rightarrow> bool" where
  "users_ok d \<longleftrightarrow> distinct (map us_id (db_users d)) \<and> distinct (map us_email (db_users d))
     \<and> subjects_ok (set (db_users d)) \<and> (\<forall>u\<in>set (db_users d). user_ok u)"

lemma users_ok_add:
  assumes "users_ok d" and "add_user u d = Some d'" and "user_ok u"
  shows "users_ok d'"
proof -
  have "us_id u \<notin> us_id ` set (db_users d)"
    using add_user_SomeD(2) [OF assms(2)] by (simp add: row_insert_def split: if_splits)
  moreover have "subjects_ok (insert u (set (db_users d)))"
    using assms(1) add_user_SomeD(4) [OF assms(2)]
    by (intro subjects_ok_insert) (auto simp: users_ok_def image_iff)
  ultimately show ?thesis
    using assms(1,3) add_user_rows [OF assms(2)] add_user_SomeD(3) [OF assms(2)]
    by (auto simp: users_ok_def)
qed

lemma users_ok_save:
  assumes "users_ok d" and "v \<in> set (db_users d)" and "us_id u = us_id v" and "us_email u = us_email v"
    and "us_oauth_subject u = us_oauth_subject v
       \<or> (\<forall>w\<in>set (db_users d). us_oauth_subject w \<noteq> us_oauth_subject u)" and "user_ok u"
  shows "users_ok (save_user u d)"
proof -
  let ?rows = "db_users d"
  have ids: "distinct (map us_id ?rows)" and subj: "subjects_ok (set ?rows)"
    using assms(1) by (simp_all add: users_ok_def)
  have v: "us_email w = us_email v" if "w \<in> set ?rows" "us_id w = us_id v" for w
    using that row_lookup_distinct [OF ids] assms(2) by (metis option.inject)
  have mails: "map us_email (row_update us_id u ?rows) = map us_email ?rows"
    using v assms(3,4) by (auto simp: row_update_def)
  have "subjects_ok (insert u (set ?rows))"
  proof (rule subjects_ok_insert [OF subj])
    show "us_oauth_subject u = None \<or> (\<forall>w\<in>set ?rows. us_oauth_subject w = us_oauth_subject u \<longrightarrow> us_id w = us_id u)"
      using assms(2,3,5) subj unfolding subjects_ok_def by metis
  qed
  moreover have "set (row_update us_id u ?rows) \<subseteq> insert u (set ?rows)"
    by (auto dest: in_row_updateD)
  ultimately have "subjects_ok (set (row_update us_id u ?rows))" by (rule subjects_ok_subset)
  moreover have "\<forall>w\<in>set (row_update us_id u ?rows). user_ok w"
    using assms(1,6) by (auto simp: users_ok_def dest: in_row_updateD)
  ultimately show ?thesis using ids mails assms(1) by (simp add: users_ok_def)
qed

lemma users_ok_challenges [simp]:
  "users_ok (save_challenge c d) = users_ok d" "users_ok (d \<lparr> db_challenges := cs \<rparr>) = users_ok d"
  by (simp_all add: users_ok_def save_challenge_def)

lemma users_ok_cong: "db_users d = db_users d' \<Longrightarrow> users_ok d = users_ok d'"
  by (simp add: users_ok_def)

lemma user_ok_signup [simp]: "user_ok (signup_profile st now r u) \<longleftrightarrow> us_is_active u \<in> {''0'', ''1''}"
  by (simp add: user_ok_def signup_profile_def Let_def)

lemma user_ok_active: "user_ok u \<Longrightarrow> us_is_active u = ''0'' \<or> us_is_active u = ''1''"
  by (simp add: user_ok_def)

lemma users_ok_signup:
  "users_ok d \<Longrightarrow> u \<in> set (db_users d) \<Longrightarrow> users_ok (save_user (signup_profile st now r u) (save_challenge c d))"
  by (rule users_ok_save [where v = u]) (auto simp: users_ok_def [of d] dest: user_ok_active)

lemma users_ok_signup_new:
  "users_ok d \<Longrightarrow> add_user (signup_profile st now r (new_user f e now)) (save_challenge c d) = Some d2 \<Longrightarrow>
     users_ok d2"
  by (rule users_ok_add [of "save_challenge c d" "signup_profile st now r (new_user f e now)"]) simp_all

lemma try_code_users: "try_code st now dg c d = (out, d2) \<Longrightarrow> users_ok d2 = users_ok d"
  by (auto simp: try_code_def Let_def split: option.splits if_splits)

lemma find_email_save_challenge [simp]: "find_email e (save_challenge c d) = find_email e d"
  by (simp add: find_email_def)

lemma users_ok_verify_signup:
  assumes "users_ok d" and "verify_signup_otp enc hm st f now r d = (res, d1)"
  shows "users_ok d1"
  using assms
  by (auto simp: verify_signup_otp_def Let_def try_code_users
      split: if_splits prod.splits sum.splits option.splits
      dest: users_ok_signup users_ok_signup_new find_email_SomeD)

lemma users_ok_phone:
  "users_ok d \<Longrightarrow> u \<in> set (db_users d) \<Longrightarrow> s \<in> {''pending'', ''verified''} \<Longrightarrow>
     s = ''verified'' \<longrightarrow> us_email_verified_at u \<noteq> None \<Longrightarrow>
     users_ok (save_user (u \<lparr> us_phone_verified_at := Some now, us_kyc_status := s \<rparr>) (save_challenge c d))"
  by (rule users_ok_save [where v = u]) (auto simp: users_ok_def [of d] user_ok_def)

lemma users_ok_verify_phone:
  assumes "users_ok d" and "verify_phone_otp hm st now r uid d = (res, d1)"
  shows "users_ok d1"
  using assms
  by (auto simp: verify_phone_otp_def Let_def try_code_users
      split: if_splits prod.splits sum.splits option.splits
      dest!: find_user_SomeD intro!: users_ok_phone)

lemma identity_profile_keeps [simp]:
  "us_id (identity_profile now r u) = us_id u"
  "us_email (identity_profile now r u) = us_email u"
  "us_oauth_subject (identity_profile now r u) = us_oauth_subject u"
  "user_ok (identity_profile now r u) \<longleftrightarrow> us_is_active u \<in> {''0'', ''1''}"
  by (simp_all add: identity_profile_def Let_def user_ok_def kyc_word_def)

lemma users_ok_submit_kyc:
  assumes "users_ok d" and "submit_kyc now r uid d = (res, d1)"
  shows "users_ok d1"
proof -
  have "users_ok (save_user (identity_profile now r u) d)" if "u \<in> set (db_users d)" for u
    using assms(1) that
    by (intro users_ok_save [where v = u]) (auto simp: users_ok_def [of d] dest: user_ok_active)
  then show ?thesis using assms
    by (auto simp: submit_kyc_def Let_def split: if_splits sum.splits option.splits dest!: find_user_SomeD)
qed

lemma users_ok_register:
  assumes "users_ok d" and "register enc hashpw st f salt now r d = (res, d1)"
  shows "users_ok d1"
  using assms
  by (auto simp: register_def Let_def user_ok_def new_user_def split: if_splits sum.splits option.splits
      elim!: users_ok_add)

lemma users_ok_mobile_user:
  assumes "users_ok d" and "mobile_user st f now r d = (Inr u, d1)"
  shows "users_ok d1 \<and> u \<in> set (db_users d1)"
  using assms(2)
proof (cases rule: mobile_user_InrE)
  case created
  then show ?thesis using assms(1)
    by (auto simp: user_ok_def elim!: users_ok_add dest: add_user_rows)
next
  case (linked v)
  have "users_ok (save_user u d)"
    using assms(1) linked by (intro users_ok_save [where v = v]) (auto simp: users_ok_def user_ok_def)
  with linked show ?thesis by (simp add: row_update_in [where v = v])
qed (use assms(1) in simp)

lemma users_ok_exchange:
  assumes "users_ok d" and "exchange_mobile_oauth enc st f now r secret d = (res, d1)"
  shows "users_ok d1"
proof -
  obtain m d2 where m: "mobile_user st f now r d = (m, d2)" by fastforce
  have raised: "d2 = d" if "m = Inl e" for e
    using m that by (auto simp: mobile_user_def split: sum.splits option.splits if_splits)
  show ?thesis
  proof (cases m)
    case (Inl e)
    with m raised assms show ?thesis by (auto simp: exchange_mobile_oauth_def split: if_splits)
  next
    case (Inr u)
    with m assms(1) have u: "users_ok d2" "u \<in> set (db_users d2)"
      using users_ok_mobile_user by blast+
    then have "users_ok (save_user (u \<lparr> us_email_verified_at := Some now \<rparr>) d2)"
      by (intro users_ok_save [where v = u]) (auto simp: users_ok_def user_ok_def)
    with u(1) m Inr assms show ?thesis by (auto simp: exchange_mobile_oauth_def split: if_splits)
  qed
qed

lemma users_ok_step: "users_ok d \<Longrightarrow> users_ok (auth_step E ev d)"
proof (cases ev)
  case RequestSignup
  moreover assume "users_ok d"
  ultimately show ?thesis
    using users_ok_cong [OF request_signup_move(2) [OF prod.collapse [symmetric]]] by simp
next
  case RequestPhone
  moreover assume "users_ok d"
  ultimately show ?thesis
    using users_ok_cong [OF request_phone_move(2) [OF prod.collapse [symmetric]]] by simp
qed (auto intro: users_ok_verify_signup [OF _ prod.collapse [symmetric]]
    users_ok_verify_phone [OF _ prod.collapse [symmetric]]
    users_ok_submit_kyc [OF _ prod.collapse [symmetric]] users_ok_register [OF _ prod.collapse [symmetric]]
    users_ok_exchange [OF _ prod.collapse [symmetric]])

interpretation user_table: invariant_machine "auth_step E" users_ok for E :: "'tok auth_env"
  by unfold_locales (rule users_ok_step)


section \<open>Concrete runs\<close>

text \<open>A staging deployment whose mail and messages are delivered; the HMAC is its message.\<close>

definition otp_settings :: settings where
  "otp_settings = (default_settings (replicate 48 (CHR ''k'')))
     \<lparr> environment := Staging, smtp_host := Some ''m'', smtp_username := Some ''u'', smtp_password := Some ''p'',
       smtp_from_email := Some ''a@afm'', whatsapp_access_token := Some ''t'',
       whatsapp_phone_number_id := Some ''1'' \<rparr>"

definition otp_env :: "(jobj \<times> string) auth_env" where
  "otp_env = \<lparr> ae_settings = otp_settings, ae_encode = pair_encode, ae_hmac = (\<lambda>key m. m),
     ae_hashpw = (\<lambda>p salt. p), ae_smtp = (\<lambda>to code. Inr ()),
     ae_http = (\<lambda>rq. Response 200 '''' (Some (JObj [(''messages'', JArr [JInt 1])]))) \<rparr>"

definition signup_with :: "string \<Rightarrow> string \<Rightarrow> otp_verify_request" where
  "signup_with email code =
     \<lparr> ov_email = email, ov_code = code, ov_full_name = ''Ann'', ov_whatsapp_phone = Some ''+237 670000000'',
       ov_mobile_money_phone = None, ov_country = ''cm'', ov_date_of_birth = ''1990-01-01'',
       ov_identity_consent = True, ov_terms_accepted = True \<rparr>"

definition ask_code :: "uuid \<Rightarrow> int \<Rightarrow> time \<Rightarrow> auth_event" where
  "ask_code i n now = RequestSignup i n now
     \<lparr> or_email = ''ann@x.io'', or_identity_consent = True, or_terms_accepted = True \<rparr>"

lemma otp_settings_valid: "valid_settings otp_settings" "valid_settings (ae_settings otp_env)"
  using default_settings_valid [of "replicate 48 (CHR ''k'')"]
  by (simp_all add: otp_env_def otp_settings_def valid_settings_def)

lemma challenges_ok_empty: "challenges_ok st empty_db" "users_ok empty_db"
  by (simp_all add: challenges_ok_def users_ok_def subjects_ok_def empty_db_def)


lemma otp_code_single_use_witness:
  "\<exists>i. tested otp_env (VerifySignup ''u1'' (minutes 1) (signup_with ''Ann@x.io'' ''000042''))
         (auth_step otp_env (ask_code ''c1'' 42 0) empty_db) = Some (i, True)"
proof -
  have "accepted otp_env (VerifySignup ''u1'' (minutes 1) (signup_with ''Ann@x.io'' ''000042''))
      (auth_step otp_env (ask_code ''c1'' 42 0) empty_db)" by code_simp
  moreover have "challenges_ok (ae_settings otp_env) (auth_step otp_env (ask_code ''c1'' 42 0) empty_db)"
    using challenges_ok_step [of otp_env empty_db] challenges_ok_empty(1) otp_settings_valid(2)
    by (simp add: valid_settings_def)
  ultimately show ?thesis using otp_code_single_use [OF otp_settings_valid(2)] by blast
qed

text \<open>The database after the signup of the first user, and after her phone is verified.\<close>

definition signed_up :: db where
  "signed_up = run (auth_step otp_env)
     [ask_code ''c1'' 42 0, VerifySignup (id_of ''a'') (minutes 1) (signup_with ''ann@x.io'' ''000042'')] empty_db"

definition phone_verified :: db where
  "phone_verified = run (auth_step otp_env)
     [RequestPhone ''c2'' 7 (minutes 2) ''+237670000000'' (id_of ''a''),
      VerifyPhone (minutes 3) \<lparr> pv_whatsapp_phone = ''+237670000000'', pv_code = ''000007'' \<rparr> (id_of ''a'')] signed_up"



text \<open>
  A verified identity does not follow its phone: a user who replaces the verified number in the
  profile stays verified, for a number no code was ever sent to.
\<close>

lemma profile_change_keeps_phone_verified:
  "(let r = \<lparr> ip_full_name = ''Ann'', ip_whatsapp_phone = ''+33700000000'', ip_mobile_money_phone = None,
             ip_country = ''fr'', ip_date_of_birth = ''1990-01-01'', ip_identity_consent = True \<rparr>;
        (res, d) = submit_kyc (minutes 4) r (id_of ''a'') phone_verified
    in res = Inr ''verified'' \<and> map us_whatsapp_phone (db_users d) = [Some ''+33700000000'']
     \<and> map_sum (\<lambda>_. ()) kv_phone_verified (get_kyc (id_of ''a'') d) = Inr True)"
  by code_simp

text \<open>
  Using a code does not withdraw the earlier ones: the code sent before it still opens a session
  until it expires.
\<close>

lemma older_code_survives:
  "(let d = run (auth_step otp_env)
       [ask_code ''c1'' 42 0, ask_code ''c2'' 43 (minutes 2),
        VerifySignup ''u1'' (minutes 3) (signup_with ''ann@x.io'' ''000043'')] empty_db
    in accepted otp_env (VerifySignup ''u2'' (minutes 4) (signup_with ''ann@x.io'' ''000042'')) d)"
  by code_simp

text \<open>The exchange links and updates an account before it looks whether the account is disabled.\<close>

lemma disabled_account_is_linked:
  "(let d0 = empty_db \<lparr> db_users := [(new_user (id_of ''a'') ''ann@x.io'' 0) \<lparr> us_is_active := ''0'' \<rparr>] \<rparr>;
        st = otp_settings \<lparr> mobile_oauth_exchange_secret := Some ''secret'' \<rparr>;
        r = \<lparr> mx_oauth_subject = ''sub-1'', mx_email = ''ann@x.io'', mx_full_name = None,
             mx_date_of_birth = None, mx_identity_consent = False, mx_terms_accepted = True \<rparr>;
        (res, d) = exchange_mobile_oauth pair_encode st ''u2'' 0 r (Some ''secret'') d0
    in res = Inl (AFM AuthenticationError ''Account is disabled'')
     \<and> map us_oauth_subject (db_users d) = [Some ''sub-1'']
     \<and> map us_terms_accepted_at (db_users d) = [Some 0])"
  by code_simp

text \<open>
  Mail addresses are compared with their case by the password routes and without it by the code
  routes, so that one mailbox can hold two accounts.
\<close>

lemma one_mailbox_two_accounts:
  "(let r = \<lparr> rg_email = ''Ann@x.io'', rg_password = ''correct horse'', rg_full_name = None, rg_phone = None,
             rg_country = None \<rparr>;
        d = run (auth_step otp_env)
          [Register (id_of ''b'') ''s'' 0 r, ask_code ''c1'' 42 0,
           VerifySignup (id_of ''a'') (minutes 1) (signup_with ''Ann@x.io'' ''000042'')] empty_db
    in map us_email (db_users d) = [''Ann@x.io'', ''ann@x.io''])"
  by code_simp

end
