(* ===== verification/AFM_Simulation.thy ===== *)
theory AFM_Simulation
  imports AFM_Aza_Client AFM_Kora_Webhook
begin

text \<open>
  The corridor simulations and the dashboard of \<^verbatim>\<open>api_gateway/main.py\<close>: the quote asked from the
  AZA sandbox, the public preview, the recorded sandbox intent, and the list and lookup of a
  merchant's transactions.  A stored amount keeps the exponent it was written with, and the dash in
  the journal's description is written as a hyphen.
\<close>

section \<open>The request\<close>

record simulation_request =
  sq_amount :: decimal
  sq_source_currency :: string
  sq_beneficiary_currency :: string
  sq_corridor :: string
  sq_kaybic_fee :: decimal
  sq_aza_payin_fee :: decimal
  sq_aza_payout_fee :: decimal
  sq_afm_fee :: decimal
  sq_fx_rate :: decimal
  sq_direction :: string
  sq_metadata :: jobj

definition valid_simulation_request :: "simulation_request \<Rightarrow> bool" where
  "valid_simulation_request r \<longleftrightarrow>
     Dec 100000 0 \<le> sq_amount r
   \<and> length (sq_source_currency r) = 3 \<and> length (sq_beneficiary_currency r) = 3
   \<and> sq_corridor r \<in> {''ci-ghana'', ''ci-nigeria'', ''benin-nigeria'', ''cameroon-nigeria'',
        ''cameroon-ivory-coast'', ''ivory-coast-cameroon''}
   \<and> Dec 0 0 \<le> sq_kaybic_fee r \<and> Dec 0 0 \<le> sq_aza_payin_fee r
   \<and> Dec 0 0 \<le> sq_aza_payout_fee r \<and> Dec 0 0 \<le> sq_afm_fee r
   \<and> Dec 0 0 < sq_fx_rate r \<and> sq_direction r \<in> {''payout'', ''payin''}"

definition payout_fee :: "simulation_request \<Rightarrow> decimal" where
  "payout_fee r = (if sq_direction r = ''payout'' then sq_aza_payout_fee r else Dec 0 0)"

section \<open>The AZA quote\<close>

record aza_quote =
  qt_rate :: decimal
  qt_input_amount :: decimal
  qt_output_amount :: decimal
  qt_expiry_date :: json
  qt_rate_source :: string

definition missing_amounts :: exn where
  "missing_amounts = AzaClientError ''AZA calculate response is missing exchange amounts''"

text \<open>\<^verbatim>\<open>except (ArithmeticError, TypeError, ValueError)\<close>.\<close>

fun catch_arithmetic :: "exn + 'a \<Rightarrow> exn + 'a" where
  "catch_arithmetic (Inr x) = Inr x"
| "catch_arithmetic (Inl InvalidOperation) = Inl missing_amounts"
| "catch_arithmetic (Inl DivisionByZero) = Inl missing_amounts"
| "catch_arithmetic (Inl (TypeError m)) = Inl missing_amounts"
| "catch_arithmetic (Inl (ValueError m)) = Inl missing_amounts"
| "catch_arithmetic (Inl e) = Inl e"

text \<open>The first recipient of an answer's object; it is an empty object when there is none.\<close>

definition first_recipient :: "jobj \<Rightarrow> json" where
  "first_recipient obj = (case jget ''recipients'' obj of JArr (x # xs) \<Rightarrow> x | _ \<Rightarrow> JObj [])"

definition quote_amounts :: "jobj \<Rightarrow> jobj \<Rightarrow> decimal \<Rightarrow> exn + decimal \<times> decimal \<times> decimal" where
  "quote_amounts obj recipient amount =
     bindE (case py_or (jget ''input_amount'' recipient) (jget ''input_amount'' obj) of
              v \<Rightarrow> if truthy v then dec_parse (py_str v) else Inr amount) (\<lambda>input_amount.
     bindE (dec_parse (py_str (py_or (jget ''output_amount'' recipient) (jget ''output_amount'' obj))))
       (\<lambda>output_amount.
     bindE (if truthy (jget ''exchange_rate'' recipient)
            then dec_parse (py_str (jget ''exchange_rate'' recipient))
            else dec_div output_amount input_amount) (\<lambda>rate.
     Inr (input_amount, output_amount, rate))))"

definition read_quote :: "jobj \<Rightarrow> decimal \<Rightarrow> exn + aza_quote" where
  "read_quote result amount =
     (case jget_default (JObj result) ''object'' result of
        JObj obj \<Rightarrow>
          (case first_recipient obj of
             JObj recipient \<Rightarrow>
               bindE (catch_arithmetic (quote_amounts obj recipient amount))
                 (\<lambda>(input_amount, output_amount, rate).
               if input_amount \<le> Dec 0 0 \<or> output_amount < Dec 0 0 \<or> rate \<le> Dec 0 0
               then Inl (AzaClientError ''AZA calculate response is invalid'')
               else Inr \<lparr> qt_rate = rate, qt_input_amount = input_amount, qt_output_amount = output_amount,
                          qt_expiry_date = jget ''expires_at'' obj,
                          qt_rate_source = ''aza_sandbox_calculate'' \<rparr>)
           | _ \<Rightarrow> Inl (AttributeError ''get''))
      | _ \<Rightarrow> Inl (AttributeError ''get''))"

definition get_frontierpay_aza_quote ::
  "(string \<Rightarrow> string) \<Rightarrow> (string \<Rightarrow> string \<Rightarrow> string) \<Rightarrow> settings \<Rightarrow> http \<Rightarrow> string \<Rightarrow> decimal \<Rightarrow> string \<Rightarrow> string
   \<Rightarrow> exn + aza_quote" where
  "get_frontierpay_aza_quote sha512 hmac512 st h nonce amount corridor reference =
     (if AZA_CORRIDORS corridor = None
      then Inl (AzaClientError (''AZA corridor is not configured: '' @ corridor))
      else bindE (calculate_corridor sha512 hmac512 st h nonce corridor amount reference)
             (\<lambda>result. read_quote result amount))"

section \<open>The public preview\<close>

record public_simulation =
  pb_simulation_only :: bool
  pb_execution_mode :: string
  pb_amount :: string
  pb_source_currency :: string
  pb_beneficiary_currency :: string
  pb_corridor :: string
  pb_direction :: string
  pb_fx_rate :: string
  pb_rate_source :: string
  pb_rate_expiry :: "string option"
  pb_net_source_amount :: string
  pb_net_destination_amount :: string
  pb_platform_fees :: string
  pb_funds_movement :: bool
  pb_ledger_write :: bool

definition public_fees :: "simulation_request \<Rightarrow> exn + decimal" where
  "public_fees r =
     quantize_even (dec_add (dec_add (dec_add (sq_aza_payin_fee r) (payout_fee r)) (sq_afm_fee r)) (sq_kaybic_fee r))"

text \<open>\<^verbatim>\<open>max(Decimal("0"), amount - total_fees).quantize(Decimal("0.01"))\<close>.\<close>

definition public_net :: "simulation_request \<Rightarrow> decimal \<Rightarrow> exn + decimal" where
  "public_net r total_fees = quantize_even (py_max (Dec 0 0) (dec_sub (sq_amount r) total_fees))"

text \<open>
  A rate expiry that is not text fails the validation of the response model.
\<close>

definition expiry_text :: "json \<Rightarrow> exn + string option" where
  "expiry_text v =
     (case v of JNull \<Rightarrow> Inr None | JStr s \<Rightarrow> Inr (Some s) | _ \<Rightarrow> Inl (RuntimeError ''response validation''))"

definition public_frontierpay_simulate ::
  "(string \<Rightarrow> string) \<Rightarrow> (string \<Rightarrow> string \<Rightarrow> string) \<Rightarrow> settings \<Rightarrow> http \<Rightarrow> string \<Rightarrow> string
   \<Rightarrow> simulation_request \<Rightarrow> exn + public_simulation" where
  "public_frontierpay_simulate sha512 hmac512 st h nonce fresh_hex r =
     (if \<not> valid_simulation_request r then Inl (HTTPException 422 '''')
      else
        bindE (public_fees r) (\<lambda>total_fees.
        bindE (public_net r total_fees) (\<lambda>net_source.
        if net_source \<le> Dec 0 0 then Inl (HTTPException 422 ''Total fees cannot exceed the source amount'')
        else case get_frontierpay_aza_quote sha512 hmac512 st h nonce net_source (sq_corridor r)
                    (''frontierpay-public-'' @ fresh_hex) of
          Inl (AzaClientError _) \<Rightarrow> Inl (HTTPException 503 ''AZA sandbox corridor rate is temporarily unavailable'')
        | Inl e \<Rightarrow> Inl e
        | Inr quote \<Rightarrow>
            bindE (quantize_even (qt_output_amount quote)) (\<lambda>net_destination.
            bindE (quantize_even (sq_amount r)) (\<lambda>amount.
            bindE (expiry_text (qt_expiry_date quote)) (\<lambda>expiry.
            Inr \<lparr> pb_simulation_only = True, pb_execution_mode = ''public_preview'',
                  pb_amount = dec_str amount, pb_source_currency = py_upper (sq_source_currency r),
                  pb_beneficiary_currency = py_upper (sq_beneficiary_currency r),
                  pb_corridor = sq_corridor r, pb_direction = sq_direction r,
                  pb_fx_rate = dec_str (qt_rate quote), pb_rate_source = qt_rate_source quote,
                  pb_rate_expiry = expiry, pb_net_source_amount = dec_str net_source,
                  pb_net_destination_amount = dec_str net_destination,
                  pb_platform_fees = dec_str total_fees, pb_funds_movement = False,
                  pb_ledger_write = False \<rparr>))))))"

section \<open>A transaction as the dashboard shows it\<close>

record transaction_view =
  tv_transaction_id :: string
  tv_idempotency_key :: string
  tv_status :: string
  tv_amount :: string
  tv_currency :: string
  tv_fee_amount :: string
  tv_total_fee_amount :: string
  tv_fee_currency :: string
  tv_net_amount :: string
  tv_psp :: string
  tv_psp_transaction_id :: "string option"
  tv_corridor :: "string option"
  tv_beneficiary_currency :: "string option"
  tv_virtual_account_id :: "string option"
  tv_ledger_namespace :: string
  tv_funds_perimeter :: json
  tv_execution_mode :: json
  tv_balance_affecting :: bool
  tv_ledger_entry_count :: json
  tv_fee_breakdown :: json
  tv_created_at :: string
  tv_updated_at :: string
  tv_settled_at :: "string option"
  tv_error_message :: "string option"

definition serialize_transaction :: "transaction \<Rightarrow> transaction_view" where
  "serialize_transaction t =
     (let metadata = tx_metadata t in
      \<lparr> tv_transaction_id = tx_id t, tv_idempotency_key = tx_idempotency_key t,
        tv_status = status_value (tx_status t), tv_amount = dec_str (tx_amount t), tv_currency = tx_currency t,
        tv_fee_amount = dec_str (dec_or_0 (tx_fee_amount t)),
        tv_total_fee_amount = dec_str (if coeff (tx_total_fee_amount t) \<noteq> 0 then tx_total_fee_amount t
                                       else dec_or_0 (tx_fee_amount t)),
        tv_fee_currency = (if tx_fee_currency t \<noteq> [] then tx_fee_currency t else tx_currency t),
        tv_net_amount = dec_str (dec_or_0 (tx_net_amount t)), tv_psp = psp_value (tx_psp t),
        tv_psp_transaction_id = tx_psp_transaction_id t, tv_corridor = tx_corridor t,
        tv_beneficiary_currency = tx_beneficiary_currency t,
        tv_virtual_account_id = tx_virtual_account_id t, tv_ledger_namespace = tx_ledger_namespace t,
        tv_funds_perimeter = jget_default (JStr (tx_ledger_namespace t)) ''funds_perimeter'' metadata,
        tv_execution_mode = jget_default (JStr ''unknown'') ''execution_mode'' metadata,
        tv_balance_affecting = truthy (jget_default (JBool False) ''balance_affecting'' metadata),
        tv_ledger_entry_count = jget_default (JInt 0) ''ledger_entry_count'' metadata,
        tv_fee_breakdown = jget_default (JObj []) ''fee_breakdown'' metadata,
        tv_created_at = isoformat (tx_created_at t), tv_updated_at = isoformat (tx_updated_at t),
        tv_settled_at = map_option isoformat (tx_settled_at t), tv_error_message = tx_error_message t \<rparr>)"

section \<open>The recorded intent\<close>

definition simulated_fees :: "simulation_request \<Rightarrow> exn + decimal" where
  "simulated_fees r =
     quantize_even (dec_add (dec_add (dec_add (sq_kaybic_fee r) (sq_aza_payin_fee r)) (payout_fee r)) (sq_afm_fee r))"

text \<open>The fees, what is left of the amount, and what it is worth at the given rate.\<close>

definition simulated_amounts :: "simulation_request \<Rightarrow> exn + decimal \<times> decimal \<times> decimal" where
  "simulated_amounts r =
     bindE (simulated_fees r) (\<lambda>total_fees.
     bindE (quantize_even (dec_sub (sq_amount r) total_fees)) (\<lambda>net_source.
     bindE (quantize_even (dec_mul net_source (sq_fx_rate r))) (\<lambda>net_destination.
     if net_source < Dec 0 0
     then Inl (HTTPException 422 ''Total fees cannot exceed the source amount'')
     else Inr (total_fees, net_source, net_destination))))"

definition fee_breakdown_of :: "simulation_request \<Rightarrow> decimal \<Rightarrow> exn + jobj" where
  "fee_breakdown_of r total_fees =
     bindE (quantize_even (sq_kaybic_fee r)) (\<lambda>kaybic.
     bindE (quantize_even (sq_aza_payin_fee r)) (\<lambda>payin.
     bindE (quantize_even (payout_fee r)) (\<lambda>payout.
     bindE (quantize_even (sq_afm_fee r)) (\<lambda>afm.
     Inr [(''kaybic'', JStr (dec_str kaybic)), (''aza_payin'', JStr (dec_str payin)),
          (''aza_payout'', JStr (dec_str payout)), (''afm'', JStr (dec_str afm)),
          (''total'', JStr (dec_str total_fees))]))))"

definition simulated_transaction ::
  "uuid \<Rightarrow> string \<Rightarrow> time \<Rightarrow> uuid \<Rightarrow> simulation_request \<Rightarrow> virtual_account \<Rightarrow> decimal \<Rightarrow> decimal \<Rightarrow> decimal
   \<Rightarrow> jobj \<Rightarrow> transaction" where
  "simulated_transaction fresh fresh_hex now user_id r account total_fees net_source net_destination breakdown =
     (let source_currency = py_upper (sq_source_currency r);
          beneficiary_currency = py_upper (sq_beneficiary_currency r)
      in \<lparr> tx_id = fresh, tx_idempotency_key = ''sandbox-'' @ fresh_hex, tx_user_id = user_id, tx_psp = AZA,
           tx_psp_transaction_id = None, tx_psp_payment_reference = None, tx_psp_response = [],
           tx_amount = sq_amount r, tx_currency = source_currency, tx_fee_amount = total_fees,
           tx_fee_currency = source_currency, tx_net_amount = net_source, tx_status = PENDING,
           tx_metadata = jset_all
             [(''execution_mode'', JStr ''sandbox_simulation''),
              (''funds_perimeter'', JStr ''afm_virtual_ledger_only''),
              (''balance_affecting'', JBool False), (''source_currency'', JStr source_currency),
              (''beneficiary_currency'', JStr beneficiary_currency),
              (''fx_rate'', JStr (dec_str (sq_fx_rate r))),
              (''net_destination_amount'', JStr (dec_str net_destination)),
              (''fee_breakdown'', JObj breakdown),
              (''ledger_entry_count'', JInt 1), (''ledger_reference_id'', JStr ''None'')]
             (sq_metadata r),
           tx_ledger_namespace = ''afm_payments'', tx_virtual_account_id = Some (va_id account),
           tx_corridor = Some (sq_corridor r), tx_beneficiary_currency = Some beneficiary_currency,
           tx_mobile_money_phone = None, tx_mobile_money_provider_reference = None,
           tx_mobile_money_owner_verified_at = None, tx_total_fee_amount = total_fees,
           tx_error_message = None, tx_webhook_received_at = None, tx_settled_at = None,
           tx_created_at = now, tx_updated_at = now \<rparr>)"

definition simulation_journal :: "uuid \<Rightarrow> time \<Rightarrow> transaction \<Rightarrow> uuid \<Rightarrow> ledger_entry" where
  "simulation_journal fresh now t account =
     \<lparr> le_id = fresh, le_account_id = account, le_entry_type = ''payment_intent'', le_direction = ''credit'',
       le_amount = Dec 0 0, le_currency = tx_currency t, le_symbol = None, le_quantity = None,
       le_reference_type = Some ''transaction'', le_reference_id = Some (tx_id t),
       le_description = Some ''Sandbox payment intent - no funds movement'',
       le_metadata = [(''balance_affecting'', JBool False), (''execution_mode'', JStr ''sandbox_simulation'')],
       le_occurred_at = now \<rparr>"

record simulation_env =
  se_now :: time
  se_fresh_account :: uuid
  se_fresh_hex :: string
  se_fresh_transaction :: uuid
  se_fresh_entry :: uuid
  se_meanwhile :: "db \<Rightarrow> db"

text \<open>
  The route.  The journal's key is assigned when it is flushed, after its printed form has been
  written to the metadata, which therefore holds the text of \<^verbatim>\<open>None\<close>.
\<close>

definition simulate_payment ::
  "settings \<Rightarrow> simulation_env \<Rightarrow> simulation_request \<Rightarrow> uuid \<Rightarrow> db
   \<Rightarrow> (exn + transaction_view \<times> string) \<times> db" where
  "simulate_payment st env r user_id d =
     (if \<not> valid_simulation_request r then (Inl (HTTPException 422 ''''), d)
      else if is_production st then (Inl (HTTPException 404 ''Simulation is unavailable in production''), d)
      else case simulated_amounts r of
        Inl e \<Rightarrow> (Inl e, d)
      | Inr (total_fees, net_source, net_destination) \<Rightarrow>
          (case get_or_create_virtual_account (se_fresh_account env) (se_now env) (se_meanwhile env) user_id d of
             (Inl e, d1) \<Rightarrow> (Inl e, d1)
           | (Inr account, d1) \<Rightarrow>
               (case fee_breakdown_of r total_fees of
                  Inl e \<Rightarrow> (Inl e, d1)
                | Inr breakdown \<Rightarrow>
                    let t = simulated_transaction (se_fresh_transaction env) (se_fresh_hex env) (se_now env)
                              user_id r account total_fees net_source net_destination breakdown
                    in case add_transaction t d1 of
                         None \<Rightarrow> (Inl IntegrityError, d1)
                       | Some d2 \<Rightarrow>
                           (Inr (serialize_transaction t, dec_str net_destination),
                            d2 \<lparr> db_ledger := db_ledger d1 @
                                   [simulation_journal (se_fresh_entry env) (se_now env) t (va_id account)] \<rparr>))))"

section \<open>The merchant's transactions\<close>

text \<open>
  The pattern language of \<^verbatim>\<open>ILIKE\<close>: a percent sign stands for any text, an underscore for one
  character, and a backslash takes the next character literally.  The two texts are compared in
  lower case.
\<close>

function like :: "string \<Rightarrow> string \<Rightarrow> bool" where
  "like [] s = (s = [])"
| "like (p # ps) s =
     (if p = CHR ''%'' then like ps s \<or> (case s of [] \<Rightarrow> False | _ # r \<Rightarrow> like (p # ps) r)
      else if p = CHR ''_'' then (case s of [] \<Rightarrow> False | _ # r \<Rightarrow> like ps r)
      else if p = char_of (92::int)
      then (case ps of [] \<Rightarrow> False
            | q # qs \<Rightarrow> (case s of [] \<Rightarrow> False | c # r \<Rightarrow> c = q \<and> like qs r))
      else (case s of [] \<Rightarrow> False | c # r \<Rightarrow> c = p \<and> like ps r))"
  by pat_completeness auto
termination
  by (relation "measure (\<lambda>(p, s). length p + length s)") auto

definition ilike :: "string \<Rightarrow> string \<Rightarrow> bool" where
  "ilike pattern s \<longleftrightarrow> like (py_lower pattern) (py_lower s)"

record transaction_query =
  tq_status :: "string option"
  tq_psp :: "string option"
  tq_currency :: "string option"
  tq_search :: "string option"
  tq_page :: int
  tq_page_size :: int

definition valid_transaction_query :: "transaction_query \<Rightarrow> bool" where
  "valid_transaction_query q \<longleftrightarrow>
     (case tq_currency q of None \<Rightarrow> True | Some c \<Rightarrow> length c = 3)
   \<and> (case tq_search q of None \<Rightarrow> True | Some s \<Rightarrow> length s \<le> 128)
   \<and> 1 \<le> tq_page q \<and> 1 \<le> tq_page_size q \<and> tq_page_size q \<le> 100"

text \<open>A filter that an empty or missing parameter leaves open.\<close>

definition status_filter :: "string option \<Rightarrow> exn + (transaction \<Rightarrow> bool)" where
  "status_filter s =
     (if \<not> is_set s then Inr (\<lambda>_. True)
      else case parse_status (the s) of
        Inl _ \<Rightarrow> Inl (HTTPException 400 ''Invalid transaction status'') | Inr x \<Rightarrow> Inr (\<lambda>t. tx_status t = x))"

definition psp_filter :: "string option \<Rightarrow> exn + (transaction \<Rightarrow> bool)" where
  "psp_filter s =
     (if \<not> is_set s then Inr (\<lambda>_. True)
      else case parse_psp (the s) of
        Inl _ \<Rightarrow> Inl (HTTPException 400 ''Invalid PSP'') | Inr x \<Rightarrow> Inr (\<lambda>t. tx_psp t = x))"

definition search_filter :: "string option \<Rightarrow> transaction \<Rightarrow> bool" where
  "search_filter s t \<longleftrightarrow>
     \<not> is_set s
   \<or> (let needle = CHR ''%'' # the s @ ''%'' in
        ilike needle (tx_id t)
      \<or> (case tx_psp_transaction_id t of None \<Rightarrow> False | Some x \<Rightarrow> ilike needle x))"

definition dashboard_filter :: "transaction_query \<Rightarrow> uuid \<Rightarrow> exn + (transaction \<Rightarrow> bool)" where
  "dashboard_filter q user_id =
     bindE (status_filter (tq_status q)) (\<lambda>by_status.
     bindE (psp_filter (tq_psp q)) (\<lambda>by_psp.
     Inr (\<lambda>t. tx_user_id t = user_id \<and> tx_ledger_namespace t = ''afm_payments'' \<and> by_status t \<and> by_psp t
            \<and> (is_set (tq_currency q) \<longrightarrow> tx_currency t = py_upper (the (tq_currency q)))
            \<and> search_filter (tq_search q) t)))"

text \<open>\<^verbatim>\<open>order_by(created_at.desc(), id.desc())\<close>.\<close>

definition transactions_newest_first :: "transaction list \<Rightarrow> transaction list" where
  "transactions_newest_first ts = rev (sort_key tx_created_at (sort_key tx_id ts))"

record transaction_page =
  tp_items :: "transaction_view list"
  tp_page :: int
  tp_page_size :: int
  tp_total_count :: int
  tp_total_pages :: int

definition list_dashboard_transactions ::
  "transaction_query \<Rightarrow> uuid \<Rightarrow> db \<Rightarrow> exn + transaction_page" where
  "list_dashboard_transactions q user_id d =
     (if \<not> valid_transaction_query q then Inl (HTTPException 422 '''')
      else
        bindE (dashboard_filter q user_id) (\<lambda>matches.
        let matching = filter matches (db_transactions d);
            total = int (length matching);
            rows = take (nat (tq_page_size q))
                     (drop (nat ((tq_page q - 1) * tq_page_size q)) (transactions_newest_first matching));
            total_pages = (if total \<noteq> 0 then (total + tq_page_size q - 1) div tq_page_size q else 0)
        in Inr \<lparr> tp_items = map serialize_transaction rows, tp_page = tq_page q,
                 tp_page_size = tq_page_size q, tp_total_count = total, tp_total_pages = total_pages \<rparr>))"

definition get_dashboard_transaction :: "string \<Rightarrow> uuid \<Rightarrow> db \<Rightarrow> exn + transaction_view" where
  "get_dashboard_transaction transaction_id user_id d =
     (case parse_uuid transaction_id of
        Inl _ \<Rightarrow> Inl (HTTPException 400 ''Invalid transaction id'')
      | Inr parsed_id \<Rightarrow>
          bindE (scalar_one_or_none (filter (\<lambda>t. tx_id t = parsed_id \<and> tx_user_id t = user_id
                   \<and> tx_ledger_namespace t = ''afm_payments'') (db_transactions d))) (\<lambda>found.
          case found of
            None \<Rightarrow> Inl (HTTPException 404 ''Transaction not found'')
          | Some t \<Rightarrow> Inr (serialize_transaction t)))"

section \<open>What the dashboard shows\<close>

lemma like_any: "like (CHR ''%'' # ps) s \<longleftrightarrow> (\<exists>u v. s = u @ v \<and> like ps v)"
proof (induction s)
  case Nil then show ?case by simp
next
  case (Cons c s)
  have "(\<exists>u v. c # s = u @ v \<and> like ps v) \<longleftrightarrow> like ps (c # s) \<or> (\<exists>u v. s = u @ v \<and> like ps v)"
    by (metis append_Cons append_Nil list.exhaust list.inject)
  with Cons show ?case by simp
qed

text \<open>A needle without pattern characters is looked for as it is, without regard to case.\<close>

definition plain :: "string \<Rightarrow> bool" where
  "plain s \<longleftrightarrow> list_all (\<lambda>c. c \<notin> {CHR ''%'', CHR ''_'', char_of (92::int)}) s"

lemma like_plain:
  "plain p \<Longrightarrow> like (p @ ps) s \<longleftrightarrow> (\<exists>v. s = p @ v \<and> like ps v)"
proof (induction p arbitrary: s)
  case (Cons c p)
  then have c: "c \<noteq> CHR ''%''" "c \<noteq> CHR ''_''" "c \<noteq> char_of (92::int)" "plain p" by (simp_all add: plain_def)
  show ?case
  proof (cases s)
    case (Cons x xs)
    then show ?thesis using c Cons.IH [OF c(4), of xs] by auto
  qed (use c in simp)
qed simp

lemma ilike_contains:
  assumes "plain (py_lower needle)"
  shows "ilike (CHR ''%'' # needle @ ''%'') s \<longleftrightarrow> contains (py_lower needle) (py_lower s)"
proof -
  have pct: "py_lower (CHR ''%'' # needle @ ''%'') = CHR ''%'' # py_lower needle @ ''%''"
    by (simp add: py_lower_def lower_char_def Let_def)
  have "like ''%'' v" for v by (induction v) simp_all
  then show ?thesis
    unfolding ilike_def pct like_any like_plain [OF assms] contains_iff by auto
qed

text \<open>The rows of page \<open>p\<close>, as a client that walks the pages collects them.\<close>

definition page_items :: "transaction_query \<Rightarrow> uuid \<Rightarrow> db \<Rightarrow> int \<Rightarrow> transaction_view list" where
  "page_items q user_id d p =
     (case list_dashboard_transactions (q \<lparr> tq_page := p \<rparr>) user_id d of Inl _ \<Rightarrow> [] | Inr x \<Rightarrow> tp_items x)"

lemma dashboard_filter_page [simp]: "dashboard_filter (q \<lparr> tq_page := p \<rparr>) u = dashboard_filter q u"
  by (simp add: dashboard_filter_def)

lemma page_items_eq:
  assumes "valid_transaction_query (q \<lparr> tq_page := 1 \<rparr>)" and "dashboard_filter q u = Inr matches" and "0 < p"
  shows "page_items q u d p =
    map serialize_transaction (take (nat (tq_page_size q)) (drop (nat (p - 1) * nat (tq_page_size q))
      (transactions_newest_first (filter matches (db_transactions d)))))"
proof -
  have "nat ((p - 1) * tq_page_size q) = nat (p - 1) * nat (tq_page_size q)"
    using assms(3) by (simp add: nat_mult_distrib)
  moreover have "valid_transaction_query (q \<lparr> tq_page := p \<rparr>)"
    using assms(1,3) by (simp add: valid_transaction_query_def)
  ultimately show ?thesis
    by (simp add: page_items_def list_dashboard_transactions_def assms(2) Let_def)
qed

lemma list_dashboard_InrD:
  assumes "list_dashboard_transactions q u d = Inr x"
  obtains matches where "valid_transaction_query q" and "dashboard_filter q u = Inr matches"
    and "tp_total_count x = int (length (filter matches (db_transactions d)))"
    and "tp_total_pages x = (if tp_total_count x \<noteq> 0
           then (tp_total_count x + tq_page_size q - 1) div tq_page_size q else 0)"
  using assms
  by (fastforce simp: list_dashboard_transactions_def Let_def split: if_splits elim!: bindE_InrE)

lemma pages_cover:
  assumes "0 < s" and "0 \<le> n"
  shows "n \<le> (if n \<noteq> 0 then (n + s - 1) div s else 0) * (s::int)"
proof -
  have "n + s - 1 < (n + s - 1) div s * s + s"
    using assms(1) by (metis add_strict_left_mono div_mult_mod_eq pos_mod_bound)
  then show ?thesis using assms by simp
qed

lemma dashboard_rows_mset [simp]: "mset (transactions_newest_first ts) = mset ts"
  by (simp add: transactions_newest_first_def)

lemma dashboard_rows_set [simp]: "set (transactions_newest_first ts) = set ts"
  by (simp add: transactions_newest_first_def)

lemma dashboard_rows_length [simp]: "length (transactions_newest_first ts) = length ts"
  by (simp add: transactions_newest_first_def)

lemma dashboard_filter_own:
  "dashboard_filter q u = Inr matches \<Longrightarrow> matches t \<Longrightarrow>
     tx_user_id t = u \<and> tx_ledger_namespace t = ''afm_payments''"
  by (auto simp: dashboard_filter_def elim!: bindE_InrE)

lemma dashboard_rows_sorted: "sorted (map tx_created_at (rev (transactions_newest_first ts)))"
  by (simp add: transactions_newest_first_def)

text \<open>
  Claim C32. A client that reads the pages from the first to the reported last collects every
  matching transaction of its user exactly once, the newest first, and nothing else: the items are
  the matching rows sorted by time, their number is the reported count, and each belongs to the
  user and to the payments ledger.
\<close>

theorem dashboard_pages_complete:
  assumes "list_dashboard_transactions (q \<lparr> tq_page := 1 \<rparr>) user_id d = Inr first"
  shows "\<exists>matches. dashboard_filter q user_id = Inr matches
    \<and> concat (map (page_items q user_id d) [1..tp_total_pages first])
        = map serialize_transaction (transactions_newest_first (filter matches (db_transactions d)))
    \<and> tp_total_count first = int (length (filter matches (db_transactions d)))
    \<and> list_all (\<lambda>t. tx_user_id t = user_id \<and> tx_ledger_namespace t = ''afm_payments'')
        (filter matches (db_transactions d))
    \<and> sorted (map tx_created_at (rev (transactions_newest_first (filter matches (db_transactions d)))))"
proof -
  from assms obtain matches where v: "valid_transaction_query (q \<lparr> tq_page := 1 \<rparr>)"
    and m: "dashboard_filter q user_id = Inr matches"
    and count: "tp_total_count first = int (length (filter matches (db_transactions d)))"
    and pages: "tp_total_pages first = (if tp_total_count first \<noteq> 0
           then (tp_total_count first + tq_page_size q - 1) div tq_page_size q else 0)"
    by (auto elim: list_dashboard_InrD)
  let ?xs = "transactions_newest_first (filter matches (db_transactions d))"
  let ?n = "nat (tq_page_size q)" and ?k = "nat (tp_total_pages first)"
  have size: "0 < tq_page_size q" using v by (simp add: valid_transaction_query_def)
  have k: "tp_total_pages first = int ?k" using size pages count by (simp add: pos_imp_zdiv_nonneg_iff)
  have "int (length ?xs) \<le> tp_total_pages first * tq_page_size q"
    unfolding pages using pages_cover [OF size, of "tp_total_count first"] by (simp add: count)
  then have "int (length ?xs) \<le> int ?k * int ?n" using size k by simp
  then have cover: "length ?xs \<le> ?k * ?n" by (simp only: of_nat_mult [symmetric] of_nat_le_iff)
  have page: "page_items q user_id d (int p + 1) = map serialize_transaction (take ?n (drop (p * ?n) ?xs))" for p
    using page_items_eq [OF v m, of "int p + 1"] by simp
  have "concat (map (page_items q user_id d) [1..tp_total_pages first])
      = map serialize_transaction (concat (map (\<lambda>p. take ?n (drop (p * ?n) ?xs)) [0..<?k]))"
    by (subst k, subst upto_shift) (simp only: map_map map_concat comp_def page)
  also have "\<dots> = map serialize_transaction ?xs" by (simp only: concat_pages_all [OF cover])
  finally show ?thesis
    using m count dashboard_rows_sorted by (auto simp: list_all_iff dest: dashboard_filter_own)
qed

definition sample_query :: transaction_query where
  "sample_query = \<lparr> tq_status = None, tq_psp = None, tq_currency = None, tq_search = None,
     tq_page = 1, tq_page_size = 1 \<rparr>"

definition sample_dashboard :: db where
  "sample_dashboard = empty_db \<lparr> db_transactions :=
     [sample_transaction ''t1'' ''u1'' PENDING \<lparr> tx_ledger_namespace := ''afm_payments'' \<rparr>,
      sample_transaction ''t2'' ''u1'' COMPLETED \<lparr> tx_ledger_namespace := ''afm_payments'', tx_created_at := 5 \<rparr>,
      sample_transaction ''t3'' ''u1'' COMPLETED] \<rparr>"

lemma dashboard_pages_complete_witness:
  "\<exists>matches. dashboard_filter sample_query ''u1'' = Inr matches
    \<and> concat (map (page_items sample_query ''u1'' sample_dashboard) [1..2])
        = map serialize_transaction (transactions_newest_first (filter matches (db_transactions sample_dashboard)))"
proof -
  have "\<exists>first. list_dashboard_transactions (sample_query \<lparr> tq_page := 1 \<rparr>) ''u1'' sample_dashboard = Inr first
      \<and> tp_total_pages first = 2"
    by (simp add: list_dashboard_transactions_def sample_query_def valid_transaction_query_def
      dashboard_filter_def status_filter_def psp_filter_def search_filter_def is_set_def Let_def
      sample_dashboard_def sample_transaction_def)
  then obtain first where first: "list_dashboard_transactions (sample_query \<lparr> tq_page := 1 \<rparr>) ''u1'' sample_dashboard
      = Inr first" and "tp_total_pages first = 2" by blast
  with dashboard_pages_complete [OF first] show ?thesis by auto
qed

section \<open>A simulation moves no money\<close>

lemma simulated_amounts_InrD:
  assumes "simulated_amounts r = Inr (fees, net, destination)"
  shows "quantize_even (dec_sub (sq_amount r) fees) = Inr net" and "Dec 0 0 \<le> net"
  using assms
  by (auto simp: simulated_amounts_def less_decimal_dval less_eq_decimal_dval split: if_splits elim!: bindE_InrE)

lemma simulate_payment_InrD:
  assumes "simulate_payment st env r user_id d = (Inr answer, d2)"
    and "get_or_create_virtual_account (se_fresh_account env) (se_now env) (se_meanwhile env) user_id d
           = (Inr account, d1)"
  obtains t fees breakdown destination net where "\<not> is_production st"
    and "simulated_amounts r = Inr (fees, net, destination)"
    and "t = simulated_transaction (se_fresh_transaction env) (se_fresh_hex env) (se_now env)
               user_id r account fees net destination breakdown"
    and "d2 = d1 \<lparr> db_transactions := db_transactions d1 @ [t],
           db_ledger := db_ledger d1 @ [simulation_journal (se_fresh_entry env) (se_now env) t (va_id account)] \<rparr>"
    and "fst answer = serialize_transaction t"
proof -
  have ok: "valid_simulation_request r" "\<not> is_production st"
    using assms(1) by (auto simp: simulate_payment_def split: if_splits)
  note run = assms(1) [unfolded simulate_payment_def, simplified ok assms(2), simplified]
  from run obtain fees net destination where a: "simulated_amounts r = Inr (fees, net, destination)"
    by (cases "simulated_amounts r") auto
  from run a obtain breakdown where b: "fee_breakdown_of r fees = Inr breakdown"
    by (cases "fee_breakdown_of r fees") (auto split: option.splits)
  from run a b that ok(2) show thesis
    by (auto simp: Let_def add_transaction_Some_iff split: option.splits)
qed

lemma cash_snoc:
  assumes "list_all (\<lambda>e. numeric_19_8 (le_amount e)) es" and "length es \<le> 99000000"
    and "le_amount x = Dec 0 0"
  shows "dval (cash_of (es @ [x])) = dval (cash_of es)"
proof -
  have "numeric_19_8 (Dec 0 0)" by (simp add: numeric_19_8_iff dval_Dec)
  with cash_foldl [of es "Dec 0 0" 0] cash_foldl [of "es @ [x]" "Dec 0 0" 0] assms
  show ?thesis by (simp add: cash_of_def credits_less_debits_def dval_Dec)
qed

lemma net_near:
  assumes "quantize_even (dec_sub a b) = Inr net" and "numeric_19_8 a" and "numeric_19_8 b"
  shows "\<bar>dval net + dval b - dval a\<bar> \<le> 1 / 200"
proof -
  have "dval (dec_sub a b) = dval a - dval b"
    by (rule dec_sub_numeric) (use assms(2,3) in \<open>simp_all add: numeric_19_8_iff\<close>)
  then have "dval net + dval b - dval a = dval net - dval (dec_sub a b)" by simp
  moreover have "\<bar>2 * (dval net - dval (dec_sub a b))\<bar> \<le> 1 / 100"
    using quantize_even_near [OF assms(1)] by (simp add: power_int_minus)
  ultimately show ?thesis by (simp only: abs_mult) simp
qed


definition sample_simulation :: simulation_request where
  "sample_simulation = \<lparr> sq_amount = Dec 250000 0, sq_source_currency = ''xof'', sq_beneficiary_currency = ''ghs'',
     sq_corridor = ''ci-ghana'', sq_kaybic_fee = Dec 1000 0, sq_aza_payin_fee = Dec 50025 (- 2),
     sq_aza_payout_fee = Dec 0 0, sq_afm_fee = Dec 100 0, sq_fx_rate = Dec 2 (- 2),
     sq_direction = ''payout'', sq_metadata = [] \<rparr>"

definition sample_simulation_env :: simulation_env where
  "sample_simulation_env = \<lparr> se_now = 7, se_fresh_account = ''a1'', se_fresh_hex = ''ff'',
     se_fresh_transaction = ''t9'', se_fresh_entry = ''e9'', se_meanwhile = id \<rparr>"


section \<open>Two weak points\<close>

text \<open>The recorded reference of the journal entry is no reference.\<close>

lemma simulation_reference_is_none:
  "jget ''ledger_reference_id'' (tx_metadata (simulated_transaction fresh fresh_hex now user_id r account
       total_fees net_source net_destination breakdown)) = JStr ''None''"
  by (simp add: simulated_transaction_def Let_def jset_all_def)

text \<open>A search for a percent sign finds every transaction.\<close>

lemma search_percent_matches_all: "search_filter (Some ''%'') t"
proof -
  have "like ''%'' v" for v by (induction v) simp_all
  then have all: "like ''%%%'' v" for v by (induction v) simp_all
  have "py_lower ''%%%'' = ''%%%''" by (simp add: py_lower_def lower_char_def)
  then show ?thesis by (simp add: search_filter_def ilike_def all Let_def del: like.simps)
qed

end
