(* ===== verification/AFM_Support.thy ===== *)
theory AFM_Support
  imports AFM_Http
begin

text \<open>
  \<^verbatim>\<open>payment_hub/support_ai.py\<close>: the support policy that classifies an incident, its sanitised
  context, and the optional note of a language model.  SHA-256, the model's service and the JSON
  reader are parameters.  The ellipsis that marks a cut text is one character; it stands as
  \<open>CHR 0x85\<close> here.
\<close>

section \<open>The sanitised context\<close>

definition ellipsis :: char where
  "ellipsis = CHR 0x85"

definition sensitive_words :: "string list" where
  "sensitive_words = [''secret'', ''token'', ''password'', ''pin'', ''otp'', ''authorization'', ''cookie'',
     ''apikey'', ''api_key'', ''api-key'']"

text \<open>\<^verbatim>\<open>_SENSITIVE_KEY_RE.search(key)\<close>, without regard to case.\<close>

definition sensitive_key :: "string \<Rightarrow> bool" where
  "sensitive_key k \<longleftrightarrow> list_ex (\<lambda>w. contains w (py_lower k)) sensitive_words"

definition shorten :: "string \<Rightarrow> string" where
  "shorten s = (if 512 < length s then take 512 s @ [ellipsis] else s)"

fun sanitize :: "json \<Rightarrow> json" where
  "sanitize (JObj kvs) =
     JObj (map (\<lambda>(k, v). (k, if sensitive_key k then JStr ''[REDACTED]'' else sanitize v)) kvs)"
| "sanitize (JArr xs) = JArr (map sanitize xs)"
| "sanitize (JStr s) = JStr (shorten s)"
| "sanitize v = v"

definition sanitize_context :: "jobj \<Rightarrow> jobj" where
  "sanitize_context kvs =
     map (\<lambda>(k, v). (k, if sensitive_key k then JStr ''[REDACTED]'' else sanitize v)) kvs"

lemma sanitize_JObj: "sanitize (JObj kvs) = JObj (sanitize_context kvs)"
  by (simp add: sanitize_context_def)

section \<open>Incidents\<close>

record support_decision =
  sd_incident_key :: string
  sd_category :: string
  sd_severity :: string
  sd_diagnosis :: string
  sd_proposed_action :: string
  sd_auto_action_allowed :: bool
  sd_requires_human_approval :: bool
  sd_sanitized_context :: jobj
  sd_llm_note :: "string option"

definition incident_key :: "(string \<Rightarrow> string) \<Rightarrow> string \<Rightarrow> jobj \<Rightarrow> string" where
  "incident_key sha256 err context =
     ''afm-support-'' @ take 16 (sha256 (take 160 err @ '':'' @
       py_str (py_or (jget ''payment_reference'' context)
         (py_or (jget ''transaction_reference'' context)
           (py_or (jget ''event_id'' context) (JStr ''unknown''))))))"

definition incident_text :: "string \<Rightarrow> jobj \<Rightarrow> string" where
  "incident_text err context =
     py_lower (err @ '' '' @ py_str (jget_default (JStr '''') ''provider_status'' context)
               @ '' '' @ py_str (jget_default (JStr '''') ''event_type'' context))"

definition mentions :: "string list \<Rightarrow> string \<Rightarrow> bool" where
  "mentions markers t \<longleftrightarrow> list_ex (\<lambda>m. contains m t) markers"

text \<open>The rows of the policy, in the order in which the code tries their markers.\<close>

record policy_row =
  pr_markers :: "string list"
  pr_category :: string
  pr_severity :: string
  pr_diagnosis :: string
  pr_action :: string
  pr_auto :: bool
  pr_approval :: bool

definition policy_rows :: "policy_row list" where
  "policy_rows =
    [\<lparr> pr_markers = [''processing'', ''pending'', ''requires_authorization'', ''stk_prompt''],
       pr_category = ''payment_processing'', pr_severity = ''warning'',
       pr_diagnosis = ''Provider payment remains intermediate; preserve funds and reconcile asynchronously.'',
       pr_action = ''enqueue_reconciliation'', pr_auto = True, pr_approval = False \<rparr>,
     \<lparr> pr_markers = [''timeout'', ''temporarily'', ''rate limit'', ''429'', ''502'', ''503'', ''504''],
       pr_category = ''provider_transient'', pr_severity = ''warning'',
       pr_diagnosis = ''Provider communication is transient; retry with bounded backoff and preserve the current ledger state.'',
       pr_action = ''retry_status_lookup'', pr_auto = True, pr_approval = False \<rparr>,
     \<lparr> pr_markers = [''does not exist'', ''undefined column'', ''schema'', ''database'', ''sqlalchemy'', ''alembic''],
       pr_category = ''database_schema'', pr_severity = ''critical'',
       pr_diagnosis = ''Database or schema mismatch detected; stop automated money movement and require an operator-led migration review.'',
       pr_action = ''open_incident'', pr_auto = False, pr_approval = True \<rparr>,
     \<lparr> pr_markers = [''signature'', ''hmac'', ''invalid webhook''],
       pr_category = ''webhook_security'', pr_severity = ''high'',
       pr_diagnosis = ''Webhook authenticity or canonicalization failed; reject business processing and alert an operator.'',
       pr_action = ''alert_admin'', pr_auto = False, pr_approval = True \<rparr>]"

definition unknown_incident :: policy_row where
  "unknown_incident =
     \<lparr> pr_markers = [], pr_category = ''unknown'', pr_severity = ''high'',
       pr_diagnosis = ''Unclassified incident; preserve financial state and request human review.'',
       pr_action = ''alert_admin'', pr_auto = False, pr_approval = True \<rparr>"

definition analyze_incident :: "(string \<Rightarrow> string) \<Rightarrow> string \<Rightarrow> jobj \<Rightarrow> support_decision" where
  "analyze_incident sha256 err context =
     (let row = (case List.find (\<lambda>r. mentions (pr_markers r) (incident_text err context)) policy_rows of
                   Some r \<Rightarrow> r | None \<Rightarrow> unknown_incident)
      in \<lparr> sd_incident_key = incident_key sha256 err context, sd_category = pr_category row,
           sd_severity = pr_severity row, sd_diagnosis = pr_diagnosis row,
           sd_proposed_action = pr_action row, sd_auto_action_allowed = pr_auto row,
           sd_requires_human_approval = pr_approval row,
           sd_sanitized_context = sanitize_context context, sd_llm_note = None \<rparr>)"

section \<open>The language model's note\<close>

record llm_settings =
  llm_base_url :: string
  llm_api_key :: string
  llm_model :: string

definition support_prompt :: "support_decision \<Rightarrow> json" where
  "support_prompt d =
     JObj [(''incident'', JStr (sd_category d)), (''severity'', JStr (sd_severity d)),
       (''deterministic_diagnosis'', JStr (sd_diagnosis d)), (''context'', JObj (sd_sanitized_context d)),
       (''instruction'', JStr ''Return JSON with only a concise note and confidence 0..1. Never propose an action, secret, SQL, PIN, OTP, payout, refund, or code mutation.'')]"

definition note_schema :: json where
  "note_schema =
     JObj [(''type'', JStr ''json_schema''),
       (''json_schema'', JObj [(''name'', JStr ''support_note''), (''strict'', JBool True),
         (''schema'', JObj [(''type'', JStr ''object''),
           (''properties'', JObj
              [(''note'', JObj [(''type'', JStr ''string''), (''maxLength'', JInt 600)]),
               (''confidence'', JObj [(''type'', JStr ''number''), (''minimum'', JInt 0), (''maximum'', JInt 1)])]),
           (''required'', JArr [JStr ''note'', JStr ''confidence'']),
           (''additionalProperties'', JBool False)])])]"

definition llm_request :: "llm_settings \<Rightarrow> string \<Rightarrow> support_decision \<Rightarrow> http_request" where
  "llm_request env base_url d =
     \<lparr> rq_method = ''POST'', rq_url = base_url @ ''/chat/completions'',
       rq_headers = [(''Authorization'', ''Bearer '' @ llm_api_key env), (''Content-Type'', ''application/json'')],
       rq_body = JsonBody (JObj
         [(''model'', JStr (llm_model env)),
          (''messages'', JArr
             [JObj [(''role'', JStr ''system''),
                (''content'', JStr ''You are an AFM support analyst. You may enrich a diagnosis only; deterministic policy remains authoritative.'')],
              JObj [(''role'', JStr ''user''), (''content'', JStr (json_dumps (support_prompt d)))]]),
          (''temperature'', JInt 0), (''response_format'', note_schema)]) \<rparr>"

text \<open>
  The note in the service's answer.  \<open>loads\<close> is \<^verbatim>\<open>json.loads\<close>; an unreadable body or content is a
  value error.
\<close>

definition note_of_content :: "(string \<Rightarrow> json option) \<Rightarrow> json \<Rightarrow> exn + string" where
  "note_of_content loads content =
     (case content of
        JStr s \<Rightarrow>
          (case loads s of
             None \<Rightarrow> Inl (ValueError ''json'')
           | Some (JObj kvs) \<Rightarrow>
               (case jget_default (JStr '''') ''note'' kvs of
                  JStr note \<Rightarrow> Inr (py_strip note)
                | _ \<Rightarrow> Inl (AttributeError ''strip''))
           | Some _ \<Rightarrow> Inl (AttributeError ''get''))
      | _ \<Rightarrow> Inl (TypeError ''the JSON object must be str, bytes or bytearray''))"

definition answered_note :: "(string \<Rightarrow> json option) \<Rightarrow> http_result \<Rightarrow> exn + string" where
  "answered_note loads answer =
     (case answer of
        TransportError \<Rightarrow> Inl HTTPError
      | Response status txt parsed \<Rightarrow>
          if \<not> is_success status then Inl HTTPError
          else case parsed of
            None \<Rightarrow> Inl (ValueError ''json'')
          | Some v \<Rightarrow>
              bindE (json_key ''choices'' v) (\<lambda>choices. bindE (json_first choices) (\<lambda>choice.
              bindE (json_key ''message'' choice) (\<lambda>message. bindE (json_key ''content'' message)
                (note_of_content loads)))))"

text \<open>\<^verbatim>\<open>except (httpx.HTTPError, KeyError, TypeError, ValueError, json.JSONDecodeError)\<close>.\<close>

fun note_error_caught :: "exn \<Rightarrow> bool" where
  "note_error_caught HTTPError = True"
| "note_error_caught (KeyError m) = True"
| "note_error_caught (TypeError m) = True"
| "note_error_caught (ValueError m) = True"
| "note_error_caught e = False"

definition enrich_with_external_llm ::
  "(string \<Rightarrow> json option) \<Rightarrow> llm_settings \<Rightarrow> http \<Rightarrow> support_decision \<Rightarrow> exn + support_decision" where
  "enrich_with_external_llm loads env h d =
     (let base_url = rstrip_char (CHR ''/'') (llm_base_url env) in
      if base_url = [] \<or> llm_api_key env = [] \<or> llm_model env = [] then Inr d
      else case answered_note loads (h (llm_request env base_url d)) of
        Inl e \<Rightarrow> if note_error_caught e then Inr d else Inl e
      | Inr note \<Rightarrow> if note = [] then Inr d else Inr (d \<lparr> sd_llm_note := Some (take 600 note) \<rparr>))"

section \<open>What leaves the policy\<close>

text \<open>Sanitising is final: a sanitised value is left as it is.\<close>

lemma shorten_idem [simp]: "shorten (shorten s) = shorten s"
  by (simp add: shorten_def)

lemma length_shorten: "length (shorten s) \<le> 513"
  by (simp add: shorten_def)

lemma sanitize_idem: "sanitize (sanitize v) = sanitize v"
  by (induction v rule: sanitize.induct) (auto simp: shorten_def)

fun redacted :: "json \<Rightarrow> bool" where
  "redacted (JObj kvs) =
     list_all (\<lambda>(k, v). if sensitive_key k then v = JStr ''[REDACTED]'' else redacted v) kvs"
| "redacted (JArr xs) = list_all redacted xs"
| "redacted (JStr s) = (length s \<le> 513)"
| "redacted v = True"

lemma redacted_sanitize: "redacted (sanitize v)"
  by (induction v rule: sanitize.induct) (fastforce simp: list_all_iff length_shorten)+

text \<open>The value with every secret taken out.\<close>

fun hide :: "json \<Rightarrow> json" where
  "hide (JObj kvs) = JObj (map (\<lambda>(k, v). (k, if sensitive_key k then JNull else hide v)) kvs)"
| "hide (JArr xs) = JArr (map hide xs)"
| "hide v = v"

lemma sanitize_hide: "sanitize (hide v) = sanitize v"
  by (induction v rule: hide.induct) auto

fun scalar :: "json \<Rightarrow> bool" where
  "scalar (JObj kvs) = False"
| "scalar (JArr xs) = False"
| "scalar v = True"

lemma hide_scalar: "scalar v \<Longrightarrow> hide v = hide w \<Longrightarrow> v = w"
  by (cases v; cases w) simp_all

lemma map_of_hide:
  "\<not> sensitive_key k \<Longrightarrow>
     map_of (map (\<lambda>(k, v). (k, if sensitive_key k then JNull else hide v)) kvs) k = map_option hide (map_of kvs k)"
  by (induction kvs) auto

lemma jget_hidden:
  assumes "hide (JObj c1) = hide (JObj c2)" and "\<not> sensitive_key k" and "scalar (jget k c1)"
  shows "jget_default v k c1 = jget_default v k c2" and "jget k c1 = jget k c2"
proof -
  have eq: "map_option hide (map_of c1 k) = map_option hide (map_of c2 k)"
    using assms(1) by (simp only: hide.simps json.inject flip: map_of_hide [OF assms(2)])
  then have "map_of c1 k = map_of c2 k"
    using assms(3) by (cases "map_of c2 k") (auto simp: jget_def jget_default_def split: option.splits dest: hide_scalar)
  then show "jget_default v k c1 = jget_default v k c2" and "jget k c1 = jget k c2"
    by (simp_all add: jget_def jget_default_def)
qed

definition reference_keys :: "string list" where
  "reference_keys = [''payment_reference'', ''transaction_reference'', ''event_id'', ''provider_status'', ''event_type'']"

lemma reference_keys_public: "list_all (\<lambda>k. \<not> sensitive_key k) reference_keys"
  by code_simp

lemma analyze_hidden:
  assumes "hide (JObj c1) = hide (JObj c2)" and "list_all (\<lambda>k. scalar (jget k c1)) reference_keys"
  shows "analyze_incident sha256 err c1 = analyze_incident sha256 err c2"
proof -
  have k: "jget_default v k c1 = jget_default v k c2" "jget k c1 = jget k c2" if "k \<in> set reference_keys" for v k
    using that assms reference_keys_public by (simp_all add: list_all_iff jget_hidden)
  have "sanitize (JObj c1) = sanitize (JObj c2)" by (metis assms(1) sanitize_hide)
  then have "sanitize_context c1 = sanitize_context c2" by (simp only: sanitize_JObj json.inject)
  moreover have "incident_key sha256 err c1 = incident_key sha256 err c2"
    by (simp add: incident_key_def k reference_keys_def)
  moreover have "incident_text err c1 = incident_text err c2"
    by (simp add: incident_text_def k reference_keys_def)
  ultimately show ?thesis by (simp add: analyze_incident_def)
qed

lemma policy_actions:
  assumes "d = analyze_incident sha256 err c"
  shows "sd_proposed_action d \<in> {''enqueue_reconciliation'', ''retry_status_lookup'', ''open_incident'', ''alert_admin''}
    \<and> (sd_auto_action_allowed d \<longleftrightarrow> sd_proposed_action d \<in> {''enqueue_reconciliation'', ''retry_status_lookup''})
    \<and> sd_requires_human_approval d = (\<not> sd_auto_action_allowed d)"
  unfolding assms analyze_incident_def policy_rows_def unknown_incident_def
  by (simp add: Let_def split: if_split)

lemma enrich_note_only:
  assumes "enrich_with_external_llm loads env h d = Inr d'"
  shows "d' = d \<or> (\<exists>note. d' = d \<lparr> sd_llm_note := Some note \<rparr> \<and> note \<noteq> [] \<and> length note \<le> 600)"
  using assms by (auto simp: enrich_with_external_llm_def Let_def split: if_splits sum.splits)



section \<open>Two weak points\<close>

text \<open>
  The markers of a payment in progress are tried first: a webhook whose signature was rejected is
  proposed for automatic reconciliation when its text mentions a pending payment.
\<close>

lemma signature_failure_auto_actionable:
  "sd_auto_action_allowed (analyze_incident sha256 ''Invalid webhook signature'' [(''provider_status'', JStr ''pending'')])"
  by (simp add: analyze_incident_def policy_rows_def incident_text_def mentions_def jget_default_def
    py_str_def py_lower_def lower_char_def Let_def starts_with_def)

text \<open>An answer with no choices raises an error that the routine does not catch.\<close>

lemma empty_choices_not_caught:
  assumes "rstrip_char (CHR ''/'') (llm_base_url env) \<noteq> []" and "llm_api_key env \<noteq> []" and "llm_model env \<noteq> []"
  shows "enrich_with_external_llm loads env (\<lambda>_. Response 200 txt (Some (JObj [(''choices'', JArr [])]))) d
           = Inl (IndexError ''list index out of range'')"
  using assms
  by (simp add: enrich_with_external_llm_def answered_note_def is_success_def json_key_def json_first_def Let_def)

end
