(* ===== verification/AFM_Rate_Limit.thy ===== *)
theory AFM_Rate_Limit
  imports AFM_Text
begin

text \<open>
  \<^verbatim>\<open>config/rate_limit.py\<close> and the limiter of \<^verbatim>\<open>api_gateway/main.py\<close>: a sliding window of
  request times in a Redis sorted set.  Redis is a parameter, the five commands the limiter sends,
  and so is the text of a float.
\<close>

section \<open>The commands\<close>

text \<open>Every command carries the moment at which the server executes it.\<close>

record 'r zset_ops =
  zremrangebyscore :: "string \<Rightarrow> time \<Rightarrow> time \<Rightarrow> time \<Rightarrow> 'r \<Rightarrow> 'r"
  zcard :: "string \<Rightarrow> time \<Rightarrow> 'r \<Rightarrow> int"
  zadd :: "string \<Rightarrow> string \<Rightarrow> time \<Rightarrow> time \<Rightarrow> 'r \<Rightarrow> 'r"
  zexpire :: "string \<Rightarrow> int \<Rightarrow> time \<Rightarrow> 'r \<Rightarrow> 'r"
  zrem :: "string \<Rightarrow> string \<Rightarrow> time \<Rightarrow> 'r \<Rightarrow> 'r"

text \<open>
  What Redis documents of them.  \<open>live k t r\<close> are the members of key \<open>k\<close> with their scores that a
  client sees at time \<open>t\<close>; a key that expires keeps its members until its time is over.
\<close>

definition zset_laws :: "'r zset_ops \<Rightarrow> (string \<Rightarrow> time \<Rightarrow> 'r \<Rightarrow> (string \<times> time) set) \<Rightarrow> bool" where
  "zset_laws ops live \<longleftrightarrow>
     (\<forall>k t r. finite (live k t r) \<and> zcard ops k t r = int (card (live k t r)))
   \<and> (\<forall>k t r lo hi. live k t (zremrangebyscore ops k lo hi t r) = {x \<in> live k t r. \<not> (lo \<le> snd x \<and> snd x \<le> hi)})
   \<and> (\<forall>k t r m s. live k t (zadd ops k m s t r) = insert (m, s) {x \<in> live k t r. fst x \<noteq> m})
   \<and> (\<forall>k t u r. t \<le> u \<longrightarrow> live k u r \<subseteq> live k t r)
   \<and> (\<forall>k t u r n. t \<le> u \<longrightarrow> u < t + seconds n \<longrightarrow> live k u (zexpire ops k n t r) = live k t r)
   \<and> (\<forall>k t u r m. t \<le> u \<longrightarrow> live k u (zrem ops k m t r) = {x \<in> live k u r. fst x \<noteq> m})"

section \<open>The limiter\<close>

definition limit_key :: "string \<Rightarrow> string" where
  "limit_key key = ''ratelimit:'' @ key"

text \<open>The pipeline, one transaction of the server: its second result is the count before the insert.\<close>

definition limit_pipeline ::
  "'r zset_ops \<Rightarrow> (time \<Rightarrow> string) \<Rightarrow> string \<Rightarrow> int \<Rightarrow> time \<Rightarrow> 'r \<Rightarrow> int \<times> 'r" where
  "limit_pipeline ops str_float key window_seconds now r =
     (let k = limit_key key;
          r1 = zremrangebyscore ops k 0 (now - seconds window_seconds) now r;
          current_count = zcard ops k now r1;
          r2 = zadd ops k (str_float now) now now r1
      in (current_count, zexpire ops k (window_seconds + 1) now r2))"

definition retract :: "'r zset_ops \<Rightarrow> (time \<Rightarrow> string) \<Rightarrow> string \<Rightarrow> time \<Rightarrow> time \<Rightarrow> 'r \<Rightarrow> 'r" where
  "retract ops str_float key now t r = zrem ops (limit_key key) (str_float now) t r"

text \<open>\<open>later\<close> is the moment at which the second command of a rejected request arrives.\<close>

definition is_allowed ::
  "'r zset_ops \<Rightarrow> (time \<Rightarrow> string) \<Rightarrow> string \<Rightarrow> int \<Rightarrow> int \<Rightarrow> time \<Rightarrow> time \<Rightarrow> 'r \<Rightarrow> (exn + bool) \<times> 'r" where
  "is_allowed ops str_float key limit window_seconds now later r =
     (case limit_pipeline ops str_float key window_seconds now r of (current_count, r1) \<Rightarrow>
        if limit \<le> current_count
        then (Inl (raise RateLimitError (''Rate limit exceeded: '' @ int_str limit @ '' requests per ''
                     @ int_str window_seconds @ ''s'')),
              retract ops str_float key now later r1)
        else (Inr True, r1))"

definition rate_limit ::
  "'r zset_ops \<Rightarrow> (time \<Rightarrow> string) \<Rightarrow> string option \<Rightarrow> time \<Rightarrow> time \<Rightarrow> 'r \<Rightarrow> (exn + bool) \<times> 'r" where
  "rate_limit ops str_float client now later r =
     is_allowed ops str_float (''ip:'' @ (case client of None \<Rightarrow> ''unknown'' | Some ip \<Rightarrow> ip)) 100 60 now later r"

section \<open>Interleaved requests\<close>

text \<open>
  The requests of one client as the server sees them: \<open>Ask\<close> is the pipeline of a new request, so
  many microseconds and one after the last, and \<open>Retract\<close> the second command of a rejected one.  A
  pending rejection may be retracted at any later point.
\<close>

datatype limit_event = Ask nat | Retract time

record 'r limiter =
  li_store :: 'r
  li_last :: time
  li_accepted :: "time list"
  li_rejected :: "time list"

definition limit_step ::
  "'r zset_ops \<Rightarrow> (time \<Rightarrow> string) \<Rightarrow> string \<Rightarrow> int \<Rightarrow> int \<Rightarrow> limit_event \<Rightarrow> 'r limiter \<Rightarrow> 'r limiter" where
  "limit_step ops str_float key limit w e s =
     (case e of
        Ask gap \<Rightarrow>
          let now = li_last s + 1 + int gap in
          (case limit_pipeline ops str_float key w now (li_store s) of (current_count, r) \<Rightarrow>
             if limit \<le> current_count
             then s \<lparr> li_store := r, li_last := now, li_rejected := now # li_rejected s \<rparr>
             else s \<lparr> li_store := r, li_last := now, li_accepted := now # li_accepted s \<rparr>)
      | Retract t \<Rightarrow>
          if t \<in> set (li_rejected s)
          then s \<lparr> li_store := retract ops str_float key t (li_last s) (li_store s),
                   li_rejected := removeAll t (li_rejected s) \<rparr>
          else s)"

text \<open>A request on its own is a pipeline and, when it is rejected, its retraction.\<close>

lemma is_allowed_steps:
  assumes "is_allowed ops str_float key limit w (li_last s + 1 + int gap) (li_last s + 1 + int gap) (li_store s) = (res, r)"
    and "li_rejected s = []"
  shows "\<exists>s'. run (limit_step ops str_float key limit w) [Ask gap, Retract (li_last s + 1 + int gap)] s = s'
    \<and> li_store s' = r \<and> (is_ok res \<longleftrightarrow> li_accepted s' = (li_last s + 1 + int gap) # li_accepted s)"
  using assms by (auto simp: is_allowed_def limit_step_def Let_def split: prod.splits if_splits)

text \<open>The acceptance times, newest first: no window that ends with an acceptance holds too many.\<close>

fun window_ok :: "nat \<Rightarrow> time \<Rightarrow> time list \<Rightarrow> bool" where
  "window_ok limit w [] \<longleftrightarrow> True"
| "window_ok limit w (t # ts) \<longleftrightarrow> length (filter (\<lambda>a. t - w < a) (t # ts)) \<le> limit \<and> window_ok limit w ts"

definition limiter_inv ::
  "(string \<Rightarrow> time \<Rightarrow> 'r \<Rightarrow> (string \<times> time) set) \<Rightarrow> (time \<Rightarrow> string) \<Rightarrow> string \<Rightarrow> int \<Rightarrow> int \<Rightarrow> 'r limiter \<Rightarrow> bool" where
  "limiter_inv live str_float key limit w s \<longleftrightarrow>
     (\<forall>a \<in> set (li_accepted s) \<union> set (li_rejected s). 0 \<le> a \<and> a \<le> li_last s)
   \<and> 0 \<le> li_last s \<and> distinct (li_rejected s)
   \<and> live (limit_key key) (li_last s) (li_store s)
       \<subseteq> (\<lambda>a. (str_float a, a)) ` (set (li_accepted s) \<union> set (li_rejected s))
   \<and> set (li_accepted s) \<inter> set (li_rejected s) = {} \<and> distinct (li_accepted s)
   \<and> (\<forall>a \<in> set (li_accepted s). \<forall>u \<ge> li_last s. u - seconds w < a \<longrightarrow>
        (str_float a, a) \<in> live (limit_key key) u (li_store s))
   \<and> window_ok (nat limit) (seconds w) (li_accepted s)"

lemma limiter_inv_last:
  "limiter_inv live str_float key limit w s \<Longrightarrow> a \<in> set (li_accepted s) \<union> set (li_rejected s) \<Longrightarrow>
     0 \<le> a \<and> a \<le> li_last s"
  unfolding limiter_inv_def by blast

lemma pipeline_live:
  assumes laws: "zset_laws ops live" and "limit_pipeline ops str_float key w now r = (c, r')"
  shows "c = int (card {x \<in> live (limit_key key) now r. \<not> (0 \<le> snd x \<and> snd x \<le> now - seconds w)})"
    and "now \<le> u \<Longrightarrow> u < now + seconds (w + 1) \<Longrightarrow> live (limit_key key) u r' =
      insert (str_float now, now) {x \<in> live (limit_key key) now r.
        \<not> (0 \<le> snd x \<and> snd x \<le> now - seconds w) \<and> fst x \<noteq> str_float now}"
proof -
  let ?k = "limit_key key"
  let ?r1 = "zremrangebyscore ops ?k 0 (now - seconds w) now r"
  from assms(2) have c: "c = zcard ops ?k now ?r1"
    and r': "r' = zexpire ops ?k (w + 1) now (zadd ops ?k (str_float now) now now ?r1)"
    by (simp_all add: limit_pipeline_def Let_def)
  have swept: "live ?k now ?r1 = {x \<in> live ?k now r. \<not> (0 \<le> snd x \<and> snd x \<le> now - seconds w)}"
    using laws by (simp only: zset_laws_def)
  show "c = int (card {x \<in> live ?k now r. \<not> (0 \<le> snd x \<and> snd x \<le> now - seconds w)})"
    using laws unfolding c swept [symmetric] zset_laws_def by simp
  have "live ?k u r' = live ?k now (zadd ops ?k (str_float now) now now ?r1)"
    if "now \<le> u" "u < now + seconds (w + 1)" for u
    using laws that unfolding r' zset_laws_def by simp
  moreover have "live ?k now (zadd ops ?k (str_float now) now now ?r1)
      = insert (str_float now, now) {x \<in> live ?k now ?r1. fst x \<noteq> str_float now}"
    using laws by (simp only: zset_laws_def)
  ultimately show "now \<le> u \<Longrightarrow> u < now + seconds (w + 1) \<Longrightarrow> live (limit_key key) u r' =
      insert (str_float now, now) {x \<in> live (limit_key key) now r.
        \<not> (0 \<le> snd x \<and> snd x \<le> now - seconds w) \<and> fst x \<noteq> str_float now}"
    by (auto simp: swept)
qed

text \<open>A request is counted against what was accepted or is still to be retracted, and nothing else.\<close>

abbreviation in_window :: "time \<Rightarrow> int \<Rightarrow> time list \<Rightarrow> time list" where
  "in_window now w ts \<equiv> filter (\<lambda>a. now - seconds w < a) ts"

lemma count_accounted:
  assumes "zset_laws ops live" and inv: "limiter_inv live str_float key limit w s" and "li_last s < now"
    and "limit_pipeline ops str_float key w now (li_store s) = (c, r')"
  shows "c \<le> int (length (in_window now w (li_accepted s)) + length (in_window now w (li_rejected s)))"
proof -
  let ?W = "set (in_window now w (li_accepted s)) \<union> set (in_window now w (li_rejected s))"
  let ?C = "{x \<in> live (limit_key key) now (li_store s). \<not> (0 \<le> snd x \<and> snd x \<le> now - seconds w)}"
  have "live (limit_key key) now (li_store s) \<subseteq> live (limit_key key) (li_last s) (li_store s)"
    using assms(1,3) by (simp add: zset_laws_def)
  then have "?C \<subseteq> (\<lambda>a. (str_float a, a)) ` ?W"
    using inv limiter_inv_last [OF inv] by (fastforce simp: limiter_inv_def)
  then have "card ?C \<le> card ((\<lambda>a. (str_float a, a)) ` ?W)" by (rule card_mono [rotated]) simp
  also have "\<dots> \<le> card ?W" by (rule card_image_le) simp
  also have "\<dots> \<le> length (in_window now w (li_accepted s)) + length (in_window now w (li_rejected s))"
    by (rule order_trans [OF card_Un_le add_mono]) (rule card_length)+
  finally show ?thesis using pipeline_live(1) [OF assms(1,4)] by simp
qed

text \<open>What was accepted in the window is still counted.\<close>

lemma window_counted:
  assumes "zset_laws ops live" and "limiter_inv live str_float key limit w s" and "li_last s < now"
    and "limit_pipeline ops str_float key w now (li_store s) = (c, r')"
  shows "int (length (filter (\<lambda>a. now - seconds w < a) (li_accepted s))) \<le> c"
proof -
  let ?A = "set (filter (\<lambda>a. now - seconds w < a) (li_accepted s))"
  let ?L = "live (limit_key key) now (li_store s)"
  let ?C = "{x \<in> ?L. \<not> (0 \<le> snd x \<and> snd x \<le> now - seconds w)}"
  have "(\<lambda>a. (str_float a, a)) ` ?A \<subseteq> ?C"
    using assms(2,3) by (auto simp: limiter_inv_def)
  moreover have "finite ?C" using assms(1) by (auto simp: zset_laws_def)
  ultimately have "card ((\<lambda>a. (str_float a, a)) ` ?A) \<le> card ?C" by (rule card_mono [rotated])
  moreover have "card ((\<lambda>a. (str_float a, a)) ` ?A) = card ?A" by (rule card_image) (simp add: inj_on_def)
  moreover have "card ?A = length (filter (\<lambda>a. now - seconds w < a) (li_accepted s))"
    using assms(2) by (intro distinct_card) (simp add: limiter_inv_def)
  ultimately show ?thesis using pipeline_live(1) [OF assms(1,4)] by simp
qed

lemma window_kept:
  assumes "zset_laws ops live" and "inj str_float" and "limiter_inv live str_float key limit w s"
    and "li_last s < now" and "limit_pipeline ops str_float key w now (li_store s) = (c, r')"
    and "a \<in> insert now (set (li_accepted s))" and "now \<le> u" and "u - seconds w < a"
  shows "(str_float a, a) \<in> live (limit_key key) u r'"
proof -
  have le: "a \<le> now" using limiter_inv_last [OF assms(3), of a] assms(4,6) by auto
  then have "u < now + seconds (w + 1)" using assms(8) by (simp add: seconds_def)
  note after = pipeline_live(2) [OF assms(1,5,7) this]
  show ?thesis
  proof (cases "a = now")
    case False
    then have "a \<in> set (li_accepted s)" and "str_float a \<noteq> str_float now"
      using assms(2,6) by (auto dest: injD)
    moreover from this have "(str_float a, a) \<in> live (limit_key key) now (li_store s)"
      using assms(3,4,7,8) by (simp add: limiter_inv_def)
    ultimately show ?thesis using assms(7,8) by (simp add: after)
  qed (simp add: after)
qed

lemma limit_step_inv:
  assumes "zset_laws ops live" and "inj str_float" and inv: "limiter_inv live str_float key limit w s" and "0 \<le> w"
  shows "limiter_inv live str_float key limit w (limit_step ops str_float key limit w e s)"
proof (cases e)
  case (Ask gap)
  obtain now where n: "now = li_last s + 1 + int gap" by blast
  then have later: "li_last s < now" by simp
  obtain c r' where p: "limit_pipeline ops str_float key w now (li_store s) = (c, r')" by fastforce
  note kept = window_kept [OF assms(1,2) inv later p] and counted = window_counted [OF assms(1) inv later p]
  have old: "0 \<le> a \<and> a < now \<and> a \<le> now" if "a \<in> set (li_accepted s) \<union> set (li_rejected s)" for a
    using limiter_inv_last [OF inv that] later by simp
  have "live (limit_key key) now (li_store s) \<subseteq> live (limit_key key) (li_last s) (li_store s)"
    using assms(1) later by (simp add: zset_laws_def)
  moreover have "now < now + seconds (w + 1)" using assms(4) by (simp add: seconds_def)
  then have "live (limit_key key) now r' \<subseteq> insert (str_float now, now) (live (limit_key key) now (li_store s))"
    using pipeline_live(2) [OF assms(1) p order_refl] by auto
  ultimately have shown: "live (limit_key key) now r'
      \<subseteq> insert (str_float now, now) (live (limit_key key) (li_last s) (li_store s))"
    by blast
  have first: "0 \<le> now" using inv later by (simp add: limiter_inv_def)
  show ?thesis
  proof (cases "limit \<le> c")
    case True
    with Ask p have "limit_step ops str_float key limit w e s =
        s \<lparr> li_store := r', li_last := now, li_rejected := now # li_rejected s \<rparr>"
      by (simp add: limit_step_def n [symmetric])
    moreover have "now \<notin> set (li_accepted s) \<union> set (li_rejected s)" using old by blast
    ultimately show ?thesis using inv kept old shown first unfolding limiter_inv_def by auto
  next
    case False
    with Ask p have step: "limit_step ops str_float key limit w e s =
        s \<lparr> li_store := r', li_last := now, li_accepted := now # li_accepted s \<rparr>"
      by (simp add: limit_step_def n [symmetric])
    have "length (filter (\<lambda>a. now - seconds w < a) (li_accepted s)) < nat limit"
      using counted False by (simp add: zless_nat_eq_int_zless)
    then have "length (filter (\<lambda>a. now - seconds w < a) (now # li_accepted s)) \<le> nat limit"
      by simp
    moreover have "now \<notin> set (li_accepted s) \<union> set (li_rejected s)" using old by blast
    ultimately show ?thesis using inv kept old shown first unfolding step limiter_inv_def by auto
  qed
next
  case (Retract t)
  show ?thesis
  proof (cases "t \<in> set (li_rejected s)")
    case True
    have "str_float a \<noteq> str_float t" if "a \<in> set (li_accepted s)" for a
      using assms(2) inv True that by (auto simp: limiter_inv_def dest: injD)
    moreover have removed: "live (limit_key key) u (zrem ops (limit_key key) (str_float t) (li_last s) (li_store s))
        = {x \<in> live (limit_key key) u (li_store s). fst x \<noteq> str_float t}" if "li_last s \<le> u" for u
      using assms(1) that by (simp add: zset_laws_def)
    moreover have "live (limit_key key) (li_last s)
        (zrem ops (limit_key key) (str_float t) (li_last s) (li_store s))
        \<subseteq> (\<lambda>a. (str_float a, a)) ` (set (li_accepted s) \<union> (set (li_rejected s) - {t}))"
      using inv unfolding removed [OF order_refl] limiter_inv_def by auto blast
    moreover have "distinct (removeAll t (li_rejected s))"
      using inv by (simp add: removeAll_filter_not_eq limiter_inv_def)
    ultimately show ?thesis
      using Retract True inv by (auto simp: limit_step_def limiter_inv_def retract_def)
  qed (use Retract inv in \<open>simp add: limit_step_def\<close>)
qed

definition idle :: "'r \<Rightarrow> time \<Rightarrow> 'r limiter" where
  "idle r t = \<lparr> li_store = r, li_last = t, li_accepted = [], li_rejected = [] \<rparr>"

lemma limiter_run_inv:
  assumes "zset_laws ops live" and "inj str_float" and "0 \<le> w" and "0 \<le> t0"
    and "live (limit_key key) t0 r = {}"
  shows "limiter_inv live str_float key limit w (run (limit_step ops str_float key limit w) es (idle r t0))"
proof -
  have "invariant_machine (limit_step ops str_float key limit w) (limiter_inv live str_float key limit w)"
    by unfold_locales (rule limit_step_inv [OF assms(1,2) _ assms(3)])
  moreover have "limiter_inv live str_float key limit w (idle r t0)"
    using assms(4,5) by (simp add: limiter_inv_def idle_def)
  ultimately show ?thesis by (rule invariant_machine.run_inv)
qed

lemma window_ok_suffix: "window_ok limit w (xs @ t # ys) \<Longrightarrow> length (filter (\<lambda>a. t - w < a) (t # ys)) \<le> limit"
  by (induction xs) auto


text \<open>The instance: a store of rows whose keys outlive their time, and a text for every time.\<close>

type_synonym rows = "(string \<times> string \<times> time) list"

definition rows_ops :: "rows zset_ops" where
  "rows_ops =
     \<lparr> zremrangebyscore = (\<lambda>k lo hi _. filter (\<lambda>(k', m, s). k' \<noteq> k \<or> \<not> (lo \<le> s \<and> s \<le> hi))),
       zcard = (\<lambda>k _ r. int (card (set (map snd (filter (\<lambda>x. fst x = k) r))))),
       zadd = (\<lambda>k m s _ r. (k, m, s) # filter (\<lambda>(k', m', s'). k' \<noteq> k \<or> m' \<noteq> m) r),
       zexpire = (\<lambda>_ _ _ r. r),
       zrem = (\<lambda>k m _. filter (\<lambda>(k', m', s). k' \<noteq> k \<or> m' \<noteq> m)) \<rparr>"

definition rows_live :: "string \<Rightarrow> time \<Rightarrow> rows \<Rightarrow> (string \<times> time) set" where
  "rows_live k t r = set (map snd (filter (\<lambda>x. fst x = k) r))"

lemma rows_laws: "zset_laws rows_ops rows_live"
  by (auto simp: zset_laws_def rows_ops_def rows_live_def image_iff split: if_splits)

definition unary :: "time \<Rightarrow> string" where
  "unary t = (if t < 0 then ''-'' else ''+'') @ replicate (nat \<bar>t\<bar>) (CHR ''1'')"

lemma inj_unary: "inj unary"
proof (rule injI)
  fix t u :: int
  assume "unary t = unary u"
  then have "hd (unary t) = hd (unary u)" and "length (unary t) = length (unary u)" by simp_all
  then show "t = u" by (auto simp: unary_def split: if_splits)
qed


text \<open>
  Two requests at the same instant share one member: the rejection of the second removes the entry
  of the first, and a third request is admitted within the window of a limit of one.
\<close>

lemma same_instant_forgets_request:
  "case is_allowed rows_ops unary ''ip:1'' 1 60 5 5 [] of (first, r1) \<Rightarrow>
   case is_allowed rows_ops unary ''ip:1'' 1 60 5 5 r1 of (second, r2) \<Rightarrow>
   case is_allowed rows_ops unary ''ip:1'' 1 60 6 6 r2 of (third, _) \<Rightarrow>
     is_ok first \<and> \<not> is_ok second \<and> is_ok third"
  by code_simp

end
