(* ===== verification/AFM_Platform.thy ===== *)
theory AFM_Platform
  imports AFM_Security
begin

text \<open>
  \<^verbatim>\<open>platform_manager/platform_service.py\<close> and its two routes: platforms, their API keys, and the
  rotation of a key.  The random source is part of the environment.
\<close>

section \<open>Rows\<close>

record platform =
  pf_id :: uuid
  pf_name :: string
  pf_contact_email :: string
  pf_webhook_url :: "string option"
  pf_is_active :: bool
  pf_created_at :: time

record api_key =
  ak_id :: uuid
  ak_platform_id :: uuid
  ak_key_value :: string
  ak_secret_hash :: string
  ak_is_active :: bool
  ak_expires_at :: "time option"
  ak_created_at :: time
  ak_revoked_at :: "time option"

record platform_db =
  pd_platforms :: "platform list"
  pd_keys :: "api_key list"

record platform_env =
  pe_now :: time
  pe_fresh_platform :: uuid
  pe_fresh_key :: uuid
  pe_key_random :: string
  pe_secret_random :: string

section \<open>The service\<close>

definition KEY_VALIDITY_DAYS :: int where
  "KEY_VALIDITY_DAYS = 90"

record issued_key =
  ik_api_key :: string
  ik_api_secret :: string
  ik_expires_at :: string

definition new_api_key :: "platform_env \<Rightarrow> uuid \<Rightarrow> api_key" where
  "new_api_key env platform_id =
     \<lparr> ak_id = pe_fresh_key env, ak_platform_id = platform_id,
       ak_key_value = generate_api_key (pe_key_random env), ak_secret_hash = generate_api_secret (pe_secret_random env),
       ak_is_active = True, ak_expires_at = Some (pe_now env + days KEY_VALIDITY_DAYS),
       ak_created_at = pe_now env, ak_revoked_at = None \<rparr>"

definition issued :: "api_key \<Rightarrow> issued_key" where
  "issued k = \<lparr> ik_api_key = ak_key_value k, ik_api_secret = ak_secret_hash k,
                ik_expires_at = isoformat (the (ak_expires_at k)) \<rparr>"

text \<open>
  The insert of a key: its id and its value are unique and its platform exists.
\<close>

definition add_key :: "api_key \<Rightarrow> platform_db \<Rightarrow> platform_db option" where
  "add_key k d =
     (if ak_platform_id k \<notin> pf_id ` set (pd_platforms d) \<or> ak_id k \<in> ak_id ` set (pd_keys d) then None
      else map_option (\<lambda>rows. d \<lparr> pd_keys := rows \<rparr>) (row_insert ak_key_value k (pd_keys d)))"

definition onboard_platform ::
  "platform_env \<Rightarrow> string \<Rightarrow> string \<Rightarrow> string option \<Rightarrow> platform_db
   \<Rightarrow> (exn + uuid \<times> issued_key) \<times> platform_db" where
  "onboard_platform env name contact_email webhook_url d =
     (let p = \<lparr> pf_id = pe_fresh_platform env, pf_name = name, pf_contact_email = contact_email,
                pf_webhook_url = webhook_url, pf_is_active = True, pf_created_at = pe_now env \<rparr> in
      case row_insert pf_id p (pd_platforms d) of
        None \<Rightarrow> (Inl IntegrityError, d)
      | Some rows \<Rightarrow>
          let k = new_api_key env (pf_id p) in
          (case add_key k (d \<lparr> pd_platforms := rows \<rparr>) of
             None \<Rightarrow> (Inl IntegrityError, d)
           | Some d' \<Rightarrow> (Inr (pf_id p, issued k), d')))"

text \<open>The update that revokes the active keys of a platform.\<close>

definition revoke_keys :: "time \<Rightarrow> uuid \<Rightarrow> api_key list \<Rightarrow> api_key list" where
  "revoke_keys now platform_id =
     map (\<lambda>k. if ak_platform_id k = platform_id \<and> ak_is_active k
              then k \<lparr> ak_is_active := False, ak_revoked_at := Some now \<rparr> else k)"

definition rotate_key :: "platform_env \<Rightarrow> string \<Rightarrow> platform_db \<Rightarrow> (exn + issued_key) \<times> platform_db" where
  "rotate_key env platform_id d =
     (case parse_uuid platform_id of
        Inl e \<Rightarrow> (Inl e, d)
      | Inr pid \<Rightarrow>
          let k = new_api_key env pid in
          (case add_key k (d \<lparr> pd_keys := revoke_keys (pe_now env) pid (pd_keys d) \<rparr>) of
             None \<Rightarrow> (Inl IntegrityError, d)
           | Some d' \<Rightarrow> (Inr (issued k), d')))"

definition validate_key :: "time \<Rightarrow> string \<Rightarrow> platform_db \<Rightarrow> exn + platform" where
  "validate_key now key_value d =
     bindE (scalar_one_or_none (filter (\<lambda>k. ak_key_value k = key_value \<and> ak_is_active k) (pd_keys d)))
       (\<lambda>found. case found of
          None \<Rightarrow> Inl (raise NotFoundError ''Invalid API key'')
        | Some k \<Rightarrow>
            if (case ak_expires_at k of None \<Rightarrow> False | Some t \<Rightarrow> t < now)
            then Inl (raise APIKeyExpiredError (''API key expired on '' @ isoformat (the (ak_expires_at k))))
            else bindE (scalar_one_or_none (filter (\<lambda>p. pf_id p = ak_platform_id k) (pd_platforms d)))
              (\<lambda>platform. case platform of
                 None \<Rightarrow> Inl (raise NotFoundError ''Platform not found or inactive'')
               | Some p \<Rightarrow> if pf_is_active p then Inr p
                           else Inl (raise NotFoundError ''Platform not found or inactive'')))"

section \<open>The routes\<close>

text \<open>An error of the token's decoding is answered with its text.\<close>

definition get_current_user ::
  "(string \<Rightarrow> string \<Rightarrow> time \<Rightarrow> jwt_result) \<Rightarrow> settings \<Rightarrow> time \<Rightarrow> string option \<Rightarrow> exn + jobj" where
  "get_current_user jwt_decode st now authorization =
     (let auth = (case authorization of None \<Rightarrow> '''' | Some s \<Rightarrow> s) in
      if \<not> starts_with ''Bearer '' auth then Inl (HTTPException 401 ''Missing bearer token'')
      else case decode_token jwt_decode st now (drop 7 auth) of
        Inr payload \<Rightarrow> Inr payload
      | Inl e \<Rightarrow> Inl (HTTPException 401 (exn_str e)))"

text \<open>A text column takes text only, and a required one no null.\<close>

definition text_column :: "json \<Rightarrow> exn + string option" where
  "text_column v = (case v of JNull \<Rightarrow> Inr None | JStr s \<Rightarrow> Inr (Some s) | _ \<Rightarrow> Inl (RuntimeError ''DataError''))"

definition required_column :: "json \<Rightarrow> exn + string" where
  "required_column v =
     bindE (text_column v) (\<lambda>t. case t of None \<Rightarrow> Inl IntegrityError | Some s \<Rightarrow> Inr s)"

definition onboard_platform_route ::
  "platform_env \<Rightarrow> json \<Rightarrow> platform_db \<Rightarrow> (exn + uuid \<times> issued_key) \<times> platform_db" where
  "onboard_platform_route env data d =
     (case bindE (json_key ''name'' data) (\<lambda>name. bindE (json_key ''contact_email'' data) (\<lambda>email.
             bindE (required_column name) (\<lambda>name. bindE (required_column email) (\<lambda>email.
             bindE (text_column (case data of JObj kvs \<Rightarrow> jget ''webhook_url'' kvs | _ \<Rightarrow> JNull)) (\<lambda>url.
             Inr (name, email, url)))))) of
        Inl e \<Rightarrow> (Inl e, d)
      | Inr (name, email, url) \<Rightarrow> onboard_platform env name email url d)"

definition rotate_api_key ::
  "(string \<Rightarrow> string \<Rightarrow> time \<Rightarrow> jwt_result) \<Rightarrow> settings \<Rightarrow> platform_env \<Rightarrow> string option \<Rightarrow> string
   \<Rightarrow> platform_db \<Rightarrow> (exn + issued_key) \<times> platform_db" where
  "rotate_api_key jwt_decode st env authorization platform_id d =
     (case get_current_user jwt_decode st (pe_now env) authorization of
        Inl e \<Rightarrow> (Inl e, d)
      | Inr _ \<Rightarrow> rotate_key env platform_id d)"

section \<open>One active key for each platform\<close>

datatype platform_event =
    Onboard platform_env string string "string option"
  | Rotate platform_env string

fun platform_step :: "platform_event \<Rightarrow> platform_db \<Rightarrow> platform_db" where
  "platform_step (Onboard env name email url) d = snd (onboard_platform env name email url d)"
| "platform_step (Rotate env platform_id) d = snd (rotate_key env platform_id d)"

definition one_active_each :: "api_key list \<Rightarrow> bool" where
  "one_active_each ks \<longleftrightarrow>
     (\<forall>k \<in> set ks. \<forall>k' \<in> set ks.
        ak_is_active k \<and> ak_is_active k' \<and> ak_platform_id k = ak_platform_id k' \<longrightarrow> ak_id k = ak_id k')"

definition platform_ok :: "platform_db \<Rightarrow> bool" where
  "platform_ok d \<longleftrightarrow>
     distinct (map pf_id (pd_platforms d)) \<and> distinct (map ak_id (pd_keys d))
   \<and> distinct (map ak_key_value (pd_keys d))
   \<and> ak_platform_id ` set (pd_keys d) \<subseteq> pf_id ` set (pd_platforms d)
   \<and> one_active_each (pd_keys d)"

lemma revoke_columns [simp]:
  "map ak_id (revoke_keys now p ks) = map ak_id ks"
  "map ak_key_value (revoke_keys now p ks) = map ak_key_value ks"
  "map ak_platform_id (revoke_keys now p ks) = map ak_platform_id ks"
  by (simp_all add: revoke_keys_def)

lemma revoke_images [simp]:
  "ak_id ` set (revoke_keys now p ks) = ak_id ` set ks"
  "ak_key_value ` set (revoke_keys now p ks) = ak_key_value ` set ks"
  "ak_platform_id ` set (revoke_keys now p ks) = ak_platform_id ` set ks"
  by (simp_all only: revoke_columns flip: set_map)

lemma revoke_active:
  "k \<in> set (revoke_keys now p ks) \<Longrightarrow> ak_is_active k \<Longrightarrow> k \<in> set ks \<and> ak_platform_id k \<noteq> p"
  by (auto simp: revoke_keys_def split: if_splits)

lemma revoke_ok: "platform_ok d \<Longrightarrow> platform_ok (d \<lparr> pd_keys := revoke_keys now p (pd_keys d) \<rparr>)"
  unfolding platform_ok_def one_active_each_def by (auto dest!: revoke_active)

lemma add_key_SomeD:
  assumes "add_key k d = Some d'"
  shows "ak_platform_id k \<in> pf_id ` set (pd_platforms d)" and "ak_id k \<notin> ak_id ` set (pd_keys d)"
    and "ak_key_value k \<notin> ak_key_value ` set (pd_keys d)" and "d' = d \<lparr> pd_keys := pd_keys d @ [k] \<rparr>"
  using assms by (auto simp: add_key_def row_insert_def split: if_splits)

lemma add_key_ok:
  assumes "platform_ok d" and "add_key k d = Some d'"
    and "\<And>k'. k' \<in> set (pd_keys d) \<Longrightarrow> ak_is_active k' \<Longrightarrow> ak_platform_id k' \<noteq> ak_platform_id k"
  shows "platform_ok d'"
proof -
  note new = add_key_SomeD [OF assms(2)]
  have "one_active_each (pd_keys d @ [k])"
    unfolding one_active_each_def
  proof (intro ballI impI)
    fix a b
    assume ab: "a \<in> set (pd_keys d @ [k])" "b \<in> set (pd_keys d @ [k])"
      "ak_is_active a \<and> ak_is_active b \<and> ak_platform_id a = ak_platform_id b"
    have old: "one_active_each (pd_keys d)" using assms(1) by (simp add: platform_ok_def)
    consider "a = k" "b = k" | "a \<in> set (pd_keys d)" "b \<in> set (pd_keys d)"
      | "a \<in> set (pd_keys d)" "b = k" | "a = k" "b \<in> set (pd_keys d)" using ab by auto
    then show "ak_id a = ak_id b"
    proof cases
      case 2 with ab(3) old show ?thesis unfolding one_active_each_def by blast
    next
      case 3 with ab(3) assms(3) [of a] show ?thesis by simp
    next
      case 4 with ab(3) assms(3) [of b] show ?thesis by simp
    qed simp
  qed
  then show ?thesis using assms(1) new(1-3) unfolding platform_ok_def new(4) by simp
qed

text \<open>What a successful call does.\<close>

lemma rotate_key_InrD:
  assumes "rotate_key env platform_id d = (Inr answer, d')"
  obtains pid where "parse_uuid platform_id = Inr pid" and "answer = issued (new_api_key env pid)"
    and "add_key (new_api_key env pid) (d \<lparr> pd_keys := revoke_keys (pe_now env) pid (pd_keys d) \<rparr>) = Some d'"
  using assms by (auto simp: rotate_key_def Let_def split: sum.splits option.splits)

lemma rotate_key_InlD: "rotate_key env platform_id d = (Inl e, d') \<Longrightarrow> d' = d"
  by (auto simp: rotate_key_def Let_def split: sum.splits option.splits)

lemma rotate_ok:
  assumes "platform_ok d"
  shows "platform_ok (snd (rotate_key env platform_id d))"
proof (cases "rotate_key env platform_id d")
  case (Pair res d')
  show ?thesis
  proof (cases res)
    case (Inl e)
    then show ?thesis using Pair rotate_key_InlD [of env platform_id d e d'] assms by simp
  next
    case (Inr answer)
    with Pair obtain pid where
      "add_key (new_api_key env pid) (d \<lparr> pd_keys := revoke_keys (pe_now env) pid (pd_keys d) \<rparr>) = Some d'"
      by (auto elim: rotate_key_InrD)
    from add_key_ok [OF revoke_ok [OF assms] this] Pair show ?thesis
      by (auto simp: new_api_key_def dest: revoke_active)
  qed
qed

lemma onboard_ok:
  assumes "platform_ok d"
  shows "platform_ok (snd (onboard_platform env name email url d))"
proof (cases "onboard_platform env name email url d = (Inl IntegrityError, d)")
  case False
  then obtain p rows d' where p: "row_insert pf_id p (pd_platforms d) = Some rows" "pf_id p = pe_fresh_platform env"
    and add: "add_key (new_api_key env (pf_id p)) (d \<lparr> pd_platforms := rows \<rparr>) = Some d'"
    and d': "snd (onboard_platform env name email url d) = d'"
    by (auto simp: onboard_platform_def Let_def split: option.splits)
  then have fresh: "pf_id p \<notin> pf_id ` set (pd_platforms d)" and "rows = pd_platforms d @ [p]"
    by (auto simp: row_insert_def split: if_splits)
  with assms have "platform_ok (d \<lparr> pd_platforms := rows \<rparr>)"
    unfolding platform_ok_def by (simp add: subset_insertI2)
  moreover have others: "ak_platform_id k \<noteq> pf_id p" if "k \<in> set (pd_keys d)" for k
  proof -
    have "ak_platform_id k \<in> pf_id ` set (pd_platforms d)"
      using assms that by (simp add: platform_ok_def image_subset_iff)
    with fresh show ?thesis by metis
  qed
  ultimately have "platform_ok d'"
    using add_key_ok [OF _ add] by (simp add: new_api_key_def)
  then show ?thesis by (simp only: d')
qed (simp add: assms)

definition revoked :: "string \<Rightarrow> platform_db \<Rightarrow> bool" where
  "revoked v d \<longleftrightarrow> (\<exists>k \<in> set (pd_keys d). ak_key_value k = v \<and> \<not> ak_is_active k)"

lemma add_key_revoked: "add_key k d1 = Some d' \<Longrightarrow> revoked v d1 \<Longrightarrow> revoked v d'"
  using add_key_SomeD(4) [of k d1 d'] by (auto simp: revoked_def)

lemma revoke_revoked: "revoked v d \<Longrightarrow> revoked v (d \<lparr> pd_keys := revoke_keys now p (pd_keys d) \<rparr>)"
  by (force simp: revoked_def revoke_keys_def)

lemma platforms_revoked [simp]: "revoked v (d \<lparr> pd_platforms := rows \<rparr>) = revoked v d"
  by (simp add: revoked_def)

lemma revoke_revokes:
  assumes "k \<in> set ks" and "ak_platform_id k = p"
  shows "\<exists>k' \<in> set (revoke_keys now p ks). ak_key_value k' = ak_key_value k \<and> \<not> ak_is_active k'"
proof -
  let ?k = "if ak_is_active k then k \<lparr> ak_is_active := False, ak_revoked_at := Some now \<rparr> else k"
  have "?k \<in> set (revoke_keys now p ks)"
    unfolding revoke_keys_def set_map using assms by (intro image_eqI [of _ _ k]) simp_all
  then show ?thesis by (rule bexI [rotated]) simp
qed

lemma rotate_revoked: "revoked v d \<Longrightarrow> revoked v (snd (rotate_key env platform_id d))"
  by (auto simp: rotate_key_def Let_def revoke_revoked split: sum.split option.split elim!: add_key_revoked)

lemma onboard_revoked: "revoked v d \<Longrightarrow> revoked v (snd (onboard_platform env name email url d))"
  by (auto simp: onboard_platform_def Let_def split: option.split elim!: add_key_revoked)

lemma revoked_step: "revoked v d \<Longrightarrow> revoked v (platform_step e d)"
  by (cases e) (simp_all add: rotate_revoked onboard_revoked)

interpretation platforms: invariant_machine platform_step platform_ok
  by unfold_locales (case_tac i; simp add: onboard_ok rotate_ok)

interpretation revocation: absorbing_machine platform_step platform_ok
    "\<lambda>d. if revoked v d then Some () else None" for v
  by unfold_locales (auto simp: revoked_step split: if_splits)

lemma validate_revoked:
  assumes "platform_ok d" and "revoked v d"
  shows "validate_key t v d = Inl (raise NotFoundError ''Invalid API key'')"
proof -
  obtain k where k: "k \<in> set (pd_keys d)" "ak_key_value k = v" "\<not> ak_is_active k"
    using assms(2) by (auto simp: revoked_def)
  have "filter (\<lambda>x. ak_key_value x = v) (pd_keys d) = [k]"
    using assms(1) k(1,2) by (simp add: distinct_filter_key platform_ok_def)
  then have "filter (\<lambda>x. ak_key_value x = v \<and> ak_is_active x) (pd_keys d) = []"
    using k(3) by (simp flip: filter_filter [where P = ak_is_active])
  then show ?thesis by (simp add: validate_key_def scalar_one_or_none_def)
qed

lemma validate_active:
  assumes "platform_ok d" and "k \<in> set (pd_keys d)" and "ak_is_active k" and "p \<in> set (pd_platforms d)"
    and "pf_id p = ak_platform_id k" and "pf_is_active p" and "\<And>u. ak_expires_at k = Some u \<Longrightarrow> t \<le> u"
  shows "validate_key t (ak_key_value k) d = Inr p"
proof -
  have "filter (\<lambda>x. ak_key_value x = ak_key_value k) (pd_keys d) = [k]"
    using assms(1,2) by (simp add: distinct_filter_key platform_ok_def)
  then have "filter (\<lambda>x. ak_key_value x = ak_key_value k \<and> ak_is_active x) (pd_keys d) = [k]"
    using assms(3) by (simp flip: filter_filter [where P = ak_is_active])
  moreover have "filter (\<lambda>x. pf_id x = ak_platform_id k) (pd_platforms d) = [p]"
    using assms(1,4,5) by (simp add: distinct_filter_key platform_ok_def)
  ultimately show ?thesis
    using assms(6,7) by (auto simp: validate_key_def scalar_one_or_none_def not_less split: option.splits)
qed

text \<open>
  Claim C35. Rotation replaces a platform's key for good: after a successful rotation every key the
  platform had before is refused, then and after any later onboardings and rotations of any
  platform, at every time; the new key authenticates its platform, when that is active, for
  ninety days; and at every moment a platform has at most one active key.
\<close>

theorem rotation_revokes_old_keys:
  assumes "platform_ok d" and "rotate_key env platform_id d = (Inr answer, d1)"
  shows "\<exists>pid. parse_uuid platform_id = Inr pid
    \<and> (\<forall>es. platform_ok (run platform_step es d1)
         \<and> (\<forall>k \<in> set (pd_keys d). ak_platform_id k = pid \<longrightarrow>
              (\<forall>t. validate_key t (ak_key_value k) (run platform_step es d1)
                     = Inl (raise NotFoundError ''Invalid API key''))))
    \<and> (\<forall>p \<in> set (pd_platforms d). pf_id p = pid \<longrightarrow> pf_is_active p \<longrightarrow>
         (\<forall>t \<le> pe_now env + days 90. validate_key t (ik_api_key answer) d1 = Inr p))"
proof -
  obtain pid where pid: "parse_uuid platform_id = Inr pid" and answer: "answer = issued (new_api_key env pid)"
    and add: "add_key (new_api_key env pid) (d \<lparr> pd_keys := revoke_keys (pe_now env) pid (pd_keys d) \<rparr>) = Some d1"
    by (rule rotate_key_InrD [OF assms(2)])
  have ok: "platform_ok d1" using rotate_ok [OF assms(1), of env platform_id] assms(2) by simp
  have d1: "d1 = d \<lparr> pd_keys := revoke_keys (pe_now env) pid (pd_keys d) @ [new_api_key env pid] \<rparr>"
    using add_key_SomeD(4) [OF add] by simp
  have "validate_key t (ak_key_value k) (run platform_step es d1) = Inl (raise NotFoundError ''Invalid API key'')"
    if "k \<in> set (pd_keys d)" "ak_platform_id k = pid" for k t es
  proof (rule validate_revoked [OF platforms.run_inv [OF ok]])
    have "revoked (ak_key_value k) d1"
      using revoke_revokes [OF that, of "pe_now env"] by (auto simp: d1 revoked_def)
    then show "revoked (ak_key_value k) (run platform_step es d1)"
      using revocation.run_final [OF ok, of "ak_key_value k" "()" es] by (simp split: if_splits)
  qed
  moreover have "validate_key t (ik_api_key answer) d1 = Inr p"
    if "p \<in> set (pd_platforms d)" "pf_id p = pid" "pf_is_active p" "t \<le> pe_now env + days 90" for p t
    using validate_active [OF ok, of "new_api_key env pid" p t] that
    by (simp add: answer issued_def d1 new_api_key_def KEY_VALIDITY_DAYS_def)
  ultimately show ?thesis using pid platforms.run_inv [OF ok] by (intro exI [of _ pid] conjI allI ballI impI) simp_all
qed

definition sample_platform_env :: "uuid \<Rightarrow> string \<Rightarrow> platform_env" where
  "sample_platform_env i r =
     \<lparr> pe_now = 0, pe_fresh_platform = ''12345678-1234-1234-1234-123456789012'', pe_fresh_key = i,
       pe_key_random = r, pe_secret_random = r \<rparr>"

definition sample_platforms :: platform_db where
  "sample_platforms =
     snd (onboard_platform (sample_platform_env ''k1'' ''aaa'') ''p'' ''p@example.org'' None
            \<lparr> pd_platforms = [], pd_keys = [] \<rparr>)"

lemma rotation_revokes_old_keys_witness:
  "\<exists>answer d1. rotate_key (sample_platform_env ''k2'' ''bbb'') ''12345678-1234-1234-1234-123456789012'' sample_platforms
       = (Inr answer, d1)
     \<and> validate_key 5 ''afm_live_aaa'' d1 = Inl (raise NotFoundError ''Invalid API key'')"
proof -
  let ?rotate = "rotate_key (sample_platform_env ''k2'' ''bbb'') ''12345678-1234-1234-1234-123456789012'' sample_platforms"
  have ok: "platform_ok sample_platforms" unfolding sample_platforms_def
    by (rule onboard_ok) (simp add: platform_ok_def one_active_each_def)
  have "is_ok (fst ?rotate)" by code_simp
  then obtain answer d1 where r: "?rotate = (Inr answer, d1)" by (cases ?rotate) (auto simp: is_ok_iff)
  have key: "map (\<lambda>k. (ak_key_value k, ak_platform_id k)) (pd_keys sample_platforms)
      = [(''afm_live_aaa'', ''12345678-1234-1234-1234-123456789012'')]"
    and pid: "parse_uuid ''12345678-1234-1234-1234-123456789012'' = Inr ''12345678-1234-1234-1234-123456789012''"
    by code_simp+
  obtain k where "k \<in> set (pd_keys sample_platforms)" "ak_key_value k = ''afm_live_aaa''"
    "ak_platform_id k = ''12345678-1234-1234-1234-123456789012''"
    using key by (cases "pd_keys sample_platforms") auto
  moreover obtain p where "parse_uuid ''12345678-1234-1234-1234-123456789012'' = Inr p"
    "\<forall>k \<in> set (pd_keys sample_platforms). ak_platform_id k = p \<longrightarrow>
       (\<forall>t. validate_key t (ak_key_value k) (run platform_step [] d1) = Inl (raise NotFoundError ''Invalid API key''))"
    using rotation_revokes_old_keys [OF ok r] by blast
  ultimately have "validate_key 5 ''afm_live_aaa'' (run platform_step [] d1) = Inl (raise NotFoundError ''Invalid API key'')"
    unfolding pid by (metis sum.inject(2))
  then show ?thesis using r by simp
qed

text \<open>
  Two weak points of the routes: any valid token rotates the key of any platform, a refresh token
  included, and the stored secret is the secret itself.
\<close>

lemma any_token_rotates_any_key:
  assumes "jwt_decode token (secret_key st) (pe_now env) = JwtClaims claims"
  shows "rotate_api_key jwt_decode st env (Some (''Bearer '' @ token)) platform_id d = rotate_key env platform_id d"
  using assms by (simp add: rotate_api_key_def get_current_user_def decode_token_def starts_with_def)

lemma secret_stored_as_it_is: "ik_api_secret (issued k) = ak_secret_hash k"
  by (simp add: issued_def)

end
