(* ===== verification/AFM_Alpaca.thy ===== *)
theory AFM_Alpaca
  imports AFM_Http
begin

text \<open>
  \<^verbatim>\<open>market_gateway/alpaca_broker.py\<close> and \<^verbatim>\<open>market_gateway/alpaca_trading.py\<close>: the broker client with
  its cached access token, and the trading client that only reads.  The services are parameters;
  the query parameters of a request are listed in its body as form items.
\<close>

section \<open>Answers\<close>

text \<open>\<^verbatim>\<open>raise_for_status\<close> and \<^verbatim>\<open>json()\<close>; an empty answer is \<^verbatim>\<open>None\<close> where the client says so.\<close>

definition read_json :: "http_result \<Rightarrow> exn + json" where
  "read_json answer =
     (case answer of
        TransportError \<Rightarrow> Inl HTTPError
      | Response status txt parsed \<Rightarrow>
          if \<not> is_success status then Inl HTTPError
          else case parsed of None \<Rightarrow> Inl (ValueError ''json'') | Some v \<Rightarrow> Inr v)"

definition read_json_or_none :: "http_result \<Rightarrow> exn + json" where
  "read_json_or_none answer =
     (case answer of
        TransportError \<Rightarrow> Inl HTTPError
      | Response status txt parsed \<Rightarrow>
          if \<not> is_success status then Inl HTTPError
          else if status = 204 \<or> txt = [] then Inr JNull
          else case parsed of None \<Rightarrow> Inl (ValueError ''json'') | Some v \<Rightarrow> Inr v)"

section \<open>The broker client\<close>

record alpaca_state =
  at_access_token :: "string option"
  at_token_expires_at :: time

definition alpaca_start :: alpaca_state where
  "alpaca_start = \<lparr> at_access_token = None, at_token_expires_at = 0 \<rparr>"

definition broker_configured :: "settings \<Rightarrow> bool" where
  "broker_configured st \<longleftrightarrow> is_set (alpaca_api_key st) \<and> is_set (alpaca_secret_key st)"

definition token_request :: "settings \<Rightarrow> http_request" where
  "token_request st =
     \<lparr> rq_method = ''POST'', rq_url = alpaca_auth_url st,
       rq_headers = [(''Content-Type'', ''application/x-www-form-urlencoded'')],
       rq_body = FormBody [(''grant_type'', JStr ''client_credentials''),
         (''client_id'', jopt (alpaca_api_key st)), (''client_secret'', jopt (alpaca_secret_key st))] \<rparr>"

text \<open>
  The token is stored before its lifetime is read, so an unreadable lifetime leaves the new token
  with the old expiry.  The service's token is text.
\<close>

definition fetch_token :: "settings \<Rightarrow> http \<Rightarrow> time \<Rightarrow> alpaca_state \<Rightarrow> (exn + string) \<times> alpaca_state" where
  "fetch_token st h now s =
     (if \<not> broker_configured st then (Inl (RuntimeError ''Alpaca Broker credentials are not configured''), s)
      else case bindE (read_json (h (token_request st))) (\<lambda>payload.
                bindE (json_key ''access_token'' payload) (\<lambda>tok.
                Inr (tok, case payload of JObj kvs \<Rightarrow> jget_default (JInt 300) ''expires_in'' kvs | _ \<Rightarrow> JNull))) of
        Inl e \<Rightarrow> (Inl e, s)
      | Inr (tok, expires_in) \<Rightarrow>
          let s1 = s \<lparr> at_access_token := (if tok = JNull then None else Some (py_str tok)) \<rparr> in
          (case py_int expires_in of
             Inl e \<Rightarrow> (Inl e, s1)
           | Inr n \<Rightarrow> (Inr (py_str tok), s1 \<lparr> at_token_expires_at := now + seconds n - seconds 60 \<rparr>)))"

definition broker_token :: "settings \<Rightarrow> http \<Rightarrow> time \<Rightarrow> alpaca_state \<Rightarrow> (exn + string) \<times> alpaca_state" where
  "broker_token st h now s =
     (case at_access_token s of
        None \<Rightarrow> fetch_token st h now s
      | Some tok \<Rightarrow> if at_token_expires_at s \<le> now then fetch_token st h now s else (Inr tok, s))"

definition broker_http :: "settings \<Rightarrow> string \<Rightarrow> string \<Rightarrow> string \<Rightarrow> body \<Rightarrow> http_request" where
  "broker_http st tok meth path b =
     \<lparr> rq_method = meth, rq_url = rstrip_char (CHR ''/'') (alpaca_broker_base_url st) @ path,
       rq_headers = [(''Authorization'', ''Bearer '' @ tok)], rq_body = b \<rparr>"

definition broker_request ::
  "settings \<Rightarrow> http \<Rightarrow> time \<Rightarrow> string \<Rightarrow> string \<Rightarrow> body \<Rightarrow> alpaca_state \<Rightarrow> (exn + json) \<times> alpaca_state" where
  "broker_request st h now meth path b s =
     (case broker_token st h now s of
        (Inl e, s1) \<Rightarrow> (Inl e, s1)
      | (Inr tok, s1) \<Rightarrow>
          (read_json_or_none (h (broker_http st tok meth path b)), s1))"

definition broker_market_data_request ::
  "settings \<Rightarrow> http \<Rightarrow> time \<Rightarrow> string \<Rightarrow> string \<Rightarrow> body \<Rightarrow> alpaca_state \<Rightarrow> (exn + json) \<times> alpaca_state" where
  "broker_market_data_request st h now meth path b s =
     (case broker_token st h now s of
        (Inl e, s1) \<Rightarrow> (Inl e, s1)
      | (Inr tok, s1) \<Rightarrow>
          (read_json (h \<lparr> rq_method = meth,
             rq_url = rstrip_char (CHR ''/'') (alpaca_market_data_base_url st) @ path,
             rq_headers = [(''Authorization'', ''Bearer '' @ tok)], rq_body = b \<rparr>), s1))"

text \<open>The calls of the client, as method, path and body.\<close>

datatype broker_call =
    ListAccounts jobj | CreateAccount jobj | GetAccount string | ListBrokerAssets jobj
  | GetAccountPositions string | GetAccountBalance string | ListAccountActivities string jobj
  | CreateOrder string jobj | ListOrders string jobj

fun call_method :: "broker_call \<Rightarrow> string" where
  "call_method (CreateAccount payload) = ''POST''"
| "call_method (CreateOrder account order) = ''POST''"
| "call_method c = ''GET''"

fun call_path :: "broker_call \<Rightarrow> string" where
  "call_path (ListAccounts params) = ''/v1/accounts''"
| "call_path (CreateAccount payload) = ''/v1/accounts''"
| "call_path (GetAccount account) = ''/v1/accounts/'' @ account"
| "call_path (ListBrokerAssets params) = ''/v1/assets''"
| "call_path (GetAccountPositions account) = ''/v1/trading/accounts/'' @ account @ ''/positions''"
| "call_path (GetAccountBalance account) = ''/v1/accounts/'' @ account"
| "call_path (ListAccountActivities account params) = ''/v1/accounts/activities''"
| "call_path (CreateOrder account order) = ''/v1/trading/accounts/'' @ account @ ''/orders''"
| "call_path (ListOrders account params) = ''/v1/trading/accounts/'' @ account @ ''/orders''"

fun call_body :: "broker_call \<Rightarrow> body" where
  "call_body (ListAccounts params) = FormBody params"
| "call_body (CreateAccount payload) = JsonBody (JObj payload)"
| "call_body (GetAccount account) = NoBody"
| "call_body (ListBrokerAssets params) = FormBody params"
| "call_body (GetAccountPositions account) = NoBody"
| "call_body (GetAccountBalance account) = NoBody"
| "call_body (ListAccountActivities account params) = FormBody ((''account_id'', JStr account) # params)"
| "call_body (CreateOrder account order) = JsonBody (JObj order)"
| "call_body (ListOrders account params) = FormBody params"

definition broker_call ::
  "settings \<Rightarrow> http \<Rightarrow> time \<Rightarrow> broker_call \<Rightarrow> alpaca_state \<Rightarrow> (exn + json) \<times> alpaca_state" where
  "broker_call st h now c s = broker_request st h now (call_method c) (call_path c) (call_body c) s"

definition broker_bars ::
  "settings \<Rightarrow> http \<Rightarrow> time \<Rightarrow> string \<Rightarrow> string list \<Rightarrow> jobj \<Rightarrow> alpaca_state \<Rightarrow> (exn + json) \<times> alpaca_state" where
  "broker_bars st h now path symbols params s =
     broker_market_data_request st h now ''GET'' path
       (FormBody ((''symbols'', JStr (join '','' symbols)) # params)) s"

section \<open>The trading client\<close>

definition LIVE_TRADING_BASE_URL :: string where
  "LIVE_TRADING_BASE_URL = ''https://api.alpaca.markets''"

definition trading_configured :: "settings \<Rightarrow> bool" where
  "trading_configured st \<longleftrightarrow> is_set (alpaca_trading_api_key st) \<and> is_set (alpaca_trading_api_secret st)"

definition trading_headers :: "settings \<Rightarrow> exn + (string \<times> string) list" where
  "trading_headers st =
     (if \<not> trading_configured st then Inl (RuntimeError ''Alpaca Trading API credentials are not configured'')
      else Inr [(''APCA-API-KEY-ID'', the (alpaca_trading_api_key st)),
                (''APCA-API-SECRET-KEY'', the (alpaca_trading_api_secret st))])"

text \<open>\<open>base\<close> and the reader of the answer distinguish \<^verbatim>\<open>request\<close> from \<^verbatim>\<open>market_data_request\<close>.\<close>

definition trading_get ::
  "settings \<Rightarrow> http \<Rightarrow> (http_result \<Rightarrow> exn + json) \<Rightarrow> string \<Rightarrow> string \<Rightarrow> string \<Rightarrow> jobj \<Rightarrow> exn + json" where
  "trading_get st h reader base meth path params =
     (if py_upper meth \<noteq> ''GET'' then Inl (RuntimeError ''Trading API adapter is read-only during the AFM transition'')
      else bindE (trading_headers st) (\<lambda>headers.
        reader (h \<lparr> rq_method = ''GET'', rq_url = rstrip_char (CHR ''/'') base @ path,
                    rq_headers = headers, rq_body = FormBody params \<rparr>)))"

definition trading_request :: "settings \<Rightarrow> http \<Rightarrow> string \<Rightarrow> string \<Rightarrow> jobj \<Rightarrow> exn + json" where
  "trading_request st h meth path params =
     trading_get st h read_json_or_none LIVE_TRADING_BASE_URL meth path params"

definition trading_market_data_request :: "settings \<Rightarrow> http \<Rightarrow> string \<Rightarrow> string \<Rightarrow> jobj \<Rightarrow> exn + json" where
  "trading_market_data_request st h meth path params =
     trading_get st h read_json (alpaca_trading_market_data_base_url st) meth path params"

definition trading_get_account :: "settings \<Rightarrow> http \<Rightarrow> exn + json" where
  "trading_get_account st h = trading_request st h ''GET'' ''/v2/account'' []"

definition trading_assets :: "settings \<Rightarrow> http \<Rightarrow> jobj \<Rightarrow> exn + json" where
  "trading_assets st h params = trading_request st h ''GET'' ''/v2/assets'' params"

definition trading_positions :: "settings \<Rightarrow> http \<Rightarrow> exn + json" where
  "trading_positions st h = trading_request st h ''GET'' ''/v2/positions'' []"

definition trading_activities :: "settings \<Rightarrow> http \<Rightarrow> jobj \<Rightarrow> exn + json" where
  "trading_activities st h params = trading_request st h ''GET'' ''/v2/account/activities'' params"

definition trading_stock_bars :: "settings \<Rightarrow> http \<Rightarrow> string list \<Rightarrow> jobj \<Rightarrow> exn + json" where
  "trading_stock_bars st h symbols params =
     trading_market_data_request st h ''GET'' ''/v2/stocks/bars''
       ((''symbols'', JStr (join '','' symbols)) # params)"

definition trading_crypto_bars :: "settings \<Rightarrow> http \<Rightarrow> string list \<Rightarrow> jobj \<Rightarrow> exn + json" where
  "trading_crypto_bars st h symbols params =
     trading_market_data_request st h ''GET'' ''/v1beta3/crypto/us/bars''
       ((''symbols'', JStr (join '','' symbols)) # params)"

section \<open>What a call depends on\<close>

text \<open>
  Two services that agree on the token request and on the requests of a call, whatever the token,
  give the same result.  So does the trading client for services that agree on what is only read.
\<close>

definition agree_on :: "(http_request \<Rightarrow> bool) \<Rightarrow> http \<Rightarrow> http \<Rightarrow> bool" where
  "agree_on P h h' \<longleftrightarrow> (\<forall>rq. P rq \<longrightarrow> h rq = h' rq)"

lemma agree_onD: "agree_on P h h' \<Longrightarrow> P rq \<Longrightarrow> h rq = h' rq"
  by (simp add: agree_on_def)

lemma broker_token_cong:
  assumes "h (token_request st) = h' (token_request st)"
  shows "broker_token st h now s = broker_token st h' now s"
proof -
  have "fetch_token st h now s = fetch_token st h' now s" by (simp only: fetch_token_def assms)
  then show ?thesis by (simp only: broker_token_def)
qed

lemma broker_call_cong:
  assumes "h (token_request st) = h' (token_request st)"
    and "\<And>tok. h (broker_http st tok (call_method c) (call_path c) (call_body c))
              = h' (broker_http st tok (call_method c) (call_path c) (call_body c))"
  shows "broker_call st h now c s = broker_call st h' now c s"
  using broker_token_cong [of h st h' now s, OF assms(1)] assms(2)
  by (simp add: broker_call_def broker_request_def split: prod.split sum.split)

lemma broker_call_get_cong:
  assumes "agree_on (\<lambda>rq. rq = token_request st \<or> rq_method rq = ''GET'') h h'" and "call_method c = ''GET''"
  shows "broker_call st h now c s = broker_call st h' now c s"
  by (rule broker_call_cong; rule agree_onD [OF assms(1)]) (simp_all add: broker_http_def assms(2))

lemma trading_get_cong:
  assumes "agree_on (\<lambda>rq. rq_method rq = ''GET'') h h'"
  shows "trading_get st h reader base meth path params = trading_get st h' reader base meth path params"
proof -
  have "h \<lparr> rq_method = ''GET'', rq_url = u, rq_headers = hs, rq_body = b \<rparr>
      = h' \<lparr> rq_method = ''GET'', rq_url = u, rq_headers = hs, rq_body = b \<rparr>" for u hs b
    by (rule agree_onD [OF assms]) simp
  then show ?thesis by (simp add: trading_get_def)
qed

lemmas trading_cong =
  trading_get_cong [where reader = read_json_or_none and base = LIVE_TRADING_BASE_URL, folded trading_request_def]
  trading_get_cong [where reader = read_json and base = "alpaca_trading_market_data_base_url st" and st = st for st,
    folded trading_market_data_request_def]

end
