(* ===== verification/AFM_Instruments.thy ===== *)
theory AFM_Instruments
  imports AFM_Alpaca
begin

text \<open>
  The market part of \<^verbatim>\<open>api_gateway/main.py\<close>: the cached instrument list, price histories, and the
  public pages over them.  Answers are JSON values.  The arithmetic of doubles is a parameter of the
  environment, and so are the two clocks.
\<close>

section \<open>State\<close>

record market_env =
  me_now :: time
  me_mono :: time
  me_subtract :: "json \<Rightarrow> json \<Rightarrow> json"
  me_percent :: "json \<Rightarrow> json \<Rightarrow> json"

record market_cache =
  mc_instruments :: "(string \<times> time \<times> jobj list) list"
  mc_histories :: "(string \<times> time \<times> jobj) list"

text \<open>A cache entry that is younger than its time to live.\<close>

definition fresh_entry :: "time \<Rightarrow> int \<Rightarrow> string \<Rightarrow> (string \<times> time \<times> 'a) list \<Rightarrow> 'a option" where
  "fresh_entry clock ttl key cache =
     (case map_of cache key of
        None \<Rightarrow> None
      | Some (stored, v) \<Rightarrow> if clock - stored < seconds ttl then Some v else None)"

section \<open>Instruments\<close>

definition as_object :: "json \<Rightarrow> exn + jobj" where
  "as_object v = (case v of JObj kvs \<Rightarrow> Inr kvs | _ \<Rightarrow> Inl (AttributeError ''get''))"

fun as_objects :: "json list \<Rightarrow> exn + jobj list" where
  "as_objects [] = Inr []"
| "as_objects (v # vs) = bindE (as_object v) (\<lambda>x. bindE (as_objects vs) (\<lambda>xs. Inr (x # xs)))"

definition tradable_of :: "json \<Rightarrow> exn + jobj list" where
  "tradable_of assets =
     (case assets of
        JArr xs \<Rightarrow> bindE (as_objects xs) (\<lambda>os.
          Inr (sort_key (str_field ''symbol'') (filter (\<lambda>a. jget ''tradable'' a = JBool True) os)))
      | _ \<Rightarrow> Inr [])"

definition get_tradable_trading_assets ::
  "settings \<Rightarrow> http \<Rightarrow> time \<Rightarrow> string option \<Rightarrow> market_cache \<Rightarrow> (exn + jobj list) \<times> market_cache" where
  "get_tradable_trading_assets st h clock asset_class c =
     (let cache_key = (if is_set asset_class then the asset_class else ''all'') in
      case fresh_entry clock 300 cache_key (mc_instruments c) of
        Some assets \<Rightarrow> (Inr assets, c)
      | None \<Rightarrow>
          (case trading_assets st h ((''status'', JStr ''active'') #
                  (if is_set asset_class then [(''asset_class'', JStr (the asset_class))] else [])) of
             Inl e \<Rightarrow> (Inl (HTTPException 502 (exn_str e)), c)
           | Inr assets \<Rightarrow>
               (case tradable_of assets of
                  Inl e \<Rightarrow> (Inl e, c)
                | Inr tradable \<Rightarrow>
                    (Inr tradable, c \<lparr> mc_instruments := (cache_key, clock, tradable) # mc_instruments c \<rparr>))))"

definition paginate_instruments :: "jobj list \<Rightarrow> string \<Rightarrow> int \<Rightarrow> int \<Rightarrow> jobj list \<times> int" where
  "paginate_instruments assets query page page_size =
     (let normalized_query = py_lower (py_strip query);
          found = (if normalized_query = [] then assets
                   else filter (\<lambda>a. contains normalized_query (py_lower (str_field ''symbol'' a))
                                  \<or> contains normalized_query (py_lower (str_field ''name'' a))
                                  \<or> contains normalized_query (py_lower (str_field ''exchange'' a))) assets);
          offset = (page - 1) * page_size
      in (take (nat page_size) (drop (nat offset) found), int (length found)))"

definition valid_page_query :: "string option \<Rightarrow> string \<Rightarrow> int \<Rightarrow> int \<Rightarrow> bool" where
  "valid_page_query asset_class query page page_size \<longleftrightarrow>
     (case asset_class of None \<Rightarrow> True | Some s \<Rightarrow> length s \<le> 50)
   \<and> length query \<le> 100 \<and> 1 \<le> page \<and> 1 \<le> page_size \<and> page_size \<le> 100"

record instrument_page =
  in_count :: int
  in_total_count :: int
  in_asset_class :: string
  in_page :: int
  in_page_size :: int
  in_has_more :: bool
  in_assets :: "jobj list"

definition trading_list_assets ::
  "settings \<Rightarrow> http \<Rightarrow> time \<Rightarrow> string option \<Rightarrow> string \<Rightarrow> int \<Rightarrow> int \<Rightarrow> market_cache
   \<Rightarrow> (exn + instrument_page) \<times> market_cache" where
  "trading_list_assets st h clock asset_class query page page_size c =
     (case get_tradable_trading_assets st h clock asset_class c of
        (Inl e, c1) \<Rightarrow> (Inl e, c1)
      | (Inr tradable, c1) \<Rightarrow>
          (case paginate_instruments tradable query page page_size of (assets, found_total) \<Rightarrow>
             (Inr \<lparr> in_count = int (length assets), in_total_count = found_total,
                    in_asset_class = (if is_set asset_class then the asset_class else ''all''),
                    in_page = page, in_page_size = page_size, in_has_more = page * page_size < found_total,
                    in_assets = assets \<rparr>, c1)))"

text \<open>The route checks its parameters first.\<close>

definition trading_list_assets_route ::
  "settings \<Rightarrow> http \<Rightarrow> time \<Rightarrow> string option \<Rightarrow> string \<Rightarrow> int \<Rightarrow> int \<Rightarrow> market_cache
   \<Rightarrow> (exn + instrument_page) \<times> market_cache" where
  "trading_list_assets_route st h clock asset_class query page page_size c =
     (if \<not> valid_page_query asset_class query page page_size then (Inl (HTTPException 422 ''''), c)
      else trading_list_assets st h clock asset_class query page page_size c)"

definition trading_list_instruments ::
  "settings \<Rightarrow> http \<Rightarrow> time \<Rightarrow> string option \<Rightarrow> string \<Rightarrow> int \<Rightarrow> int \<Rightarrow> string option \<Rightarrow> int option
   \<Rightarrow> market_cache \<Rightarrow> (exn + instrument_page) \<times> market_cache" where
  "trading_list_instruments st h clock asset_class query page page_size kind limit c =
     (if \<not> valid_page_query asset_class query page page_size \<or> \<not> valid_page_query kind query page page_size
         \<or> (case limit of None \<Rightarrow> False | Some n \<Rightarrow> n < 1 \<or> 100 < n)
      then (Inl (HTTPException 422 ''''), c)
      else trading_list_assets st h clock (if is_set asset_class then asset_class else kind) query page
             (case limit of None \<Rightarrow> page_size | Some n \<Rightarrow> n) c)"

text \<open>
  The legacy route calls the function above without \<^verbatim>\<open>kind\<close> and \<^verbatim>\<open>limit\<close>, whose defaults are then the
  \<^verbatim>\<open>Query\<close> objects of its declaration: \<open>query_object\<close> is the printed form of the first, and the
  second takes the place of the page size, with which the offset cannot be computed.
\<close>

definition legacy_broker_list_instruments ::
  "string \<Rightarrow> settings \<Rightarrow> http \<Rightarrow> time \<Rightarrow> string option \<Rightarrow> string \<Rightarrow> int \<Rightarrow> int \<Rightarrow> market_cache
   \<Rightarrow> (exn + instrument_page) \<times> market_cache" where
  "legacy_broker_list_instruments query_object st h clock asset_class query page page_size c =
     (if \<not> valid_page_query asset_class query page page_size then (Inl (HTTPException 422 ''''), c)
      else case get_tradable_trading_assets st h clock
                  (if is_set asset_class then asset_class else Some query_object) c of
        (Inl e, c1) \<Rightarrow> (Inl e, c1)
      | (Inr _, c1) \<Rightarrow> (Inl (TypeError ''unsupported operand type(s) for *''), c1))"

section \<open>Price histories\<close>

definition is_number :: "json \<Rightarrow> bool" where
  "is_number v = (case v of JInt _ \<Rightarrow> True | JBool _ \<Rightarrow> True | JFloat _ \<Rightarrow> True | _ \<Rightarrow> False)"

text \<open>\<^verbatim>\<open>float(v)\<close> of a number.\<close>

definition to_float :: "json \<Rightarrow> json" where
  "to_float v =
     (case v of JInt n \<Rightarrow> py_float (Dec n 0) | JBool b \<Rightarrow> JFloat (if b then ''1.0'' else ''0.0'') | _ \<Rightarrow> v)"

definition normalized_bar :: "jobj \<Rightarrow> jobj" where
  "normalized_bar bar =
     [(''timestamp'', jget ''t'' bar), (''open'', jget ''o'' bar), (''high'', jget ''h'' bar),
      (''low'', jget ''l'' bar), (''close'', jget ''c'' bar), (''volume'', jget ''v'' bar)]"

definition usable_bars :: "json list \<Rightarrow> jobj list" where
  "usable_bars bars =
     concat (map (\<lambda>b. case b of JObj kvs \<Rightarrow> if is_number (jget ''c'' kvs) then [kvs] else [] | _ \<Rightarrow> []) bars)"

definition normalize_bars :: "market_env \<Rightarrow> string \<Rightarrow> json list \<Rightarrow> jobj" where
  "normalize_bars env symbol bars =
     (let normalized = map normalized_bar (usable_bars bars);
          closes = map (\<lambda>b. to_float (jget ''close'' b)) normalized;
          latest = (if closes = [] then JNull else last closes);
          previous = (if 1 < length closes then closes ! (length closes - 2) else JNull);
          change = (if latest \<noteq> JNull \<and> truthy previous then me_subtract env latest previous else JNull)
      in [(''symbol'', JStr symbol), (''bars'', JArr (map JObj normalized)), (''last_price'', latest),
          (''previous_close'', previous), (''change'', change),
          (''change_percent'', if change \<noteq> JNull \<and> truthy previous then me_percent env change previous else JNull),
          (''currency'', JStr ''USD'')])"

definition clean_symbols :: "string list \<Rightarrow> string list" where
  "clean_symbols symbols =
     take 25 (sort (remdups (map (\<lambda>s. py_upper (py_strip s)) (filter (\<lambda>s. py_strip s \<noteq> []) symbols))))"

definition history_key :: "string list \<Rightarrow> int \<Rightarrow> string \<Rightarrow> string" where
  "history_key symbols n timeframe = join ''|'' symbols @ '':'' @ int_str n @ '':'' @ timeframe"

definition bars_limit :: "nat \<Rightarrow> int \<Rightarrow> string \<Rightarrow> int" where
  "bars_limit count n timeframe =
     min 1000 (int count * (n * (if timeframe = ''1Hour'' then 8 else 1) + 8))"

text \<open>The two requests are sent together; an error of either fails the route.\<close>

definition bar_payloads ::
  "settings \<Rightarrow> http \<Rightarrow> time \<Rightarrow> string list \<Rightarrow> int \<Rightarrow> string \<Rightarrow> exn + json list" where
  "bar_payloads st h now symbols n timeframe =
     (let slash = (\<lambda>s. CHR ''/'' \<in> set s);
          stock = filter (\<lambda>s. \<not> slash s) symbols; crypto = filter slash symbols;
          start = (''start'', JStr (isoformat (now - days (n + 4))));
          limit = (''limit'', JInt (bars_limit (length symbols) n timeframe));
          frame = (''timeframe'', JStr timeframe)
      in bindE (if stock = [] then Inr [] else bindE (trading_stock_bars st h stock
                  [frame, start, (''adjustment'', JStr ''all''), (''feed'', JStr ''iex''), limit]) (\<lambda>v. Inr [v]))
           (\<lambda>a. bindE (if crypto = [] then Inr [] else bindE (trading_crypto_bars st h crypto [frame, start, limit])
                  (\<lambda>v. Inr [v])) (\<lambda>b. Inr (a @ b))))"

text \<open>\<^verbatim>\<open>bars_by_symbol.update(payload.get("bars", {}))\<close> over the payloads that are objects.\<close>

fun merge_bars :: "json list \<Rightarrow> jobj \<Rightarrow> exn + jobj" where
  "merge_bars [] acc = Inr acc"
| "merge_bars (JObj p # ps) acc =
     (case jget_default (JObj []) ''bars'' p of
        JObj bars \<Rightarrow> merge_bars ps (foldl (\<lambda>d (k, v). jset k v d) acc bars)
      | _ \<Rightarrow> Inl (TypeError ''update''))"
| "merge_bars (p # ps) acc = merge_bars ps acc"

definition last_bars :: "int \<Rightarrow> json \<Rightarrow> exn + json list" where
  "last_bars n v =
     (case v of
        JArr xs \<Rightarrow> Inr (drop (length xs - nat n) xs)
      | JStr s \<Rightarrow> Inr []
      | _ \<Rightarrow> Inl (TypeError ''object is not subscriptable''))"

fun histories_of :: "market_env \<Rightarrow> int \<Rightarrow> jobj \<Rightarrow> string list \<Rightarrow> exn + jobj" where
  "histories_of env n bars [] = Inr []"
| "histories_of env n bars (s # ss) =
     bindE (last_bars n (jget_default (JArr []) s bars)) (\<lambda>xs.
     bindE (histories_of env n bars ss) (\<lambda>rest. Inr ((s, JObj (normalize_bars env s xs)) # rest)))"

definition get_market_histories ::
  "settings \<Rightarrow> http \<Rightarrow> market_env \<Rightarrow> string list \<Rightarrow> int \<Rightarrow> string \<Rightarrow> market_cache \<Rightarrow> (exn + jobj) \<times> market_cache" where
  "get_market_histories st h env symbols n timeframe c =
     (let clean = clean_symbols symbols; cache_key = history_key clean n timeframe in
      if clean = [] then (Inr [], c)
      else case fresh_entry (me_mono env) 60 cache_key (mc_histories c) of
        Some v \<Rightarrow> (Inr v, c)
      | None \<Rightarrow>
          (case bar_payloads st h (me_now env) clean n timeframe of
             Inl e \<Rightarrow> (Inl (HTTPException 502 (''Unable to load Trading API market data: '' @ exn_str e)), c)
           | Inr payloads \<Rightarrow>
               (case bindE (merge_bars payloads []) (\<lambda>bars. histories_of env n bars clean) of
                  Inl e \<Rightarrow> (Inl e, c)
                | Inr histories \<Rightarrow>
                    (Inr histories,
                     c \<lparr> mc_histories := (cache_key, me_mono env, histories) # mc_histories c \<rparr>))))"

section \<open>Market pages\<close>

definition PUBLIC_MARKET_SYMBOLS :: "string list" where
  "PUBLIC_MARKET_SYMBOLS = [''AAPL'', ''MSFT'', ''NVDA'', ''BTC/USD'', ''ETH/USD'']"

text \<open>The last asset of a symbol wins, as in the dictionary the code builds.\<close>

definition asset_of :: "jobj list \<Rightarrow> string \<Rightarrow> jobj option" where
  "asset_of assets symbol = map_of (rev (map (\<lambda>a. (py_str (jget ''symbol'' a), a)) assets)) symbol"

definition public_market_products ::
  "settings \<Rightarrow> http \<Rightarrow> market_env \<Rightarrow> market_cache \<Rightarrow> (exn + jobj) \<times> market_cache" where
  "public_market_products st h env c =
     (case get_tradable_trading_assets st h (me_mono env) None c of
        (Inl e, c1) \<Rightarrow> (Inl e, c1)
      | (Inr tradable, c1) \<Rightarrow>
          let selected = List.map_filter (asset_of tradable) PUBLIC_MARKET_SYMBOLS in
          (case get_market_histories st h env (map (\<lambda>a. py_str (jget ''symbol'' a)) selected) 7 ''1Day'' c1 of
             (Inl e, c2) \<Rightarrow> (Inl e, c2)
           | (Inr snapshots, c2) \<Rightarrow>
               (Inr [(''count'', JInt (int (length selected))),
                     (''symbols'', JArr (map JStr PUBLIC_MARKET_SYMBOLS)),
                     (''assets'', JArr (map JObj selected)), (''snapshots'', JObj snapshots),
                     (''orders_enabled'', JBool False)], c2)))"

definition trading_market_snapshots ::
  "settings \<Rightarrow> http \<Rightarrow> market_env \<Rightarrow> string \<Rightarrow> market_cache \<Rightarrow> (exn + jobj) \<times> market_cache" where
  "trading_market_snapshots st h env symbols c =
     (if length symbols < 1 \<or> 500 < length symbols then (Inl (HTTPException 422 ''''), c)
      else case get_market_histories st h env (filter (\<lambda>s. py_strip s \<noteq> []) (split_on (CHR '','') symbols))
                  7 ''1Day'' c of
        (Inl e, c1) \<Rightarrow> (Inl e, c1)
      | (Inr histories, c1) \<Rightarrow> (Inr [(''snapshots'', JObj histories)], c1))"

definition is_alnum :: "char \<Rightarrow> bool" where
  "is_alnum c = (let n = of_char (lower_char c) :: int in is_digit c \<or> (97 \<le> n \<and> n \<le> 122))"

definition history_periods :: "(string \<times> int \<times> string) list" where
  "history_periods = [(''1D'', 1, ''1Hour''), (''1W'', 7, ''1Hour''), (''1M'', 30, ''1Day''), (''1Y'', 365, ''1Day'')]"

definition broker_instrument_history ::
  "settings \<Rightarrow> http \<Rightarrow> market_env \<Rightarrow> string \<Rightarrow> string \<Rightarrow> market_cache \<Rightarrow> (exn + json) \<times> market_cache" where
  "broker_instrument_history st h env symbol period c =
     (case map_of history_periods period of
        None \<Rightarrow> (Inl (HTTPException 422 ''''), c)
      | Some (n, timeframe) \<Rightarrow>
          let normalized_symbol = py_upper (py_strip symbol);
              core = filter (\<lambda>x. x \<notin> {CHR ''-'', CHR ''.'', CHR ''/''}) normalized_symbol in
          if core = [] \<or> \<not> list_all is_alnum core then (Inl (HTTPException 400 ''Invalid market symbol''), c)
          else case get_market_histories st h env [normalized_symbol] n timeframe c of
            (Inl e, c1) \<Rightarrow> (Inl e, c1)
          | (Inr history, c1) \<Rightarrow>
              (Inr (jget_default (JObj (normalize_bars env normalized_symbol [])) normalized_symbol history), c1))"

section \<open>What the pages show\<close>

text \<open>
  The instrument list is read whole by its pages: with \<open>k\<close> pages of size \<open>s\<close>, enough for the
  matching instruments, the pages one after the other are the matching instruments.
\<close>

lemma paginate_concat:
  assumes "0 < s" and "int (length (fst (paginate_instruments assets query 1 (int (length assets) + 1)))) \<le> int k * s"
  shows "concat (map (\<lambda>p. fst (paginate_instruments assets query p s)) [1..int k])
    = fst (paginate_instruments assets query 1 (int (length assets) + 1))"
proof -
  obtain found where found: "\<And>p n. fst (paginate_instruments assets query p n) = take (nat n) (drop (nat ((p - 1) * n)) found)"
    and len: "length found \<le> length assets"
    by (cases "py_lower (py_strip query) = []")
      (auto simp: paginate_instruments_def Let_def intro!: that)
  have all: "fst (paginate_instruments assets query 1 (int (length assets) + 1)) = found"
    using len by (simp add: found)
  have page: "fst (paginate_instruments assets query (int p + 1) s) = take (nat s) (drop (p * nat s) found)" for p
    using assms(1) by (simp add: found nat_mult_distrib)
  have "int (length found) \<le> int (k * nat s)" using assms by (simp add: all)
  then have "length found \<le> k * nat s" by (simp only: of_nat_le_iff)
  then show ?thesis unfolding all upto_shift by (simp add: page comp_def concat_pages_all)
qed

text \<open>Every request of the legacy instrument route fails.\<close>

lemma legacy_instruments_always_fail:
  "\<not> is_ok (fst (legacy_broker_list_instruments query_object st h clock asset_class query page page_size c))"
  by (simp add: legacy_broker_list_instruments_def Let_def split: prod.split sum.split)

text \<open>A day's hourly history is cut to its last bar, and a week's to seven hours.\<close>

lemma hourly_history_cut:
  assumes "map_of history_periods period = Some (n, ''1Hour'')" and "last_bars n (JArr xs) = Inr ys"
  shows "length ys \<le> 7"
  using assms by (auto simp: history_periods_def last_bars_def split: if_splits)

end
