(* ===== verification/AFM_Broker.thy ===== *)
theory AFM_Broker
  imports AFM_Instruments AFM_Security AFM_Kora_Client
begin

text \<open>
  The broker part of \<^verbatim>\<open>api_gateway/main.py\<close>: the routes that forward to the Alpaca broker client,
  the link between a user and a broker account, and the portfolio and activity pages of a linked
  account.  The middle dot of a description is the character of code 183.
\<close>

section \<open>Forwarding routes\<close>

text \<open>The error of a client call becomes a gateway error that carries its text.\<close>

definition or_502 :: "string \<Rightarrow> (exn + 'a) \<times> 's \<Rightarrow> (exn + 'a) \<times> 's" where
  "or_502 prefix r =
     (case r of (Inl e, s) \<Rightarrow> (Inl (HTTPException 502 (prefix @ exn_str e)), s) | (Inr v, s) \<Rightarrow> (Inr v, s))"

definition broker_status :: "settings \<Rightarrow> http \<Rightarrow> time \<Rightarrow> alpaca_state \<Rightarrow> (nat \<times> jobj) \<times> alpaca_state" where
  "broker_status st h now s =
     (if \<not> broker_configured st
      then ((503, [(''configured'', JBool False), (''detail'', JStr ''Alpaca credentials missing'')]), s)
      else case broker_token st h now s of
        (Inl e, s1) \<Rightarrow>
          ((502, [(''configured'', JBool True), (''authenticated'', JBool False), (''detail'', JStr (exn_str e))]), s1)
      | (Inr _, s1) \<Rightarrow>
          ((200, [(''configured'', JBool True), (''authenticated'', JBool True),
                  (''base_url'', JStr (rstrip_char (CHR ''/'') (alpaca_broker_base_url st))),
                  (''paper'', JBool (alpaca_paper st))]), s1))"

definition broker_list_accounts ::
  "settings \<Rightarrow> http \<Rightarrow> time \<Rightarrow> alpaca_state \<Rightarrow> (exn + json) \<times> alpaca_state" where
  "broker_list_accounts st h now s =
     (case or_502 '''' (broker_call st h now (ListAccounts []) s) of
        (Inl e, s1) \<Rightarrow> (Inl e, s1)
      | (Inr accounts, s1) \<Rightarrow> (Inr (JObj [(''accounts'', accounts)]), s1))"

record account_request =
  ar_contact :: jobj
  ar_identity :: jobj
  ar_disclosures :: jobj
  ar_agreements :: "jobj list"

text \<open>\<^verbatim>\<open>model_dump(exclude_none=True)\<close>: members that are null are left out; these never are.\<close>

definition account_payload :: "account_request \<Rightarrow> jobj" where
  "account_payload r =
     [(''contact'', JObj (ar_contact r)), (''identity'', JObj (ar_identity r)),
      (''disclosures'', JObj (ar_disclosures r)), (''agreements'', JArr (map JObj (ar_agreements r)))]"

definition broker_create_account ::
  "settings \<Rightarrow> http \<Rightarrow> time \<Rightarrow> account_request \<Rightarrow> alpaca_state \<Rightarrow> (exn + json) \<times> alpaca_state" where
  "broker_create_account st h now r s =
     (if \<not> alpaca_paper st then (Inl (HTTPException 403 ''Account creation is sandbox-only''), s)
      else or_502 '''' (broker_call st h now (CreateAccount (account_payload r)) s))"

record order_request =
  bo_symbol :: string
  bo_qty :: string
  bo_side :: string
  bo_type :: string
  bo_time_in_force :: string
  bo_limit_price :: "string option"
  bo_stop_price :: "string option"
  bo_client_order_id :: "string option"

definition valid_order_request :: "order_request \<Rightarrow> bool" where
  "valid_order_request r \<longleftrightarrow>
     1 \<le> length (bo_symbol r) \<and> length (bo_symbol r) \<le> 16 \<and> bo_side r \<in> {''buy'', ''sell''}
   \<and> bo_type r \<in> {''market'', ''limit'', ''stop'', ''stop_limit'', ''trailing_stop''}
   \<and> bo_time_in_force r \<in> {''day'', ''gtc'', ''opg'', ''cls'', ''ioc'', ''fok''}"

definition order_payload :: "order_request \<Rightarrow> jobj" where
  "order_payload r =
     filter (\<lambda>kv. snd kv \<noteq> JNull)
       [(''symbol'', JStr (bo_symbol r)), (''qty'', JStr (bo_qty r)), (''side'', JStr (bo_side r)),
        (''type'', JStr (bo_type r)), (''time_in_force'', JStr (bo_time_in_force r)),
        (''limit_price'', jopt (bo_limit_price r)), (''stop_price'', jopt (bo_stop_price r)),
        (''client_order_id'', jopt (bo_client_order_id r))]"

definition broker_create_order ::
  "settings \<Rightarrow> http \<Rightarrow> time \<Rightarrow> string \<Rightarrow> order_request \<Rightarrow> alpaca_state \<Rightarrow> (exn + json) \<times> alpaca_state" where
  "broker_create_order st h now account_id r s =
     (if \<not> valid_order_request r then (Inl (HTTPException 422 ''''), s)
      else if \<not> alpaca_paper st then (Inl (HTTPException 403 ''Orders are sandbox-only''), s)
      else or_502 '''' (broker_call st h now (CreateOrder account_id (order_payload r)) s))"

definition broker_get_account ::
  "settings \<Rightarrow> http \<Rightarrow> time \<Rightarrow> string \<Rightarrow> alpaca_state \<Rightarrow> (exn + json) \<times> alpaca_state" where
  "broker_get_account st h now account_id s = or_502 '''' (broker_call st h now (GetAccount account_id) s)"

definition broker_list_orders ::
  "settings \<Rightarrow> http \<Rightarrow> time \<Rightarrow> string \<Rightarrow> alpaca_state \<Rightarrow> (exn + json) \<times> alpaca_state" where
  "broker_list_orders st h now account_id s = or_502 '''' (broker_call st h now (ListOrders account_id []) s)"

section \<open>The link of a user\<close>

definition get_linked_broker_account :: "uuid \<Rightarrow> db \<Rightarrow> exn + broker_link" where
  "get_linked_broker_account user_id d =
     bindE (scalar_one_or_none (filter (\<lambda>l. bl_user_id l = user_id \<and> bl_status l = ''active'') (db_links d)))
       (\<lambda>found. case found of
          None \<Rightarrow> Inl (HTTPException 409 ''No active broker account is linked to this user'')
        | Some l \<Rightarrow> Inr l)"

text \<open>The write of a link: the user and the broker account are each unique in the table.\<close>

definition store_link :: "broker_link \<Rightarrow> db \<Rightarrow> db option" where
  "store_link l d =
     (if \<exists>x \<in> set (db_links d). bl_user_id x \<noteq> bl_user_id l \<and> bl_alpaca_account_id x = bl_alpaca_account_id l
      then None
      else if bl_user_id l \<in> bl_user_id ` set (db_links d)
      then Some (d \<lparr> db_links := row_update bl_user_id l (db_links d) \<rparr>)
      else Some (d \<lparr> db_links := db_links d @ [l] \<rparr>))"

definition link_broker_account ::
  "settings \<Rightarrow> http \<Rightarrow> time \<Rightarrow> string \<Rightarrow> uuid \<Rightarrow> alpaca_state \<times> db \<Rightarrow> (exn + jobj) \<times> alpaca_state \<times> db" where
  "link_broker_account st h now alpaca_account_id user_id w =
     (if length alpaca_account_id < 8 \<or> 100 < length alpaca_account_id then (Inl (HTTPException 422 ''''), w)
      else case or_502 ''Unable to verify broker account: ''
                  (broker_call st h now (GetAccount alpaca_account_id) (fst w)) of
        (Inl e, s) \<Rightarrow> (Inl e, s, snd w)
      | (Inr account, s) \<Rightarrow>
          (case scalar_one_or_none (filter (\<lambda>l. bl_user_id l = user_id) (db_links (snd w))) of
             Inl e \<Rightarrow> (Inl e, s, snd w)
           | Inr _ \<Rightarrow>
               (case store_link \<lparr> bl_user_id = user_id, bl_alpaca_account_id = alpaca_account_id,
                                  bl_status = ''active'' \<rparr> (snd w) of
                  None \<Rightarrow> (Inl IntegrityError, s, snd w)
                | Some d' \<Rightarrow>
                    (bindE (as_object account) (\<lambda>a.
                       Inr [(''user_id'', JStr user_id),
                            (''account_id'', jget_default (JStr alpaca_account_id) ''id'' a),
                            (''status'', JStr ''active'')]), s, d'))))"

section \<open>Portfolio and balance\<close>

definition list_or_empty :: "json \<Rightarrow> json list" where
  "list_or_empty v = (case v of JArr xs \<Rightarrow> xs | _ \<Rightarrow> [])"

definition get_wallet_balance ::
  "settings \<Rightarrow> http \<Rightarrow> time \<Rightarrow> uuid \<Rightarrow> db \<Rightarrow> alpaca_state \<Rightarrow> (exn + jobj) \<times> alpaca_state" where
  "get_wallet_balance st h now user_id d s =
     (case get_linked_broker_account user_id d of
        Inl e \<Rightarrow> (Inl e, s)
      | Inr l \<Rightarrow>
          (case or_502 ''Unable to load broker balance: ''
                  (broker_call st h now (GetAccountBalance (bl_alpaca_account_id l)) s) of
             (Inl e, s1) \<Rightarrow> (Inl e, s1)
           | (Inr account, s1) \<Rightarrow>
               (Inr [(''user_id'', JStr user_id), (''account_id'', JStr (bl_alpaca_account_id l)),
                     (''balances'', account)], s1)))"

text \<open>The two reads of a portfolio are sent together; an error of either fails the route.\<close>

definition get_portfolio ::
  "settings \<Rightarrow> http \<Rightarrow> time \<Rightarrow> uuid \<Rightarrow> db \<Rightarrow> alpaca_state \<Rightarrow> (exn + jobj) \<times> alpaca_state" where
  "get_portfolio st h now user_id d s =
     (case get_linked_broker_account user_id d of
        Inl e \<Rightarrow> (Inl e, s)
      | Inr l \<Rightarrow>
          (case or_502 ''Unable to load broker portfolio: ''
                  (broker_call st h now (GetAccountBalance (bl_alpaca_account_id l)) s) of
             (Inl e, s1) \<Rightarrow> (Inl e, s1)
           | (Inr account, s1) \<Rightarrow>
               (case or_502 ''Unable to load broker portfolio: ''
                       (broker_call st h now (GetAccountPositions (bl_alpaca_account_id l)) s1) of
                  (Inl e, s2) \<Rightarrow> (Inl e, s2)
                | (Inr positions, s2) \<Rightarrow>
                    (Inr [(''account_id'', JStr (bl_alpaca_account_id l)), (''account'', account),
                          (''positions'', JArr (list_or_empty positions))], s2))))"

section \<open>Activities\<close>

record activity =
  ac_id :: string
  ac_activity_type :: string
  ac_symbol :: json
  ac_side :: json
  ac_quantity :: json
  ac_amount :: "string option"
  ac_occurred_at :: json
  ac_description :: json

text \<open>\<^verbatim>\<open>f"{d:.2f}"\<close>: rounded half to even; a negative amount keeps its sign when it rounds to nought.\<close>

definition format_cents :: "decimal \<Rightarrow> string" where
  "format_cents d =
     (if coeff d < 0 then ''-'' else '''') @ dec_str (dec_rescale round_half_even (- 2) (Dec \<bar>coeff d\<bar> (expo d)))"

definition blank :: "json \<Rightarrow> bool" where
  "blank v \<longleftrightarrow> v = JNull \<or> v = JStr ''''"

definition activity_amount :: "jobj \<Rightarrow> json" where
  "activity_amount a =
     (if blank (jget ''net_amount'' a)
      then case bindE (dec_parse (py_str (jget ''price'' a))) (\<lambda>price.
                bindE (dec_parse (py_str (jget ''qty'' a))) (\<lambda>qty. Inr (dec_mul price qty))) of
             Inl _ \<Rightarrow> JNull
           | Inr d \<Rightarrow> JStr (format_cents (if jget ''side'' a = JStr ''buy'' then dec_neg d else d))
      else jget ''net_amount'' a)"

definition activity_description :: "string \<Rightarrow> jobj \<Rightarrow> json" where
  "activity_description activity_type a =
     (let symbol = jget ''symbol'' a in
      if truthy (jget ''description'' a) then jget ''description'' a
      else if activity_type = ''FILL'' \<and> truthy symbol
      then JStr (capitalize (py_str (py_or (jget ''side'' a) (JStr ''trade''))) @ '' '' @ py_str symbol)
      else if truthy symbol then JStr (activity_type @ '' '' @ [char_of (183::int)] @ '' '' @ py_str symbol)
      else JStr activity_type)"

definition normalize_broker_activity :: "jobj \<Rightarrow> activity" where
  "normalize_broker_activity a =
     (let activity_type = py_str (py_or (jget ''activity_type'' a) (py_or (jget ''type'' a) (JStr ''OTHER'')));
          amount = activity_amount a
      in \<lparr> ac_id = str_field ''id'' a, ac_activity_type = activity_type, ac_symbol = jget ''symbol'' a,
           ac_side = jget ''side'' a, ac_quantity = jget ''qty'' a,
           ac_amount = (if blank amount then None else Some (py_str amount)),
           ac_occurred_at = py_or (jget ''transaction_time'' a) (py_or (jget ''created_at'' a) (jget ''date'' a)),
           ac_description = activity_description activity_type a \<rparr>)"

record activity_page =
  ap_account_id :: string
  ap_transactions :: "activity list"
  ap_next_page_token :: "string option"

definition build_activity_page :: "string \<Rightarrow> json list \<Rightarrow> int \<Rightarrow> activity_page" where
  "build_activity_page account_id activities limit =
     (let transactions = concat (map (\<lambda>v. case v of JObj a \<Rightarrow> [normalize_broker_activity a] | _ \<Rightarrow> []) activities)
      in \<lparr> ap_account_id = account_id, ap_transactions = transactions,
           ap_next_page_token =
             (if int (length transactions) = limit \<and> transactions \<noteq> [] then Some (ac_id (last transactions))
              else None) \<rparr>)"

definition get_portfolio_transactions ::
  "settings \<Rightarrow> http \<Rightarrow> time \<Rightarrow> int \<Rightarrow> string option \<Rightarrow> uuid \<Rightarrow> db \<Rightarrow> alpaca_state \<Rightarrow> (exn + activity_page) \<times> alpaca_state" where
  "get_portfolio_transactions st h now limit page_token user_id d s =
     (if limit < 1 \<or> 100 < limit
         \<or> (case page_token of None \<Rightarrow> False | Some t \<Rightarrow> t = [] \<or> 300 < length t)
      then (Inl (HTTPException 422 ''''), s)
      else case get_linked_broker_account user_id d of
        Inl e \<Rightarrow> (Inl e, s)
      | Inr l \<Rightarrow>
          (case or_502 ''Unable to load broker activities: ''
                  (broker_call st h now (ListAccountActivities (bl_alpaca_account_id l)
                     ([(''direction'', JStr ''desc''), (''page_size'', JInt limit)]
                      @ (case page_token of None \<Rightarrow> [] | Some t \<Rightarrow> [(''page_token'', JStr t)]))) s) of
             (Inl e, s1) \<Rightarrow> (Inl e, s1)
           | (Inr activities, s1) \<Rightarrow>
               (Inr (build_activity_page (bl_alpaca_account_id l) (list_or_empty activities) limit), s1)))"

section \<open>Two small routes\<close>

definition get_kora_balance_readonly ::
  "('tok \<Rightarrow> string \<Rightarrow> time \<Rightarrow> jwt_result) \<Rightarrow> settings \<Rightarrow> http \<Rightarrow> time \<Rightarrow> 'tok option \<Rightarrow> exn + jobj" where
  "get_kora_balance_readonly jwt_decode st h now credentials =
     bindE (get_current_backoffice_admin_id jwt_decode st now credentials) (\<lambda>_.
     case get_balance st h of
       Inl (KoraClientError _) \<Rightarrow> Inl (HTTPException 502 ''Payment balance is temporarily unavailable'')
     | Inl e \<Rightarrow> Inl e
     | Inr v \<Rightarrow> Inr v)"

definition issue_dev_token ::
  "(jobj \<Rightarrow> string \<Rightarrow> 'tok) \<Rightarrow> settings \<Rightarrow> time \<Rightarrow> uuid \<Rightarrow> exn + 'tok \<times> uuid" where
  "issue_dev_token jwt_encode st now demo_user_id =
     (if \<not> is_development st then Inl (HTTPException 404 ''Development token endpoint is unavailable'')
      else Inr (create_access_token jwt_encode st now [(''sub'', JStr demo_user_id)] None, demo_user_id))"

section \<open>The routes together\<close>

datatype broker_route =
    BrokerStatus | BrokerListAccounts | BrokerCreateAccount account_request
  | BrokerCreateOrder string order_request | BrokerGetAccount string | BrokerListOrders string
  | LinkBrokerAccount string uuid | WalletBalance uuid | Portfolio uuid
  | PortfolioTransactions int "string option" uuid

datatype broker_reply = StatusReply nat jobj | JsonReply "exn + json" | PageReply "exn + activity_page"

definition object_reply :: "exn + jobj \<Rightarrow> broker_reply" where
  "object_reply r = JsonReply (bindE r (\<lambda>v. Inr (JObj v)))"

fun serve ::
  "settings \<Rightarrow> http \<Rightarrow> time \<Rightarrow> broker_route \<Rightarrow> alpaca_state \<times> db \<Rightarrow> broker_reply \<times> alpaca_state \<times> db" where
  "serve st h now BrokerStatus (s, d) =
     (case broker_status st h now s of ((code, v), s1) \<Rightarrow> (StatusReply code v, s1, d))"
| "serve st h now BrokerListAccounts (s, d) =
     (case broker_list_accounts st h now s of (v, s1) \<Rightarrow> (JsonReply v, s1, d))"
| "serve st h now (BrokerCreateAccount r) (s, d) =
     (case broker_create_account st h now r s of (v, s1) \<Rightarrow> (JsonReply v, s1, d))"
| "serve st h now (BrokerCreateOrder a r) (s, d) =
     (case broker_create_order st h now a r s of (v, s1) \<Rightarrow> (JsonReply v, s1, d))"
| "serve st h now (BrokerGetAccount a) (s, d) =
     (case broker_get_account st h now a s of (v, s1) \<Rightarrow> (JsonReply v, s1, d))"
| "serve st h now (BrokerListOrders a) (s, d) =
     (case broker_list_orders st h now a s of (v, s1) \<Rightarrow> (JsonReply v, s1, d))"
| "serve st h now (LinkBrokerAccount a u) w =
     (case link_broker_account st h now a u w of (v, w1) \<Rightarrow> (object_reply v, w1))"
| "serve st h now (WalletBalance u) (s, d) =
     (case get_wallet_balance st h now u d s of (v, s1) \<Rightarrow> (object_reply v, s1, d))"
| "serve st h now (Portfolio u) (s, d) =
     (case get_portfolio st h now u d s of (v, s1) \<Rightarrow> (object_reply v, s1, d))"
| "serve st h now (PortfolioTransactions n t u) (s, d) =
     (case get_portfolio_transactions st h now n t u d s of (v, s1) \<Rightarrow> (PageReply v, s1, d))"

definition links_ok :: "db \<Rightarrow> bool" where
  "links_ok d \<longleftrightarrow> distinct (map bl_user_id (db_links d)) \<and> distinct (map bl_alpaca_account_id (db_links d))"

lemma store_link_ok:
  assumes "links_ok d" and "store_link l d = Some d'"
  shows "links_ok d'"
proof (cases "bl_user_id l \<in> bl_user_id ` set (db_links d)")
  case False
  then have "bl_user_id x \<noteq> bl_user_id l" if "x \<in> set (db_links d)" for x using that by (metis imageI)
  then have free: "bl_alpaca_account_id l \<notin> bl_alpaca_account_id ` set (db_links d)"
    and d': "d' = d \<lparr> db_links := db_links d @ [l] \<rparr>"
    using assms(2) False by (auto simp: store_link_def split: if_splits)
  then show ?thesis using assms(1) False unfolding links_ok_def d' by simp
next
  case True
  then have d': "d' = d \<lparr> db_links := row_update bl_user_id l (db_links d) \<rparr>"
    and other: "\<And>x. x \<in> set (db_links d) \<Longrightarrow> bl_user_id x \<noteq> bl_user_id l \<Longrightarrow>
      bl_alpaca_account_id x \<noteq> bl_alpaca_account_id l"
    using assms(2) by (auto simp: store_link_def split: if_splits)
  then show ?thesis using assms(1) unfolding links_ok_def d' by (simp add: distinct_row_update)
qed

fun broker_step :: "settings \<times> http \<times> time \<times> broker_route \<Rightarrow> alpaca_state \<times> db \<Rightarrow> alpaca_state \<times> db" where
  "broker_step (st, h, now, r) w = snd (serve st h now r w)"

lemma serve_links_ok:
  assumes "links_ok (snd w)"
  shows "links_ok (snd (snd (serve st h now r w)))"
proof (cases "\<exists>a u. r = LinkBrokerAccount a u")
  case True
  then obtain a u where r: "r = LinkBrokerAccount a u" by blast
  have "snd (snd (link_broker_account st h now a u w)) = snd w
      \<or> (\<exists>l. store_link l (snd w) = Some (snd (snd (link_broker_account st h now a u w))))"
    by (auto simp: link_broker_account_def split: prod.split sum.split option.split)
  with assms show ?thesis by (auto simp: r store_link_ok split: prod.split)
next
  case False
  with assms show ?thesis by (cases w; cases r) (auto split: prod.split)
qed

interpretation links: invariant_machine broker_step "\<lambda>w. links_ok (snd w)"
  by unfold_locales (auto simp: serve_links_ok simp del: serve.simps)

lemma serve_live_cong:
  assumes "\<not> alpaca_paper st" and "agree_on (\<lambda>rq. rq = token_request st \<or> rq_method rq = ''GET'') h h'"
  shows "serve st h now r w = serve st h' now r w"
proof -
  have get: "broker_call st h now c s = broker_call st h' now c s" if "call_method c = ''GET''" for c s
    using assms(2) that by (rule broker_call_get_cong)
  have "h (token_request st) = h' (token_request st)" by (rule agree_onD [OF assms(2)]) simp
  note tok = broker_token_cong [of h st h' now, OF this]
  show ?thesis
    by (cases w; cases r)
      (simp_all add: get tok assms(1) broker_status_def broker_list_accounts_def broker_create_account_def
        broker_create_order_def broker_get_account_def broker_list_orders_def link_broker_account_def
        get_wallet_balance_def get_portfolio_def get_portfolio_transactions_def
        cong: sum.case_cong prod.case_cong)
qed

text \<open>The requests about one broker account.\<close>

fun concerns :: "string \<Rightarrow> broker_call \<Rightarrow> bool" where
  "concerns a (GetAccountBalance b) \<longleftrightarrow> a = b"
| "concerns a (GetAccountPositions b) \<longleftrightarrow> a = b"
| "concerns a (ListAccountActivities b params) \<longleftrightarrow> a = b"
| "concerns a c \<longleftrightarrow> False"

definition about :: "settings \<Rightarrow> string \<Rightarrow> http_request \<Rightarrow> bool" where
  "about st a rq \<longleftrightarrow> rq = token_request st
     \<or> (\<exists>tok c. concerns a c \<and> rq = broker_http st tok (call_method c) (call_path c) (call_body c))"

fun reads_of :: "uuid \<Rightarrow> broker_route \<Rightarrow> bool" where
  "reads_of u (WalletBalance v) \<longleftrightarrow> u = v"
| "reads_of u (Portfolio v) \<longleftrightarrow> u = v"
| "reads_of u (PortfolioTransactions n t v) \<longleftrightarrow> u = v"
| "reads_of u r \<longleftrightarrow> False"

lemma serve_own_cong:
  assumes "get_linked_broker_account u (snd w) = Inr l" and "reads_of u r"
    and "agree_on (about st (bl_alpaca_account_id l)) h h'"
  shows "serve st h now r w = serve st h' now r w"
proof -
  have about: "h rq = h' rq" if "about st (bl_alpaca_account_id l) rq" for rq
    using assms(3) that by (rule agree_onD)
  have call: "broker_call st h now c s = broker_call st h' now c s" if "concerns (bl_alpaca_account_id l) c" for c s
    using that by (intro broker_call_cong about) (auto simp: about_def)
  show ?thesis using assms(1,2)
    by (cases w; cases r)
      (simp_all add: call get_wallet_balance_def get_portfolio_def get_portfolio_transactions_def
        cong: sum.case_cong prod.case_cong)
qed

lemma linked_distinct:
  assumes "links_ok d" and "get_linked_broker_account u d = Inr l" and "get_linked_broker_account v d = Inr m"
    and "u \<noteq> v"
  shows "bl_alpaca_account_id l \<noteq> bl_alpaca_account_id m"
proof -
  have row: "x \<in> set (db_links d) \<and> bl_user_id x = y"
    if "get_linked_broker_account y d = Inr x" for x y
    using that by (auto simp: get_linked_broker_account_def scalar_one_or_none_def
      elim!: bindE_InrE split: list.splits option.splits if_splits dest: filter_singleton_set)
  from row [OF assms(2)] row [OF assms(3)] assms(1,4) show ?thesis
    unfolding links_ok_def distinct_map by (metis inj_onD)
qed


definition sample_link :: "uuid \<Rightarrow> string \<Rightarrow> broker_link" where
  "sample_link u a = \<lparr> bl_user_id = u, bl_alpaca_account_id = a, bl_status = ''active'' \<rparr>"


section \<open>Weak points\<close>

text \<open>
  The broker account a user names is linked as soon as it exists: the account's owner is not asked,
  and the owner cannot link it afterwards.
\<close>

lemma anyone_links_any_account:
  assumes "8 \<le> length a" and "length a \<le> 100" and "db_links d = []"
    and "broker_call st h now (GetAccount a) s = (Inr (JObj account), s1)"
  shows "\<exists>d1. link_broker_account st h now a u (s, d)
      = (Inr [(''user_id'', JStr u), (''account_id'', jget_default (JStr a) ''id'' account), (''status'', JStr ''active'')], s1, d1)
    \<and> get_linked_broker_account u d1 = Inr \<lparr> bl_user_id = u, bl_alpaca_account_id = a, bl_status = ''active'' \<rparr>"
  using assms
  by (simp add: link_broker_account_def or_502_def scalar_one_or_none_def store_link_def as_object_def
    get_linked_broker_account_def)

end
