(* ===== verification/AFM_Market.thy ===== *)
theory AFM_Market
  imports AFM_Text
begin

text \<open>
  \<^verbatim>\<open>market_gateway/market_registry.py\<close> and \<^verbatim>\<open>market_gateway/broker_router.py\<close>: opening hours and the
  choice of a broker.  The time zone database, the JSON reader and the random numbers are
  parameters.  Latencies, priorities and weights are exact rationals where the code has doubles.
\<close>

section \<open>The registry\<close>

record market =
  mk_code :: string
  mk_name :: string
  mk_country :: string
  mk_timezone :: string
  mk_currency :: string
  mk_open_time :: string
  mk_close_time :: string
  mk_weekend_days :: "string option"
  mk_is_active :: bool

type_synonym registry = "(string \<times> market) list"

definition register_market :: "market \<Rightarrow> registry \<Rightarrow> registry" where
  "register_market m ms = AList.update (mk_code m) m ms"

definition get_market :: "string \<Rightarrow> registry \<Rightarrow> exn + market" where
  "get_market code ms =
     (case map_of ms code of
        None \<Rightarrow> Inl (raise NotFoundError (''Market '' @ code @ '' not found''))
      | Some m \<Rightarrow> Inr m)"

definition list_markets :: "string option \<Rightarrow> bool \<Rightarrow> registry \<Rightarrow> market list" where
  "list_markets country active_only ms =
     filter (\<lambda>m. (active_only \<longrightarrow> mk_is_active m)
               \<and> (case country of None \<Rightarrow> True | Some c \<Rightarrow> c = [] \<or> mk_country m = c)) (map snd ms)"

definition WEEKEND_DEFAULT :: "int set" where
  "WEEKEND_DEFAULT = {6, 7}"

fun parse_ints :: "string list \<Rightarrow> int list option" where
  "parse_ints [] = Some []"
| "parse_ints (w # ws) =
     (case py_int (JStr w) of
        Inl _ \<Rightarrow> None
      | Inr n \<Rightarrow> map_option (Cons n) (parse_ints ws))"

text \<open>Days that cannot be read leave the default in place.\<close>

definition weekend_of :: "market \<Rightarrow> int set" where
  "weekend_of m =
     (case mk_weekend_days m of
        None \<Rightarrow> WEEKEND_DEFAULT
      | Some s \<Rightarrow>
          if s = [] then WEEKEND_DEFAULT
          else case parse_ints (split_on (CHR '','') s) of None \<Rightarrow> WEEKEND_DEFAULT | Some ds \<Rightarrow> set ds)"

definition clock_minutes :: "string \<Rightarrow> int option" where
  "clock_minutes s =
     (case parse_ints (split_on (CHR '':'') s) of Some [h, m] \<Rightarrow> Some (h * 60 + m) | _ \<Rightarrow> None)"

text \<open>
  \<open>zone name\<close> is the offset of a time zone at a time, \<open>None\<close> for a name the database does not know.
  The handler of that case names an attribute that does not exist.
\<close>

definition is_open :: "(string \<Rightarrow> (time \<Rightarrow> time) option) \<Rightarrow> string \<Rightarrow> time \<Rightarrow> registry \<Rightarrow> exn + bool" where
  "is_open zone code moment ms =
     bindE (get_market code ms) (\<lambda>market.
     case zone (mk_timezone market) of
       None \<Rightarrow> Inl (AttributeError ''NotFoundError'')
     | Some offset \<Rightarrow>
         let local_time = moment + offset moment in
         if isoweekday local_time \<in> weekend_of market then Inr False
         else case (clock_minutes (mk_open_time market), clock_minutes (mk_close_time market)) of
           (Some open_minutes, Some close_minutes) \<Rightarrow>
             let current_minutes = time_of_day local_time div minutes 1 in
             if close_minutes < open_minutes
             then Inr (open_minutes \<le> current_minutes \<or> current_minutes \<le> close_minutes)
             else Inr (open_minutes \<le> current_minutes \<and> current_minutes \<le> close_minutes)
         | _ \<Rightarrow> Inr True)"

definition assert_open :: "(string \<Rightarrow> (time \<Rightarrow> time) option) \<Rightarrow> string \<Rightarrow> time \<Rightarrow> registry \<Rightarrow> exn + unit" where
  "assert_open zone code moment ms =
     bindE (is_open zone code moment ms) (\<lambda>open_now.
     if open_now then Inr ()
     else bindE (get_market code ms) (\<lambda>m.
       Inl (raise MarketClosedError (''Market '' @ mk_name m @ '' ('' @ code @ '') is currently closed. ''
         @ ''Trading hours: '' @ mk_open_time m @ ''-'' @ mk_close_time m @ '' '' @ mk_timezone m))))"

section \<open>The broker router\<close>

record broker =
  br_name :: string
  br_api_endpoint :: string
  br_supported_markets :: "string option"
  br_supported_order_types :: "string option"
  br_latency_ms :: rat
  br_is_active :: bool
  br_priority :: rat
  br_region :: "string option"

text \<open>\<^verbatim>\<open>text in value\<close> of a JSON value; \<open>None\<close> when it raises a type error.\<close>

definition json_in :: "string \<Rightarrow> json \<Rightarrow> bool option" where
  "json_in s v =
     (case v of
        JArr xs \<Rightarrow> Some (JStr s \<in> set xs)
      | JObj kvs \<Rightarrow> Some (s \<in> fst ` set kvs)
      | JStr t \<Rightarrow> Some (contains s t)
      | _ \<Rightarrow> None)"

definition listed :: "(string \<Rightarrow> json option) \<Rightarrow> string \<Rightarrow> string option \<Rightarrow> bool option" where
  "listed loads s column =
     (case column of None \<Rightarrow> None
      | Some t \<Rightarrow> (case loads t of None \<Rightarrow> None | Some v \<Rightarrow> json_in s v))"

definition supports_market :: "(string \<Rightarrow> json option) \<Rightarrow> broker \<Rightarrow> string \<Rightarrow> bool" where
  "supports_market loads b market_code = (listed loads market_code (br_supported_markets b) = Some True)"

definition supports_order_type :: "(string \<Rightarrow> json option) \<Rightarrow> broker \<Rightarrow> string \<Rightarrow> bool" where
  "supports_order_type loads b order_type =
     (case listed loads order_type (br_supported_order_types b) of
        None \<Rightarrow> order_type = ''market'' | Some x \<Rightarrow> x)"

text \<open>\<^verbatim>\<open>s.split()\<close>.\<close>

fun split_words :: "string \<Rightarrow> string list" where
  "split_words [] = []"
| "split_words (c # s) =
     (if is_space c then split_words s
      else case s of
        [] \<Rightarrow> [[c]]
      | d # _ \<Rightarrow> if is_space d then [c] # split_words s
                 else case split_words s of [] \<Rightarrow> [[c]] | w # ws \<Rightarrow> (c # w) # ws)"

definition matches_region :: "broker \<Rightarrow> string \<Rightarrow> bool" where
  "matches_region b preferred_region =
     (let wanted = py_upper (py_strip preferred_region); low = py_lower wanted;
          endpoint = py_lower (py_upper (br_api_endpoint b))
      in (case br_region b of None \<Rightarrow> False | Some r \<Rightarrow> r \<noteq> [] \<and> py_upper r = wanted)
       \<or> wanted \<in> set (split_words (py_upper (br_name b)))
       \<or> contains (CHR ''-'' # low) endpoint \<or> contains (low @ ''.'') endpoint)"

definition register_broker :: "broker \<Rightarrow> broker list \<Rightarrow> broker list" where
  "register_broker b brokers = brokers @ [b]"

definition broker_candidates ::
  "(string \<Rightarrow> json option) \<Rightarrow> string \<Rightarrow> string \<Rightarrow> broker list \<Rightarrow> broker list" where
  "broker_candidates loads market_code order_type brokers =
     filter (\<lambda>b. br_is_active b \<and> supports_market loads b market_code \<and> supports_order_type loads b order_type)
       brokers"

definition regional :: "string option \<Rightarrow> broker list \<Rightarrow> broker list" where
  "regional preferred_region candidates =
     (case preferred_region of
        None \<Rightarrow> candidates
      | Some r \<Rightarrow>
          if r = [] then candidates
          else let rs = filter (\<lambda>b. matches_region b r) candidates in if rs = [] then candidates else rs)"

definition broker_weight :: "broker \<Rightarrow> rat" where
  "broker_weight b = br_priority b * max 1 (1000 / max (br_latency_ms b) 1)"

text \<open>The first broker at which the running sum of the weights reaches \<open>r\<close>, or the last one.\<close>

fun pick :: "rat \<Rightarrow> rat \<Rightarrow> broker list \<Rightarrow> broker option" where
  "pick r cumulative [] = None"
| "pick r cumulative (b # bs) =
     (let c = cumulative + broker_weight b in
      if r \<le> c then Some b else if bs = [] then Some b else pick r c bs)"

text \<open>
  \<open>choice\<close> is the index \<^verbatim>\<open>random.choice\<close> draws from a list of that length and \<open>fraction\<close> the number
  in \<open>[0, 1)\<close> behind \<^verbatim>\<open>random.uniform\<close>.
\<close>

definition select_broker ::
  "(string \<Rightarrow> json option) \<Rightarrow> (nat \<Rightarrow> nat) \<Rightarrow> rat \<Rightarrow> string \<Rightarrow> string \<Rightarrow> string option \<Rightarrow> broker list
   \<Rightarrow> exn + broker" where
  "select_broker loads choice fraction market_code order_type preferred_region brokers =
     (let candidates = broker_candidates loads market_code order_type brokers in
      if candidates = []
      then Inl (raise BrokerUnavailableError (''No broker available for market '' @ market_code))
      else let chosen = regional preferred_region candidates;
               total_weight = sum_list (map broker_weight chosen)
           in if total_weight = 0 then Inr (chosen ! choice (length chosen))
              else case pick (total_weight * fraction) 0 chosen of
                None \<Rightarrow> Inr (last chosen) | Some b \<Rightarrow> Inr b)"

section \<open>Opening hours\<close>

text \<open>
  With readable hours, the market is open on a working day exactly during the session that starts
  at the opening minute, also when the session runs over midnight.
\<close>

lemma session_minutes:
  fixes o' c m :: int
  assumes "0 \<le> o'" "o' < 1440" "0 \<le> c" "c < 1440" "0 \<le> m" "m < 1440"
  shows "(if c < o' then o' \<le> m \<or> m \<le> c else o' \<le> m \<and> m \<le> c) \<longleftrightarrow> (m - o') mod 1440 \<le> (c - o') mod 1440"
proof -
  have wrap: "(x - o') mod 1440 = (if x < o' then x - o' + 1440 else x - o')" if "0 \<le> x" "x < 1440" for x
  proof (cases "x < o'")
    case True
    have "(x - o') mod 1440 = (x - o' + 1440) mod 1440" by simp
    also have "\<dots> = x - o' + 1440" using that assms(1,2) True by (intro mod_pos_pos_trivial) auto
    finally show ?thesis using True by simp
  qed (use that assms in \<open>simp add: mod_pos_pos_trivial\<close>)
  show ?thesis unfolding wrap [OF assms(5,6)] wrap [OF assms(3,4)] using assms by auto
qed

lemma current_minutes_range: "0 \<le> time_of_day t div minutes 1" "time_of_day t div minutes 1 < 1440"
proof -
  have "0 \<le> time_of_day t" and "time_of_day t < 1440 * minutes 1"
    by (simp_all add: time_of_day_def days_def hours_def minutes_def seconds_def)
  then show "0 \<le> time_of_day t div minutes 1" and "time_of_day t div minutes 1 < 1440"
    by (simp_all add: minutes_def seconds_def)
qed

lemma open_during_session:
  assumes "get_market code ms = Inr m" and "zone (mk_timezone m) = Some offset"
    and "clock_minutes (mk_open_time m) = Some o'" and "clock_minutes (mk_close_time m) = Some c"
    and "0 \<le> o'" "o' < 1440" "0 \<le> c" "c < 1440"
  shows "is_open zone code moment ms = Inr
    (isoweekday (moment + offset moment) \<notin> weekend_of m
     \<and> (time_of_day (moment + offset moment) div minutes 1 - o') mod 1440 \<le> (c - o') mod 1440)"
  unfolding session_minutes [OF assms(5-8) current_minutes_range, symmetric]
  by (simp add: is_open_def assms(1-4) Let_def)

text \<open>Orders are let through exactly while the market is open.\<close>

lemma assert_open_iff: "assert_open zone code moment ms = Inr () \<longleftrightarrow> is_open zone code moment ms = Inr True"
  by (cases "is_open zone code moment ms") (auto simp: assert_open_def bindE_eq_Inr_iff)

text \<open>
  Two weak points: an unknown time zone raises an attribute error instead of falling back to UTC,
  and hours that cannot be read count as open.
\<close>

lemma unknown_zone_raises:
  "get_market code ms = Inr m \<Longrightarrow> zone (mk_timezone m) = None \<Longrightarrow>
     is_open zone code moment ms = Inl (AttributeError ''NotFoundError'')"
  by (simp add: is_open_def)

lemma unreadable_hours_count_as_open:
  "get_market code ms = Inr m \<Longrightarrow> zone (mk_timezone m) = Some offset \<Longrightarrow> clock_minutes (mk_open_time m) = None \<Longrightarrow>
     isoweekday (moment + offset moment) \<notin> weekend_of m \<Longrightarrow> is_open zone code moment ms = Inr True"
  by (simp add: is_open_def)

section \<open>The chosen broker\<close>

lemma pick_member: "pick r c bs = Some b \<Longrightarrow> b \<in> set bs"
  by (induction r c bs rule: pick.induct) (auto simp: Let_def split: if_splits)

lemma pick_total: "bs \<noteq> [] \<Longrightarrow> \<exists>b. pick r c bs = Some b"
  by (induction r c bs rule: pick.induct) (auto simp: Let_def)

lemma regional_subset: "set (regional r bs) \<subseteq> set bs" and regional_nonempty: "bs \<noteq> [] \<Longrightarrow> regional r bs \<noteq> []"
  by (auto simp: regional_def Let_def split: option.splits)

text \<open>
  The router answers with an active broker that supports the market and the order type, and with one
  of the preferred region when such a broker exists; it fails exactly when there is none.
\<close>

lemma select_broker_eligible:
  assumes "\<And>n. 0 < n \<Longrightarrow> choice n < n"
  shows "case select_broker loads choice fraction market_code order_type preferred_region brokers of
      Inl e \<Rightarrow> broker_candidates loads market_code order_type brokers = []
    | Inr b \<Rightarrow> b \<in> set (regional preferred_region (broker_candidates loads market_code order_type brokers))"
proof (cases "broker_candidates loads market_code order_type brokers = []")
  case False
  let ?chosen = "regional preferred_region (broker_candidates loads market_code order_type brokers)"
  have ne: "?chosen \<noteq> []" using False by (rule regional_nonempty)
  then have "?chosen ! choice (length ?chosen) \<in> set ?chosen" by (simp add: assms)
  moreover obtain b where "pick (sum_list (map broker_weight ?chosen) * fraction) 0 ?chosen = Some b"
    using pick_total [OF ne] by blast
  moreover from pick_member [OF this] have "b \<in> set ?chosen" .
  ultimately show ?thesis using False by (simp add: select_broker_def Let_def)
qed (simp add: select_broker_def)

end
