(* ===== verification/AFM_Easymarkets.thy ===== *)
theory AFM_Easymarkets
  imports AFM_Text AFM_Settings AFM_Models
begin

text \<open>
  \<^verbatim>\<open>easymarkets/wallet_service.py\<close> and \<^verbatim>\<open>easymarkets/copy_trading_service.py\<close>: wallet entries with
  their balance check and follow relations with their limits.  No handler of the gateway calls
  them yet; the entries they build are returned and not stored.  The columns of a wallet that may
  be null in the schema have defaults and are taken to hold a value.
\<close>

section \<open>Rows\<close>

datatype wallet_transaction_type = DEPOSIT | WITHDRAWAL | TRANSFER_IN | TRANSFER_OUT

fun wallet_transaction_type_value :: "wallet_transaction_type \<Rightarrow> string" where
  "wallet_transaction_type_value DEPOSIT = ''deposit''"
| "wallet_transaction_type_value WITHDRAWAL = ''withdrawal''"
| "wallet_transaction_type_value TRANSFER_IN = ''transfer_in''"
| "wallet_transaction_type_value TRANSFER_OUT = ''transfer_out''"

record wallet =
  wa_id :: uuid
  wa_user_id :: uuid
  wa_currency :: string
  wa_balance :: decimal
  wa_locked_balance :: decimal

record wallet_transaction =
  wt_wallet_id :: uuid
  wt_type :: string
  wt_amount :: decimal
  wt_currency :: string
  wt_reference :: string
  wt_status :: string

datatype copy_trade_status = ACTIVE | PAUSED | STOPPED

record copy_trade =
  ct_follower_id :: uuid
  ct_leader_id :: uuid
  ct_allocation_percent :: int
  ct_max_drawdown :: decimal
  ct_status :: copy_trade_status

section \<open>The wallet service\<close>

definition WALLET_CURRENCIES :: "string set" where
  "WALLET_CURRENCIES =
     {''XOF'', ''XAF'', ''NGN'', ''KES'', ''GHS'', ''ZAR'', ''USD'', ''EUR'', ''GBP''}"

definition validate_currency :: "string \<Rightarrow> exn + string" where
  "validate_currency currency =
     (let currency = py_upper currency in
      if currency \<notin> WALLET_CURRENCIES
      then Inl (raise CurrencyNotSupportedError (''Currency '' @ currency @ '' not supported''))
      else Inr currency)"

definition validate_amount :: "decimal \<Rightarrow> exn + decimal" where
  "validate_amount amount =
     (if amount \<le> Dec 0 0 then Inl (raise ValidationError ''Amount must be greater than 0'')
      else quantize_up amount)"

definition get_wallet :: "uuid \<Rightarrow> wallet list \<Rightarrow> exn + wallet" where
  "get_wallet wallet_id d =
     (case row_lookup wa_id wallet_id d of
        None \<Rightarrow> Inl (raise NotFoundError (''Wallet '' @ wallet_id @ '' not found''))
      | Some w \<Rightarrow> Inr w)"

definition deposit :: "uuid \<Rightarrow> decimal \<Rightarrow> string \<Rightarrow> string \<Rightarrow> exn + wallet_transaction" where
  "deposit wallet_id amount currency reference =
     bindE (validate_currency currency) (\<lambda>currency.
     bindE (validate_amount amount) (\<lambda>amount.
     Inr \<lparr> wt_wallet_id = wallet_id, wt_type = ''deposit'', wt_amount = amount, wt_currency = currency,
           wt_reference = reference, wt_status = ''completed'' \<rparr>))"

text \<open>
  The wallet comes from a session that is closed when \<^verbatim>\<open>_get_wallet\<close> returns: the two assignments
  change the detached object, which is the second component of the answer, and the rows stay
  what they were.
\<close>

definition withdraw ::
  "uuid \<Rightarrow> decimal \<Rightarrow> string \<Rightarrow> string \<Rightarrow> wallet list
   \<Rightarrow> (exn + wallet_transaction \<times> wallet) \<times> wallet list" where
  "withdraw wallet_id amount currency reference d =
     (bindE (validate_currency currency) (\<lambda>currency.
      bindE (validate_amount amount) (\<lambda>amount.
      bindE (get_wallet wallet_id d) (\<lambda>wallet.
      if wa_balance wallet < amount
      then Inl (raise InsufficientFundsError
             (''Insufficient funds: balance '' @ dec_str (wa_balance wallet) @ '' '' @ wa_currency wallet
               @ '', requested '' @ dec_str amount @ '' '' @ currency))
      else Inr (\<lparr> wt_wallet_id = wallet_id, wt_type = ''withdrawal'', wt_amount = dec_neg amount,
                  wt_currency = currency, wt_reference = reference, wt_status = ''pending'' \<rparr>,
                wallet \<lparr> wa_balance := dec_sub (wa_balance wallet) amount,
                         wa_locked_balance := dec_add (wa_locked_balance wallet) amount \<rparr>)))), d)"

definition transfer ::
  "uuid \<Rightarrow> uuid \<Rightarrow> decimal \<Rightarrow> string \<Rightarrow> wallet list
   \<Rightarrow> exn + wallet_transaction \<times> wallet_transaction" where
  "transfer from_wallet_id to_wallet_id amount currency d =
     bindE (validate_currency currency) (\<lambda>currency.
     bindE (validate_amount amount) (\<lambda>amount.
     bindE (get_wallet from_wallet_id d) (\<lambda>from_wallet.
     if wa_balance from_wallet < amount
     then Inl (raise InsufficientFundsError
            (''Insufficient funds for transfer: balance '' @ dec_str (wa_balance from_wallet)
              @ '', requested '' @ dec_str amount))
     else Inr
       (\<lparr> wt_wallet_id = from_wallet_id, wt_type = ''transfer_out'', wt_amount = dec_neg amount,
          wt_currency = currency, wt_reference = ''to:'' @ to_wallet_id, wt_status = ''completed'' \<rparr>,
        \<lparr> wt_wallet_id = to_wallet_id, wt_type = ''transfer_in'', wt_amount = amount,
          wt_currency = currency, wt_reference = ''from:'' @ from_wallet_id, wt_status = ''completed'' \<rparr>))))"

section \<open>Copy trading\<close>

definition default_drawdown :: "decimal option \<Rightarrow> decimal" where
  "default_drawdown max_drawdown =
     (case max_drawdown of
        None \<Rightarrow> Dec 200 (- 1)
      | Some x \<Rightarrow> if dec_eq x (Dec 0 0) then Dec 200 (- 1) else x)"

definition start_copy_trading ::
  "settings \<Rightarrow> uuid \<Rightarrow> uuid \<Rightarrow> int \<Rightarrow> decimal option \<Rightarrow> exn + copy_trade" where
  "start_copy_trading st follower_id leader_id allocation_percent max_drawdown =
     (if follower_id = leader_id then Inl (AFM SelfFollowError (exc_detail SelfFollowError None))
      else if allocation_percent \<le> 0
      then Inl (raise InvalidAllocationError ''Allocation must be greater than 0%'')
      else if max_copy_allocation_percent st < allocation_percent
      then Inl (raise InvalidAllocationError
             (''Allocation cannot exceed '' @ int_str (max_copy_allocation_percent st) @ ''%''))
      else Inr \<lparr> ct_follower_id = follower_id, ct_leader_id = leader_id,
                 ct_allocation_percent = allocation_percent, ct_max_drawdown = default_drawdown max_drawdown,
                 ct_status = ACTIVE \<rparr>)"

section \<open>What the wallet service keeps\<close>

lemma validate_amount_ok:
  assumes "validate_amount amount = Inr q"
  shows "0 \<le> dval q" and "expo q = - 2" and "\<bar>2 * (dval q - dval amount)\<bar> \<le> 10 powi (- 2)" and "fits (coeff q)"
proof -
  from assms have q: "quantize_up amount = Inr q" and pos: "dval (Dec 0 (- 2)) \<le> dval amount"
    by (auto simp: validate_amount_def less_eq_decimal_dval dval_Dec split: if_splits)
  show "expo q = - 2" using q by (rule quantize_up_expo)
  show "\<bar>2 * (dval q - dval amount)\<bar> \<le> 10 powi (- 2)" using q by (rule quantize_up_near)
  show "0 \<le> dval q" using quantize_up_ge [OF q, of "Dec 0 (- 2)"] pos by (simp add: dval_Dec)
  show "fits (coeff q)" using q by (auto simp: quantize_up_def dec_quantize_eq_Inr_iff)
qed

text \<open>A transfer's two entries cancel, and the source could pay.\<close>

lemma transfer_balanced:
  assumes "transfer a b amount currency d = Inr (debit, credit)"
  shows "dval (wt_amount debit) + dval (wt_amount credit) = 0"
    and "\<exists>w. row_lookup wa_id a d = Some w \<and> dval (wt_amount credit) \<le> dval (wa_balance w)"
    and "wt_wallet_id debit = a" and "wt_wallet_id credit = b"
  using assms
  by (auto simp: transfer_def get_wallet_def bindE_eq_Inr_iff less_decimal_dval not_less
      dec_neg_exact validate_amount_ok(4) split: if_splits option.splits)

text \<open>A withdrawal is covered by the balance it is checked against.\<close>

lemma withdraw_covered:
  assumes "withdraw wid amount currency reference d = (Inr (entry, w'), d')"
  obtains w q where "row_lookup wa_id wid d = Some w" and "wt_amount entry = dec_neg q"
    and "dval (wt_amount entry) = - dval q" and "0 \<le> dval q" and "dval q \<le> dval (wa_balance w)"
    and "w' = w \<lparr> wa_balance := dec_sub (wa_balance w) q, wa_locked_balance := dec_add (wa_locked_balance w) q \<rparr>"
  using assms
  by (auto simp: withdraw_def get_wallet_def bindE_eq_Inr_iff less_decimal_dval not_less
      dec_neg_exact validate_amount_ok(1,4) split: if_splits option.splits)

text \<open>
  The reservation of a withdrawal is lost with the detached object, so it does not restrict the next
  one: the whole balance can be withdrawn as often as one likes.
\<close>

fun withdraw_all :: "(uuid \<times> decimal \<times> string \<times> string) list \<Rightarrow> wallet list \<Rightarrow> (exn + wallet_transaction \<times> wallet) list" where
  "withdraw_all [] d = []"
| "withdraw_all ((wid, amount, currency, reference) # ws) d =
     (let (r, d') = withdraw wid amount currency reference d in r # withdraw_all ws d')"

lemma withdrawal_not_persisted:
  assumes "withdraw wid amount currency reference d = (Inr (entry, w'), d')"
  shows "withdraw_all (replicate n (wid, amount, currency, reference)) d = replicate n (Inr (entry, w'))"
proof -
  have "d' = d" using assms by (simp add: withdraw_def)
  with assms show ?thesis by (induction n) auto
qed

text \<open>The balance is compared with the amount as if both were in one currency.\<close>

lemma withdraw_ignores_wallet_currency:
  assumes "c \<in> WALLET_CURRENCIES" and "c' \<in> WALLET_CURRENCIES" and "py_upper c = c" and "py_upper c' = c'"
  shows "is_ok (fst (withdraw wid amount c reference d)) \<longleftrightarrow> is_ok (fst (withdraw wid amount c' reference d))"
  using assms by (auto simp: withdraw_def validate_currency_def is_ok_iff bindE_eq_Inr_iff split: if_splits)

text \<open>An amount below half a cent is accepted although the entry it makes is of nought.\<close>

lemma half_cent_deposit_is_nought:
  "deposit wid (Dec 4 (- 3)) ''usd'' reference = Inr \<lparr> wt_wallet_id = wid, wt_type = ''deposit'', wt_amount = Dec 0 (- 2),
     wt_currency = ''USD'', wt_reference = reference, wt_status = ''completed'' \<rparr>"
  by code_simp

text \<open>A transfer to a wallet that does not exist, or to its own source, is answered as completed.\<close>

lemma transfer_unknown_target:
  assumes "transfer a b amount currency d = Inr (debit, credit)"
  shows "transfer a b' amount currency d
           = Inr (debit \<lparr> wt_reference := ''to:'' @ b' \<rparr>, credit \<lparr> wt_wallet_id := b' \<rparr>)"
  using assms by (auto simp: transfer_def bindE_eq_Inr_iff split: if_splits)

section \<open>Follow relations\<close>

lemma copy_trade_limits:
  assumes "start_copy_trading st f l a dd = Inr ct"
  shows "ct_follower_id ct \<noteq> ct_leader_id ct" and "1 \<le> ct_allocation_percent ct"
    and "ct_allocation_percent ct \<le> max_copy_allocation_percent st" and "ct_status ct = ACTIVE"
    and "dval (ct_max_drawdown ct) \<noteq> 0"
  using assms by (auto simp: start_copy_trading_def default_drawdown_def dec_eq_dval dval_Dec split: if_splits option.splits)

text \<open>A drawdown of nought means twenty percent.\<close>

lemma zero_drawdown_is_twenty: "default_drawdown (Some (Dec 0 e)) = Dec 200 (- 1)"
  by (simp add: default_drawdown_def dec_eq_dval dval_Dec)

end
