(* ===== verification/AFM_Visa.thy ===== *)
theory AFM_Visa
  imports AFM_Text
begin

text \<open>
  \<^verbatim>\<open>api_gateway/visa_webhooks.py\<close> and the two Visa routes of \<^verbatim>\<open>api_gateway/main.py\<close>: a callback is
  checked for its size, the assertion of the ingress, its signature and its shape, acknowledged
  and recorded in the log.  HMAC-SHA256 in hexadecimal and the JSON reader on bytes are parameters;
  a body is a string of bytes and the headers are listed under their names in lower case.
\<close>

section \<open>Settings\<close>

definition MAX_VISA_BODY_BYTES :: nat where
  "MAX_VISA_BODY_BYTES = 1048576"

record visa_settings =
  vs_environment :: string
  vs_webhook_secret :: "string option"
  vs_proxy_secret :: "string option"
  vs_require_mtls :: bool

text \<open>\<open>value or None\<close>: an empty variable counts as absent.\<close>

definition non_empty :: "string option \<Rightarrow> string option" where
  "non_empty v = (case v of Some s \<Rightarrow> if s = [] then None else Some s | None \<Rightarrow> None)"

definition env_default :: "(string \<Rightarrow> string option) \<Rightarrow> string \<Rightarrow> string \<Rightarrow> string" where
  "env_default getenv name fallback = (case getenv name of None \<Rightarrow> fallback | Some s \<Rightarrow> s)"

definition visa_settings_of_env :: "(string \<Rightarrow> string option) \<Rightarrow> visa_settings" where
  "visa_settings_of_env getenv =
     \<lparr> vs_environment = env_default getenv ''ENVIRONMENT'' ''development'',
       vs_webhook_secret = non_empty (getenv ''VISA_WEBHOOK_SHARED_SECRET''),
       vs_proxy_secret = non_empty (getenv ''VISA_MTLS_PROXY_SECRET''),
       vs_require_mtls = (py_lower (env_default getenv ''VISA_MTLS_REQUIRED'' ''false'') = ''true'') \<rparr>"

definition visa_production :: "visa_settings \<Rightarrow> bool" where
  "visa_production st \<longleftrightarrow> vs_environment st = ''production''"

section \<open>The checks\<close>

type_synonym headers = "(string \<times> string) list"

definition header :: "headers \<Rightarrow> string \<Rightarrow> string" where
  "header hs name = (case map_of hs name of None \<Rightarrow> '''' | Some v \<Rightarrow> v)"

definition remove_prefix :: "string \<Rightarrow> string \<Rightarrow> string" where
  "remove_prefix p s = (if starts_with p s then drop (length p) s else s)"

definition signature_match :: "(string \<Rightarrow> string \<Rightarrow> string) \<Rightarrow> string \<Rightarrow> string \<Rightarrow> string \<Rightarrow> bool" where
  "signature_match hmac256 body supplied secret \<longleftrightarrow>
     py_lower (py_strip (remove_prefix ''sha256='' supplied)) = hmac256 secret body"

definition verify_mtls_proxy :: "(string \<Rightarrow> string \<Rightarrow> string) \<Rightarrow> headers \<Rightarrow> visa_settings \<Rightarrow> bool" where
  "verify_mtls_proxy hmac256 hs st =
     (if \<not> vs_require_mtls st then True
      else case vs_proxy_secret st of
        None \<Rightarrow> False
      | Some secret \<Rightarrow>
          if secret = [] \<or> py_upper (header hs ''x-client-cert-verify'') \<noteq> ''SUCCESS'' then False
          else header hs ''x-afm-mtls-assertion'' = hmac256 secret ''visa-client-cert:SUCCESS'')"

definition signature_accepted ::
  "(string \<Rightarrow> string \<Rightarrow> string) \<Rightarrow> string \<Rightarrow> headers \<Rightarrow> visa_settings \<Rightarrow> bool" where
  "signature_accepted hmac256 body hs st =
     (case vs_webhook_secret st of
        None \<Rightarrow> True
      | Some secret \<Rightarrow>
          secret = [] \<or>
          (header hs ''x-visa-signature'' \<noteq> [] \<and> signature_match hmac256 body (header hs ''x-visa-signature'') secret))"

text \<open>\<open>loads body\<close> is \<open>None\<close> for bytes that are not UTF-8 or not JSON.\<close>

definition validate_visa_request ::
  "(string \<Rightarrow> string \<Rightarrow> string) \<Rightarrow> (string \<Rightarrow> json option) \<Rightarrow> string \<Rightarrow> headers \<Rightarrow> visa_settings \<Rightarrow> exn + jobj" where
  "validate_visa_request hmac256 loads body hs st =
     (if MAX_VISA_BODY_BYTES < length body then Inl (HTTPException 413 ''Visa webhook body too large'')
      else if \<not> verify_mtls_proxy hmac256 hs st
      then Inl (HTTPException 401 ''Valid Visa mTLS assertion required'')
      else if \<not> signature_accepted hmac256 body hs st
      then Inl (HTTPException 401 ''Invalid Visa webhook signature'')
      else case loads body of
        None \<Rightarrow> Inl (HTTPException 400 ''Invalid JSON payload'')
      | Some (JObj payload) \<Rightarrow> Inr payload
      | Some _ \<Rightarrow> Inl (HTTPException 400 ''Visa payload must be an object''))"

section \<open>The routes\<close>

definition visa_event_id :: "jobj \<Rightarrow> headers \<Rightarrow> json" where
  "visa_event_id payload hs =
     py_or (py_or (jget ''eventId'' payload) (jget ''event_id'' payload)) (jopt (map_of hs ''x-request-id''))"

text \<open>The router that can be mounted: the answer carries the event id.\<close>

definition receive ::
  "(string \<Rightarrow> string \<Rightarrow> string) \<Rightarrow> (string \<Rightarrow> json option) \<Rightarrow> visa_settings \<Rightarrow> string \<Rightarrow> headers \<Rightarrow> exn + jobj" where
  "receive hmac256 loads cfg body hs =
     bindE (validate_visa_request hmac256 loads body hs cfg) (\<lambda>payload.
     Inr [(''status'', JStr ''received''), (''event_id'', visa_event_id payload hs)])"

text \<open>The routes of the gateway: the settings are read anew for every request; the log line is kept.\<close>

record visa_log =
  vl_callback :: string
  vl_event_type :: string
  vl_event_id :: json

definition visa_callback ::
  "(string \<Rightarrow> string \<Rightarrow> string) \<Rightarrow> (string \<Rightarrow> json option) \<Rightarrow> (string \<Rightarrow> string option) \<Rightarrow> string \<Rightarrow> headers \<Rightarrow> string
   \<Rightarrow> exn + visa_log \<times> jobj" where
  "visa_callback hmac256 loads getenv payload hs callback_name =
     bindE (validate_visa_request hmac256 loads payload hs (visa_settings_of_env getenv)) (\<lambda>body.
     Inr (\<lparr> vl_callback = callback_name,
            vl_event_type = take 80 (py_str (py_or (py_or (jget ''event'' body) (jget ''type'' body)) (JStr ''unknown''))),
            vl_event_id = visa_event_id body hs \<rparr>,
          [(''status'', JStr ''received'')]))"

definition visa_receive_side_callback ::
  "(string \<Rightarrow> string \<Rightarrow> string) \<Rightarrow> (string \<Rightarrow> json option) \<Rightarrow> (string \<Rightarrow> string option) \<Rightarrow> string \<Rightarrow> headers
   \<Rightarrow> exn + visa_log \<times> jobj" where
  "visa_receive_side_callback hmac256 loads getenv payload hs =
     visa_callback hmac256 loads getenv payload hs ''receive_side''"

definition visa_issuer_callback ::
  "(string \<Rightarrow> string \<Rightarrow> string) \<Rightarrow> (string \<Rightarrow> json option) \<Rightarrow> (string \<Rightarrow> string option) \<Rightarrow> string \<Rightarrow> headers
   \<Rightarrow> exn + visa_log \<times> jobj" where
  "visa_issuer_callback hmac256 loads getenv payload hs =
     visa_callback hmac256 loads getenv payload hs ''issuer''"

section \<open>What an accepted callback has shown\<close>

lemma visa_accepted_iff:
  "validate_visa_request hmac256 loads body hs st = Inr payload \<longleftrightarrow>
     length body \<le> MAX_VISA_BODY_BYTES \<and> verify_mtls_proxy hmac256 hs st
   \<and> signature_accepted hmac256 body hs st \<and> loads body = Some (JObj payload)"
  by (auto simp: validate_visa_request_def split: option.splits json.splits)

lemma visa_callback_ok_iff:
  "is_ok (visa_callback hmac256 loads getenv payload hs name) \<longleftrightarrow>
     is_ok (validate_visa_request hmac256 loads payload hs (visa_settings_of_env getenv))"
  by (auto simp: visa_callback_def is_ok_iff bindE_eq_Inr_iff)

text \<open>
  With a webhook secret in the environment, an acknowledged callback carries the HMAC of its own
  bytes under that secret.
\<close>

lemma visa_signed:
  assumes "visa_callback hmac256 loads getenv payload hs name = Inr r"
    and "getenv ''VISA_WEBHOOK_SHARED_SECRET'' = Some secret" and "secret \<noteq> []"
  shows "py_lower (py_strip (remove_prefix ''sha256='' (header hs ''x-visa-signature''))) = hmac256 secret payload"
  using assms
  by (auto simp: visa_callback_def bindE_eq_Inr_iff visa_accepted_iff signature_accepted_def
      signature_match_def visa_settings_of_env_def non_empty_def)

text \<open>A required assertion fails closed: without the proxy's secret nothing is acknowledged.\<close>

lemma visa_mtls_fails_closed:
  assumes "getenv ''VISA_MTLS_REQUIRED'' = Some ''true''" and "non_empty (getenv ''VISA_MTLS_PROXY_SECRET'') = None"
  shows "\<not> is_ok (visa_callback hmac256 loads getenv payload hs name)"
proof -
  have "''true'' = py_lower ''true''" by code_simp
  with assms show ?thesis unfolding visa_callback_ok_iff
    by (auto simp: is_ok_iff visa_accepted_iff verify_mtls_proxy_def visa_settings_of_env_def
        env_default_def)
qed

text \<open>
  Both protections are optional in every environment: with neither variable set, production too
  acknowledges any JSON object of anyone.
\<close>

lemma visa_open_without_secrets:
  assumes "getenv ''VISA_WEBHOOK_SHARED_SECRET'' = None" and "getenv ''VISA_MTLS_REQUIRED'' = None"
    and "getenv ''ENVIRONMENT'' = Some ''production''"
    and "length payload \<le> MAX_VISA_BODY_BYTES" and "loads payload = Some (JObj body)"
  shows "visa_production (visa_settings_of_env getenv)"
    and "is_ok (visa_callback hmac256 loads getenv payload hs name)"
proof -
  have false: "py_lower ''false'' \<noteq> ''true''" by code_simp
  show "visa_production (visa_settings_of_env getenv)"
    using assms(3) by (simp add: visa_production_def visa_settings_of_env_def env_default_def)
  show "is_ok (visa_callback hmac256 loads getenv payload hs name)"
    using assms false unfolding visa_callback_ok_iff
    by (auto simp: is_ok_iff visa_accepted_iff verify_mtls_proxy_def
        signature_accepted_def visa_settings_of_env_def env_default_def non_empty_def)
qed

end
