(* ===== verification/AFM_Worker.thy ===== *)
theory AFM_Worker
  imports AFM_Kora_Webhook AFM_Support
begin

text \<open>
  The endless loop of \<^verbatim>\<open>payment_hub/reconciliation.py\<close>: rounds of \<open>reconcile_due_once\<close> until the
  stop event is set, with a support diagnosis for every round that raises.  What a turn of the
  loop meets (the stop flag, the database's failures, the clock, the provider, the other sessions, the language model) is an
  infinite sequence of turns.  The loop may run for ever, so that not returning is the value \<open>None\<close>.
  Cancellation of the task is left out.
\<close>

section \<open>The loop\<close>

record worker_turn =
  tu_stop :: bool
  tu_faults :: round_faults
  tu_free :: "reconciliation \<Rightarrow> bool"
  tu_now :: time
  tu_worker :: string
  tu_provider :: "string option \<Rightarrow> exn + jobj"
  tu_meanwhile :: "db \<Rightarrow> db"
  tu_applied :: time
  tu_llm :: http

definition worker_round :: "worker_turn \<Rightarrow> db \<Rightarrow> (exn + bool) \<times> db" where
  "worker_round turn d =
     reconcile_due_once (tu_faults turn) (tu_free turn) (tu_now turn) (tu_worker turn) (tu_provider turn) (tu_meanwhile turn)
       (tu_applied turn) d"

definition diagnose ::
  "(string \<Rightarrow> string) \<Rightarrow> (string \<Rightarrow> json option) \<Rightarrow> llm_settings \<Rightarrow> http \<Rightarrow> exn \<Rightarrow> exn + support_decision" where
  "diagnose sha256 loads env h e =
     enrich_with_external_llm loads env h
       (analyze_incident sha256 (exn_str e)
          [(''component'', JStr ''reconciliation_worker''), (''provider'', JStr ''kora'')])"

text \<open>
  A round without a due task waits for the stop event, at most fifteen seconds, and a failed one
  sleeps for five: either way the next turn reads the flag again.  The decisions are logged.
\<close>

partial_function (option) reconciliation_worker ::
  "(string \<Rightarrow> string) \<Rightarrow> (string \<Rightarrow> json option) \<Rightarrow> llm_settings \<Rightarrow> (nat \<Rightarrow> worker_turn) \<Rightarrow> nat \<Rightarrow> db
   \<Rightarrow> support_decision list \<Rightarrow> ((exn + unit) \<times> db \<times> support_decision list) option" where
  "reconciliation_worker sha256 loads env turns i d logged =
     (if tu_stop (turns i) then Some (Inr (), d, logged)
      else let r = worker_round (turns i) d in
        case fst r of
          Inr processed \<Rightarrow> reconciliation_worker sha256 loads env turns (Suc i) (snd r) logged
        | Inl e \<Rightarrow>
            (case diagnose sha256 loads env (tu_llm (turns i)) e of
               Inl e' \<Rightarrow> Some (Inl e', snd r, logged)
             | Inr decision \<Rightarrow>
                 reconciliation_worker sha256 loads env turns (Suc i) (snd r) (logged @ [decision])))"

section \<open>When the loop ends\<close>

text \<open>The diagnosis of a turn's error, as the loop logs it: nothing for a round that returns.\<close>

definition turn_log ::
  "(string \<Rightarrow> string) \<Rightarrow> (string \<Rightarrow> json option) \<Rightarrow> llm_settings \<Rightarrow> worker_turn \<Rightarrow> db \<Rightarrow> support_decision list" where
  "turn_log sha256 loads env turn d =
     (case fst (worker_round turn d) of
        Inr _ \<Rightarrow> []
      | Inl e \<Rightarrow> (case diagnose sha256 loads env (tu_llm turn) e of Inl _ \<Rightarrow> [] | Inr decision \<Rightarrow> [decision]))"

text \<open>The reference: the rounds one after the other, and the log they leave.\<close>

primrec rounds ::
  "(string \<Rightarrow> string) \<Rightarrow> (string \<Rightarrow> json option) \<Rightarrow> llm_settings \<Rightarrow> worker_turn list \<Rightarrow> db
   \<Rightarrow> db \<times> support_decision list" where
  "rounds sha256 loads env [] d = (d, [])"
| "rounds sha256 loads env (turn # ts) d =
     (case rounds sha256 loads env ts (snd (worker_round turn d)) of
        (d', l) \<Rightarrow> (d', turn_log sha256 loads env turn d @ l))"

lemma reconciliation_worker_stop:
  "tu_stop (turns i) \<Longrightarrow> reconciliation_worker sha256 loads env turns i d logged = Some (Inr (), d, logged)"
  by (simp add: reconciliation_worker.simps)

lemma reconciliation_worker_step:
  assumes "\<not> tu_stop (turns i)" and "\<And>e. is_ok (diagnose sha256 loads env (tu_llm (turns i)) e)"
  shows "reconciliation_worker sha256 loads env turns i d logged
    = reconciliation_worker sha256 loads env turns (Suc i) (snd (worker_round (turns i) d))
        (logged @ turn_log sha256 loads env (turns i) d)"
proof (cases "fst (worker_round (turns i) d)")
  case (Inl e)
  then show ?thesis using assms(1) assms(2) [of e]
    by (subst reconciliation_worker.simps) (auto simp: turn_log_def is_ok_iff)
next
  case (Inr processed)
  then show ?thesis using assms(1) by (subst reconciliation_worker.simps) (simp add: turn_log_def)
qed

lemma worker_until_stop:
  assumes "\<And>j. i \<le> j \<Longrightarrow> j < n \<Longrightarrow> \<not> tu_stop (turns j)" and "tu_stop (turns n)" and "i \<le> n"
    and "\<And>j e. is_ok (diagnose sha256 loads env (tu_llm (turns j)) e)"
  shows "reconciliation_worker sha256 loads env turns i d logged
    = (case rounds sha256 loads env (map turns [i..<n]) d of (d', l) \<Rightarrow> Some (Inr (), d', logged @ l))"
  using assms(1-3)
proof (induction "n - i" arbitrary: i d logged)
  case 0
  then show ?case by (simp add: reconciliation_worker_stop)
next
  case (Suc k)
  then have "i < n" and "\<not> tu_stop (turns i)" and k: "k = n - Suc i" by auto
  then show ?case
    using Suc.hyps(1) [OF k] Suc.prems
    by (simp add: reconciliation_worker_step assms(4) upt_conv_Cons split: prod.split)
qed

text \<open>
  A loop that is never stopped keeps on: an answer would have been reached at a set flag, by
  induction on the fixed point.
\<close>

lemma worker_answer_stopped:
  assumes "reconciliation_worker sha256 loads env turns i d logged = Some r"
    and "\<And>j e. is_ok (diagnose sha256 loads env (tu_llm (turns j)) e)"
  shows "\<exists>j. tu_stop (turns j)"
proof -
  have "(\<forall>j e. is_ok (diagnose sha256 loads env (tu_llm (turns j)) e)) \<longrightarrow> (\<exists>j. tu_stop (turns j))"
    using assms(1)
    by (rule reconciliation_worker.raw_induct [rotated])
       (auto simp: Let_def split: if_splits sum.splits; metis is_ok_simps(2))
  then show ?thesis using assms(2) by blast
qed

lemma diagnose_without_llm: "llm_base_url env = [] \<Longrightarrow> is_ok (diagnose sha256 loads env h e)"
  by (simp add: diagnose_def enrich_with_external_llm_def rstrip_char_def)


definition quiet_turn :: "bool \<Rightarrow> worker_turn" where
  "quiet_turn stop =
     \<lparr> tu_stop = stop, tu_faults = no_faults, tu_free = (\<lambda>_. True), tu_now = seconds 20, tu_worker = ''w'',
       tu_provider = (\<lambda>_. Inl (AttributeError ''get'')), tu_meanwhile = (\<lambda>d. d), tu_applied = seconds 20,
       tu_llm = (\<lambda>_. TransportError) \<rparr>"

definition no_llm :: llm_settings where
  "no_llm = \<lparr> llm_base_url = '''', llm_api_key = '''', llm_model = '''' \<rparr>"


text \<open>
  The diagnosis is made outside the \<^verbatim>\<open>try\<close> of the loop: an answer of the language model without
  choices, whose error it lets through, ends the worker for good although nobody stopped it.
\<close>

lemma worker_dies_of_its_diagnosis:
  assumes "\<not> tu_stop (turns i)" and "fst (worker_round (turns i) d) = Inl e"
    and "rstrip_char (CHR ''/'') (llm_base_url env) \<noteq> []" and "llm_api_key env \<noteq> []" and "llm_model env \<noteq> []"
    and "tu_llm (turns i) = (\<lambda>_. Response 200 txt (Some (JObj [(''choices'', JArr [])])))"
  shows "\<exists>d'. reconciliation_worker sha256 loads env turns i d logged
           = Some (Inl (IndexError ''list index out of range''), d', logged)"
  using assms(1,2)
  by (subst reconciliation_worker.simps)
     (simp add: Let_def diagnose_def assms(6) empty_choices_not_caught [OF assms(3-5)])

end
