(* ===== verification/AFM_Events.thy ===== *)
theory AFM_Events
  imports AFM_Http AFM_Models
begin

text \<open>
  \<^verbatim>\<open>event_bus/\<close>: the event schema, the producer that appends to a Redis stream and the worker that
  reads it through a consumer group.  The stream commands of Redis are parameters, and so are the
  JSON reader and the text pydantic gives a time.
\<close>

section \<open>Events\<close>

datatype event_type =
    PAYMENT_INITIATED | PAYMENT_COMPLETED | PAYMENT_FAILED | TRADE_EXECUTED | TRADE_FAILED
  | COPY_TRADE_STARTED | COPY_TRADE_STOPPED | USER_ONBOARDED | WALLET_UPDATED
  | SETTLEMENT_BATCH_CREATED | SETTLEMENT_BATCH_COMPLETED

fun event_type_value :: "event_type \<Rightarrow> string" where
  "event_type_value PAYMENT_INITIATED = ''payment.initiated''"
| "event_type_value PAYMENT_COMPLETED = ''payment.completed''"
| "event_type_value PAYMENT_FAILED = ''payment.failed''"
| "event_type_value TRADE_EXECUTED = ''trade.executed''"
| "event_type_value TRADE_FAILED = ''trade.failed''"
| "event_type_value COPY_TRADE_STARTED = ''copy_trade.started''"
| "event_type_value COPY_TRADE_STOPPED = ''copy_trade.stopped''"
| "event_type_value USER_ONBOARDED = ''user.onboarded''"
| "event_type_value WALLET_UPDATED = ''wallet.updated''"
| "event_type_value SETTLEMENT_BATCH_CREATED = ''settlement.batch_created''"
| "event_type_value SETTLEMENT_BATCH_COMPLETED = ''settlement.batch_completed''"

record event_metadata =
  em_event_id :: string
  em_timestamp :: time
  em_source :: string
  em_version :: string

record base_event =
  be_metadata :: event_metadata
  be_event_type :: event_type
  be_payload :: jobj

text \<open>\<^verbatim>\<open>t.strftime('%Y%m%d%H%M%S%f')\<close>, for years of four digits.\<close>

definition compact_time :: "time \<Rightarrow> string" where
  "compact_time t =
     (case civil (day_number t) of (y, m, d) \<Rightarrow>
        let us = time_of_day t; s = us div 1000000; two = (\<lambda>n. zero_pad 2 (int_str n))
        in int_str y @ two m @ two d @ two (s div 3600) @ two (s div 60 mod 60) @ two (s mod 60)
           @ zero_pad 6 (int_str (us mod 1000000)))"

text \<open>The two default factories read the clock one after the other.\<close>

definition new_event :: "time \<Rightarrow> time \<Rightarrow> event_type \<Rightarrow> jobj \<Rightarrow> base_event" where
  "new_event now now' ty payload =
     \<lparr> be_metadata = \<lparr> em_event_id = ''evt_'' @ compact_time now, em_timestamp = now',
                       em_source = ''afm'', em_version = ''1.0'' \<rparr>,
       be_event_type = ty, be_payload = payload \<rparr>"

text \<open>\<^verbatim>\<open>event.model_dump(mode="json")\<close>.\<close>

definition event_dump :: "(time \<Rightarrow> string) \<Rightarrow> base_event \<Rightarrow> json" where
  "event_dump time_text e =
     JObj [(''metadata'', JObj
              [(''event_id'', JStr (em_event_id (be_metadata e))),
               (''timestamp'', JStr (time_text (em_timestamp (be_metadata e)))),
               (''source'', JStr (em_source (be_metadata e))),
               (''version'', JStr (em_version (be_metadata e)))]),
           (''event_type'', JStr (event_type_value (be_event_type e))),
           (''payload'', JObj (be_payload e))]"

text \<open>\<^verbatim>\<open>json.dumps(v)\<close> with the default separators and escapes.\<close>

definition ascii_json_char :: "char \<Rightarrow> string" where
  "ascii_json_char c = (if c = char_of (127::int) then char_of (92::int) # ''u007f'' else json_char c)"

definition ascii_json_string :: "string \<Rightarrow> string" where
  "ascii_json_string s = (let q = char_of (34::int) in q # concat (map ascii_json_char s) @ [q])"

fun json_text :: "json \<Rightarrow> string" where
  "json_text (JStr s) = ascii_json_string s"
| "json_text (JArr xs) = ''['' @ join '', '' (map json_text xs) @ '']''"
| "json_text (JObj kvs) =
     ''{'' @ join '', '' (map (\<lambda>(k, v). ascii_json_string k @ '': '' @ json_text v) kvs) @ ''}''"
| "json_text v = json_dumps v"

text \<open>The event the payment route announces: anything but a completed payment is a failed one.\<close>

definition payment_event :: "time \<Rightarrow> time \<Rightarrow> transaction \<Rightarrow> base_event" where
  "payment_event now now' t =
     new_event now now' (if status_value (tx_status t) = ''completed'' then PAYMENT_COMPLETED else PAYMENT_FAILED)
       [(''transaction_id'', JStr (tx_id t)), (''user_id'', JStr (tx_user_id t)),
        (''amount'', JStr (dec_str (tx_amount t))), (''currency'', JStr (tx_currency t)),
        (''status'', JStr (status_value (tx_status t))), (''psp'', JStr (psp_value (tx_psp t)))]"

section \<open>The stream\<close>

text \<open>
  A command answers or fails with the text of its error.  \<open>xreadgroup\<close> is the form the worker uses:
  the entries of one stream that were never delivered to the group, at most so many.
\<close>

type_synonym entry = "string \<times> (string \<times> string) list"

record 'r stream_ops =
  xadd :: "string \<Rightarrow> (string \<times> string) list \<Rightarrow> 'r \<Rightarrow> (string + string) \<times> 'r"
  xgroup_create :: "string \<Rightarrow> string \<Rightarrow> 'r \<Rightarrow> (string + unit) \<times> 'r"
  xreadgroup :: "string \<Rightarrow> string \<Rightarrow> string \<Rightarrow> nat \<Rightarrow> 'r \<Rightarrow> (string + entry list) \<times> 'r"
  xack :: "string \<Rightarrow> string \<Rightarrow> string \<Rightarrow> 'r \<Rightarrow> (string + unit) \<times> 'r"

definition publish ::
  "'r stream_ops \<Rightarrow> (time \<Rightarrow> string) \<Rightarrow> string \<Rightarrow> base_event \<Rightarrow> 'r \<Rightarrow> (string + string) \<times> 'r" where
  "publish ops time_text stream event r = xadd ops stream [(''data'', json_text (event_dump time_text event))] r"

definition create_group :: "'r stream_ops \<Rightarrow> string \<Rightarrow> string \<Rightarrow> 'r \<Rightarrow> (string + unit) \<times> 'r" where
  "create_group ops stream grp r =
     (case xgroup_create ops stream grp r of
        (Inl e, r') \<Rightarrow> (if contains ''already exists'' e then Inr () else Inl e, r')
      | (Inr u, r') \<Rightarrow> (Inr u, r'))"

section \<open>The handler\<close>

datatype worker_line =
    Payment_completed json json json
  | Payment_failed json json
  | Trade_event string json
  | Unhandled_event json
  | Message_failed string string
  | Consumer_error string

fun type_name :: "json \<Rightarrow> string" where
  "type_name JNull = ''NoneType''"
| "type_name (JBool _) = ''bool''"
| "type_name (JInt _) = ''int''"
| "type_name (JFloat _) = ''float''"
| "type_name (JStr _) = ''str''"
| "type_name (JArr _) = ''list''"
| "type_name (JObj _) = ''dict''"

definition no_get :: "json \<Rightarrow> string" where
  "no_get v = str_repr (type_name v) @ '' object has no attribute '' @ str_repr ''get''"

definition handle_event :: "json \<Rightarrow> string + worker_line" where
  "handle_event data =
     (case data of
        JObj kvs \<Rightarrow>
          let event_type = jget ''event_type'' kvs; payload = jget_default (JObj []) ''payload'' kvs in
          if event_type = JStr (event_type_value PAYMENT_COMPLETED)
          then (case payload of
                  JObj p \<Rightarrow> Inr (Payment_completed (jget ''transaction_id'' p) (jget ''amount'' p) (jget ''currency'' p))
                | _ \<Rightarrow> Inl (no_get payload))
          else if event_type = JStr (event_type_value PAYMENT_FAILED)
          then (case payload of
                  JObj p \<Rightarrow> Inr (Payment_failed (jget ''transaction_id'' p) (jget ''currency'' p))
                | _ \<Rightarrow> Inl (no_get payload))
          else if event_type = JStr (event_type_value TRADE_EXECUTED)
          then Inr (Trade_event (event_type_value TRADE_EXECUTED) payload)
          else if event_type = JStr (event_type_value TRADE_FAILED)
          then Inr (Trade_event (event_type_value TRADE_FAILED) payload)
          else Inr (Unhandled_event event_type)
      | _ \<Rightarrow> Inl (no_get data))"

section \<open>The consumer\<close>

text \<open>
  One message: it is acknowledged only when it was read and handled; whatever raises is logged and
  the message stays pending.
\<close>

definition process_message ::
  "'r stream_ops \<Rightarrow> (string \<Rightarrow> string + json) \<Rightarrow> (json \<Rightarrow> string + worker_line) \<Rightarrow> string \<Rightarrow> string \<Rightarrow> entry \<Rightarrow> 'r
   \<Rightarrow> worker_line list \<times> 'r" where
  "process_message ops loads handler stream grp message r =
     (case message of (msg_id, kvs) \<Rightarrow>
        case bindE (loads (case map_of kvs ''data'' of None \<Rightarrow> ''{}'' | Some s \<Rightarrow> s)) handler of
          Inl e \<Rightarrow> ([Message_failed msg_id e], r)
        | Inr line \<Rightarrow>
            (case xack ops stream grp msg_id r of
               (Inl e, r') \<Rightarrow> ([line, Message_failed msg_id e], r')
             | (Inr _, r') \<Rightarrow> ([line], r')))"

primrec process_messages ::
  "'r stream_ops \<Rightarrow> (string \<Rightarrow> string + json) \<Rightarrow> (json \<Rightarrow> string + worker_line) \<Rightarrow> string \<Rightarrow> string \<Rightarrow> entry list \<Rightarrow> 'r
   \<Rightarrow> worker_line list \<times> 'r" where
  "process_messages ops loads handler stream grp [] r = ([], r)"
| "process_messages ops loads handler stream grp (m # ms) r =
     (case process_message ops loads handler stream grp m r of (l, r1) \<Rightarrow>
      case process_messages ops loads handler stream grp ms r1 of (l', r2) \<Rightarrow> (l @ l', r2))"

text \<open>One turn of the consumer's loop, which only its cancellation ends.\<close>

definition consume_turn ::
  "'r stream_ops \<Rightarrow> (string \<Rightarrow> string + json) \<Rightarrow> (json \<Rightarrow> string + worker_line) \<Rightarrow> string \<Rightarrow> string \<Rightarrow> string \<Rightarrow> nat \<Rightarrow> 'r
   \<Rightarrow> worker_line list \<times> 'r" where
  "consume_turn ops loads handler stream grp consumer n r =
     (case xreadgroup ops stream grp consumer n r of
        (Inl e, r') \<Rightarrow> ([Consumer_error e], r')
      | (Inr entries, r') \<Rightarrow> process_messages ops loads handler stream grp entries r')"

section \<open>Delivery\<close>

text \<open>
  What Redis documents of the commands, for one stream and one group: a read hands out entries
  that were not delivered before and makes them pending, an acknowledgement takes away its own
  entry at most, and appending changes neither set.
\<close>

definition stream_laws ::
  "'r stream_ops \<Rightarrow> string \<Rightarrow> string \<Rightarrow> ('r \<Rightarrow> string set) \<Rightarrow> ('r \<Rightarrow> string set) \<Rightarrow> bool" where
  "stream_laws ops stream grp delivered pending \<longleftrightarrow>
     (\<forall>c n r es r'. xreadgroup ops stream grp c n r = (Inr es, r') \<longrightarrow>
        distinct (map fst es) \<and> set (map fst es) \<inter> delivered r = {}
      \<and> delivered r' = delivered r \<union> set (map fst es) \<and> pending r' = pending r \<union> set (map fst es))
   \<and> (\<forall>c n r e r'. xreadgroup ops stream grp c n r = (Inl e, r') \<longrightarrow>
        delivered r \<subseteq> delivered r' \<and> pending r \<subseteq> pending r')
   \<and> (\<forall>i r res r'. xack ops stream grp i r = (res, r') \<longrightarrow>
        delivered r' = delivered r \<and> pending r - {i} \<subseteq> pending r')
   \<and> (\<forall>fs r res r'. xadd ops stream fs r = (res, r') \<longrightarrow> delivered r' = delivered r \<and> pending r' = pending r)"

lemma stream_laws_read:
  assumes "stream_laws ops stream grp delivered pending" and "xreadgroup ops stream grp c n r = (Inr es, r')"
  shows "distinct (map fst es)" and "set (map fst es) \<inter> delivered r = {}"
    and "delivered r' = delivered r \<union> set (map fst es)" and "pending r' = pending r \<union> set (map fst es)"
  using assms unfolding stream_laws_def by fast+

definition outcome ::
  "(string \<Rightarrow> string + json) \<Rightarrow> (json \<Rightarrow> string + worker_line) \<Rightarrow> entry \<Rightarrow> string + worker_line" where
  "outcome loads handler message =
     bindE (loads (case map_of (snd message) ''data'' of None \<Rightarrow> ''{}'' | Some s \<Rightarrow> s)) handler"

lemma process_message_frame:
  assumes "stream_laws ops stream grp delivered pending"
    and "process_message ops loads handler stream grp m r = (l, r')"
  shows "delivered r' = delivered r"
    and "pending r - (if is_ok (outcome loads handler m) then {fst m} else {}) \<subseteq> pending r'"
proof -
  obtain i fs where m: "m = (i, fs)" by (cases m)
  obtain res r1 where a: "xack ops stream grp i r = (res, r1)" by (cases "xack ops stream grp i r")
  have "delivered r1 = delivered r" and "pending r - {i} \<subseteq> pending r1"
    using assms(1) a unfolding stream_laws_def by blast+
  then show "delivered r' = delivered r"
    and "pending r - (if is_ok (outcome loads handler m) then {fst m} else {}) \<subseteq> pending r'"
    using assms(2) by (auto simp: process_message_def outcome_def m a split: sum.splits)
qed

lemma process_messages_frame:
  assumes "stream_laws ops stream grp delivered pending"
    and "process_messages ops loads handler stream grp ms r = (l, r')"
  shows "delivered r' = delivered r
    \<and> pending r - fst ` {m \<in> set ms. is_ok (outcome loads handler m)} \<subseteq> pending r'"
  using assms(2)
proof (induction ms arbitrary: l r)
  case (Cons m ms)
  obtain l1 r1 where m: "process_message ops loads handler stream grp m r = (l1, r1)"
    by (cases "process_message ops loads handler stream grp m r")
  obtain l2 where ms: "process_messages ops loads handler stream grp ms r1 = (l2, r')"
    using Cons.prems by (auto simp: m split: prod.splits)
  have "{m' \<in> set (m # ms). is_ok (outcome loads handler m')}
      = (if is_ok (outcome loads handler m) then {m} else {}) \<union> {m' \<in> set ms. is_ok (outcome loads handler m')}"
    by auto
  then show ?case
    using process_message_frame [OF assms(1) m] Cons.IH [OF ms] by (simp add: image_Un split: if_splits) blast+
qed simp

text \<open>
  The worker against the other clients of the stream: a turn of its loop or an append.  Kept
  besides the log are the entries handed to the handler and those it could not handle.
\<close>

datatype stream_event = Turn string nat | Append "(string \<times> string) list"

record 'r consumer =
  cs_store :: 'r
  cs_handed :: "string list"
  cs_failed :: "string list"
  cs_log :: "worker_line list"

definition stream_step ::
  "'r stream_ops \<Rightarrow> (string \<Rightarrow> string + json) \<Rightarrow> (json \<Rightarrow> string + worker_line) \<Rightarrow> string \<Rightarrow> string \<Rightarrow> stream_event
   \<Rightarrow> 'r consumer \<Rightarrow> 'r consumer" where
  "stream_step ops loads handler stream grp e s =
     (case e of
        Append fs \<Rightarrow> s \<lparr> cs_store := snd (xadd ops stream fs (cs_store s)) \<rparr>
      | Turn c n \<Rightarrow>
          let handed = (case fst (xreadgroup ops stream grp c n (cs_store s)) of Inl _ \<Rightarrow> [] | Inr es \<Rightarrow> es) in
          (case consume_turn ops loads handler stream grp c n (cs_store s) of (l, r) \<Rightarrow>
             \<lparr> cs_store = r, cs_handed = cs_handed s @ map fst handed,
               cs_failed = cs_failed s @ map fst (filter (\<lambda>m. \<not> is_ok (outcome loads handler m)) handed),
               cs_log = cs_log s @ l \<rparr>))"

definition consumer_inv :: "('r \<Rightarrow> string set) \<Rightarrow> ('r \<Rightarrow> string set) \<Rightarrow> 'r consumer \<Rightarrow> bool" where
  "consumer_inv delivered pending s \<longleftrightarrow>
     distinct (cs_handed s) \<and> set (cs_handed s) \<subseteq> delivered (cs_store s)
   \<and> set (cs_failed s) \<subseteq> set (cs_handed s) \<inter> pending (cs_store s)"

lemma stream_step_inv:
  assumes laws: "stream_laws ops stream grp delivered pending" and inv: "consumer_inv delivered pending s"
  shows "consumer_inv delivered pending (stream_step ops loads handler stream grp e s)"
proof (cases e)
  case (Append fs)
  obtain res r' where "xadd ops stream fs (cs_store s) = (res, r')" by (cases "xadd ops stream fs (cs_store s)")
  moreover from this have "delivered r' = delivered (cs_store s) \<and> pending r' = pending (cs_store s)"
    using laws unfolding stream_laws_def by blast
  ultimately show ?thesis using inv Append by (simp add: consumer_inv_def stream_step_def)
next
  case (Turn c n)
  obtain res r1 where x: "xreadgroup ops stream grp c n (cs_store s) = (res, r1)"
    by (cases "xreadgroup ops stream grp c n (cs_store s)")
  show ?thesis
  proof (cases res)
    case (Inl e)
    then have "delivered (cs_store s) \<subseteq> delivered r1 \<and> pending (cs_store s) \<subseteq> pending r1"
      using laws x unfolding stream_laws_def by blast
    then show ?thesis using inv by (auto simp: Turn consumer_inv_def stream_step_def consume_turn_def x Inl)
  next
    case (Inr es)
    note es = stream_laws_read [OF laws x [unfolded Inr]]
    obtain l r2 where p: "process_messages ops loads handler stream grp es r1 = (l, r2)"
      by (cases "process_messages ops loads handler stream grp es r1")
    note frame = process_messages_frame [OF laws p]
    have "fst m \<notin> fst ` {m' \<in> set es. is_ok (outcome loads handler m')}"
      if "m \<in> set es" "\<not> is_ok (outcome loads handler m)" for m
      using that es(1) by (auto simp: distinct_map dest: inj_onD)
    moreover have "set (cs_failed s) \<inter> set (map fst es) = {}"
      using inv es(2) by (auto simp: consumer_inv_def)
    ultimately have "set (cs_failed s) \<union> fst ` {m \<in> set es. \<not> is_ok (outcome loads handler m)}
        \<subseteq> (pending (cs_store s) \<union> set (map fst es)) - fst ` {m \<in> set es. is_ok (outcome loads handler m)}"
      using inv by (auto simp: consumer_inv_def)
    then have "set (cs_failed s) \<union> fst ` {m \<in> set es. \<not> is_ok (outcome loads handler m)} \<subseteq> pending r2"
      using frame es(4) by blast
    then show ?thesis
      using inv es frame by (auto simp: Turn consumer_inv_def stream_step_def consume_turn_def x Inr p)
  qed
qed

text \<open>
  Claim C38. The event worker is an at-most-once consumer: over any sequence of turns of its loop and
  appends of other clients, with whatever errors Redis answers, no entry is handed to the handler
  twice, and an entry that cannot be read or handled is never acknowledged: it stays among the
  pending entries of the group for ever, since the worker reads new entries only.
\<close>

theorem events_handed_once:
  assumes "stream_laws ops stream grp delivered pending"
  shows "distinct (cs_handed (run (stream_step ops loads handler stream grp) es
             \<lparr> cs_store = r, cs_handed = [], cs_failed = [], cs_log = [] \<rparr>))
    \<and> set (cs_failed (run (stream_step ops loads handler stream grp) es
             \<lparr> cs_store = r, cs_handed = [], cs_failed = [], cs_log = [] \<rparr>))
       \<subseteq> pending (cs_store (run (stream_step ops loads handler stream grp) es
             \<lparr> cs_store = r, cs_handed = [], cs_failed = [], cs_log = [] \<rparr>))"
proof -
  have "consumer_inv delivered pending (run (stream_step ops loads handler stream grp) es
          \<lparr> cs_store = r, cs_handed = [], cs_failed = [], cs_log = [] \<rparr>)"
    by (rule invariant_machine.run_inv [OF invariant_machine.intro])
       (rule stream_step_inv [OF assms], assumption, simp add: consumer_inv_def)
  then show ?thesis by (simp add: consumer_inv_def)
qed

text \<open>An instance of the laws: a list of entries, a position and the list of pending ids.\<close>

record list_stream =
  ls_entries :: "(string \<times> string) list list"
  ls_next :: nat
  ls_pending :: "string list"

definition nth_id :: "nat \<Rightarrow> string" where
  "nth_id i = replicate i (CHR ''1'')"

definition list_ops :: "list_stream stream_ops" where
  "list_ops =
     \<lparr> xadd = (\<lambda>stream fs r. (Inr (nth_id (length (ls_entries r))), r \<lparr> ls_entries := ls_entries r @ [fs] \<rparr>)),
       xgroup_create = (\<lambda>stream grp r. (Inl ''BUSYGROUP Consumer Group name already exists'', r)),
       xreadgroup = (\<lambda>stream grp c n r.
         let es = map (\<lambda>i. (nth_id i, ls_entries r ! i)) [ls_next r..<min (ls_next r + n) (length (ls_entries r))]
         in (Inr es, r \<lparr> ls_next := ls_next r + length es, ls_pending := ls_pending r @ map fst es \<rparr>)),
       xack = (\<lambda>stream grp i r. (Inr (), r \<lparr> ls_pending := removeAll i (ls_pending r) \<rparr>)) \<rparr>"

lemma inj_nth_id: "inj nth_id"
  by (auto simp: inj_def nth_id_def)

lemma nth_id_interval:
  "nth_id ` {0..<n + (min (n + k) m - n)} = nth_id ` {0..<n} \<union> nth_id ` {n..<min (n + k) m}"
proof -
  have "{0..<n + (min (n + k) m - n)} = {0..<n} \<union> {n..<min (n + k) m}" by auto
  then show ?thesis by (simp only: image_Un)
qed

lemma list_stream_read:
  assumes "xreadgroup list_ops stream grp c n r = (Inr es, r')"
  shows "distinct (map fst es)" and "set (map fst es) \<inter> nth_id ` {0..<ls_next r} = {}"
    and "nth_id ` {0..<ls_next r'} = nth_id ` {0..<ls_next r} \<union> set (map fst es)"
    and "set (ls_pending r') = set (ls_pending r) \<union> set (map fst es)"
proof -
  let ?is = "[ls_next r..<min (ls_next r + n) (length (ls_entries r))]"
  from assms have es: "map fst es = map nth_id ?is" and len: "length es = length ?is"
    and r': "r' = r \<lparr> ls_next := ls_next r + length es, ls_pending := ls_pending r @ map fst es \<rparr>"
    by (auto simp: list_ops_def Let_def comp_def)
  show "distinct (map fst es)" unfolding es using inj_nth_id by (simp add: distinct_map inj_on_def inj_def)
  show "set (map fst es) \<inter> nth_id ` {0..<ls_next r} = {}"
    unfolding es by (auto dest: injD [OF inj_nth_id])
  show "nth_id ` {0..<ls_next r'} = nth_id ` {0..<ls_next r} \<union> set (map fst es)"
    unfolding es by (simp add: r' len nth_id_interval)
  show "set (ls_pending r') = set (ls_pending r) \<union> set (map fst es)" by (simp add: r')
qed

lemma list_stream_laws:
  "stream_laws list_ops ''s'' ''g'' (\<lambda>r. nth_id ` {0..<ls_next r}) (\<lambda>r. set (ls_pending r))"
proof -
  have reads: "\<not> xreadgroup list_ops stream grp c n r = (Inl e, r')" for stream grp c n r e r'
    by (simp add: list_ops_def Let_def)
  have acks: "ls_next r' = ls_next r \<and> set (ls_pending r) - {i} \<subseteq> set (ls_pending r')"
    if "xack list_ops stream grp i r = (res, r')" for stream grp i r res r' using that by (auto simp: list_ops_def)
  have adds: "ls_next r' = ls_next r \<and> ls_pending r' = ls_pending r"
    if "xadd list_ops stream fs r = (res, r')" for stream fs r res r' using that by (auto simp: list_ops_def)
  show ?thesis
    unfolding stream_laws_def
    by (intro conjI allI impI) (simp_all only: list_stream_read reads acks adds simp_thms)
qed

definition demo_consumer :: "list_stream consumer" where
  "demo_consumer =
     run (stream_step list_ops (\<lambda>t. if t = ''null'' then Inr JNull else Inr (JObj [])) handle_event ''s'' ''g'')
       [Append [(''data'', ''null'')], Append [(''data'', ''x'')], Turn ''c'' 10, Turn ''c'' 10]
       \<lparr> cs_store = \<lparr> ls_entries = [], ls_next = 0, ls_pending = [] \<rparr>, cs_handed = [], cs_failed = [], cs_log = [] \<rparr>"

lemma events_handed_once_witness:
  "distinct (cs_handed demo_consumer)
   \<and> set (cs_failed demo_consumer) \<subseteq> set (ls_pending (cs_store demo_consumer))
   \<and> cs_failed demo_consumer = [nth_id 0] \<and> cs_handed demo_consumer = [nth_id 0, nth_id 1]"
proof -
  have "cs_failed demo_consumer = [nth_id 0] \<and> cs_handed demo_consumer = [nth_id 0, nth_id 1]"
    by code_simp
  then show ?thesis using events_handed_once [OF list_stream_laws] unfolding demo_consumer_def by blast
qed

text \<open>A payment that is still being processed is announced as failed.\<close>

lemma unfinished_payment_announced_failed:
  "tx_status t \<noteq> COMPLETED \<Longrightarrow> be_event_type (payment_event now now' t) = PAYMENT_FAILED"
  by (cases "tx_status t") (simp_all add: payment_event_def new_event_def)

text \<open>Two events of one microsecond have one id.\<close>

lemma event_ids_of_one_instant:
  "em_event_id (be_metadata (new_event now a ty p)) = em_event_id (be_metadata (new_event now b ty' p'))"
  by (simp add: new_event_def)

end
