(* ===== verification/AFM_Gateway.thy ===== *)
theory AFM_Gateway
  imports AFM_Instruments AFM_Worker AFM_Telemetry
begin

text \<open>
  The frame of \<^verbatim>\<open>api_gateway/main.py\<close>: liveness and readiness, the public pages, the aliases kept
  for older clients, the counting of requests, and the end of the application's life.  The file
  system, the connections and the metrics library are parameters; log lines and the middleware of
  the framework are left out.
\<close>

section \<open>Health\<close>

record health =
  he_status :: string
  he_timestamp :: string

definition health_check :: "time \<Rightarrow> health" where
  "health_check now = \<lparr> he_status = ''healthy'', he_timestamp = isoformat now \<rparr>"

definition health_head :: int where
  "health_head = 200"

text \<open>A check is whether its statements succeed: any exception counts as not available.\<close>

definition check_connection :: "exn + unit \<Rightarrow> bool" where
  "check_connection r = (case r of Inl _ \<Rightarrow> False | Inr _ \<Rightarrow> True)"

record readiness =
  re_code :: int
  re_status :: string
  re_checks :: "(string \<times> bool) list"

definition readiness_check :: "exn + unit \<Rightarrow> exn + unit \<Rightarrow> readiness" where
  "readiness_check database redis =
     (let checks = [(''database'', check_connection database), (''redis'', check_connection redis)] in
      if \<not> list_all snd checks then \<lparr> re_code = 503, re_status = ''not_ready'', re_checks = checks \<rparr>
      else \<lparr> re_code = 200, re_status = ''ready'', re_checks = checks \<rparr>)"

definition readiness_head :: int where
  "readiness_head = 200"

section \<open>Pages\<close>

text \<open>The routes that serve one file each, with the detail of their error.\<close>

definition PAGES :: "(string \<times> string \<times> string) list" where
  "PAGES =
     [(''/onboarding'', ''onboarding.html'', ''Onboarding page not found''),
      (''/terms'', ''terms.html'', ''Terms page not found''),
      (''/aml-policy'', ''aml-policy.html'', ''AML policy page not found''),
      (''/contact/loic-mpanjo'', ''loic-mpanjo.html'', ''Contact page not found''),
      (''/sandbox'', ''sandbox.html'', ''Sandbox page not found''),
      (''/changelog'', ''changelog.html'', ''Changelog page not found''),
      (''/markets'', ''afm-web.html'', ''Public web frontend not found''),
      (''/compliance'', ''afm-web.html'', ''Public web frontend not found''),
      (''/dashboard'', ''dashboard.html'', ''Dashboard not found'')]"

datatype page = File_page string | Json_page jobj

definition static_page :: "(string \<Rightarrow> bool) \<Rightarrow> string \<times> string \<Rightarrow> exn + page" where
  "static_page exists_file entry =
     (case entry of (file, missing) \<Rightarrow>
        if exists_file file then Inr (File_page file) else Inl (HTTPException 404 missing))"

definition root :: "(string \<Rightarrow> bool) \<Rightarrow> page" where
  "root exists_file =
     (if exists_file ''afm-web.html'' then File_page ''afm-web.html''
      else Json_page [(''name'', JStr ''Africa Frontier Markets''), (''version'', JStr ''prod-1.0.0''),
                      (''status'', JStr ''operational'')])"

definition root_head :: int where
  "root_head = 200"

definition legal_versions :: "settings \<Rightarrow> jobj" where
  "legal_versions st =
     [(''terms_version'', JStr (terms_version st)), (''aml_policy_version'', JStr (aml_policy_version st)),
      (''terms_url'', JStr ''/terms''), (''aml_policy_url'', JStr ''/aml-policy'')]"

definition get_page :: "settings \<Rightarrow> (string \<Rightarrow> bool) \<Rightarrow> string \<Rightarrow> exn + page" where
  "get_page st exists_file path =
     (if path = ''/'' then Inr (root exists_file)
      else if path = ''/legal/versions'' then Inr (Json_page (legal_versions st))
      else case map_of PAGES path of
        Some entry \<Rightarrow> static_page exists_file entry
      | None \<Rightarrow> Inl (HTTPException 404 ''Not Found''))"

section \<open>Aliases\<close>

definition legacy_broker_list_assets ::
  "settings \<Rightarrow> http \<Rightarrow> time \<Rightarrow> string option \<Rightarrow> string \<Rightarrow> int \<Rightarrow> int \<Rightarrow> market_cache
   \<Rightarrow> (exn + instrument_page) \<times> market_cache" where
  "legacy_broker_list_assets st h clock asset_class query page page_size c =
     (if \<not> valid_page_query asset_class query page page_size then (Inl (HTTPException 422 ''''), c)
      else trading_list_assets st h clock asset_class query page page_size c)"

definition legacy_trading_snapshots ::
  "settings \<Rightarrow> http \<Rightarrow> market_env \<Rightarrow> string \<Rightarrow> market_cache \<Rightarrow> (exn + jobj) \<times> market_cache" where
  "legacy_trading_snapshots st h env symbols c = trading_market_snapshots st h env symbols c"

definition legacy_broker_market_snapshots ::
  "settings \<Rightarrow> http \<Rightarrow> market_env \<Rightarrow> string \<Rightarrow> market_cache \<Rightarrow> (exn + jobj) \<times> market_cache" where
  "legacy_broker_market_snapshots st h env symbols c = trading_market_snapshots st h env symbols c"

definition trading_instrument_history ::
  "settings \<Rightarrow> http \<Rightarrow> market_env \<Rightarrow> string \<Rightarrow> string \<Rightarrow> market_cache \<Rightarrow> (exn + json) \<times> market_cache" where
  "trading_instrument_history st h env symbol period c = broker_instrument_history st h env symbol period c"

section \<open>Counting requests\<close>

text \<open>
  What reaches the middleware: the framework has answered an \<^verbatim>\<open>AFMException\<close> by its handler and an
  \<^verbatim>\<open>HTTPException\<close> with its code, any other exception passes.
\<close>

definition answered_code :: "exn + int \<Rightarrow> exn + int" where
  "answered_code r =
     (case r of
        Inl (AFM c detail) \<Rightarrow> Inr (int (http_status (AFM c detail)))
      | Inl (HTTPException code detail) \<Rightarrow> Inr (int code)
      | _ \<Rightarrow> r)"

definition log_requests ::
  "'m counting \<Rightarrow> (string \<Rightarrow> labels \<Rightarrow> rat \<Rightarrow> 'm \<Rightarrow> 'm) \<Rightarrow> time \<Rightarrow> time \<Rightarrow> string \<Rightarrow> string
   \<Rightarrow> ('m \<Rightarrow> (exn + int) \<times> 'm) \<Rightarrow> 'm \<Rightarrow> (exn + int) \<times> 'm" where
  "log_requests inc observe start finish meth path call_next m =
     (case call_next m of
        (Inl e, m1) \<Rightarrow> (Inl e, m1)
      | (Inr code, m1) \<Rightarrow>
          let duration = of_int (finish - start) / 1000000;
              m2 = observe ''afm_http_request_duration_seconds'' [(''method'', meth), (''endpoint'', path)] duration m1
          in (case inc ''afm_http_requests_total''
                    [(''method'', meth), (''endpoint'', path), (''status'', int_str code)] 1 m2 of
               Inl e \<Rightarrow> (Inl e, m2)
             | Inr m3 \<Rightarrow> (Inr code, m3)))"

section \<open>The end of the application\<close>

text \<open>
  The steps after the application has served, each with its own outcome.  The worker is awaited
  after its cancellation: a cancelled worker is passed over, one that returned is too, and the
  error of one that died is raised there.  The last three steps stand behind the \<^verbatim>\<open>finally\<close>.
\<close>

datatype shutdown_step =
    Set_stop | Cancel_worker | Await_worker | Close_payment_service | Close_event_producer
  | Close_rate_limiter | Dispose_engine

primrec run_steps :: "(shutdown_step \<Rightarrow> exn + unit) \<Rightarrow> shutdown_step list \<Rightarrow> shutdown_step list \<times> (exn + unit)" where
  "run_steps does [] = ([], Inr ())"
| "run_steps does (x # xs) =
     (case does x of
        Inl e \<Rightarrow> ([x], Inl e)
      | Inr _ \<Rightarrow> (case run_steps does xs of (done, r) \<Rightarrow> (x # done, r)))"

definition await_worker :: "(exn + unit) option \<Rightarrow> exn + unit" where
  "await_worker result = (case result of None \<Rightarrow> Inr () | Some r \<Rightarrow> r)"

definition lifespan_end ::
  "(exn + unit) option \<Rightarrow> (shutdown_step \<Rightarrow> exn + unit) \<Rightarrow> exn + unit \<Rightarrow> shutdown_step list \<times> (exn + unit)" where
  "lifespan_end worker_result does served =
     (let does' = does (Set_stop := Inr (), Cancel_worker := Inr (), Await_worker := await_worker worker_result) in
      case run_steps does' [Set_stop, Cancel_worker, Await_worker, Close_payment_service] of
        (done, Inl e) \<Rightarrow> (done, Inl e)
      | (done, Inr _) \<Rightarrow>
          (case served of
             Inl e \<Rightarrow> (done, Inl e)
           | Inr _ \<Rightarrow>
               (case run_steps does' [Close_event_producer, Close_rate_limiter, Dispose_engine] of
                  (done', r) \<Rightarrow> (done @ done', r))))"

section \<open>Facts\<close>

lemma ready_iff: "re_code (readiness_check database redis) = 200 \<longleftrightarrow> is_ok database \<and> is_ok redis"
  by (auto simp: readiness_check_def check_connection_def is_ok_def split: sum.splits)

text \<open>The probe by \<^verbatim>\<open>HEAD\<close> says ready whatever the checks say.\<close>

lemma readiness_head_ignores_checks: "\<not> is_ok database \<Longrightarrow> readiness_head \<noteq> re_code (readiness_check database redis)"
  using ready_iff [of database redis] by (simp add: readiness_head_def)

lemma page_served_iff:
  assumes "(path, file, missing) \<in> set PAGES"
  shows "get_page st exists_file path = (if exists_file file then Inr (File_page file) else Inl (HTTPException 404 missing))"
proof -
  have "distinct (map fst PAGES)" and "list_all (\<lambda>(p, _). p \<noteq> ''/'' \<and> p \<noteq> ''/legal/versions'') PAGES" by code_simp+
  with assms have "map_of PAGES path = Some (file, missing)" and "path \<noteq> ''/''" and "path \<noteq> ''/legal/versions''"
    by (auto simp: list_all_iff)
  then show ?thesis by (simp add: get_page_def static_page_def)
qed

lemma legacy_assets_agree: "legacy_broker_list_assets = trading_list_assets_route"
  by (intro ext) (simp add: legacy_broker_list_assets_def trading_list_assets_route_def)

text \<open>
  An answered request is counted once, for its method, its own path and its code: a path nobody
  serves gets a series too.
\<close>

lemma answered_request_counted:
  assumes laws: "counter_laws inc reading" and observe: "\<And>name kvs a m. reading (observe name kvs a m) = reading m"
    and answer: "answered_code r = Inr code"
  shows "\<exists>m'. log_requests inc observe start finish meth path (\<lambda>m. (answered_code r, m)) m = (Inr code, m')
    \<and> reading m' = reading m @ [((''afm_http_requests_total'', [meth, path, int_str code]), 1)]"
proof -
  have "map_of COUNTERS ''afm_http_requests_total''
      = Some (map fst [(''method'', meth), (''endpoint'', path), (''status'', int_str code)])"
    by (simp add: COUNTERS_def)
  then obtain m' where "inc ''afm_http_requests_total'' [(''method'', meth), (''endpoint'', path), (''status'', int_str code)] 1
        (observe ''afm_http_request_duration_seconds'' [(''method'', meth), (''endpoint'', path)]
          (of_int (finish - start) / 1000000) m) = Inr m'"
    and "reading m' = reading m @
        [((''afm_http_requests_total'', map snd [(''method'', meth), (''endpoint'', path), (''status'', int_str code)]), 1)]"
    by (rule counted [OF laws _ zero_le_one, where m = "observe ''afm_http_request_duration_seconds''
        [(''method'', meth), (''endpoint'', path)] (of_int (finish - start) / 1000000) m", unfolded observe])
  then show ?thesis by (simp add: log_requests_def answer)
qed

text \<open>A request that ends in any other exception, which the server answers with 500, is not counted.\<close>

lemma server_errors_uncounted:
  assumes "answered_code (Inl e) = Inl e"
  shows "http_status e = 500"
    and "log_requests inc observe start finish meth path (\<lambda>m. (answered_code (Inl e), m)) m = (Inl e, m)"
  using assms by (cases e; simp add: answered_code_def log_requests_def)+

text \<open>
  A worker that died of its diagnosis is noticed when the application ends: its error is raised
  there, and no connection is closed.
\<close>

lemma dead_worker_skips_cleanup:
  "lifespan_end (Some (Inl e)) does served = ([Set_stop, Cancel_worker, Await_worker], Inl e)"
  by (simp add: lifespan_end_def await_worker_def)

lemma orderly_end:
  "lifespan_end None (\<lambda>_. Inr ()) (Inr ()) =
     ([Set_stop, Cancel_worker, Await_worker, Close_payment_service, Close_event_producer, Close_rate_limiter,
       Dispose_engine], Inr ())"
  by (simp add: lifespan_end_def await_worker_def fun_upd_def)

end
