(* ===== verification/AFM_Sandbox.thy ===== *)
theory AFM_Sandbox
  imports AFM_Kora_Client AFM_Visa
begin

text \<open>
  The sandbox runners \<^verbatim>\<open>scripts/kora_sandbox_refund_e2e.py\<close> and \<^verbatim>\<open>scripts/kora_sandbox_integration.py\<close>:
  a guarded pay-in with its polling, refund and payouts against Kora's sandbox.  The service may
  answer every call differently: it is a function of the calls made before.  The variables of the
  process, the random bytes and the reading of a float are parameters; progress messages are left
  out.
\<close>

section \<open>Calls and their trace\<close>

datatype kora_call =
    Rate string | Charge string | Authorize string | Verify string | Refund string string
  | Refund_status string | Payout string

type_synonym trace = "kora_call list"
type_synonym kora_service = "trace \<Rightarrow> http"
type_synonym 'a run_result = "(exn + 'a) \<times> trace"

definition call :: "kora_service \<Rightarrow> kora_call \<Rightarrow> (http \<Rightarrow> exn + 'a) \<Rightarrow> trace \<Rightarrow> 'a run_result" where
  "call svc c f t = (f (svc t), t @ [c])"

definition thenT :: "(trace \<Rightarrow> 'a run_result) \<Rightarrow> ('a \<Rightarrow> trace \<Rightarrow> 'b run_result) \<Rightarrow> trace \<Rightarrow> 'b run_result" where
  "thenT m f t = (case m t of (Inl e, t1) \<Rightarrow> (Inl e, t1) | (Inr x, t1) \<Rightarrow> f x t1)"

definition pureT :: "exn + 'a \<Rightarrow> trace \<Rightarrow> 'a run_result" where
  "pureT r t = (r, t)"

section \<open>Settings of the runners\<close>

text \<open>
  \<open>defaults\<close> is what the library reads for the fields the runners do not pass; a field that breaks
  its constraint is pydantic's error, a value error.
\<close>

definition checked_settings :: "settings \<Rightarrow> exn + settings" where
  "checked_settings st = (if valid_settings st then Inr st else Inl (ValueError ''Settings''))"

definition runner_settings :: "(string \<Rightarrow> string option) \<Rightarrow> settings \<Rightarrow> string \<Rightarrow> settings" where
  "runner_settings getenv defaults secret =
     defaults \<lparr> secret_key := env_default getenv ''SECRET_KEY''
                  ''local-test-secret-012345678901234567890123456789012345678901234567'',
                environment := Development, kora_secret_key := Some secret,
                kora_api_base_url := env_default getenv ''KORA_API_BASE_URL'' ''https://api.korapay.com/merchant/api/v1'' \<rparr>"

definition refund_settings_from_env :: "(string \<Rightarrow> string option) \<Rightarrow> settings \<Rightarrow> exn + settings" where
  "refund_settings_from_env getenv defaults =
     (let secret = env_default getenv ''KORA_SECRET_KEY'' '''' in
      if py_lower (env_default getenv ''KORA_SANDBOX'' '''') \<noteq> ''true''
      then Inl (RuntimeError ''Refusing to run: KORA_SANDBOX=true is required'')
      else if \<not> starts_with ''sk_test_'' secret
      then Inl (RuntimeError ''Refusing to run: KORA_SECRET_KEY must be a Kora test key'')
      else checked_settings (runner_settings getenv defaults secret))"

definition settings_from_env :: "(string \<Rightarrow> string option) \<Rightarrow> settings \<Rightarrow> exn + settings" where
  "settings_from_env getenv defaults =
     (let secret = env_default getenv ''KORA_SECRET_KEY'' '''' in
      if py_lower (env_default getenv ''KORA_SANDBOX'' '''') \<noteq> ''true''
      then Inl (RuntimeError ''Refusing to run: KORA_SANDBOX=true is required'')
      else if secret = [] \<or> \<not> starts_with ''sk_test_'' secret
      then Inl (RuntimeError ''Refusing to run: KORA_SECRET_KEY must be a Kora test key'')
      else checked_settings (runner_settings getenv defaults secret))"

section \<open>Polling\<close>

definition RUN_SUCCESS :: "string set" where
  "RUN_SUCCESS = {''success'', ''successful'', ''completed'', ''settled''}"

definition RUN_PENDING :: "string set" where
  "RUN_PENDING = {'''', ''processing'', ''pending'', ''requires_authorization''}"

definition RUN_EXPIRED :: "string set" where
  "RUN_EXPIRED = {''expired'', ''timeout'', ''timed_out''}"

definition payin_failure_reason :: "string \<Rightarrow> string \<Rightarrow> string" where
  "payin_failure_reason status auth_model =
     (if auth_model = ''STK_PROMPT'' \<and> py_lower status \<in> RUN_PENDING \<union> RUN_EXPIRED then ''stk_prompt_expired''
      else ''pay-in did not reach a refundable success status'')"

definition run_status :: "jobj \<Rightarrow> string" where
  "run_status data = py_lower (py_str (py_or (py_or (jget ''status'' data) (jget ''payment_status'' data)) (JStr '''')))"

definition terminal :: "jobj \<Rightarrow> bool" where
  "terminal data \<longleftrightarrow>
     run_status data \<in> RUN_SUCCESS \<or> run_status data \<in> {''failed'', ''cancelled'', ''canceled'', ''expired''}"

text \<open>
  One attempt over the references: a reference that is not found gives way to the next one, any
  other answer ends the attempt.  The flag says that the answer is final.
\<close>

fun try_references :: "settings \<Rightarrow> kora_service \<Rightarrow> string list \<Rightarrow> jobj \<Rightarrow> trace \<Rightarrow> (bool \<times> jobj) run_result" where
  "try_references st svc [] latest t = (Inr (False, latest), t)"
| "try_references st svc (ref # refs) latest t =
     (case call svc (Verify ref) (\<lambda>h. verify_charge st h (Some ref)) t of
        (Inr d, t1) \<Rightarrow> (Inr (terminal d, d), t1)
      | (Inl e, t1) \<Rightarrow>
          (case e of
             KoraClientError m \<Rightarrow>
               if contains ''(404)'' m \<and> refs \<noteq> [] then try_references st svc refs latest t1
               else (Inr (False, latest), t1)
           | _ \<Rightarrow> (Inl e, t1)))"

fun poll_charge_attempts :: "settings \<Rightarrow> kora_service \<Rightarrow> string list \<Rightarrow> nat \<Rightarrow> jobj \<Rightarrow> trace \<Rightarrow> jobj run_result" where
  "poll_charge_attempts st svc refs 0 latest t = (Inr latest, t)"
| "poll_charge_attempts st svc refs (Suc n) latest t =
     (case try_references st svc refs latest t of
        (Inl e, t1) \<Rightarrow> (Inl e, t1)
      | (Inr (stop, d), t1) \<Rightarrow> if stop then (Inr d, t1) else poll_charge_attempts st svc refs n d t1)"

text \<open>\<^verbatim>\<open>dict.fromkeys\<close>: the first occurrence of each reference stays.\<close>

definition distinct_refs :: "string list \<Rightarrow> string list" where
  "distinct_refs refs = rev (remdups (rev (filter (\<lambda>r. r \<noteq> []) refs)))"

definition poll_charge :: "settings \<Rightarrow> kora_service \<Rightarrow> string list \<Rightarrow> int \<Rightarrow> trace \<Rightarrow> jobj run_result" where
  "poll_charge st svc refs attempts t = poll_charge_attempts st svc (distinct_refs refs) (nat attempts) [] t"

fun poll_refund_attempts :: "settings \<Rightarrow> kora_service \<Rightarrow> string \<Rightarrow> nat \<Rightarrow> jobj \<Rightarrow> trace \<Rightarrow> jobj run_result" where
  "poll_refund_attempts st svc reference 0 latest t = (Inr latest, t)"
| "poll_refund_attempts st svc reference (Suc n) latest t =
     (case call svc (Refund_status reference) (\<lambda>h. get_refund st h reference) t of
        (Inr d, t1) \<Rightarrow> if terminal d then (Inr d, t1) else poll_refund_attempts st svc reference n d t1
      | (Inl e, t1) \<Rightarrow>
          (case e of
             KoraClientError m \<Rightarrow> poll_refund_attempts st svc reference n latest t1
           | _ \<Rightarrow> (Inl e, t1)))"

definition poll_refund :: "settings \<Rightarrow> kora_service \<Rightarrow> string \<Rightarrow> int \<Rightarrow> trace \<Rightarrow> jobj run_result" where
  "poll_refund st svc reference attempts t = poll_refund_attempts st svc reference (nat attempts) [] t"

section \<open>The refund run\<close>

record refund_fixtures =
  rf_amount :: decimal
  rf_currency :: string
  rf_phone :: string
  rf_email :: string
  rf_webhook_url :: string
  rf_corridor :: string
  rf_attempts :: int

definition refund_fixtures_from_env :: "(string \<Rightarrow> string option) \<Rightarrow> (string \<Rightarrow> bool) \<Rightarrow> exn + refund_fixtures" where
  "refund_fixtures_from_env getenv is_float =
     bindE (dec_parse (env_default getenv ''KORA_TEST_AMOUNT'' ''100000'')) (\<lambda>amount.
     bindE (py_int (JStr (env_default getenv ''KORA_REFUND_POLL_ATTEMPTS'' ''60''))) (\<lambda>attempts.
     if \<not> is_float (env_default getenv ''KORA_REFUND_POLL_DELAY_SECONDS'' ''10'')
     then Inl (ValueError ''could not convert string to float'')
     else Inr \<lparr> rf_amount = amount, rf_currency = py_upper (env_default getenv ''KORA_TEST_CURRENCY'' ''XAF''),
                rf_phone = env_default getenv ''KORA_TEST_PHONE'' ''237655123456'',
                rf_email = env_default getenv ''KORA_TEST_EMAIL'' ''sandbox@example.com'',
                rf_webhook_url = env_default getenv ''AFM_WEBHOOK_URL'' ''https://africafrontiermarkets.com/webhooks/kora'',
                rf_corridor = py_upper (env_default getenv ''KORA_TEST_CORRIDOR'' ''CM-CI''),
                rf_attempts = attempts \<rparr>))"

definition text_of :: "json \<Rightarrow> string" where
  "text_of v = py_str (py_or v (JStr ''''))"

definition first_text :: "string list \<Rightarrow> string" where
  "first_text xs = (case filter (\<lambda>x. x \<noteq> []) xs of [] \<Rightarrow> '''' | x # _ \<Rightarrow> x)"

text \<open>The one-time code, asked for only when Kora wants one.\<close>

definition authorize_if_asked ::
  "settings \<Rightarrow> kora_service \<Rightarrow> (string \<Rightarrow> string option) \<Rightarrow> string \<Rightarrow> string \<Rightarrow> trace \<Rightarrow> unit run_result" where
  "authorize_if_asked st svc getenv auth_model reference =
     (if auth_model \<noteq> ''OTP'' then pureT (Inr ())
      else let token = env_default getenv ''KORA_TEST_OTP'' '''' in
        if token = [] then pureT (Inl (RuntimeError ''KORA_TEST_OTP is required when Kora returns OTP''))
        else thenT (call svc (Authorize reference) (\<lambda>h. authorize_mobile_money st h reference token))
               (\<lambda>_. pureT (Inr ())))"

text \<open>The refund of a pay-in that succeeded, and its exit code.\<close>

definition refund_payin ::
  "settings \<Rightarrow> kora_service \<Rightarrow> refund_fixtures \<Rightarrow> string \<Rightarrow> string \<Rightarrow> trace \<Rightarrow> int run_result" where
  "refund_payin st svc fx payment_reference refund_reference =
     thenT (call svc (Refund payment_reference refund_reference)
              (\<lambda>h. initiate_refund st h payment_reference refund_reference (Some (rf_amount fx))
                     (Some ''AFM sandbox end-to-end refund validation'') (Some (rf_webhook_url fx)) None None))
       (\<lambda>refund.
     let reference = py_str (py_or (py_or (jget ''refund_reference'' refund) (jget ''reference'' refund))
                               (JStr refund_reference)) in
     thenT (poll_refund st svc reference (rf_attempts fx)) (\<lambda>final_refund.
     pureT (Inr (if run_status final_refund \<in> RUN_SUCCESS then 0 else 2))))"

text \<open>The run behind the settings; its result is the exit code and the reason of a skipped refund.\<close>

definition run_payin ::
  "settings \<Rightarrow> kora_service \<Rightarrow> (string \<Rightarrow> string option) \<Rightarrow> refund_fixtures \<Rightarrow> string \<Rightarrow> trace
   \<Rightarrow> (int \<times> string option) run_result" where
  "run_payin st svc getenv fx base =
     (let payin_reference = base @ ''-payin''; refund_reference = base @ ''-refund'' in
      thenT (call svc (Rate (base @ ''-quote''))
               (\<lambda>h. get_exchange_rate st h (rf_amount fx) (rf_currency fx) ''USD'' (base @ ''-quote''))) (\<lambda>quote.
      thenT (call svc (Charge payin_reference)
               (\<lambda>h. initiate_mobile_money_charge st h (rf_amount fx) (rf_currency fx) payin_reference (rf_phone fx)
                      (JStr (rf_email fx)) JNull (JStr (rf_webhook_url fx)) JNull JNull True
                      [(''afm_test'', JStr ''refund_e2e''), (''execution_mode'', JStr ''sandbox''),
                       (''corridor'', JStr (rf_corridor fx))])) (\<lambda>payin.
      let transaction_reference = text_of (jget ''transaction_reference'' payin);
          payment_reference = text_of (jget ''payment_reference'' payin);
          from_api = first_text [transaction_reference, payment_reference, payin_reference];
          auth_model = py_upper (text_of (jget ''auth_model'' payin)) in
      thenT (authorize_if_asked st svc getenv auth_model from_api) (\<lambda>_.
      thenT (poll_charge st svc [transaction_reference, payment_reference, payin_reference] (rf_attempts fx))
        (\<lambda>final_payin.
      if run_status final_payin \<notin> RUN_SUCCESS
      then pureT (Inr (2, Some (payin_failure_reason (run_status final_payin) auth_model)))
      else thenT (refund_payin st svc fx (first_text [payment_reference, from_api]) refund_reference)
             (\<lambda>code. pureT (Inr (code, None))))))))"

definition run_refund ::
  "kora_service \<Rightarrow> (string \<Rightarrow> string option) \<Rightarrow> settings \<Rightarrow> (string \<Rightarrow> bool) \<Rightarrow> string \<Rightarrow> (int \<times> string option) run_result" where
  "run_refund svc getenv defaults is_float random_hex =
     thenT (pureT (refund_settings_from_env getenv defaults)) (\<lambda>st.
     thenT (pureT (refund_fixtures_from_env getenv is_float)) (\<lambda>fx.
     run_payin st svc getenv fx (''afm-refund-sbx-'' @ random_hex))) []"

text \<open>The process: its own refusals and Kora's errors exit with 2, anything else is a traceback.\<close>

definition refund_exit_code :: "(int \<times> string option) run_result \<Rightarrow> int" where
  "refund_exit_code r =
     (case fst r of
        Inr (code, _) \<Rightarrow> code
      | Inl (RuntimeError _) \<Rightarrow> 2
      | Inl (KoraClientError _) \<Rightarrow> 2
      | Inl _ \<Rightarrow> 1)"

section \<open>What a refund run does\<close>

lemma thenT_cases:
  assumes "thenT m f t = (r, t')"
  obtains (stopped) e where "m t = (Inl e, t')" and "r = Inl e"
    | (continued) x t1 where "m t = (Inr x, t1)" and "f x t1 = (r, t')"
  using assms by (auto simp: thenT_def split: prod.splits sum.splits)

lemma call_eq_iff: "call svc c f t = (r, t') \<longleftrightarrow> r = f (svc t) \<and> t' = t @ [c]"
  by (auto simp: call_def)

lemma pureT_eq_iff: "pureT x t = (r, t') \<longleftrightarrow> x = r \<and> t' = t"
  by (auto simp: pureT_def)

text \<open>Kora answered a verification within the trace with these data.\<close>

definition confirmed :: "settings \<Rightarrow> kora_service \<Rightarrow> trace \<Rightarrow> jobj \<Rightarrow> bool" where
  "confirmed st svc t d \<longleftrightarrow>
     (\<exists>pre ref post. t = pre @ Verify ref # post \<and> verify_charge st (svc pre) (Some ref) = Inr d)"

lemma confirmed_append: "confirmed st svc t d \<Longrightarrow> confirmed st svc (t @ u) d"
  unfolding confirmed_def by (metis append.assoc append_Cons)

lemma confirmed_now: "verify_charge st (svc t) (Some ref) = Inr d \<Longrightarrow> confirmed st svc (t @ [Verify ref]) d"
  by (auto simp: confirmed_def)

lemma try_references_trace:
  assumes "try_references st svc refs latest t = (r, t')"
  shows "(\<exists>vs. t' = t @ map Verify vs \<and> length vs \<le> length refs)
    \<and> (\<forall>stop d. r = Inr (stop, d) \<longrightarrow> d = latest \<or> confirmed st svc t' d)"
  using assms
proof (induction st svc refs latest t rule: try_references.induct)
  case (2 st svc ref refs latest t)
  show ?case
  proof (cases "verify_charge st (svc t) (Some ref)")
    case (Inr d)
    then show ?thesis using 2(2) confirmed_now [of st svc t ref d]
      by (auto simp: call_def intro!: exI [of _ "[ref]"])
  next
    case (Inl e)
    show ?thesis
    proof (cases "\<exists>m. e = KoraClientError m \<and> contains ''(404)'' m \<and> refs \<noteq> []")
      case True
      then obtain m where m: "e = KoraClientError m" "contains ''(404)'' m" "refs \<noteq> []" by blast
      have next_ref: "try_references st svc refs latest (t @ [Verify ref]) = (r, t')"
        using 2(2) m Inl by (simp add: call_def)
      obtain vs where "t' = (t @ [Verify ref]) @ map Verify vs" "length vs \<le> length refs"
        using 2(1) [OF _ refl m(1)] m next_ref Inl by (auto simp: call_def)
      moreover have "\<forall>stop d. r = Inr (stop, d) \<longrightarrow> d = latest \<or> confirmed st svc t' d"
        using 2(1) [OF _ refl m(1)] m next_ref Inl by (auto simp: call_def)
      ultimately show ?thesis by (intro conjI exI [of _ "ref # vs"]) auto
    next
      case False
      then have "t' = t @ [Verify ref]" and "r = Inl e \<or> r = Inr (False, latest)"
        using 2(2) Inl by (auto simp: call_def split: exn.splits if_splits)
      then show ?thesis by (auto intro!: exI [of _ "[ref]"])
    qed
  qed
qed auto

lemma poll_charge_attempts_trace:
  assumes "poll_charge_attempts st svc refs n latest t = (r, t')"
  shows "(\<exists>vs. t' = t @ map Verify vs \<and> length vs \<le> n * length refs)
    \<and> (\<forall>d. r = Inr d \<longrightarrow> d = latest \<or> confirmed st svc t' d)"
  using assms
proof (induction n arbitrary: latest t)
  case (Suc n)
  obtain r1 t1 where tr: "try_references st svc refs latest t = (r1, t1)"
    by (cases "try_references st svc refs latest t")
  note one = try_references_trace [OF tr]
  then obtain vs where vs: "t1 = t @ map Verify vs" "length vs \<le> length refs" by blast
  show ?case
  proof (cases "\<exists>d. r1 = Inr (False, d)")
    case True
    then obtain d where d: "r1 = Inr (False, d)" by blast
    have rest: "poll_charge_attempts st svc refs n d t1 = (r, t')" using Suc.prems tr d by simp
    from Suc.IH [OF rest] obtain ws where ws: "t' = t1 @ map Verify ws" "length ws \<le> n * length refs" by blast
    have "x = latest \<or> confirmed st svc t' x" if "r = Inr x" for x
    proof -
      from Suc.IH [OF rest] that consider "x = d" | "confirmed st svc t' x" by blast
      then show ?thesis
      proof cases
        case 1
        then have "x = latest \<or> confirmed st svc t1 x" using one d by blast
        then show ?thesis using ws(1) confirmed_append by blast
      qed blast
    qed
    moreover have "t' = t @ map Verify (vs @ ws)" and "length (vs @ ws) \<le> Suc n * length refs"
      using vs ws by auto
    ultimately show ?thesis by blast
  next
    case False
    then have "t' = t1" and "(\<exists>e. r = Inl e) \<or> (\<exists>d. r1 = Inr (True, d) \<and> r = Inr d)"
      using Suc.prems tr by (auto split: sum.splits if_splits)
    then show ?thesis using one vs by (auto intro!: exI [of _ vs])
  qed
qed auto

lemma length_distinct_refs: "length (distinct_refs refs) \<le> length refs"
  unfolding distinct_refs_def
  by (metis length_filter_le length_remdups_leq length_rev order_trans)

lemma poll_refund_attempts_trace:
  "poll_refund_attempts st svc reference n latest t = (r, t') \<Longrightarrow>
     \<exists>k \<le> n. t' = t @ replicate k (Refund_status reference)"
proof (induction n arbitrary: latest t)
  case (Suc n)
  let ?t1 = "t @ [Refund_status reference]"
  have "t' = ?t1 \<or> (\<exists>l. poll_refund_attempts st svc reference n l ?t1 = (r, t'))"
    using Suc.prems by (auto simp: call_def split: sum.splits exn.splits if_splits)
  then show ?case
  proof
    assume "t' = ?t1"
    then show ?thesis by (intro exI [of _ 1]) simp
  next
    assume "\<exists>l. poll_refund_attempts st svc reference n l ?t1 = (r, t')"
    then obtain k where "k \<le> n" "t' = ?t1 @ replicate k (Refund_status reference)" using Suc.IH by blast
    then show ?thesis by (intro exI [of _ "Suc k"]) simp
  qed
qed auto

text \<open>
  The trace of a run in its parts: the quote, the charge, at most one authorization, the polls of the
  charge, and, only behind a confirmed success, the refund and its polls.
\<close>

definition payin_part :: "int \<Rightarrow> trace \<Rightarrow> bool" where
  "payin_part attempts t \<longleftrightarrow>
     (\<exists>q c as vs. t = q @ c @ as @ map Verify vs
        \<and> (\<exists>x. q = [] \<or> q = [Rate x]) \<and> (\<exists>x. c = [] \<or> c = [Charge x]) \<and> (\<exists>x. as = [] \<or> as = [Authorize x])
        \<and> length vs \<le> 3 * nat attempts)"

definition refund_part :: "int \<Rightarrow> trace \<Rightarrow> bool" where
  "refund_part attempts t \<longleftrightarrow> (\<exists>a b x k. t = Refund a b # replicate k (Refund_status x) \<and> k \<le> nat attempts)"

lemma payin_partI:
  "q = [] \<or> q = [Rate x] \<Longrightarrow> c = [] \<or> c = [Charge y] \<Longrightarrow> as = [] \<or> as = [Authorize z] \<Longrightarrow>
     length vs \<le> 3 * nat attempts \<Longrightarrow> payin_part attempts (q @ c @ as @ map Verify vs)"
  unfolding payin_part_def by blast

lemma authorize_trace:
  assumes "authorize_if_asked st svc getenv auth_model ref t = (r, t')"
  obtains as where "t' = t @ as" and "as = [] \<or> as = [Authorize ref]"
  using assms
  by (auto simp: authorize_if_asked_def pureT_eq_iff call_eq_iff Let_def split: if_splits elim!: thenT_cases)

lemma poll_charge_trace:
  assumes "poll_charge st svc [a, b, c] n t = (r, t')"
  obtains vs where "t' = t @ map Verify vs" and "length vs \<le> 3 * nat n"
    and "\<And>d. r = Inr d \<Longrightarrow> run_status d \<in> RUN_SUCCESS \<Longrightarrow> confirmed st svc t' d"
proof -
  have "poll_charge_attempts st svc (distinct_refs [a, b, c]) (nat n) [] t = (r, t')"
    using assms by (simp add: poll_charge_def)
  note p = poll_charge_attempts_trace [OF this]
  then obtain vs where vs: "t' = t @ map Verify vs" "length vs \<le> nat n * length (distinct_refs [a, b, c])" by blast
  have "length (distinct_refs [a, b, c]) \<le> 3" using length_distinct_refs [of "[a, b, c]"] by simp
  then have "nat n * length (distinct_refs [a, b, c]) \<le> nat n * 3" by (rule mult_le_mono2)
  then have "length vs \<le> 3 * nat n" using vs(2) by linarith
  moreover have "run_status [] \<notin> RUN_SUCCESS" by code_simp
  ultimately show ?thesis using p vs(1) that by blast
qed

lemma refund_payin_trace:
  assumes "refund_payin st svc fx a b t = (r, t')"
  obtains u where "t' = t @ u" and "refund_part (rf_attempts fx) u"
  using assms unfolding refund_payin_def Let_def
  by (auto simp: call_eq_iff pureT_eq_iff poll_refund_def refund_part_def
      elim!: thenT_cases dest!: poll_refund_attempts_trace)

definition run_trace_ok :: "settings \<Rightarrow> kora_service \<Rightarrow> int \<Rightarrow> trace \<Rightarrow> bool" where
  "run_trace_ok st svc attempts t \<longleftrightarrow>
     (\<exists>p u. t = p @ u \<and> payin_part attempts p
        \<and> (u = [] \<or> refund_part attempts u \<and> (\<exists>d. confirmed st svc p d \<and> run_status d \<in> RUN_SUCCESS)))"

lemma run_trace_okI:
  "payin_part attempts t \<Longrightarrow> run_trace_ok st svc attempts t"
  unfolding run_trace_ok_def by (intro exI [of _ t] exI [of _ "[]"]) simp

lemma run_trace_ok_refund:
  "payin_part attempts p \<Longrightarrow> refund_part attempts u \<Longrightarrow> confirmed st svc p d \<Longrightarrow> run_status d \<in> RUN_SUCCESS
     \<Longrightarrow> run_trace_ok st svc attempts (p @ u)"
  unfolding run_trace_ok_def by blast

lemma run_payin_trace:
  assumes "run_payin st svc getenv fx base [] = (r, t)"
  shows "run_trace_ok st svc (rf_attempts fx) t"
  using assms unfolding run_payin_def Let_def
proof (cases rule: thenT_cases)
  case (stopped e)
  then have "t = [Rate (base @ ''-quote'')] @ [] @ [] @ map Verify []" by (simp add: call_eq_iff)
  then show ?thesis by (metis run_trace_okI payin_partI le0 list.size(3))
next
  case (continued quote t1)
  then have t1: "t1 = [Rate (base @ ''-quote'')]" by (simp add: call_eq_iff)
  from continued(2) show ?thesis
  proof (cases rule: thenT_cases)
    case (stopped e)
    then have "t = [Rate (base @ ''-quote'')] @ [Charge (base @ ''-payin'')] @ [] @ map Verify []"
      by (simp add: call_eq_iff t1)
    then show ?thesis by (metis run_trace_okI payin_partI le0 list.size(3))
  next
    case (continued payin t2)
    then have t2: "t2 = [Rate (base @ ''-quote'')] @ [Charge (base @ ''-payin'')]" by (simp add: call_eq_iff t1)
    have part: "payin_part (rf_attempts fx) (t2 @ as @ map Verify vs)"
      if "as = [] \<or> as = [Authorize x]" and "length vs \<le> 3 * nat (rf_attempts fx)" for as x vs
      using payin_partI [OF disjI2 [OF refl] disjI2 [OF refl] that] by (simp add: t2)
    from continued(2) show ?thesis
    proof (cases rule: thenT_cases)
      case (stopped e)
      from stopped(1) show ?thesis
        by (rule authorize_trace) (metis run_trace_okI part append_Nil2 le0 list.map(1) list.size(3))
    next
      case (continued _ t3)
      from continued(1) obtain as x where as: "t3 = t2 @ as" "as = [] \<or> as = [Authorize x]" by (rule authorize_trace)
      from continued(2) show ?thesis
      proof (cases rule: thenT_cases)
        case (stopped e)
        from stopped(1) show ?thesis
          by (rule poll_charge_trace) (use part [OF as(2)] as(1) run_trace_okI in \<open>metis append.assoc\<close>)
      next
        case (continued d t4)
        from continued(1) obtain vs where vs: "t4 = t3 @ map Verify vs" "length vs \<le> 3 * nat (rf_attempts fx)"
          and sure: "run_status d \<in> RUN_SUCCESS \<Longrightarrow> confirmed st svc t4 d" by (rule poll_charge_trace) blast
        have p4: "payin_part (rf_attempts fx) t4" using part [OF as(2) vs(2)] as(1) vs(1) by simp
        show ?thesis
        proof (cases "run_status d \<in> RUN_SUCCESS")
          case True
          with continued(2) obtain r' where "refund_payin st svc fx
                (first_text [text_of (jget ''payment_reference'' payin),
                   first_text [text_of (jget ''transaction_reference'' payin), text_of (jget ''payment_reference'' payin),
                     base @ ''-payin'']]) (base @ ''-refund'') t4 = (r', t)"
            by (auto simp: pureT_eq_iff elim!: thenT_cases)
          then obtain u where "t = t4 @ u" "refund_part (rf_attempts fx) u" by (rule refund_payin_trace)
          then show ?thesis using run_trace_ok_refund [OF p4] sure [OF True] True by blast
        next
          case False
          then have "t = t4" using continued(2) by (simp add: pureT_eq_iff)
          then show ?thesis using p4 run_trace_okI by blast
        qed
      qed
    qed
  qed
qed

fun is_charge :: "kora_call \<Rightarrow> bool" where
  "is_charge (Charge _) = True"
| "is_charge _ = False"

fun is_refund :: "kora_call \<Rightarrow> bool" where
  "is_refund (Refund _ _) = True"
| "is_refund _ = False"

lemma payin_part_calls:
  assumes "payin_part n p"
  shows "\<forall>c \<in> set p. \<not> is_refund c" and "length (filter is_charge p) \<le> 1" and "length p \<le> 3 + 3 * nat n"
  using assms by (auto simp: payin_part_def filter_empty_conv comp_def)

lemma refund_part_calls:
  assumes "refund_part n u"
  shows "length (filter is_refund u) = 1" and "filter is_charge u = []" and "length u \<le> 1 + nat n"
    and "takeWhile (\<lambda>c. \<not> is_refund c) u = []"
  using assms by (auto simp: refund_part_def filter_replicate)

lemma run_trace_calls:
  assumes "run_trace_ok st svc n t"
  shows "length (filter is_charge t) \<le> 1 \<and> length (filter is_refund t) \<le> 1 \<and> length t \<le> 4 + 4 * nat n
    \<and> ((\<exists>c \<in> set t. is_refund c) \<longrightarrow>
         (\<exists>d. confirmed st svc (takeWhile (\<lambda>c. \<not> is_refund c) t) d \<and> run_status d \<in> RUN_SUCCESS))"
proof -
  obtain p u where t: "t = p @ u" and p: "payin_part n p"
    and u: "u = [] \<or> refund_part n u \<and> (\<exists>d. confirmed st svc p d \<and> run_status d \<in> RUN_SUCCESS)"
    using assms unfolding run_trace_ok_def by blast
  have "filter is_refund p = []" using payin_part_calls(1) [OF p] by (simp add: filter_empty_conv)
  then show ?thesis
    using u payin_part_calls [OF p] refund_part_calls [of n u] by (auto simp: t)
qed

text \<open>
  A refund run stays in the sandbox and refunds only what was paid: without the sandbox flag and a
  test key no call is made; one run makes at most one charge and one refund, the refund only after
  Kora has answered a verification of the charge with a success, and the calls are bounded by the
  number of attempts, whatever the service answers.
\<close>

lemma sandbox_refund_guarded:
  assumes "run_refund svc getenv defaults is_float random_hex = (r, t)" and "t \<noteq> []"
  shows "py_lower (env_default getenv ''KORA_SANDBOX'' '''') = ''true''
    \<and> starts_with ''sk_test_'' (env_default getenv ''KORA_SECRET_KEY'' '''')
    \<and> length (filter is_charge t) \<le> 1 \<and> length (filter is_refund t) \<le> 1
    \<and> (\<exists>st n. refund_settings_from_env getenv defaults = Inr st
         \<and> py_int (JStr (env_default getenv ''KORA_REFUND_POLL_ATTEMPTS'' ''60'')) = Inr n \<and> length t \<le> 4 + 4 * nat n
         \<and> ((\<exists>c \<in> set t. is_refund c) \<longrightarrow>
              (\<exists>d. confirmed st svc (takeWhile (\<lambda>c. \<not> is_refund c) t) d \<and> run_status d \<in> RUN_SUCCESS)))"
proof -
  from assms obtain st fx where st: "refund_settings_from_env getenv defaults = Inr st"
    and fx: "refund_fixtures_from_env getenv is_float = Inr fx"
    and run: "run_payin st svc getenv fx (''afm-refund-sbx-'' @ random_hex) [] = (r, t)"
    by (auto simp: run_refund_def pureT_eq_iff elim!: thenT_cases)
  have n: "py_int (JStr (env_default getenv ''KORA_REFUND_POLL_ATTEMPTS'' ''60'')) = Inr (rf_attempts fx)"
    using fx by (auto simp: refund_fixtures_from_env_def bindE_eq_Inr_iff split: if_splits)
  have "py_lower (env_default getenv ''KORA_SANDBOX'' '''') = ''true''"
    and "starts_with ''sk_test_'' (env_default getenv ''KORA_SECRET_KEY'' '''')"
    using st by (auto simp: refund_settings_from_env_def Let_def split: if_splits)
  then show ?thesis using run_trace_calls [OF run_payin_trace [OF run]] st n by blast
qed

text \<open>The two scripts read their settings alike.\<close>

lemma settings_from_env_agree: "settings_from_env = refund_settings_from_env"
  by (intro ext) (simp add: settings_from_env_def refund_settings_from_env_def Let_def starts_with_def)

section \<open>The integration run\<close>

record integration_fixtures =
  xf_amount :: decimal
  xf_currency :: string
  xf_payout_currency :: string
  xf_phone :: string
  xf_email :: string
  xf_mobile_operator :: string
  xf_mobile_number :: string
  xf_bank_code :: string
  xf_account_number :: string

definition integration_fixtures_from_env :: "(string \<Rightarrow> string option) \<Rightarrow> exn + integration_fixtures" where
  "integration_fixtures_from_env getenv =
     bindE (dec_parse (env_default getenv ''KORA_TEST_AMOUNT'' ''100000'')) (\<lambda>amount.
     let fx = \<lparr> xf_amount = amount, xf_currency = py_upper (env_default getenv ''KORA_TEST_CURRENCY'' ''XOF''),
                xf_payout_currency = py_upper (env_default getenv ''KORA_TEST_PAYOUT_CURRENCY''
                                                 (env_default getenv ''KORA_TEST_CURRENCY'' ''XOF'')),
                xf_phone = env_default getenv ''KORA_TEST_PHONE'' '''',
                xf_email = env_default getenv ''KORA_TEST_EMAIL'' ''sandbox@example.invalid'',
                xf_mobile_operator = env_default getenv ''KORA_TEST_MOBILE_OPERATOR'' '''',
                xf_mobile_number = env_default getenv ''KORA_TEST_MOBILE_NUMBER'' '''',
                xf_bank_code = env_default getenv ''KORA_TEST_BANK_CODE'' '''',
                xf_account_number = env_default getenv ''KORA_TEST_ACCOUNT_NUMBER'' '''' \<rparr> in
     if xf_phone fx = [] \<or> xf_mobile_operator fx = [] \<or> xf_mobile_number fx = []
     then Inl (RuntimeError ''Sandbox phone, mobile operator and mobile number fixtures are required'')
     else Inr fx)"

definition mobile_payout :: "integration_fixtures \<Rightarrow> decimal \<Rightarrow> string \<Rightarrow> payout_args" where
  "mobile_payout fx amount reference =
     \<lparr> pa_reference = reference @ ''-payout-mobile'', pa_amount = amount, pa_currency = xf_payout_currency fx,
       pa_customer_email = xf_email fx, pa_customer_name = None, pa_narration = None,
       pa_mobile_money_operator = Some (xf_mobile_operator fx), pa_mobile_number = Some (xf_mobile_number fx),
       pa_bank_country = None, pa_bank_name = None, pa_bank_code = None, pa_account_number = None \<rparr>"

definition bank_payout :: "(string \<Rightarrow> string option) \<Rightarrow> integration_fixtures \<Rightarrow> decimal \<Rightarrow> string \<Rightarrow> payout_args" where
  "bank_payout getenv fx amount reference =
     \<lparr> pa_reference = reference @ ''-payout-bank'', pa_amount = amount,
       pa_currency = py_upper (env_default getenv ''KORA_TEST_BANK_CURRENCY'' ''NGN''),
       pa_customer_email = xf_email fx, pa_customer_name = None, pa_narration = None,
       pa_mobile_money_operator = None, pa_mobile_number = None,
       pa_bank_country = Some (env_default getenv ''KORA_TEST_BANK_COUNTRY'' ''NG''), pa_bank_name = None,
       pa_bank_code = Some (xf_bank_code fx), pa_account_number = Some (xf_account_number fx) \<rparr>"

definition send_payout :: "settings \<Rightarrow> kora_service \<Rightarrow> string \<Rightarrow> (decimal \<Rightarrow> payout_args) \<Rightarrow> trace \<Rightarrow> unit run_result" where
  "send_payout st svc amount_text args =
     thenT (pureT (dec_parse amount_text)) (\<lambda>amount.
     thenT (call svc (Payout (pa_reference (args amount))) (\<lambda>h. create_payout st h (args amount))) (\<lambda>_.
     pureT (Inr ())))"

definition integration_steps ::
  "settings \<Rightarrow> kora_service \<Rightarrow> (string \<Rightarrow> string option) \<Rightarrow> integration_fixtures \<Rightarrow> string \<Rightarrow> bool \<Rightarrow> trace \<Rightarrow> int run_result" where
  "integration_steps st svc getenv fx reference execute =
     thenT (call svc (Rate (reference @ ''-quote''))
              (\<lambda>h. get_exchange_rate st h (xf_amount fx) (xf_currency fx) ''USD'' (reference @ ''-quote''))) (\<lambda>quote.
     thenT (call svc (Charge (reference @ ''-payin''))
              (\<lambda>h. initiate_mobile_money_charge st h (xf_amount fx) (xf_currency fx) (reference @ ''-payin'') (xf_phone fx)
                     (JStr (xf_email fx)) JNull JNull JNull JNull True
                     [(''afm_test'', JStr ''true''), (''execution_mode'', JStr ''sandbox'')])) (\<lambda>payin.
     thenT (if execute \<and> jget ''auth_model'' payin = JStr ''OTP''
            then let token = env_default getenv ''KORA_TEST_OTP'' '''' in
              if token = [] then pureT (Inl (RuntimeError ''KORA_TEST_OTP is required only for an OTP sandbox response''))
              else thenT (call svc (Authorize (py_str (jget ''transaction_reference'' payin)))
                            (\<lambda>h. authorize_mobile_money st h (py_str (jget ''transaction_reference'' payin)) token))
                     (\<lambda>_. pureT (Inr ()))
            else pureT (Inr ())) (\<lambda>_.
     thenT (send_payout st svc (env_default getenv ''KORA_TEST_PAYOUT_AMOUNT'' ''1000'')
              (\<lambda>amount. mobile_payout fx amount reference)) (\<lambda>_.
     thenT (if xf_bank_code fx \<noteq> [] \<and> xf_account_number fx \<noteq> []
            then send_payout st svc (env_default getenv ''KORA_TEST_BANK_AMOUNT'' ''1000'')
                   (\<lambda>amount. bank_payout getenv fx amount reference)
            else pureT (Inr ())) (\<lambda>_.
     pureT (Inr 0))))))"

definition run_integration ::
  "kora_service \<Rightarrow> (string \<Rightarrow> string option) \<Rightarrow> settings \<Rightarrow> string \<Rightarrow> bool \<Rightarrow> int run_result" where
  "run_integration svc getenv defaults random_hex execute =
     thenT (pureT (settings_from_env getenv defaults)) (\<lambda>st.
     thenT (pureT (integration_fixtures_from_env getenv)) (\<lambda>fx.
     integration_steps st svc getenv fx (''afm-sbx-'' @ random_hex) execute)) []"

text \<open>
  The integration run, too, stays in the sandbox.  Its flag guards the authorization only: the charge
  and the payouts are made without it as well.
\<close>

lemma sandbox_integration_guarded:
  assumes "run_integration svc getenv defaults random_hex execute = (r, t)" and "t \<noteq> []"
  shows "py_lower (env_default getenv ''KORA_SANDBOX'' '''') = ''true''
    \<and> starts_with ''sk_test_'' (env_default getenv ''KORA_SECRET_KEY'' '''')"
proof -
  obtain st where "settings_from_env getenv defaults = Inr st"
    using assms by (auto simp: run_integration_def pureT_eq_iff elim!: thenT_cases)
  then show ?thesis by (auto simp: settings_from_env_def Let_def split: if_splits)
qed

end
