(* ===== verification/AFM_Db_Url.thy ===== *)
theory AFM_Db_Url
  imports AFM_Settings
begin

text \<open>
  \<^verbatim>\<open>common/db_url.py\<close>: the database URL a platform injects, rewritten for the asynchronous driver, with
  what it uses of \<^verbatim>\<open>urllib.parse\<close> (Python 3.12).  The check of an address in brackets is a parameter.  A
  percent escape decodes to one character, which is exact for ASCII.
\<close>

section \<open>Splitting and joining URLs\<close>

record url_parts =
  up_scheme :: string
  up_netloc :: string
  up_path :: string
  up_query :: string
  up_fragment :: string

text \<open>\<^verbatim>\<open>s.split(c, 1)\<close>: the part before the first \<open>c\<close>, and the part behind it.\<close>

definition cut :: "char \<Rightarrow> string \<Rightarrow> string \<times> string option" where
  "cut c s = (takeWhile (\<lambda>x. x \<noteq> c) s, case dropWhile (\<lambda>x. x \<noteq> c) s of [] \<Rightarrow> None | _ # r \<Rightarrow> Some r)"

definition after_cut :: "string option \<Rightarrow> string" where
  "after_cut r = (case r of None \<Rightarrow> '''' | Some s \<Rightarrow> s)"

definition is_alpha :: "char \<Rightarrow> bool" where
  "is_alpha c = (let n = of_char (lower_char c) :: int in 97 \<le> n \<and> n \<le> 122)"

definition scheme_char :: "char \<Rightarrow> bool" where
  "scheme_char c \<longleftrightarrow> is_alpha c \<or> is_digit c \<or> c \<in> {CHR ''+'', CHR ''-'', CHR ''.''}"

definition unsafe_char :: "char \<Rightarrow> bool" where
  "unsafe_char c \<longleftrightarrow> (of_char c :: int) \<in> {9, 10, 13}"

definition clean_url :: "string \<Rightarrow> string" where
  "clean_url s = filter (\<lambda>c. \<not> unsafe_char c) (dropWhile (\<lambda>c. (of_char c :: int) \<le> 32) s)"

definition split_scheme :: "string \<Rightarrow> string \<times> string" where
  "split_scheme url =
     (case cut (CHR '':'') url of
        (p, Some rest) \<Rightarrow> if p \<noteq> [] \<and> is_alpha (hd p) \<and> list_all scheme_char p then (py_lower p, rest) else ('''', url)
      | (_, None) \<Rightarrow> ('''', url))"

definition netloc_char :: "char \<Rightarrow> bool" where
  "netloc_char c \<longleftrightarrow> c \<notin> {CHR ''/'', CHR ''?'', CHR ''#''}"

definition split_netloc :: "string \<Rightarrow> string \<times> string" where
  "split_netloc url =
     (if starts_with ''//'' url then (takeWhile netloc_char (drop 2 url), dropWhile netloc_char (drop 2 url))
      else ('''', url))"

definition brackets_ok :: "(string \<Rightarrow> bool) \<Rightarrow> string \<Rightarrow> bool" where
  "brackets_ok address_ok netloc \<longleftrightarrow>
     (CHR ''['' \<in> set netloc \<longleftrightarrow> CHR '']'' \<in> set netloc) \<and> (CHR ''['' \<in> set netloc \<longrightarrow> address_ok netloc)"

definition urlsplit :: "(string \<Rightarrow> bool) \<Rightarrow> string \<Rightarrow> exn + url_parts" where
  "urlsplit address_ok raw =
     (case split_scheme (clean_url raw) of (scheme, url1) \<Rightarrow>
      case split_netloc url1 of (netloc, url2) \<Rightarrow>
      if \<not> brackets_ok address_ok netloc then Inl (ValueError ''Invalid IPv6 URL'')
      else case cut (CHR ''#'') url2 of (url3, fragment) \<Rightarrow>
           case cut (CHR ''?'') url3 of (path, query) \<Rightarrow>
             Inr \<lparr> up_scheme = scheme, up_netloc = netloc, up_path = path, up_query = after_cut query,
                   up_fragment = after_cut fragment \<rparr>)"

text \<open>For a scheme outside the table of schemes with an authority, and not empty.\<close>

definition urlunsplit :: "url_parts \<Rightarrow> string" where
  "urlunsplit p =
     up_scheme p @ '':''
     @ (if up_netloc p \<noteq> []
        then ''//'' @ up_netloc p
             @ (if up_path p \<noteq> [] \<and> take 1 (up_path p) \<noteq> ''/'' then ''/'' else '''') @ up_path p
        else (if starts_with ''//'' (up_path p) then ''//'' else '''') @ up_path p)
     @ (if up_query p \<noteq> [] then ''?'' @ up_query p else '''')
     @ (if up_fragment p \<noteq> [] then ''#'' @ up_fragment p else '''')"

section \<open>Query strings\<close>

definition hex_val :: "char \<Rightarrow> int" where
  "hex_val c = (let n = of_char (lower_char c) :: int in if is_digit c then n - 48 else n - 87)"

fun unquote :: "string \<Rightarrow> string" where
  "unquote (c # a # b # s) =
     (if c = CHR ''%'' \<and> is_hex a \<and> is_hex b then char_of (16 * hex_val a + hex_val b) # unquote s
      else c # unquote (a # b # s))"
| "unquote s = s"

definition unquote_plus :: "string \<Rightarrow> string" where
  "unquote_plus s = unquote (map (\<lambda>c. if c = CHR ''+'' then CHR '' '' else c) s)"

definition unreserved :: "char \<Rightarrow> bool" where
  "unreserved c \<longleftrightarrow> is_alpha c \<or> is_digit c \<or> c \<in> {CHR ''_'', CHR ''.'', CHR ''-'', CHR ''~''}"

definition quote_char :: "char \<Rightarrow> string" where
  "quote_char c =
     (let n = of_char c :: int in
      if unreserved c then [c] else if c = CHR '' '' then ''+''
      else [CHR ''%'', upper_char (hex_digit (n div 16)), upper_char (hex_digit (n mod 16))])"

definition quote_plus :: "string \<Rightarrow> string" where
  "quote_plus s = concat (map quote_char s)"

definition parse_pair :: "string \<Rightarrow> string \<times> string" where
  "parse_pair s = (case cut (CHR ''='') s of (name, value) \<Rightarrow> (unquote_plus name, unquote_plus (after_cut value)))"

definition parse_qsl :: "string \<Rightarrow> (string \<times> string) list" where
  "parse_qsl q = map parse_pair (filter (\<lambda>s. s \<noteq> []) (split_on (CHR ''&'') q))"

definition encode_pair :: "string \<times> string \<Rightarrow> string" where
  "encode_pair kv = quote_plus (fst kv) @ ''='' @ quote_plus (snd kv)"

definition urlencode :: "(string \<times> string) list \<Rightarrow> string" where
  "urlencode kvs = join ''&'' (map encode_pair kvs)"

section \<open>The normal form\<close>

definition is_sslmode :: "string \<times> string \<Rightarrow> bool" where
  "is_sslmode kv \<longleftrightarrow> py_lower (fst kv) = ''sslmode''"

text \<open>The last \<^verbatim>\<open>sslmode\<close> decides.\<close>

definition ssl_required_of :: "(string \<times> string) list \<Rightarrow> bool" where
  "ssl_required_of kvs =
     foldl (\<lambda>r kv. if is_sslmode kv then py_lower (snd kv) \<in> {''require'', ''verify-ca'', ''verify-full''} else r)
       False kvs"

definition normalize_database_url :: "(string \<Rightarrow> bool) \<Rightarrow> string \<Rightarrow> exn + string \<times> bool" where
  "normalize_database_url address_ok raw =
     bindE (urlsplit address_ok raw) (\<lambda>parts.
     let scheme = py_lower (up_scheme parts) in
     if scheme \<in> {''mysql'', ''mysql+pymysql'', ''mysql+aiomysql''}
     then Inl (ValueError ''AFM requires PostgreSQL for DATABASE_URL; a MySQL URL belongs to another project context.'')
     else if scheme \<notin> {''postgres'', ''postgresql'', ''postgresql+asyncpg''}
     then Inl (ValueError ''AFM DATABASE_URL must use postgres://, postgresql://, or postgresql+asyncpg://.'')
     else
       let pairs = parse_qsl (up_query parts) in
       Inr (urlunsplit (parts \<lparr> up_scheme := ''postgresql+asyncpg'',
                                up_query := urlencode (filter (\<lambda>kv. \<not> is_sslmode kv) pairs) \<rparr>),
            ssl_required_of pairs))"

section \<open>The settings of the engine\<close>

definition resolved_database_url :: "(string \<Rightarrow> bool) \<Rightarrow> settings \<Rightarrow> exn + string" where
  "resolved_database_url address_ok st =
     bindE (normalize_database_url address_ok (database_url st)) (\<lambda>(normalized, _). Inr normalized)"

definition db_ssl_required :: "(string \<Rightarrow> bool) \<Rightarrow> settings \<Rightarrow> exn + bool" where
  "db_ssl_required address_ok st =
     bindE (normalize_database_url address_ok (database_url st)) (\<lambda>(_, ssl_required). Inr ssl_required)"

definition connect_args :: "bool \<Rightarrow> (string \<times> bool) list" where
  "connect_args ssl = (if ssl then [(''ssl'', True)] else [])"

record engine_options =
  eo_url :: string
  eo_pool_size :: int
  eo_max_overflow :: int
  eo_pool_timeout :: int
  eo_pool_pre_ping :: bool
  eo_pool_recycle :: int
  eo_echo :: bool
  eo_connect_args :: "(string \<times> bool) list"

definition database_engine :: "(string \<Rightarrow> bool) \<Rightarrow> settings \<Rightarrow> exn + engine_options" where
  "database_engine address_ok st =
     bindE (db_ssl_required address_ok st) (\<lambda>ssl.
     bindE (resolved_database_url address_ok st) (\<lambda>url.
     Inr \<lparr> eo_url = url, eo_pool_size = db_pool_size st, eo_max_overflow = db_max_overflow st,
           eo_pool_timeout = db_pool_timeout st, eo_pool_pre_ping = True, eo_pool_recycle = 3600,
           eo_echo = is_development st, eo_connect_args = connect_args ssl \<rparr>))"

text \<open>The URL of the migrations: \<^verbatim>\<open>run_migrations_offline\<close> prints SQL for the synchronous driver.\<close>

definition sync_database_url :: "(string \<Rightarrow> bool) \<Rightarrow> settings \<Rightarrow> exn + string" where
  "sync_database_url address_ok st =
     bindE (resolved_database_url address_ok st) (\<lambda>url. Inr (remove_all ''+asyncpg'' url (length url)))"

section \<open>A query string read back\<close>

lemma cut_hit: "c \<notin> set a \<Longrightarrow> cut c (a @ c # b) = (a, Some b)"
proof -
  assume "c \<notin> set a"
  then have "\<forall>x \<in> set a. x \<noteq> c" by auto
  then show ?thesis by (simp add: cut_def)
qed

lemma cut_miss:
  assumes "c \<notin> set a"
  shows "cut c a = (a, None)"
proof -
  have "\<forall>x \<in> set a. x \<noteq> c" using assms by auto
  then have "takeWhile (\<lambda>x. x \<noteq> c) a = a" and "dropWhile (\<lambda>x. x \<noteq> c) a = []"
    unfolding takeWhile_eq_all_conv dropWhile_eq_Nil_conv by blast+
  then show ?thesis unfolding cut_def by (simp only: list.case)
qed

lemma cut_parts:
  assumes "cut c s = (a, r)"
  shows "c \<notin> set a" and "set a \<subseteq> set s" and "set (after_cut r) \<subseteq> set s"
  using assms
  by (auto simp: cut_def after_cut_def dest: set_takeWhileD set_dropWhileD split: list.splits)
     (metis list.set_intros(2) set_dropWhileD)

lemma unquote_other: "c \<noteq> CHR ''%'' \<Longrightarrow> unquote (c # s) = c # unquote s"
  by (cases s rule: remdups_adj.cases) simp_all

definition quoted :: "char \<Rightarrow> bool" where
  "quoted c \<longleftrightarrow> unreserved c \<or> c \<in> {CHR ''+'', CHR ''%''}"

lemma of_char_range: "0 \<le> (of_char c :: int)" "(of_char c :: int) < 256"
  using pos_mod_bound [of 256 "of_char c :: int"] pos_mod_sign [of 256 "of_char c :: int"] by simp_all

lemma of_char_lower:
  "(of_char (lower_char c) :: int) = (if 65 \<le> (of_char c :: int) \<and> (of_char c :: int) \<le> 90 then of_char c + 32 else of_char c)"
  by (simp add: lower_char_def Let_def)

lemma of_char_hex_digit:
  assumes "0 \<le> n" and "n < 16"
  shows "(of_char (upper_char (hex_digit n)) :: int) = (if n < 10 then 48 + n else 55 + n)"
  using assms by (simp add: upper_char_def hex_digit_def Let_def)

lemma hex_digits:
  assumes "0 \<le> n" and "n < 16"
  shows "is_hex (upper_char (hex_digit n)) \<and> hex_val (upper_char (hex_digit n)) = n
    \<and> upper_char (hex_digit n) \<noteq> CHR ''+'' \<and> unreserved (upper_char (hex_digit n))"
proof -
  note v = of_char_hex_digit [OF assms]
  have "upper_char (hex_digit n) \<noteq> CHR ''+''"
  proof
    assume "upper_char (hex_digit n) = CHR ''+''"
    then have "(of_char (upper_char (hex_digit n)) :: int) = 43" by simp
    then show False using v assms by (simp split: if_splits)
  qed
  then show ?thesis
    using assms by (simp add: is_hex_def hex_val_def unreserved_def is_alpha_def is_digit_def Let_def of_char_lower v)
qed

lemma reserved_signs: "\<not> unreserved (CHR ''%'')" "\<not> unreserved (CHR ''+'')"
  by code_simp+

lemma quoted_quote_char: "list_all quoted (quote_char c)"
proof -
  have "0 \<le> (of_char c :: int) div 16" "(of_char c :: int) div 16 < 16" "0 \<le> (of_char c :: int) mod 16" "(of_char c :: int) mod 16 < 16"
    using of_char_range [of c] by simp_all
  then show ?thesis using hex_digits by (simp add: quote_char_def quoted_def Let_def)
qed

lemma quoted_quote_plus: "c \<in> set (quote_plus s) \<Longrightarrow> quoted c"
  using quoted_quote_char by (auto simp: quote_plus_def list_all_iff)

lemma unquote_plus_quote: "unquote_plus (quote_plus s) = s"
proof (induction s)
  case Nil
  show ?case by (simp add: unquote_plus_def quote_plus_def)
next
  case (Cons c s)
  let ?plus = "\<lambda>c. if c = CHR ''+'' then CHR '' '' else c"
  have q: "quote_plus (c # s) = quote_char c @ quote_plus s" by (simp add: quote_plus_def)
  have IH: "unquote (map ?plus (quote_plus s)) = s" using Cons by (simp add: unquote_plus_def)
  let ?n = "of_char c :: int"
  consider "unreserved c" | "\<not> unreserved c" "c = CHR '' ''" | "\<not> unreserved c" "c \<noteq> CHR '' ''" by blast
  then show ?case
  proof cases
    case 1
    then have "c \<noteq> CHR ''%''" "c \<noteq> CHR ''+''" using reserved_signs by metis+
    then show ?thesis using 1 IH by (simp add: unquote_plus_def q quote_char_def Let_def unquote_other)
  next
    case 2
    then have "quote_char c = ''+''" by (simp add: quote_char_def Let_def)
    then show ?thesis unfolding unquote_plus_def q using 2(2) IH by (simp add: unquote_other)
  next
    case 3
    have r: "0 \<le> ?n div 16" "?n div 16 < 16" "0 \<le> ?n mod 16" "?n mod 16 < 16" using of_char_range [of c] by simp_all
    have "16 * (?n div 16) + ?n mod 16 = ?n" by simp
    then have "char_of (16 * (?n div 16) + ?n mod 16) = c" by (simp only: char_of_char)
    then show ?thesis
      using 3 IH hex_digits [OF r(1,2)] hex_digits [OF r(3,4)]
      by (simp add: unquote_plus_def q quote_char_def Let_def)
  qed
qed

lemma split_on_append: "sep \<notin> set a \<Longrightarrow> split_on sep (a @ sep # b) = a # split_on sep b"
  by (induction a) (auto split: list.split)

lemma split_on_none: "sep \<notin> set a \<Longrightarrow> split_on sep a = [a]"
  by (induction a) auto

lemma split_on_join:
  assumes "ws \<noteq> []" and "\<forall>w \<in> set ws. sep \<notin> set w"
  shows "split_on sep (join [sep] ws) = ws"
  using assms
proof (induction ws)
  case (Cons w ws)
  show ?case
  proof (cases ws)
    case Nil
    then show ?thesis using Cons.prems by (simp add: join_def split_on_none)
  next
    case (Cons v vs)
    then have "join [sep] (w # ws) = w @ sep # join [sep] ws" by (simp add: join_def)
    then show ?thesis using Cons.IH Cons.prems \<open>ws = v # vs\<close> by (simp add: split_on_append)
  qed
qed simp

lemma parse_encode_pair: "parse_pair (encode_pair kv) = kv"
proof -
  have "CHR ''='' \<notin> set (quote_plus (fst kv))"
  proof
    assume "CHR ''='' \<in> set (quote_plus (fst kv))"
    then have "quoted (CHR ''='')" by (rule quoted_quote_plus)
    moreover have "\<not> quoted (CHR ''='')" by code_simp
    ultimately show False by blast
  qed
  then show ?thesis by (simp add: parse_pair_def encode_pair_def cut_hit after_cut_def unquote_plus_quote)
qed

lemma query_char: "c \<in> set (encode_pair kv) \<Longrightarrow> quoted c \<or> c = CHR ''=''"
  by (auto simp: encode_pair_def dest: quoted_quote_plus)

lemma urlencode_char: "c \<in> set (urlencode kvs) \<Longrightarrow> quoted c \<or> c = CHR ''='' \<or> c = CHR ''&''"
  by (auto simp: urlencode_def join_def dest!: query_char split: list.splits if_splits)

text \<open>A query that \<^verbatim>\<open>urlencode\<close> writes is read back by \<^verbatim>\<open>parse_qsl\<close> as it was.\<close>

lemma parse_urlencode: "parse_qsl (urlencode kvs) = kvs"
proof (cases "kvs = []")
  case True
  then show ?thesis by (simp add: urlencode_def parse_qsl_def join_def)
next
  case False
  have "\<not> quoted (CHR ''&'')" by code_simp
  then have "\<forall>w \<in> set (map encode_pair kvs). CHR ''&'' \<notin> set w" by (auto dest: query_char)
  then have "split_on (CHR ''&'') (urlencode kvs) = map encode_pair kvs"
    using False split_on_join [of "map encode_pair kvs" "CHR ''&''"] by (simp add: urlencode_def)
  moreover have "filter (\<lambda>s. s \<noteq> []) (map encode_pair kvs) = map encode_pair kvs"
    by (auto simp: filter_id_conv encode_pair_def)
  ultimately show ?thesis by (simp add: parse_qsl_def comp_def parse_encode_pair)
qed

section \<open>A URL split again\<close>

definition ASYNC_SCHEME :: string where
  "ASYNC_SCHEME = ''postgresql+asyncpg''"

definition parts_ok :: "(string \<Rightarrow> bool) \<Rightarrow> url_parts \<Rightarrow> bool" where
  "parts_ok address_ok p \<longleftrightarrow>
     list_all netloc_char (up_netloc p) \<and> brackets_ok address_ok (up_netloc p)
   \<and> CHR ''?'' \<notin> set (up_path p) \<and> CHR ''#'' \<notin> set (up_path p) \<and> CHR ''#'' \<notin> set (up_query p)
   \<and> (up_netloc p \<noteq> [] \<longrightarrow> up_path p = [] \<or> hd (up_path p) = CHR ''/'')
   \<and> list_all (\<lambda>c. \<not> unsafe_char c) (up_netloc p @ up_path p @ up_query p @ up_fragment p)"

lemma split_scheme_rest: "set (snd (split_scheme u)) \<subseteq> set u"
proof -
  obtain a r where c: "cut (CHR '':'') u = (a, r)" by (cases "cut (CHR '':'') u")
  show ?thesis using cut_parts(3) [OF c] by (auto simp: split_scheme_def c after_cut_def split: option.splits if_splits)
qed

lemma split_netloc_parts:
  assumes "split_netloc u = (n, r)"
  shows "list_all netloc_char n" and "set n \<subseteq> set u" and "set r \<subseteq> set u"
    and "n \<noteq> [] \<Longrightarrow> r = [] \<or> \<not> netloc_char (hd r)"
  using assms
  by (auto simp: split_netloc_def list_all_iff hd_dropWhile dest: set_takeWhileD set_dropWhileD in_set_dropD
      split: if_splits)

lemma urlsplit_parts_ok:
  assumes "urlsplit address_ok raw = Inr p"
  shows "parts_ok address_ok p"
proof -
  obtain sch u1 where s: "split_scheme (clean_url raw) = (sch, u1)" by (cases "split_scheme (clean_url raw)")
  obtain n u2 where nl: "split_netloc u1 = (n, u2)" by (cases "split_netloc u1")
  obtain u3 fr where f: "cut (CHR ''#'') u2 = (u3, fr)" by (cases "cut (CHR ''#'') u2")
  obtain pa q where q: "cut (CHR ''?'') u3 = (pa, q)" by (cases "cut (CHR ''?'') u3")
  have p: "p = \<lparr> up_scheme = sch, up_netloc = n, up_path = pa, up_query = after_cut q, up_fragment = after_cut fr \<rparr>"
    and b: "brackets_ok address_ok n"
    using assms by (auto simp: urlsplit_def s nl f q split: if_splits)
  note nparts = split_netloc_parts [OF nl]
  note fparts = cut_parts [OF f]
  note qparts = cut_parts [OF q]
  have "set u1 \<subseteq> set (clean_url raw)" using split_scheme_rest [of "clean_url raw"] by (simp add: s)
  moreover have "\<forall>c \<in> set (clean_url raw). \<not> unsafe_char c" by (auto simp: clean_url_def)
  ultimately have safe: "\<forall>c \<in> set n \<union> set pa \<union> set (after_cut q) \<union> set (after_cut fr). \<not> unsafe_char c"
    using nparts(2,3) fparts(2,3) qparts(2,3) by blast
  have "hd pa = CHR ''/''" if "n \<noteq> []" "pa \<noteq> []"
  proof -
    from that(2) q have "u3 \<noteq> []" "hd pa = hd u3" by (auto simp: cut_def takeWhile_eq_Nil_iff) (cases u3; auto)+
    moreover from this(1) f have "u2 \<noteq> []" "hd u3 = hd u2" by (auto simp: cut_def) (cases u2; auto)+
    moreover have "hd pa \<noteq> CHR ''?''" "hd u3 \<noteq> CHR ''#''"
      using that(2) \<open>u3 \<noteq> []\<close> qparts(1) fparts(1) hd_in_set by metis+
    ultimately show ?thesis using nparts(4) that(1) by (auto simp: netloc_char_def)
  qed
  then show ?thesis
    using nparts fparts qparts b safe by (auto simp: parts_ok_def p list_all_iff)
qed

definition url_tail :: "url_parts \<Rightarrow> string" where
  "url_tail p = (if up_query p \<noteq> [] then ''?'' @ up_query p else '''') @ (if up_fragment p \<noteq> [] then ''#'' @ up_fragment p else '''')"

definition url_authority :: "url_parts \<Rightarrow> string" where
  "url_authority p = (if up_netloc p \<noteq> [] \<or> starts_with ''//'' (up_path p) then ''//'' @ up_netloc p else '''')"

lemma urlunsplit_ok:
  assumes "parts_ok address_ok p"
  shows "urlunsplit p = up_scheme p @ CHR '':'' # (url_authority p @ up_path p @ url_tail p)"
proof -
  have "up_netloc p \<noteq> [] \<Longrightarrow> up_path p \<noteq> [] \<Longrightarrow> take 1 (up_path p) = ''/''"
    using assms by (cases "up_path p") (auto simp: parts_ok_def)
  then show ?thesis by (auto simp: urlunsplit_def url_authority_def url_tail_def)
qed

lemma tail_start: "url_tail p = [] \<or> hd (url_tail p) \<in> {CHR ''?'', CHR ''#''}"
  by (simp add: url_tail_def)

lemma split_netloc_unsplit:
  assumes "parts_ok address_ok p"
  shows "split_netloc (url_authority p @ up_path p @ url_tail p) = (up_netloc p, up_path p @ url_tail p)"
proof -
  have n: "\<forall>c \<in> set (up_netloc p). netloc_char c" using assms by (auto simp: parts_ok_def list_all_iff)
  show ?thesis
  proof (cases "up_netloc p \<noteq> [] \<or> starts_with ''//'' (up_path p)")
    case True
    have "up_path p @ url_tail p = [] \<or> \<not> netloc_char (hd (up_path p @ url_tail p))"
    proof (cases "up_path p")
      case Nil
      then show ?thesis using tail_start [of p] by (auto simp: netloc_char_def)
    next
      case (Cons c cs)
      then have "c = CHR ''/''" using True assms by (auto simp: parts_ok_def starts_with_def)
      then show ?thesis by (simp add: Cons netloc_char_def)
    qed
    then have "takeWhile netloc_char (up_path p @ url_tail p) = []"
      and "dropWhile netloc_char (up_path p @ url_tail p) = up_path p @ url_tail p"
      by (cases "up_path p @ url_tail p"; simp)+
    then show ?thesis using True n
      by (simp add: split_netloc_def url_authority_def starts_with_def takeWhile_append2 dropWhile_append2)
  next
    case False
    have "\<not> starts_with ''//'' (up_path p @ url_tail p)"
    proof (cases "up_path p")
      case Nil
      then show ?thesis using tail_start [of p] by (cases "url_tail p") (auto simp: starts_with_def)
    next
      case (Cons c cs)
      then show ?thesis using False tail_start [of p]
        by (cases cs; cases "url_tail p") (auto simp: starts_with_def)
    qed
    then show ?thesis using False by (simp add: split_netloc_def url_authority_def)
  qed
qed

lemma cut_tail:
  assumes "parts_ok address_ok p"
  shows "\<exists>q f. cut (CHR ''#'') (up_path p @ url_tail p) = (up_path p @ q, f) \<and> after_cut f = up_fragment p
    \<and> (\<exists>q'. cut (CHR ''?'') (up_path p @ q) = (up_path p, q') \<and> after_cut q' = up_query p)"
proof -
  let ?q = "if up_query p \<noteq> [] then ''?'' @ up_query p else ''''"
  have q: "CHR ''#'' \<notin> set (up_path p @ ?q)" "CHR ''?'' \<notin> set (up_path p)" using assms by (auto simp: parts_ok_def)
  have "\<exists>f. cut (CHR ''#'') (up_path p @ url_tail p) = (up_path p @ ?q, f) \<and> after_cut f = up_fragment p"
  proof (cases "up_fragment p")
    case Nil
    then show ?thesis using cut_miss [OF q(1)] by (simp add: url_tail_def after_cut_def)
  next
    case (Cons c cs)
    then show ?thesis using cut_hit [OF q(1), of "up_fragment p"] by (simp add: url_tail_def after_cut_def)
  qed
  moreover have "\<exists>q'. cut (CHR ''?'') (up_path p @ ?q) = (up_path p, q') \<and> after_cut q' = up_query p"
    using cut_miss [OF q(2)] cut_hit [OF q(2), of "up_query p"] by (auto simp: after_cut_def)
  ultimately show ?thesis by blast
qed

lemma urlsplit_unsplit:
  assumes "parts_ok address_ok p" and "up_scheme p = ASYNC_SCHEME"
  shows "urlsplit address_ok (urlunsplit p) = Inr p"
proof -
  let ?rest = "url_authority p @ up_path p @ url_tail p"
  have u: "urlunsplit p = ASYNC_SCHEME @ CHR '':'' # ?rest" using urlunsplit_ok [OF assms(1)] assms(2) by simp
  have sch: "list_all (\<lambda>c. \<not> unsafe_char c \<and> scheme_char c \<and> c \<noteq> CHR '':'') (CHR ''p'' # ASYNC_SCHEME)"
      "ASYNC_SCHEME \<noteq> []" "is_alpha (hd ASYNC_SCHEME)" "py_lower ASYNC_SCHEME = ASYNC_SCHEME"
      "hd ASYNC_SCHEME = CHR ''p''"
    by code_simp+
  have signs: "\<not> unsafe_char (CHR ''?'')" "\<not> unsafe_char (CHR ''#'')" "\<not> unsafe_char (CHR ''/'')" "\<not> unsafe_char (CHR '':'')"
    by code_simp+
  have "\<forall>c \<in> set (urlunsplit p). \<not> unsafe_char c"
    using assms(1) sch(1) signs by (auto simp: u parts_ok_def list_all_iff url_authority_def url_tail_def)
  moreover have "dropWhile (\<lambda>c. (of_char c :: int) \<le> 32) (urlunsplit p) = urlunsplit p"
    by (simp add: u ASYNC_SCHEME_def)
  ultimately have "clean_url (urlunsplit p) = urlunsplit p" by (simp add: clean_url_def filter_id_conv)
  moreover have "split_scheme (urlunsplit p) = (ASYNC_SCHEME, ?rest)"
  proof -
    have "CHR '':'' \<notin> set ASYNC_SCHEME" and scheme: "list_all scheme_char ASYNC_SCHEME" by code_simp+
    then have "cut (CHR '':'') (urlunsplit p) = (ASYNC_SCHEME, Some ?rest)" unfolding u by (blast intro: cut_hit)
    then show ?thesis using sch(2-4) scheme by (simp only: split_scheme_def prod.case option.case) simp
  qed
  moreover obtain q f q' where "cut (CHR ''#'') (up_path p @ url_tail p) = (up_path p @ q, f)" "after_cut f = up_fragment p"
      "cut (CHR ''?'') (up_path p @ q) = (up_path p, q')" "after_cut q' = up_query p"
    using cut_tail [OF assms(1)] by blast
  moreover have "brackets_ok address_ok (up_netloc p)" using assms(1) by (simp add: parts_ok_def)
  ultimately show ?thesis
    using split_netloc_unsplit [OF assms(1)] assms(2) by (simp add: urlsplit_def)
qed

lemma normalize_database_urlE:
  assumes "normalize_database_url address_ok raw = Inr (url, ssl)"
  obtains p where "urlsplit address_ok raw = Inr p" and "parts_ok address_ok p"
    and "ssl = ssl_required_of (parse_qsl (up_query p))"
    and "url = urlunsplit (p \<lparr> up_scheme := ASYNC_SCHEME,
                              up_query := urlencode (filter (\<lambda>kv. \<not> is_sslmode kv) (parse_qsl (up_query p))) \<rparr>)"
  using assms urlsplit_parts_ok
  by (auto simp: normalize_database_url_def bindE_eq_Inr_iff Let_def ASYNC_SCHEME_def split: if_splits)

lemma quoted_safe: "quoted c \<Longrightarrow> \<not> unsafe_char c"
  by (auto simp: quoted_def unreserved_def is_alpha_def is_digit_def unsafe_char_def of_char_lower Let_def split: if_splits)

lemma parts_ok_requery:
  assumes "parts_ok address_ok p"
  shows "parts_ok address_ok (p \<lparr> up_scheme := s, up_query := urlencode kvs \<rparr>)"
proof -
  have "\<not> quoted (CHR ''#'')" and "\<not> unsafe_char (CHR ''='')" and "\<not> unsafe_char (CHR ''&'')" by code_simp+
  then have "CHR ''#'' \<notin> set (urlencode kvs)" and "\<forall>c \<in> set (urlencode kvs). \<not> unsafe_char c"
    by (auto dest!: urlencode_char dest: quoted_safe)
  then show ?thesis using assms by (auto simp: parts_ok_def list_all_iff)
qed

lemma normalize_async:
  assumes "urlsplit address_ok url = Inr q" and "up_scheme q = ASYNC_SCHEME"
  shows "normalize_database_url address_ok url
    = Inr (urlunsplit (q \<lparr> up_query := urlencode (filter (\<lambda>kv. \<not> is_sslmode kv) (parse_qsl (up_query q))) \<rparr>),
           ssl_required_of (parse_qsl (up_query q)))"
proof -
  have "py_lower ASYNC_SCHEME = ''postgresql+asyncpg''" by code_simp
  moreover have "q \<lparr> up_scheme := ''postgresql+asyncpg'' \<rparr> = q" using assms(2) by (cases q) (simp add: ASYNC_SCHEME_def)
  moreover have "''postgresql+asyncpg'' \<notin> {''mysql'', ''mysql+pymysql'', ''mysql+aiomysql''}" by simp
  moreover have "''postgresql+asyncpg'' \<in> {''postgres'', ''postgresql'', ''postgresql+asyncpg''}" by simp
  ultimately show ?thesis
    unfolding normalize_database_url_def assms Let_def bindE_simps by (simp only: if_False not_True_eq_False)
qed

lemma ssl_not_required: "\<forall>kv \<in> set kvs. \<not> is_sslmode kv \<Longrightarrow> ssl_required_of kvs = False"
  unfolding ssl_required_of_def by (induction kvs) auto

text \<open>
  Claim C39. Normalising a database URL is final and loses nothing but the SSL mode: the result reads
  back as the asynchronous scheme with the authority, path and fragment of the original and its
  query parameters in their order, without \<^verbatim>\<open>sslmode\<close>; normalising it again gives the same URL and
  asks for no SSL.
\<close>

theorem database_url_normal_form:
  assumes "normalize_database_url address_ok raw = Inr (url, ssl)"
  shows "normalize_database_url address_ok url = Inr (url, False)
    \<and> (\<exists>p q. urlsplit address_ok raw = Inr p \<and> urlsplit address_ok url = Inr q
         \<and> up_scheme q = ''postgresql+asyncpg'' \<and> up_netloc q = up_netloc p \<and> up_path q = up_path p
         \<and> up_fragment q = up_fragment p
         \<and> parse_qsl (up_query q) = filter (\<lambda>kv. py_lower (fst kv) \<noteq> ''sslmode'') (parse_qsl (up_query p)))"
proof -
  from assms obtain p where p: "urlsplit address_ok raw = Inr p" "parts_ok address_ok p"
    and url: "url = urlunsplit (p \<lparr> up_scheme := ASYNC_SCHEME,
                up_query := urlencode (filter (\<lambda>kv. \<not> is_sslmode kv) (parse_qsl (up_query p))) \<rparr>)"
    by (rule normalize_database_urlE)
  let ?kvs = "filter (\<lambda>kv. \<not> is_sslmode kv) (parse_qsl (up_query p))"
  let ?q = "p \<lparr> up_scheme := ASYNC_SCHEME, up_query := urlencode ?kvs \<rparr>"
  have q: "urlsplit address_ok url = Inr ?q"
    unfolding url by (rule urlsplit_unsplit [OF parts_ok_requery [OF p(2)]]) simp
  have "normalize_database_url address_ok url = Inr (url, False)"
    using normalize_async [OF q] ssl_not_required [of ?kvs] by (simp add: parse_urlencode url)
  then show ?thesis using p(1) q by (auto simp: ASYNC_SCHEME_def parse_urlencode is_sslmode_def)
qed

lemma database_url_normal_form_witness:
  "normalize_database_url (\<lambda>_. True) ''postgres://u:p@h:5432/db?sslmode=require&a=x%20y''
     = Inr (''postgresql+asyncpg://u:p@h:5432/db?a=x+y'', True)
   \<and> normalize_database_url (\<lambda>_. True) ''postgresql+asyncpg://u:p@h:5432/db?a=x+y''
     = Inr (''postgresql+asyncpg://u:p@h:5432/db?a=x+y'', False)"
proof -
  have "normalize_database_url (\<lambda>_. True) ''postgres://u:p@h:5432/db?sslmode=require&a=x%20y''
     = Inr (''postgresql+asyncpg://u:p@h:5432/db?a=x+y'', True)" by code_simp
  then show ?thesis using database_url_normal_form by blast
qed

section \<open>What the field constraint lets through\<close>

text \<open>
  A URL that passes the pattern of the field gives an engine, unless its scheme is
  \<^verbatim>\<open>postgres+asyncpg\<close> or its authority is not well-formed.
\<close>

lemma url_scheme:
  assumes "s \<noteq> []" and "is_alpha (hd s)" and "list_all (\<lambda>c. scheme_char c \<and> c \<noteq> CHR '':'') s"
    and "\<forall>c \<in> set s. \<not> unsafe_char c" and "32 < (of_char (hd s) :: int)"
    and "\<not> unsafe_char (CHR '':'')"
    and "urlsplit address_ok (s @ CHR '':'' # rest) = Inr p"
  shows "up_scheme p = py_lower s"
proof -
  have "clean_url (s @ CHR '':'' # rest) = s @ CHR '':'' # filter (\<lambda>c. \<not> unsafe_char c) rest"
    using assms(1,4-6) by (cases s) (auto simp: clean_url_def filter_id_conv)
  moreover have "CHR '':'' \<notin> set s" using assms(3) by (auto simp: list_all_iff)
  moreover have "list_all scheme_char s" using assms(3) by (auto simp: list_all_iff)
  ultimately have "fst (split_scheme (clean_url (s @ CHR '':'' # rest))) = py_lower s"
    using assms(1,2) by (simp add: split_scheme_def cut_hit)
  then show ?thesis using assms(7) by (auto simp: urlsplit_def split: prod.splits if_splits)
qed

lemma pattern_url:
  assumes "list_ex (\<lambda>p. starts_with p url) [''postgres://'', ''postgresql://'', ''postgresql+asyncpg://'']"
    and "urlsplit address_ok url = Inr p"
  shows "up_scheme p \<in> {''postgres'', ''postgresql'', ''postgresql+asyncpg''}"
proof -
  have go: "up_scheme p = py_lower s"
    if "starts_with (s @ ''://'') url" "s \<noteq> []" "is_alpha (hd s)" "list_all (\<lambda>c. scheme_char c \<and> c \<noteq> CHR '':'') s"
      "list_all (\<lambda>c. \<not> unsafe_char c) s" "32 < (of_char (hd s) :: int)" for s
  proof -
    have u: "url = s @ CHR '':'' # (''//'' @ drop (length s + 3) url)"
    proof -
      have "take (length s + 3) url = s @ ''://''" using that(1) by (simp add: starts_with_def numeral_3_eq_3)
      then show ?thesis using append_take_drop_id [of "length s + 3" url] by simp
    qed
    have "\<not> unsafe_char (CHR '':'')" by code_simp
    moreover have "\<forall>c \<in> set s. \<not> unsafe_char c" using that(5) by (simp add: list_all_iff)
    ultimately show ?thesis
      using url_scheme [OF that(2-4) _ that(6), of address_ok "''//'' @ drop (length s + 3) url" p] assms(2)
      unfolding u [symmetric] by blast
  qed
  have sch: "\<forall>s \<in> set [''postgres'', ''postgresql'', ''postgresql+asyncpg''].
      s \<noteq> [] \<and> is_alpha (hd s) \<and> list_all (\<lambda>c. scheme_char c \<and> c \<noteq> CHR '':'') s
    \<and> list_all (\<lambda>c. \<not> unsafe_char c) s \<and> 32 < (of_char (hd s) :: int) \<and> py_lower s = s"
    by code_simp
  obtain s where s: "s \<in> set [''postgres'', ''postgresql'', ''postgresql+asyncpg'']" "starts_with (s @ ''://'') url"
  proof -
    have "\<exists>s \<in> set [''postgres'', ''postgresql'', ''postgresql+asyncpg'']. starts_with (s @ ''://'') url"
      using assms(1) by simp
    then show ?thesis using that by blast
  qed
  note facts = bspec [OF sch s(1)]
  have "up_scheme p = py_lower s" by (rule go [OF s(2)]) (use facts in blast)+
  then show ?thesis using s(1) facts by simp
qed

lemma database_engine_starts:
  assumes "valid_settings st" and "\<not> starts_with ''postgres+asyncpg://'' (database_url st)"
    and "urlsplit address_ok (database_url st) = Inr p"
  shows "\<exists>opts. database_engine address_ok st = Inr opts
    \<and> (eo_connect_args opts = [(''ssl'', True)] \<longleftrightarrow> ssl_required_of (parse_qsl (up_query p)))"
proof -
  have "up_scheme p \<in> {''postgres'', ''postgresql'', ''postgresql+asyncpg''}"
    using pattern_url assms by (auto simp: valid_settings_def)
  moreover have "py_lower ''postgres'' = ''postgres''" "py_lower ''postgresql'' = ''postgresql''"
    "py_lower ''postgresql+asyncpg'' = ''postgresql+asyncpg''" by code_simp+
  ultimately have "\<exists>url. normalize_database_url address_ok (database_url st)
      = Inr (url, ssl_required_of (parse_qsl (up_query p)))"
    using assms(3) by (auto simp: normalize_database_url_def Let_def)
  then show ?thesis
    by (auto simp: database_engine_def db_ssl_required_def resolved_database_url_def connect_args_def)
qed

text \<open>The pattern accepts a scheme that the normalisation refuses: the application does not start.\<close>

lemma pg_async_refused:
  "normalize_database_url (\<lambda>_. True) ''postgres+asyncpg://h/db''
   = Inl (ValueError ''AFM DATABASE_URL must use postgres://, postgresql://, or postgresql+asyncpg://.'')"
  by code_simp

lemma pattern_accepts_refused_scheme:
  fixes st :: settings
  defines "st \<equiv> default_settings (replicate 48 (CHR ''k'')) \<lparr> database_url := ''postgres+asyncpg://h/db'' \<rparr>"
  shows "valid_settings st \<and> (\<exists>e. database_engine (\<lambda>_. True) st = Inl (ValueError e))"
proof -
  have "valid_settings st"
    using default_settings_valid [of "replicate 48 (CHR ''k'')"]
    by (simp add: st_def valid_settings_def starts_with_def)
  moreover have "\<exists>e. normalize_database_url (\<lambda>_. True) ''postgres+asyncpg://h/db'' = Inl (ValueError e)"
    by (simp add: pg_async_refused)
  ultimately show ?thesis by (auto simp: st_def database_engine_def db_ssl_required_def)
qed

end
