(* ===== verification/AFM_Migrations.thy ===== *)
theory AFM_Migrations
  imports AFM_Text
begin

text \<open>
  \<^verbatim>\<open>alembic/versions/\<close>: the migrations as what their statements ask of the schema of a PostgreSQL
  database, the revision graph they are run along, and \<^verbatim>\<open>config/database.py\<close>'s \<^verbatim>\<open>init_db\<close>, which
  creates the tables of the imported models, those of \<^verbatim>\<open>payment_hub/models.py\<close>, that do not exist.  A schema is its tables and its
  enumerated types; rows are the matter of \<open>AFM_Models\<close>.
\<close>

section \<open>Schemas\<close>

datatype sql_type =
    Uuid | Varchar nat | Json | Jsonb | Numeric nat nat | Text | Timestamptz | Integer | Boolean | Float
  | Enum string

record column =
  c_name :: string
  c_type :: sql_type
  c_nullable :: bool
  c_server_default :: "string option"

record foreign_key =
  fk_name :: "string option"
  fk_columns :: "string list"
  fk_table :: string
  fk_refers :: "string list"
  fk_ondelete :: "string option"

record table_index =
  ix_name :: string
  ix_columns :: "string list"
  ix_unique :: bool

record sql_table =
  st_columns :: "column list"
  st_key :: "string list"
  st_uniques :: "(string \<times> string list) list"
  st_checks :: "(string \<times> string \<times> string list) list"
  st_foreign_keys :: "foreign_key list"
  st_indexes :: "table_index list"

record schema =
  s_tables :: "(string \<times> sql_table) list"
  s_types :: "(string \<times> string list) list"

definition empty_schema :: schema where
  "empty_schema = \<lparr> s_tables = [], s_types = [] \<rparr>"

definition column_names :: "sql_table \<Rightarrow> string list" where
  "column_names tb = map c_name (st_columns tb)"

text \<open>Tables, indexes and unique constraints share one namespace.\<close>

definition relation_names :: "schema \<Rightarrow> string list" where
  "relation_names s =
     concat (map (\<lambda>(n, tb). n # map fst (st_uniques tb) @ map ix_name (st_indexes tb)) (s_tables s))"

section \<open>Statements\<close>

datatype ddl_error = Duplicate string | Undefined string | Dependent string

text \<open>\<open>Create_table\<close> carries the enumerated types that come with the table.\<close>

datatype ddl =
    Create_table string "(string \<times> string list) list" sql_table
  | Drop_table string
  | Create_index string string "string list" bool
  | Drop_index string
  | Add_column string column
  | Drop_column string string
  | Create_foreign_key string string string "string list" "string list"
  | Drop_constraint string string
  | Alter_server_default string string "string option"
  | Drop_type string
  | Add_value string string

definition with_table :: "string \<Rightarrow> schema \<Rightarrow> (sql_table \<Rightarrow> ddl_error + sql_table) \<Rightarrow> ddl_error + schema" where
  "with_table t s f =
     (case map_of (s_tables s) t of
        None \<Rightarrow> Inl (Undefined t)
      | Some tb \<Rightarrow> bindE (f tb) (\<lambda>tb'. Inr (s \<lparr> s_tables := AList.update t tb' (s_tables s) \<rparr>)))"

definition refers_ok :: "schema \<Rightarrow> foreign_key \<Rightarrow> bool" where
  "refers_ok s fk \<longleftrightarrow>
     (case map_of (s_tables s) (fk_table fk) of
        None \<Rightarrow> False
      | Some tb \<Rightarrow> list_all (\<lambda>c. c \<in> set (column_names tb)) (fk_refers fk))"

definition referenced :: "string \<Rightarrow> schema \<Rightarrow> bool" where
  "referenced t s \<longleftrightarrow>
     list_ex (\<lambda>(n, tb). n \<noteq> t \<and> list_ex (\<lambda>fk. fk_table fk = t) (st_foreign_keys tb)) (s_tables s)"

definition column_referenced :: "string \<Rightarrow> string \<Rightarrow> schema \<Rightarrow> bool" where
  "column_referenced t c s \<longleftrightarrow>
     list_ex (\<lambda>(_, tb). list_ex (\<lambda>fk. fk_table fk = t \<and> c \<in> set (fk_refers fk)) (st_foreign_keys tb)) (s_tables s)"

fun exec :: "ddl \<Rightarrow> schema \<Rightarrow> ddl_error + schema" where
  "exec (Create_table t types tb) s =
     (if list_ex (\<lambda>n. n \<in> set (relation_names s)) (t # map fst (st_uniques tb)) then Inl (Duplicate t)
      else if list_ex (\<lambda>(n, _). n \<in> set (map fst (s_types s))) types then Inl (Duplicate t)
      else if \<not> list_all (refers_ok s) (st_foreign_keys tb) then Inl (Undefined t)
      else Inr (s \<lparr> s_tables := s_tables s @ [(t, tb)], s_types := s_types s @ types \<rparr>))"
| "exec (Drop_table t) s =
     (if t \<notin> set (map fst (s_tables s)) then Inl (Undefined t)
      else if referenced t s then Inl (Dependent t)
      else Inr (s \<lparr> s_tables := filter (\<lambda>(n, _). n \<noteq> t) (s_tables s) \<rparr>))"
| "exec (Create_index n t cols uniq) s =
     (if n \<in> set (relation_names s) then Inl (Duplicate n)
      else with_table t s (\<lambda>tb.
        if \<not> list_all (\<lambda>c. c \<in> set (column_names tb)) cols then Inl (Undefined n)
        else Inr (tb \<lparr> st_indexes := st_indexes tb @ [\<lparr> ix_name = n, ix_columns = cols, ix_unique = uniq \<rparr>] \<rparr>)))"
| "exec (Drop_index n) s =
     (if \<not> list_ex (\<lambda>(_, tb). n \<in> set (map ix_name (st_indexes tb))) (s_tables s) then Inl (Undefined n)
      else Inr (s \<lparr> s_tables := map (\<lambda>(t, tb).
             (t, tb \<lparr> st_indexes := filter (\<lambda>ix. ix_name ix \<noteq> n) (st_indexes tb) \<rparr>)) (s_tables s) \<rparr>))"
| "exec (Add_column t c) s =
     with_table t s (\<lambda>tb.
       if c_name c \<in> set (column_names tb) then Inl (Duplicate (c_name c))
       else Inr (tb \<lparr> st_columns := st_columns tb @ [c] \<rparr>))"
| "exec (Drop_column t c) s =
     with_table t s (\<lambda>tb.
       if c \<notin> set (column_names tb) then Inl (Undefined c)
       else if column_referenced t c s then Inl (Dependent c)
       else Inr (tb \<lparr> st_columns := filter (\<lambda>x. c_name x \<noteq> c) (st_columns tb),
                     st_uniques := filter (\<lambda>(_, cs). c \<notin> set cs) (st_uniques tb),
                     st_foreign_keys := filter (\<lambda>fk. c \<notin> set (fk_columns fk)) (st_foreign_keys tb),
                     st_indexes := filter (\<lambda>ix. c \<notin> set (ix_columns ix)) (st_indexes tb) \<rparr>))"
| "exec (Create_foreign_key n t target cols refs) s =
     (let fk = \<lparr> fk_name = Some n, fk_columns = cols, fk_table = target, fk_refers = refs, fk_ondelete = None \<rparr> in
      with_table t s (\<lambda>tb.
        if \<not> refers_ok s fk \<or> \<not> list_all (\<lambda>c. c \<in> set (column_names tb)) cols then Inl (Undefined n)
        else if Some n \<in> set (map fk_name (st_foreign_keys tb)) then Inl (Duplicate n)
        else Inr (tb \<lparr> st_foreign_keys := st_foreign_keys tb @ [fk] \<rparr>)))"
| "exec (Drop_constraint n t) s =
     with_table t s (\<lambda>tb.
       if Some n \<notin> set (map fk_name (st_foreign_keys tb)) then Inl (Undefined n)
       else Inr (tb \<lparr> st_foreign_keys := filter (\<lambda>fk. fk_name fk \<noteq> Some n) (st_foreign_keys tb) \<rparr>))"
| "exec (Alter_server_default t c d) s =
     with_table t s (\<lambda>tb.
       if c \<notin> set (column_names tb) then Inl (Undefined c)
       else Inr (tb \<lparr> st_columns := map (\<lambda>x. if c_name x = c then x \<lparr> c_server_default := d \<rparr> else x) (st_columns tb) \<rparr>))"
| "exec (Drop_type n) s =
     (if list_ex (\<lambda>(_, tb). list_ex (\<lambda>c. c_type c = Enum n) (st_columns tb)) (s_tables s) then Inl (Dependent n)
      else Inr (s \<lparr> s_types := filter (\<lambda>(m, _). m \<noteq> n) (s_types s) \<rparr>))"
| "exec (Add_value n v) s =
     (case map_of (s_types s) n of
        None \<Rightarrow> Inl (Undefined n)
      | Some labels \<Rightarrow>
          if v \<in> set labels then Inr s else Inr (s \<lparr> s_types := AList.update n (labels @ [v]) (s_types s) \<rparr>))"

fun exec_all :: "ddl list \<Rightarrow> schema \<Rightarrow> ddl_error + schema" where
  "exec_all [] s = Inr s"
| "exec_all (d # ds) s = bindE (exec d s) (exec_all ds)"

section \<open>The notation of the scripts\<close>

definition col :: "string \<Rightarrow> sql_type \<Rightarrow> column" where
  "col n t = \<lparr> c_name = n, c_type = t, c_nullable = True, c_server_default = None \<rparr>"

definition not_null :: "string \<Rightarrow> sql_type \<Rightarrow> column" where
  "not_null n t = \<lparr> c_name = n, c_type = t, c_nullable = False, c_server_default = None \<rparr>"

definition served :: "column \<Rightarrow> string \<Rightarrow> column" where
  "served c d = c \<lparr> c_server_default := Some d \<rparr>"

definition references :: "string \<Rightarrow> string \<Rightarrow> string option \<Rightarrow> foreign_key" where
  "references c target ondelete =
     \<lparr> fk_name = None, fk_columns = [c], fk_table = target, fk_refers = [''id''], fk_ondelete = ondelete \<rparr>"

definition new_table ::
    "column list \<Rightarrow> (string \<times> string list) list \<Rightarrow>
     (string \<times> string \<times> string list) list \<Rightarrow> foreign_key list \<Rightarrow> sql_table" where
  "new_table cols uniques checks fks =
     \<lparr> st_columns = cols, st_key = [''id''], st_uniques = uniques, st_checks = checks, st_foreign_keys = fks,
       st_indexes = [] \<rparr>"

definition generated_id :: column where
  "generated_id = served (not_null ''id'' Uuid) ''gen_random_uuid()''"

definition stamped :: "string \<Rightarrow> column" where
  "stamped n = served (not_null n Timestamptz) ''now()''"

definition in_quotes :: "string \<Rightarrow> string" where
  "in_quotes s = char_of (39::int) # s @ [char_of (39::int)]"

section \<open>The scripts\<close>

definition upgrade_0001 :: "ddl list" where
  "upgrade_0001 =
     [Create_table ''users'' [] (new_table
         [not_null ''id'' Uuid,
          not_null ''email'' (Varchar 255),
          col ''hashed_password'' (Varchar 255),
          col ''full_name'' (Varchar 255),
          col ''phone'' (Varchar 50),
          col ''country'' (Varchar 2),
          served (col ''is_active'' (Varchar 1)) ''1'',
          served (col ''kyc_status'' (Varchar 20)) ''pending'',
          col ''created_at'' Timestamptz]
         [] [] []),
      Create_index ''ix_users_email'' ''users'' [''email''] True,
      Create_table ''transactions''
         [(''psptype'', [''kora'', ''fincra'', ''flutterwave'', ''stripe'', ''mtn_momo'', ''orange_money'']),
          (''paymentstatus'', [''pending'', ''processing'', ''completed'', ''failed'', ''refunded'', ''held''])] (new_table
         [not_null ''id'' Uuid,
          not_null ''idempotency_key'' (Varchar 64),
          not_null ''user_id'' Uuid,
          not_null ''psp'' (Enum ''psptype''),
          col ''psp_transaction_id'' (Varchar 100),
          served (col ''psp_response'' Json) ''{}'',
          not_null ''amount'' (Numeric 19 8),
          not_null ''currency'' (Varchar 3),
          served (col ''fee_amount'' (Numeric 19 8)) ''0'',
          served (col ''fee_currency'' (Varchar 3)) ''USD'',
          served (col ''net_amount'' (Numeric 19 8)) ''0'',
          served (col ''status'' (Enum ''paymentstatus'')) ''pending'',
          served (col ''txn_metadata'' Json) ''{}'',
          col ''error_message'' Text,
          col ''webhook_received_at'' Timestamptz,
          col ''settled_at'' Timestamptz,
          col ''created_at'' Timestamptz,
          col ''updated_at'' Timestamptz]
         [] []
         [references ''user_id'' ''users'' None]),
      Create_index ''ix_transactions_idempotency_key'' ''transactions'' [''idempotency_key''] True,
      Create_index ''ix_transactions_user_id'' ''transactions'' [''user_id''] False,
      Create_index ''ix_transactions_user_status'' ''transactions'' [''user_id'', ''status''] False,
      Create_index ''ix_transactions_created_at'' ''transactions'' [''created_at''] False,
      Create_index ''ix_transactions_psp_txn'' ''transactions'' [''psp_transaction_id''] False]"

definition downgrade_0001 :: "ddl list" where
  "downgrade_0001 =
     [Drop_table ''transactions'',
      Drop_type ''paymentstatus'',
      Drop_type ''psptype'',
      Drop_index ''ix_users_email'',
      Drop_table ''users'']"

definition upgrade_001 :: "ddl list" where
  "upgrade_001 = []"

definition downgrade_001 :: "ddl list" where
  "downgrade_001 = []"

definition upgrade_002 :: "ddl list" where
  "upgrade_002 =
     [Create_table ''broker_account_links'' [] (new_table
         [generated_id,
          not_null ''user_id'' Uuid,
          not_null ''alpaca_account_id'' (Varchar 100),
          served (not_null ''status'' (Varchar 20)) ''pending'',
          stamped ''created_at'',
          stamped ''updated_at'']
         [(''uq_broker_account_links_user_id'', [''user_id'']),
          (''uq_broker_account_links_alpaca_account_id'', [''alpaca_account_id''])] []
         [references ''user_id'' ''users'' (Some ''CASCADE'')]),
      Create_index ''ix_broker_account_links_user_id'' ''broker_account_links'' [''user_id''] False,
      Create_index ''ix_broker_account_links_alpaca_account_id'' ''broker_account_links'' [''alpaca_account_id''] False]"

definition downgrade_002 :: "ddl list" where
  "downgrade_002 =
     [Drop_index ''ix_broker_account_links_alpaca_account_id'',
      Drop_index ''ix_broker_account_links_user_id'',
      Drop_table ''broker_account_links'']"

definition upgrade_003 :: "ddl list" where
  "upgrade_003 =
     [Add_column ''users'' (col ''oauth_subject'' (Varchar 128)),
      Create_index ''ix_users_oauth_subject'' ''users'' [''oauth_subject''] True]"

definition downgrade_003 :: "ddl list" where
  "downgrade_003 =
     [Drop_index ''ix_users_oauth_subject'',
      Drop_column ''users'' ''oauth_subject'']"

definition upgrade_004 :: "ddl list" where
  "upgrade_004 = []"

definition downgrade_004 :: "ddl list" where
  "downgrade_004 = []"

definition upgrade_005 :: "ddl list" where
  "upgrade_005 =
     [Create_table ''virtual_accounts'' [] (new_table
         [generated_id,
          not_null ''user_id'' Uuid,
          served (not_null ''status'' (Varchar 20)) ''active'',
          served (not_null ''currency'' (Varchar 3)) ''USD'',
          stamped ''created_at'',
          stamped ''updated_at'']
         [(''uq_virtual_accounts_user_id'', [''user_id''])] []
         [references ''user_id'' ''users'' (Some ''CASCADE'')]),
      Create_index ''ix_virtual_accounts_user_id'' ''virtual_accounts'' [''user_id''] False,
      Create_table ''virtual_positions'' [] (new_table
         [generated_id,
          not_null ''virtual_account_id'' Uuid,
          not_null ''symbol'' (Varchar 32),
          served (not_null ''quantity'' (Numeric 28 10)) ''0'',
          served (not_null ''average_cost'' (Numeric 19 8)) ''0'',
          served (not_null ''currency'' (Varchar 3)) ''USD'',
          served (not_null ''position_metadata'' Jsonb) (in_quotes ''{}'' @ ''::jsonb''),
          col ''reconciled_at'' Timestamptz,
          stamped ''created_at'',
          stamped ''updated_at'']
         [(''uq_virtual_positions_account_symbol'', [''virtual_account_id'', ''symbol''])] []
         [references ''virtual_account_id'' ''virtual_accounts'' (Some ''CASCADE'')]),
      Create_index ''ix_virtual_positions_virtual_account_id'' ''virtual_positions'' [''virtual_account_id''] False,
      Create_table ''virtual_ledger_entries'' [] (new_table
         [generated_id,
          not_null ''virtual_account_id'' Uuid,
          not_null ''entry_type'' (Varchar 40),
          not_null ''direction'' (Varchar 8),
          not_null ''amount'' (Numeric 19 8),
          served (not_null ''currency'' (Varchar 3)) ''USD'',
          col ''symbol'' (Varchar 32),
          col ''quantity'' (Numeric 28 10),
          col ''reference_type'' (Varchar 40),
          col ''reference_id'' (Varchar 128),
          col ''description'' (Varchar 255),
          served (not_null ''entry_metadata'' Jsonb) (in_quotes ''{}'' @ ''::jsonb''),
          stamped ''occurred_at'',
          stamped ''created_at'']
         [] [(''ck_virtual_ledger_direction'', ''direction'', [''credit'', ''debit''])]
         [references ''virtual_account_id'' ''virtual_accounts'' (Some ''CASCADE'')]),
      Create_index ''ix_virtual_ledger_entries_virtual_account_id'' ''virtual_ledger_entries'' [''virtual_account_id''] False,
      Create_index ''ix_virtual_ledger_account_occurred'' ''virtual_ledger_entries'' [''virtual_account_id'', ''occurred_at''] False,
      Create_index ''ix_virtual_ledger_reference'' ''virtual_ledger_entries'' [''reference_type'', ''reference_id''] False]"

definition downgrade_005 :: "ddl list" where
  "downgrade_005 =
     [Drop_index ''ix_virtual_ledger_reference'',
      Drop_index ''ix_virtual_ledger_account_occurred'',
      Drop_index ''ix_virtual_ledger_entries_virtual_account_id'',
      Drop_table ''virtual_ledger_entries'',
      Drop_index ''ix_virtual_positions_virtual_account_id'',
      Drop_table ''virtual_positions'',
      Drop_index ''ix_virtual_accounts_user_id'',
      Drop_table ''virtual_accounts'']"

definition upgrade_006 :: "ddl list" where
  "upgrade_006 =
     [Create_table ''kora_webhook_events'' [] (new_table
         [generated_id,
          not_null ''event_id'' (Varchar 128),
          not_null ''event_type'' (Varchar 80),
          not_null ''payload_hash'' (Varchar 64),
          served (not_null ''status'' (Varchar 20)) ''received'',
          not_null ''payload'' Jsonb,
          stamped ''received_at'',
          col ''processed_at'' Timestamptz,
          col ''error_message'' (Varchar 255)]
         [(''uq_kora_webhook_events_event_id'', [''event_id''])] []
         []),
      Create_index ''ix_kora_webhook_events_status'' ''kora_webhook_events'' [''status''] False,
      Create_index ''ix_kora_webhook_events_received_at'' ''kora_webhook_events'' [''received_at''] False]"

definition downgrade_006 :: "ddl list" where
  "downgrade_006 =
     [Drop_index ''ix_kora_webhook_events_received_at'',
      Drop_index ''ix_kora_webhook_events_status'',
      Drop_table ''kora_webhook_events'']"

definition upgrade_007 :: "ddl list" where
  "upgrade_007 =
     [Add_column ''transactions'' (served (not_null ''ledger_namespace'' (Varchar 64)) ''afm_payments''),
      Add_column ''transactions'' (col ''virtual_account_id'' Uuid),
      Add_column ''transactions'' (col ''corridor'' (Varchar 64)),
      Add_column ''transactions'' (col ''beneficiary_currency'' (Varchar 3)),
      Add_column ''transactions'' (served (col ''total_fee_amount'' (Numeric 19 8)) ''0''),
      Create_index ''ix_transactions_virtual_account_id'' ''transactions'' [''virtual_account_id''] False,
      Create_foreign_key ''fk_transactions_virtual_account_id'' ''transactions'' ''virtual_accounts'' [''virtual_account_id''] [''id''],
      Alter_server_default ''transactions'' ''ledger_namespace'' None,
      Alter_server_default ''transactions'' ''total_fee_amount'' None]"

definition downgrade_007 :: "ddl list" where
  "downgrade_007 =
     [Drop_constraint ''fk_transactions_virtual_account_id'' ''transactions'',
      Drop_index ''ix_transactions_virtual_account_id'',
      Drop_column ''transactions'' ''total_fee_amount'',
      Drop_column ''transactions'' ''beneficiary_currency'',
      Drop_column ''transactions'' ''corridor'',
      Drop_column ''transactions'' ''virtual_account_id'',
      Drop_column ''transactions'' ''ledger_namespace'']"

definition upgrade_008 :: "ddl list" where
  "upgrade_008 =
     [Create_table ''kora_refunds'' [] (new_table
         [generated_id,
          not_null ''transaction_id'' Uuid,
          not_null ''refund_reference'' (Varchar 50),
          not_null ''idempotency_key'' (Varchar 128),
          not_null ''payment_reference'' (Varchar 128),
          not_null ''amount'' (Numeric 19 8),
          not_null ''currency'' (Varchar 3),
          col ''reason'' (Varchar 200),
          served (not_null ''status'' (Varchar 20)) ''requested'',
          served (not_null ''psp_response'' Json) (in_quotes ''{}''),
          col ''error_message'' Text,
          stamped ''requested_at'',
          col ''completed_at'' Timestamptz,
          stamped ''created_at'',
          stamped ''updated_at'']
         [(''uq_kora_refunds_refund_reference'', [''refund_reference'']),
          (''uq_kora_refunds_idempotency_key'', [''idempotency_key''])] []
         [references ''transaction_id'' ''transactions'' (Some ''RESTRICT'')]),
      Create_index ''ix_kora_refunds_transaction_id'' ''kora_refunds'' [''transaction_id''] False,
      Create_index ''ix_kora_refunds_refund_reference'' ''kora_refunds'' [''refund_reference''] False,
      Create_index ''ix_kora_refunds_idempotency_key'' ''kora_refunds'' [''idempotency_key''] False,
      Create_index ''ix_kora_refunds_payment_reference'' ''kora_refunds'' [''payment_reference''] False,
      Create_index ''ix_kora_refunds_payment_status'' ''kora_refunds'' [''payment_reference'', ''status''] False]"

definition downgrade_008 :: "ddl list" where
  "downgrade_008 =
     [Drop_index ''ix_kora_refunds_payment_status'',
      Drop_index ''ix_kora_refunds_payment_reference'',
      Drop_index ''ix_kora_refunds_idempotency_key'',
      Drop_index ''ix_kora_refunds_refund_reference'',
      Drop_index ''ix_kora_refunds_transaction_id'',
      Drop_table ''kora_refunds'']"

definition upgrade_009 :: "ddl list" where
  "upgrade_009 =
     [Add_column ''transactions'' (col ''psp_payment_reference'' (Varchar 128)),
      Create_index ''ix_transactions_psp_payment_reference'' ''transactions'' [''psp_payment_reference''] False,
      Create_table ''kora_payment_reconciliations'' [] (new_table
         [generated_id,
          not_null ''transaction_id'' Uuid,
          not_null ''payment_reference'' (Varchar 128),
          col ''transaction_reference'' (Varchar 128),
          served (not_null ''provider_status'' (Varchar 40)) ''processing'',
          served (not_null ''state'' (Varchar 24)) ''scheduled'',
          served (not_null ''attempt_count'' Integer) ''0'',
          col ''next_attempt_at'' Timestamptz,
          col ''expires_at'' Timestamptz,
          col ''last_checked_at'' Timestamptz,
          col ''last_error'' Text,
          col ''locked_at'' Timestamptz,
          col ''locked_by'' (Varchar 128),
          stamped ''created_at'',
          stamped ''updated_at'']
         [(''uq_kora_reconciliation_transaction'', [''transaction_id''])] []
         [references ''transaction_id'' ''transactions'' (Some ''CASCADE'')]),
      Create_index ''ix_kora_reconciliation_due'' ''kora_payment_reconciliations'' [''state'', ''next_attempt_at''] False,
      Create_index ''ix_kora_reconciliation_payment_reference'' ''kora_payment_reconciliations'' [''payment_reference''] False]"

definition downgrade_009 :: "ddl list" where
  "downgrade_009 =
     [Drop_index ''ix_kora_reconciliation_payment_reference'',
      Drop_index ''ix_kora_reconciliation_due'',
      Drop_table ''kora_payment_reconciliations'',
      Drop_index ''ix_transactions_psp_payment_reference'',
      Drop_column ''transactions'' ''psp_payment_reference'']"

text \<open>What the inspector says of the database decides what the tenth and eleventh script do.\<close>

definition upgrade_010 :: "schema \<Rightarrow> ddl_error + schema" where
  "upgrade_010 s =
     (case map_of (s_tables s) ''users'' of
        None \<Rightarrow> Inl (Undefined ''users'')
      | Some users \<Rightarrow>
          bindE (exec_all (map (Add_column ''users'') (filter (\<lambda>c. c_name c \<notin> set (column_names users))
              [col ''date_of_birth'' (Varchar 10),
               col ''email_verified_at'' Timestamptz,
               col ''phone_verified_at'' Timestamptz,
               col ''identity_consent_at'' Timestamptz])) s) (\<lambda>s1.
          bindE (if ''user_otp_challenges'' \<in> set (map fst (s_tables s)) then Inr s1
                 else exec (Create_table ''user_otp_challenges'' [] (new_table
                   [generated_id,
                    not_null ''email'' (Varchar 255),
                    col ''phone'' (Varchar 50),
                    served (not_null ''purpose'' (Varchar 32)) ''signup'',
                    not_null ''code_digest'' (Varchar 64),
                    served (not_null ''attempts'' Integer) ''0'',
                    not_null ''expires_at'' Timestamptz,
                    col ''consumed_at'' Timestamptz,
                    stamped ''created_at'']
                   [] [] [])) s1) (\<lambda>s2.
          let existing = (case map_of (s_tables s2) ''user_otp_challenges'' of
                            None \<Rightarrow> [] | Some tb \<Rightarrow> map fst (st_uniques tb) @ map ix_name (st_indexes tb)) in
          exec_all (map (\<lambda>(n, cols). Create_index n ''user_otp_challenges'' cols False)
            (filter (\<lambda>(n, _). n \<notin> set existing)
              [(''ix_user_otp_challenges_email'', [''email'']),
               (''ix_user_otp_email_purpose_created'', [''email'', ''purpose'', ''created_at''])])) s2)))"

definition downgrade_010 :: "ddl list" where
  "downgrade_010 =
     [Drop_index ''ix_user_otp_email_purpose_created'',
      Drop_index ''ix_user_otp_challenges_email'',
      Drop_table ''user_otp_challenges'',
      Drop_column ''users'' ''identity_consent_at'',
      Drop_column ''users'' ''phone_verified_at'',
      Drop_column ''users'' ''email_verified_at'',
      Drop_column ''users'' ''date_of_birth'']"

definition upgrade_011 :: "schema \<Rightarrow> ddl_error + schema" where
  "upgrade_011 s =
     (if ''user_kyc_profiles'' \<in> set (map fst (s_tables s))
      then exec_all [Drop_index ''ix_user_kyc_profiles_user_id'', Drop_table ''user_kyc_profiles''] s
      else Inr s)"

definition downgrade_011 :: "ddl list" where
  "downgrade_011 = []"

definition upgrade_012 :: "ddl list" where
  "upgrade_012 =
     [Add_column ''users'' (col ''whatsapp_phone'' (Varchar 50)),
      Add_column ''users'' (col ''mobile_money_phone'' (Varchar 50)),
      Add_column ''users'' (col ''mobile_money_owner_verified_at'' Timestamptz),
      Add_column ''transactions'' (col ''mobile_money_phone'' (Varchar 50)),
      Add_column ''transactions'' (col ''mobile_money_provider_reference'' (Varchar 128)),
      Add_column ''transactions'' (col ''mobile_money_owner_verified_at'' Timestamptz),
      Create_index ''ix_transactions_mobile_money_provider_reference'' ''transactions'' [''mobile_money_provider_reference''] False]"

definition downgrade_012 :: "ddl list" where
  "downgrade_012 =
     [Drop_index ''ix_transactions_mobile_money_provider_reference'',
      Drop_column ''transactions'' ''mobile_money_owner_verified_at'',
      Drop_column ''transactions'' ''mobile_money_provider_reference'',
      Drop_column ''transactions'' ''mobile_money_phone'',
      Drop_column ''users'' ''mobile_money_owner_verified_at'',
      Drop_column ''users'' ''mobile_money_phone'',
      Drop_column ''users'' ''whatsapp_phone'']"

definition upgrade_013 :: "ddl list" where
  "upgrade_013 =
     [Add_column ''users'' (col ''terms_accepted_at'' Timestamptz),
      Add_column ''users'' (col ''terms_version'' (Varchar 32)),
      Add_column ''users'' (col ''aml_policy_version'' (Varchar 32))]"

definition downgrade_013 :: "ddl list" where
  "downgrade_013 =
     [Drop_column ''users'' ''aml_policy_version'',
      Drop_column ''users'' ''terms_version'',
      Drop_column ''users'' ''terms_accepted_at'']"

definition upgrade_014 :: "ddl list" where
  "upgrade_014 =
     [Add_value ''psptype'' ''aza'']"

definition downgrade_014 :: "ddl list" where
  "downgrade_014 = []"

section \<open>Revisions\<close>

record migration =
  m_revision :: string
  m_down_revision :: "string list"
  m_upgrade :: "schema \<Rightarrow> ddl_error + schema"
  m_downgrade :: "schema \<Rightarrow> ddl_error + schema"

text \<open>The graph: a chain, and the retired \<^verbatim>\<open>001_initial\<close> beside it, joined by the merge revision.\<close>

definition chain :: "migration list" where
  "chain =
     [\<lparr> m_revision = ''0001_initial'', m_down_revision = [],
        m_upgrade = exec_all upgrade_0001, m_downgrade = exec_all downgrade_0001 \<rparr>,
      \<lparr> m_revision = ''002_broker_account_links'', m_down_revision = [''0001_initial''],
        m_upgrade = exec_all upgrade_002, m_downgrade = exec_all downgrade_002 \<rparr>,
      \<lparr> m_revision = ''003_user_oauth_subject'', m_down_revision = [''002_broker_account_links''],
        m_upgrade = exec_all upgrade_003, m_downgrade = exec_all downgrade_003 \<rparr>,
      \<lparr> m_revision = ''004_merge_initial_heads'', m_down_revision = [''003_user_oauth_subject'', ''001_initial''],
        m_upgrade = exec_all upgrade_004, m_downgrade = exec_all downgrade_004 \<rparr>,
      \<lparr> m_revision = ''005_virtual_accounts_ledger'', m_down_revision = [''004_merge_initial_heads''],
        m_upgrade = exec_all upgrade_005, m_downgrade = exec_all downgrade_005 \<rparr>,
      \<lparr> m_revision = ''006_kora_webhook_events'', m_down_revision = [''005_virtual_accounts_ledger''],
        m_upgrade = exec_all upgrade_006, m_downgrade = exec_all downgrade_006 \<rparr>,
      \<lparr> m_revision = ''007_payment_segregation_audit'', m_down_revision = [''006_kora_webhook_events''],
        m_upgrade = exec_all upgrade_007, m_downgrade = exec_all downgrade_007 \<rparr>,
      \<lparr> m_revision = ''008_kora_refunds'', m_down_revision = [''007_payment_segregation_audit''],
        m_upgrade = exec_all upgrade_008, m_downgrade = exec_all downgrade_008 \<rparr>,
      \<lparr> m_revision = ''009_kora_payment_reconciliation'', m_down_revision = [''008_kora_refunds''],
        m_upgrade = exec_all upgrade_009, m_downgrade = exec_all downgrade_009 \<rparr>,
      \<lparr> m_revision = ''010_user_onboarding_otp_kyc'', m_down_revision = [''009_kora_payment_reconciliation''],
        m_upgrade = upgrade_010, m_downgrade = exec_all downgrade_010 \<rparr>,
      \<lparr> m_revision = ''011_remove_document_kyc'', m_down_revision = [''010_user_onboarding_otp_kyc''],
        m_upgrade = upgrade_011, m_downgrade = exec_all downgrade_011 \<rparr>,
      \<lparr> m_revision = ''012_sep_whatsapp_momo'', m_down_revision = [''011_remove_document_kyc''],
        m_upgrade = exec_all upgrade_012, m_downgrade = exec_all downgrade_012 \<rparr>,
      \<lparr> m_revision = ''013_legal_acceptance_kyc1_limit'', m_down_revision = [''012_sep_whatsapp_momo''],
        m_upgrade = exec_all upgrade_013, m_downgrade = exec_all downgrade_013 \<rparr>,
      \<lparr> m_revision = ''014_add_aza_psp'', m_down_revision = [''013_legal_acceptance_kyc1_limit''],
        m_upgrade = exec_all upgrade_014, m_downgrade = exec_all downgrade_014 \<rparr>]"

definition retired_initial :: migration where
  "retired_initial =
     \<lparr> m_revision = ''001_initial'', m_down_revision = [''0001_initial''],
        m_upgrade = exec_all upgrade_001, m_downgrade = exec_all downgrade_001 \<rparr>"

definition migrations :: "migration list" where
  "migrations = retired_initial # chain"

text \<open>
  \<^verbatim>\<open>alembic upgrade\<close> and \<^verbatim>\<open>downgrade\<close>: a revision is applied when those it builds on are, and undone when
  none that builds on it is.
\<close>

inductive migrate :: "string set \<times> schema \<Rightarrow> string set \<times> schema \<Rightarrow> bool" where
  upgrade: "m \<in> set migrations \<Longrightarrow> m_revision m \<notin> applied \<Longrightarrow> set (m_down_revision m) \<subseteq> applied \<Longrightarrow>
     m_upgrade m s = Inr s' \<Longrightarrow> migrate (applied, s) (insert (m_revision m) applied, s')"

section \<open>The models and \<^verbatim>\<open>init_db\<close>\<close>

text \<open>A column of a model: the default is a value the library supplies on insert.\<close>

record orm_column =
  o_name :: string
  o_type :: sql_type
  o_nullable :: bool
  o_unique :: bool
  o_index :: bool
  o_default :: bool
  o_foreign :: "(string \<times> string option) option"

record orm_table =
  o_table :: string
  o_columns :: "orm_column list"
  o_indexes :: "table_index list"

definition field :: "string \<Rightarrow> sql_type \<Rightarrow> orm_column" where
  "field n t =
     \<lparr> o_name = n, o_type = t, o_nullable = True, o_unique = False, o_index = False, o_default = False, o_foreign = None \<rparr>"

definition non_null :: "orm_column \<Rightarrow> orm_column" where
  "non_null c = c \<lparr> o_nullable := False \<rparr>"

definition unique :: "orm_column \<Rightarrow> orm_column" where
  "unique c = c \<lparr> o_unique := True \<rparr>"

definition indexed :: "orm_column \<Rightarrow> orm_column" where
  "indexed c = c \<lparr> o_index := True \<rparr>"

definition defaulted :: "orm_column \<Rightarrow> orm_column" where
  "defaulted c = c \<lparr> o_default := True \<rparr>"

definition refers_to :: "string \<Rightarrow> string option \<Rightarrow> orm_column \<Rightarrow> orm_column" where
  "refers_to t ondelete c = c \<lparr> o_foreign := Some (t, ondelete) \<rparr>"

definition primary_key :: orm_column where
  "primary_key = defaulted (non_null (field ''id'' Uuid))"

definition users_table :: orm_table where
  "users_table =
     \<lparr> o_table = ''users'',
       o_columns =
         [primary_key,
          indexed (unique (non_null (field ''email'' (Varchar 255)))),
          indexed (unique (field ''oauth_subject'' (Varchar 128))),
          field ''hashed_password'' (Varchar 255),
          field ''full_name'' (Varchar 255),
          field ''phone'' (Varchar 50),
          field ''whatsapp_phone'' (Varchar 50),
          field ''mobile_money_phone'' (Varchar 50),
          field ''country'' (Varchar 2),
          defaulted (field ''is_active'' (Varchar 1)),
          defaulted (field ''kyc_status'' (Varchar 20)),
          field ''date_of_birth'' (Varchar 10),
          field ''mobile_money_owner_verified_at'' Timestamptz,
          field ''email_verified_at'' Timestamptz,
          field ''phone_verified_at'' Timestamptz,
          field ''identity_consent_at'' Timestamptz,
          field ''terms_accepted_at'' Timestamptz,
          field ''terms_version'' (Varchar 32),
          field ''aml_policy_version'' (Varchar 32),
          defaulted (field ''created_at'' Timestamptz)],
       o_indexes = [] \<rparr>"

definition virtual_accounts_table :: orm_table where
  "virtual_accounts_table =
     \<lparr> o_table = ''virtual_accounts'',
       o_columns =
         [primary_key,
          indexed (unique (refers_to ''users'' (Some ''CASCADE'') (non_null (field ''user_id'' Uuid)))),
          defaulted (non_null (field ''status'' (Varchar 20))),
          defaulted (non_null (field ''currency'' (Varchar 3))),
          defaulted (field ''created_at'' Timestamptz),
          defaulted (field ''updated_at'' Timestamptz)],
       o_indexes = [] \<rparr>"

definition transactions_table :: orm_table where
  "transactions_table =
     \<lparr> o_table = ''transactions'',
       o_columns =
         [primary_key,
          indexed (unique (non_null (field ''idempotency_key'' (Varchar 64)))),
          indexed (refers_to ''users'' None (non_null (field ''user_id'' Uuid))),
          non_null (field ''psp'' (Enum ''psptype'')),
          field ''psp_transaction_id'' (Varchar 100),
          indexed (field ''psp_payment_reference'' (Varchar 128)),
          defaulted (field ''psp_response'' Json),
          non_null (field ''amount'' (Numeric 19 8)),
          non_null (field ''currency'' (Varchar 3)),
          defaulted (field ''fee_amount'' (Numeric 19 8)),
          defaulted (field ''fee_currency'' (Varchar 3)),
          defaulted (field ''net_amount'' (Numeric 19 8)),
          defaulted (field ''status'' (Enum ''paymentstatus'')),
          defaulted (field ''txn_metadata'' Json),
          defaulted (non_null (field ''ledger_namespace'' (Varchar 64))),
          indexed (refers_to ''virtual_accounts'' None (field ''virtual_account_id'' Uuid)),
          field ''corridor'' (Varchar 64),
          field ''beneficiary_currency'' (Varchar 3),
          field ''mobile_money_phone'' (Varchar 50),
          field ''mobile_money_provider_reference'' (Varchar 128),
          field ''mobile_money_owner_verified_at'' Timestamptz,
          defaulted (field ''total_fee_amount'' (Numeric 19 8)),
          field ''error_message'' Text,
          field ''webhook_received_at'' Timestamptz,
          field ''settled_at'' Timestamptz,
          defaulted (field ''created_at'' Timestamptz),
          defaulted (field ''updated_at'' Timestamptz)],
       o_indexes = [\<lparr> ix_name = ''ix_transactions_user_status'', ix_columns = [''user_id'', ''status''], ix_unique = False \<rparr>,
          \<lparr> ix_name = ''ix_transactions_created_at'', ix_columns = [''created_at''], ix_unique = False \<rparr>,
          \<lparr> ix_name = ''ix_transactions_psp_txn'', ix_columns = [''psp_transaction_id''], ix_unique = False \<rparr>] \<rparr>"

definition user_otp_challenges_table :: orm_table where
  "user_otp_challenges_table =
     \<lparr> o_table = ''user_otp_challenges'',
       o_columns =
         [primary_key,
          indexed (non_null (field ''email'' (Varchar 255))),
          field ''phone'' (Varchar 50),
          defaulted (non_null (field ''purpose'' (Varchar 32))),
          non_null (field ''code_digest'' (Varchar 64)),
          defaulted (non_null (field ''attempts'' Integer)),
          non_null (field ''expires_at'' Timestamptz),
          field ''consumed_at'' Timestamptz,
          defaulted (non_null (field ''created_at'' Timestamptz))],
       o_indexes = [\<lparr> ix_name = ''ix_user_otp_email_purpose_created'', ix_columns = [''email'', ''purpose'', ''created_at''], ix_unique = False \<rparr>] \<rparr>"

definition broker_account_links_table :: orm_table where
  "broker_account_links_table =
     \<lparr> o_table = ''broker_account_links'',
       o_columns =
         [primary_key,
          indexed (unique (refers_to ''users'' (Some ''CASCADE'') (non_null (field ''user_id'' Uuid)))),
          indexed (unique (non_null (field ''alpaca_account_id'' (Varchar 100)))),
          defaulted (non_null (field ''status'' (Varchar 20))),
          defaulted (field ''created_at'' Timestamptz),
          defaulted (field ''updated_at'' Timestamptz)],
       o_indexes = [] \<rparr>"

definition virtual_positions_table :: orm_table where
  "virtual_positions_table =
     \<lparr> o_table = ''virtual_positions'',
       o_columns =
         [primary_key,
          indexed (refers_to ''virtual_accounts'' (Some ''CASCADE'') (non_null (field ''virtual_account_id'' Uuid))),
          non_null (field ''symbol'' (Varchar 32)),
          defaulted (non_null (field ''quantity'' (Numeric 28 10))),
          defaulted (non_null (field ''average_cost'' (Numeric 19 8))),
          defaulted (non_null (field ''currency'' (Varchar 3))),
          defaulted (field ''position_metadata'' Json),
          field ''reconciled_at'' Timestamptz,
          defaulted (field ''created_at'' Timestamptz),
          defaulted (field ''updated_at'' Timestamptz)],
       o_indexes = [\<lparr> ix_name = ''uq_virtual_positions_account_symbol'', ix_columns = [''virtual_account_id'', ''symbol''], ix_unique = True \<rparr>] \<rparr>"

definition virtual_ledger_entries_table :: orm_table where
  "virtual_ledger_entries_table =
     \<lparr> o_table = ''virtual_ledger_entries'',
       o_columns =
         [primary_key,
          indexed (refers_to ''virtual_accounts'' (Some ''CASCADE'') (non_null (field ''virtual_account_id'' Uuid))),
          non_null (field ''entry_type'' (Varchar 40)),
          non_null (field ''direction'' (Varchar 8)),
          non_null (field ''amount'' (Numeric 19 8)),
          defaulted (non_null (field ''currency'' (Varchar 3))),
          field ''symbol'' (Varchar 32),
          field ''quantity'' (Numeric 28 10),
          field ''reference_type'' (Varchar 40),
          field ''reference_id'' (Varchar 128),
          field ''description'' (Varchar 255),
          defaulted (field ''entry_metadata'' Json),
          defaulted (non_null (field ''occurred_at'' Timestamptz)),
          defaulted (non_null (field ''created_at'' Timestamptz))],
       o_indexes = [\<lparr> ix_name = ''ix_virtual_ledger_account_occurred'', ix_columns = [''virtual_account_id'', ''occurred_at''], ix_unique = False \<rparr>,
          \<lparr> ix_name = ''ix_virtual_ledger_reference'', ix_columns = [''reference_type'', ''reference_id''], ix_unique = False \<rparr>] \<rparr>"

definition kora_webhook_events_table :: orm_table where
  "kora_webhook_events_table =
     \<lparr> o_table = ''kora_webhook_events'',
       o_columns =
         [primary_key,
          indexed (unique (non_null (field ''event_id'' (Varchar 128)))),
          non_null (field ''event_type'' (Varchar 80)),
          non_null (field ''payload_hash'' (Varchar 64)),
          defaulted (non_null (field ''status'' (Varchar 20))),
          defaulted (non_null (field ''payload'' Json)),
          defaulted (non_null (field ''received_at'' Timestamptz)),
          field ''processed_at'' Timestamptz,
          field ''error_message'' (Varchar 255)],
       o_indexes = [] \<rparr>"

definition kora_payment_reconciliations_table :: orm_table where
  "kora_payment_reconciliations_table =
     \<lparr> o_table = ''kora_payment_reconciliations'',
       o_columns =
         [primary_key,
          indexed (unique (refers_to ''transactions'' (Some ''CASCADE'') (non_null (field ''transaction_id'' Uuid)))),
          indexed (non_null (field ''payment_reference'' (Varchar 128))),
          field ''transaction_reference'' (Varchar 128),
          defaulted (non_null (field ''provider_status'' (Varchar 40))),
          defaulted (non_null (field ''state'' (Varchar 24))),
          defaulted (non_null (field ''attempt_count'' Integer)),
          field ''next_attempt_at'' Timestamptz,
          field ''expires_at'' Timestamptz,
          field ''last_checked_at'' Timestamptz,
          field ''last_error'' Text,
          field ''locked_at'' Timestamptz,
          field ''locked_by'' (Varchar 128),
          defaulted (non_null (field ''created_at'' Timestamptz)),
          defaulted (non_null (field ''updated_at'' Timestamptz))],
       o_indexes = [\<lparr> ix_name = ''ix_kora_reconciliation_due'', ix_columns = [''state'', ''next_attempt_at''], ix_unique = False \<rparr>,
          \<lparr> ix_name = ''ix_kora_reconciliation_payment_reference'', ix_columns = [''payment_reference''], ix_unique = False \<rparr>] \<rparr>"

definition kora_refunds_table :: orm_table where
  "kora_refunds_table =
     \<lparr> o_table = ''kora_refunds'',
       o_columns =
         [primary_key,
          indexed (refers_to ''transactions'' (Some ''RESTRICT'') (non_null (field ''transaction_id'' Uuid))),
          indexed (unique (non_null (field ''refund_reference'' (Varchar 50)))),
          indexed (unique (non_null (field ''idempotency_key'' (Varchar 128)))),
          indexed (non_null (field ''payment_reference'' (Varchar 128))),
          non_null (field ''amount'' (Numeric 19 8)),
          non_null (field ''currency'' (Varchar 3)),
          field ''reason'' (Varchar 200),
          defaulted (non_null (field ''status'' (Varchar 20))),
          defaulted (field ''psp_response'' Json),
          field ''error_message'' Text,
          defaulted (non_null (field ''requested_at'' Timestamptz)),
          field ''completed_at'' Timestamptz,
          defaulted (non_null (field ''created_at'' Timestamptz)),
          defaulted (non_null (field ''updated_at'' Timestamptz))],
       o_indexes = [\<lparr> ix_name = ''ix_kora_refunds_payment_status'', ix_columns = [''payment_reference'', ''status''], ix_unique = False \<rparr>] \<rparr>"

definition model_tables :: "orm_table list" where
  "model_tables =
     [users_table, virtual_accounts_table, transactions_table,
      user_otp_challenges_table, broker_account_links_table, virtual_positions_table,
      virtual_ledger_entries_table, kora_webhook_events_table, kora_payment_reconciliations_table,
      kora_refunds_table]"

text \<open>The models of the other packages.\<close>

definition platforms_table :: orm_table where
  "platforms_table =
     \<lparr> o_table = ''platforms'',
       o_columns =
         [primary_key,
          non_null (field ''name'' (Varchar 100)),
          non_null (field ''contact_email'' (Varchar 255)),
          field ''webhook_url'' (Varchar 500),
          defaulted (field ''is_active'' Boolean),
          defaulted (field ''created_at'' Timestamptz)],
       o_indexes = [] \<rparr>"

definition api_keys_table :: orm_table where
  "api_keys_table =
     \<lparr> o_table = ''api_keys'',
       o_columns =
         [primary_key,
          refers_to ''platforms'' None (non_null (field ''platform_id'' Uuid)),
          unique (non_null (field ''key_value'' (Varchar 100))),
          non_null (field ''secret_hash'' (Varchar 255)),
          defaulted (field ''is_active'' Boolean),
          field ''expires_at'' Timestamptz,
          defaulted (field ''created_at'' Timestamptz),
          field ''revoked_at'' Timestamptz],
       o_indexes = [] \<rparr>"

definition markets_table :: orm_table where
  "markets_table =
     \<lparr> o_table = ''markets'',
       o_columns =
         [primary_key,
          indexed (unique (non_null (field ''code'' (Varchar 10)))),
          non_null (field ''name'' (Varchar 100)),
          indexed (non_null (field ''country'' (Varchar 2))),
          non_null (field ''timezone'' (Varchar 50)),
          non_null (field ''currency'' (Varchar 3)),
          non_null (field ''open_time'' (Varchar 5)),
          non_null (field ''close_time'' (Varchar 5)),
          defaulted (field ''weekend_days'' (Varchar 20)),
          defaulted (field ''status'' (Enum ''marketstatus'')),
          defaulted (field ''is_active'' Boolean),
          defaulted (field ''created_at'' Timestamptz)],
       o_indexes = [\<lparr> ix_name = ''ix_markets_active_country'', ix_columns = [''is_active'', ''country''], ix_unique = False \<rparr>] \<rparr>"

definition brokers_table :: orm_table where
  "brokers_table =
     \<lparr> o_table = ''brokers'',
       o_columns =
         [primary_key,
          non_null (field ''name'' (Varchar 100)),
          non_null (field ''api_endpoint'' (Varchar 255)),
          non_null (field ''supported_markets'' (Varchar 500)),
          defaulted (field ''supported_order_types'' (Varchar 200)),
          defaulted (field ''latency_ms'' Float),
          defaulted (field ''is_active'' Boolean),
          defaulted (field ''priority'' Float),
          defaulted (field ''created_at'' Timestamptz)],
       o_indexes = [] \<rparr>"

definition wallets_table :: orm_table where
  "wallets_table =
     \<lparr> o_table = ''wallets'',
       o_columns =
         [primary_key,
          unique (refers_to ''users'' None (non_null (field ''user_id'' Uuid))),
          non_null (field ''currency'' (Varchar 3)),
          defaulted (field ''balance'' (Numeric 19 8)),
          defaulted (field ''locked_balance'' (Numeric 19 8)),
          defaulted (field ''created_at'' Timestamptz)],
       o_indexes = [] \<rparr>"

definition wallet_transactions_table :: orm_table where
  "wallet_transactions_table =
     \<lparr> o_table = ''wallet_transactions'',
       o_columns =
         [primary_key,
          refers_to ''wallets'' None (non_null (field ''wallet_id'' Uuid)),
          non_null (field ''type'' (Enum ''wallettransactiontype'')),
          non_null (field ''amount'' (Numeric 19 8)),
          non_null (field ''currency'' (Varchar 3)),
          field ''reference'' (Varchar 255),
          defaulted (field ''status'' (Varchar 50)),
          defaulted (field ''created_at'' Timestamptz)],
       o_indexes = [] \<rparr>"

definition copy_trades_table :: orm_table where
  "copy_trades_table =
     \<lparr> o_table = ''copy_trades'',
       o_columns =
         [primary_key,
          refers_to ''users'' None (non_null (field ''follower_id'' Uuid)),
          refers_to ''users'' None (non_null (field ''leader_id'' Uuid)),
          non_null (field ''allocation_percent'' Integer),
          defaulted (field ''max_drawdown'' (Numeric 5 2)),
          defaulted (field ''status'' (Enum ''copytradestatus'')),
          defaulted (field ''created_at'' Timestamptz),
          field ''stopped_at'' Timestamptz],
       o_indexes = [] \<rparr>"

definition revenue_records_table :: orm_table where
  "revenue_records_table =
     \<lparr> o_table = ''revenue_records'',
       o_columns =
         [primary_key,
          refers_to ''transactions'' None (non_null (field ''transaction_id'' Uuid)),
          non_null (field ''gross_amount'' (Numeric 19 8)),
          non_null (field ''ads_amount'' (Numeric 19 8)),
          non_null (field ''creator_amount'' (Numeric 19 8)),
          non_null (field ''platform_amount'' (Numeric 19 8)),
          defaulted (field ''created_at'' Timestamptz)],
       o_indexes = [] \<rparr>"

definition other_tables :: "orm_table list" where
  "other_tables =
     [platforms_table, api_keys_table, markets_table, brokers_table,
      wallets_table, wallet_transactions_table, copy_trades_table, revenue_records_table]"

text \<open>
  \<^verbatim>\<open>Enum(PSPType)\<close> of SQLAlchemy stores the names of the members, not their values, and the type is
  named after the class.
\<close>

definition model_types :: "(string \<times> string list) list" where
  "model_types =
     [(''psptype'', [''AZA'', ''KORA'', ''FINCRA'', ''FLUTTERWAVE'', ''STRIPE'', ''MTN_MOMO'', ''ORANGE_MONEY'']),
      (''paymentstatus'', [''PENDING'', ''PROCESSING'', ''COMPLETED'', ''FAILED'', ''REFUNDED'', ''HELD''])]"

definition other_types :: "(string \<times> string list) list" where
  "other_types =
     [(''marketstatus'', [''OPEN'', ''CLOSED'', ''HALTED'', ''PRE_MARKET'', ''AFTER_HOURS'']),
      (''wallettransactiontype'', [''DEPOSIT'', ''WITHDRAWAL'', ''TRANSFER_IN'', ''TRANSFER_OUT'']),
      (''copytradestatus'', [''ACTIVE'', ''PAUSED'', ''STOPPED''])]"

definition column_of :: "orm_column \<Rightarrow> column" where
  "column_of c = \<lparr> c_name = o_name c, c_type = o_type c, c_nullable = o_nullable c, c_server_default = None \<rparr>"

definition orm_foreign_keys :: "orm_table \<Rightarrow> foreign_key list" where
  "orm_foreign_keys t =
     concat (map (\<lambda>c. case o_foreign c of None \<Rightarrow> [] | Some (target, ondelete) \<Rightarrow> [references (o_name c) target ondelete])
       (o_columns t))"

definition orm_indexes :: "orm_table \<Rightarrow> table_index list" where
  "orm_indexes t =
     map (\<lambda>c. \<lparr> ix_name = ''ix_'' @ o_table t @ ''_'' @ o_name c, ix_columns = [o_name c], ix_unique = o_unique c \<rparr>)
       (filter o_index (o_columns t)) @ o_indexes t"

definition orm_uniques :: "orm_table \<Rightarrow> (string \<times> string list) list" where
  "orm_uniques t =
     map (\<lambda>c. (o_table t @ ''_'' @ o_name c @ ''_key'', [o_name c]))
       (filter (\<lambda>c. o_unique c \<and> \<not> o_index c) (o_columns t))"

definition enum_types :: "orm_table \<Rightarrow> string list" where
  "enum_types t = concat (map (\<lambda>c. case o_type c of Enum n \<Rightarrow> [n] | _ \<Rightarrow> []) (o_columns t))"

text \<open>\<^verbatim>\<open>create_all\<close>: a table that exists is left alone, and so is a type.\<close>

definition create_if_absent :: "orm_table \<Rightarrow> schema \<Rightarrow> ddl_error + schema" where
  "create_if_absent t s =
     (if o_table t \<in> set (map fst (s_tables s)) then Inr s
      else bindE (exec (Create_table (o_table t)
                   (filter (\<lambda>(n, _). n \<in> set (enum_types t) \<and> n \<notin> set (map fst (s_types s)))
                      (model_types @ other_types))
                   (new_table (map column_of (o_columns t)) (orm_uniques t) [] (orm_foreign_keys t))) s)
           (exec_all (map (\<lambda>ix. Create_index (ix_name ix) (o_table t) (ix_columns ix) (ix_unique ix)) (orm_indexes t))))"

fun create_all :: "orm_table list \<Rightarrow> schema \<Rightarrow> ddl_error + schema" where
  "create_all [] s = Inr s"
| "create_all (t # ts) s = bindE (create_if_absent t s) (create_all ts)"

definition init_db :: "schema \<Rightarrow> ddl_error + schema" where
  "init_db s = create_all model_tables s"

section \<open>What the models need of a schema\<close>

text \<open>
  A table serves a model if it has the model's columns with their types (\<^verbatim>\<open>JSONB\<close> for \<^verbatim>\<open>JSON\<close>, an
  enumerated type by its name), a null
  the model may write is allowed, a column the model does not know needs no value, and the model's
  keys and references are enforced.
\<close>

definition type_serves :: "sql_type \<Rightarrow> sql_type \<Rightarrow> bool" where
  "type_serves have want \<longleftrightarrow> have = want \<or> (have = Jsonb \<and> want = Json)"

definition column_serves :: "orm_column \<Rightarrow> column \<Rightarrow> bool" where
  "column_serves c c' \<longleftrightarrow>
     c_name c' = o_name c \<and> type_serves (c_type c') (o_type c)
   \<and> (c_nullable c' \<or> \<not> o_nullable c \<or> o_default c)"

definition enforced :: "sql_table \<Rightarrow> string list \<Rightarrow> bool" where
  "enforced tb key \<longleftrightarrow>
     key = st_key tb \<or> key \<in> set (map snd (st_uniques tb))
   \<or> list_ex (\<lambda>ix. ix_unique ix \<and> ix_columns ix = key) (st_indexes tb)"

definition model_keys :: "orm_table \<Rightarrow> string list list" where
  "model_keys t =
     [''id''] # map (\<lambda>c. [o_name c]) (filter o_unique (o_columns t))
     @ map ix_columns (filter ix_unique (o_indexes t))"

definition serves :: "schema \<Rightarrow> orm_table \<Rightarrow> bool" where
  "serves s t \<longleftrightarrow>
     (case map_of (s_tables s) (o_table t) of
        None \<Rightarrow> False
      | Some tb \<Rightarrow>
          list_all (\<lambda>c. list_ex (column_serves c) (st_columns tb)) (o_columns t)
        \<and> list_all (\<lambda>c'. c_name c' \<in> set (map o_name (o_columns t)) \<or> c_nullable c' \<or> c_server_default c' \<noteq> None)
            (st_columns tb)
        \<and> list_all (enforced tb) (model_keys t)
        \<and> list_all (\<lambda>fk. list_ex (\<lambda>fk'. fk' \<lparr> fk_name := None \<rparr> = fk) (st_foreign_keys tb)) (orm_foreign_keys t))"

section \<open>The chain evaluated\<close>

fun climb :: "migration list \<Rightarrow> schema \<Rightarrow> ddl_error + schema" where
  "climb [] s = Inr s"
| "climb (m # ms) s = bindE (m_upgrade m s) (climb ms)"

definition undoes :: "migration \<Rightarrow> schema \<Rightarrow> schema \<Rightarrow> bool" where
  "undoes m s s' \<longleftrightarrow> m_downgrade m s' = Inr (if m_revision m = ''014_add_aza_psp'' then s' else s)"

definition labels_apart :: "schema \<Rightarrow> bool" where
  "labels_apart s \<longleftrightarrow>
     list_all (\<lambda>(n, names). case map_of (s_types s) n of
         None \<Rightarrow> False | Some labels \<Rightarrow> list_all (\<lambda>l. l \<notin> set labels) names) model_types"

definition payment_tables_only :: "schema \<Rightarrow> bool" where
  "payment_tables_only s \<longleftrightarrow> list_all (\<lambda>t. o_table t \<notin> set (map fst (s_tables s))) other_tables"

text \<open>
  One evaluation of the chain: every script succeeds, its downgrade restores the schema (the last
  one's excepted, which leaves its value), and the last schema serves the models.  What it says of
  the enumerated types and of the other tables is the matter of the last section.
\<close>

fun climbs :: "migration list \<Rightarrow> schema \<Rightarrow> bool" where
  "climbs [] s \<longleftrightarrow> list_all (serves s) model_tables \<and> labels_apart s \<and> payment_tables_only s"
| "climbs (m # ms) s \<longleftrightarrow>
     (case m_upgrade m s of Inl _ \<Rightarrow> False | Inr s' \<Rightarrow> undoes m s s' \<and> climbs ms s')"

lemma chain_climbs: "climbs chain empty_schema"
  by code_simp

lemma climbs_take:
  assumes "climbs ms s" and "k \<le> length ms"
  shows "\<exists>s1. climb (take k ms) s = Inr s1 \<and> climbs (drop k ms) s1"
  using assms
proof (induction ms arbitrary: s k)
  case (Cons m ms)
  then show ?case by (cases k) (auto split: sum.splits)
qed simp

lemma climb_append: "climb (ms @ ms') s = bindE (climb ms s) (climb ms')"
proof (induction ms arbitrary: s)
  case (Cons m ms)
  then show ?case by (cases "m_upgrade m s") simp_all
qed simp

definition stage :: "nat \<Rightarrow> ddl_error + schema" where
  "stage k = climb (take k chain) empty_schema"

lemma stage_0: "stage 0 = Inr empty_schema"
  by (simp add: stage_def)

lemma stage_step:
  assumes "k < length chain"
  obtains s s' where "stage k = Inr s" and "stage (Suc k) = Inr s'"
    and "m_upgrade (chain ! k) s = Inr s'" and "undoes (chain ! k) s s'"
proof -
  obtain s where s: "stage k = Inr s" "climbs (drop k chain) s"
    using climbs_take [OF chain_climbs, of k] assms by (auto simp: stage_def)
  moreover have "drop k chain = chain ! k # drop (Suc k) chain" using assms by (simp add: Cons_nth_drop_Suc)
  ultimately obtain s' where "m_upgrade (chain ! k) s = Inr s'" "undoes (chain ! k) s s'"
    by (auto split: sum.splits)
  moreover from this have "stage (Suc k) = Inr s'"
    using s(1) assms by (simp add: stage_def take_Suc_conv_app_nth climb_append)
  ultimately show thesis using that s(1) by blast
qed

lemma head_serves:
  assumes "stage (length chain) = Inr s"
  shows "list_all (serves s) model_tables" and "labels_apart s" and "payment_tables_only s"
proof -
  have "climbs [] s" using climbs_take [OF chain_climbs, of "length chain"] assms by (simp add: stage_def)
  then show "list_all (serves s) model_tables" and "labels_apart s" and "payment_tables_only s" by simp_all
qed

lemma init_db_idle:
  assumes "list_all (serves s) ts"
  shows "create_all ts s = Inr s"
  using assms
proof (induction ts)
  case (Cons t ts)
  then have "o_table t \<in> set (map fst (s_tables s))"
    by (auto simp: serves_def split: option.splits dest: map_of_SomeD intro: rev_image_eqI)
  then show ?case using Cons by (simp add: create_if_absent_def)
qed simp

section \<open>Any order Alembic may take\<close>

text \<open>The graph, read off the scripts.\<close>

lemma revisions_distinct: "distinct (map m_revision migrations)"
  by code_simp

lemma length_chain: "length chain = 14"
  by (simp add: chain_def)

lemma chain_links:
  "list_all (\<lambda>k. m_revision (chain ! (k - 1)) \<in> set (m_down_revision (chain ! k))
     \<and> set (m_down_revision (chain ! k)) \<subseteq>
         insert (m_revision (chain ! (k - 1))) (if k = 3 then {m_revision retired_initial} else {})
     \<and> (k = 3 \<longrightarrow> m_revision retired_initial \<in> set (m_down_revision (chain ! k)))) [1..<14]
   \<and> m_down_revision (chain ! 0) = []
   \<and> m_down_revision retired_initial = [m_revision (chain ! 0)]"
  by code_simp

definition applied_up_to :: "nat \<Rightarrow> bool \<Rightarrow> string set" where
  "applied_up_to k b = m_revision ` set (take k chain) \<union> (if b then {m_revision retired_initial} else {})"

definition on_course :: "string set \<times> schema \<Rightarrow> bool" where
  "on_course w \<longleftrightarrow>
     (\<exists>k b. k \<le> length chain \<and> fst w = applied_up_to k b \<and> (b \<longrightarrow> 1 \<le> k) \<and> (4 \<le> k \<longrightarrow> b) \<and> stage k = Inr (snd w))"

lemma chain_down:
  assumes "k < length chain"
  shows "0 < k \<Longrightarrow> m_revision (chain ! (k - 1)) \<in> set (m_down_revision (chain ! k))"
    and "set (m_down_revision (chain ! k)) \<subseteq> applied_up_to k (k = 3)"
    and "k = 3 \<Longrightarrow> m_revision retired_initial \<in> set (m_down_revision (chain ! k))"
proof -
  have links: "\<forall>k \<in> set [1..<14]. m_revision (chain ! (k - 1)) \<in> set (m_down_revision (chain ! k))
     \<and> set (m_down_revision (chain ! k)) \<subseteq>
         insert (m_revision (chain ! (k - 1))) (if k = 3 then {m_revision retired_initial} else {})
     \<and> (k = 3 \<longrightarrow> m_revision retired_initial \<in> set (m_down_revision (chain ! k)))"
    using chain_links unfolding list_all_iff by blast
  have "chain ! (k - 1) \<in> set (take k chain)" if "0 < k"
    using that assms by (auto simp: in_set_conv_nth intro: exI [of _ "k - 1"])
  then show "set (m_down_revision (chain ! k)) \<subseteq> applied_up_to k (k = 3)"
    using links chain_links assms
    by (cases "k = 0") (fastforce simp: applied_up_to_def length_chain split: if_splits)+
  show "0 < k \<Longrightarrow> m_revision (chain ! (k - 1)) \<in> set (m_down_revision (chain ! k))"
    and "k = 3 \<Longrightarrow> m_revision retired_initial \<in> set (m_down_revision (chain ! k))"
    using links assms by (auto simp: length_chain)
qed

lemma nth_applied:
  assumes "j < length chain" and "k \<le> length chain"
  shows "m_revision (chain ! j) \<in> applied_up_to k b \<longleftrightarrow> j < k"
    and "m_revision retired_initial \<in> applied_up_to k b \<longleftrightarrow> b"
proof -
  have d: "distinct (map m_revision chain)" "m_revision retired_initial \<notin> set (map m_revision chain)"
    using revisions_distinct by (simp_all add: migrations_def)
  have "m_revision (chain ! j) \<in> m_revision ` set (take k chain) \<longleftrightarrow> j < k"
  proof
    assume "m_revision (chain ! j) \<in> m_revision ` set (take k chain)"
    then obtain i where "i < k" "m_revision (chain ! i) = m_revision (chain ! j)"
      by (auto simp: in_set_conv_nth)
    then show "j < k" using d(1) assms by (simp add: distinct_conv_nth) (metis dual_order.strict_trans1 linorder_neqE_nat)
  next
    assume "j < k"
    then show "m_revision (chain ! j) \<in> m_revision ` set (take k chain)"
      using assms by (auto simp: in_set_conv_nth intro!: rev_image_eqI [of "chain ! j"] exI [of _ j])
  qed
  moreover have "m_revision (chain ! j) \<noteq> m_revision retired_initial" using d(2) assms(1) by (auto simp: image_iff) (metis nth_mem)
  ultimately show "m_revision (chain ! j) \<in> applied_up_to k b \<longleftrightarrow> j < k" by (auto simp: applied_up_to_def)
  have "m_revision retired_initial \<notin> m_revision ` set (take k chain)" using d(2) by (auto dest: in_set_takeD)
  then show "m_revision retired_initial \<in> applied_up_to k b \<longleftrightarrow> b" by (auto simp: applied_up_to_def)
qed

lemma applied_Suc: "k < length chain \<Longrightarrow> insert (m_revision (chain ! k)) (applied_up_to k b) = applied_up_to (Suc k) b"
  by (auto simp: applied_up_to_def take_Suc_conv_app_nth)

lemma migration_cases:
  assumes "m \<in> set migrations"
  obtains "m = retired_initial" | j where "j < length chain" and "m = chain ! j"
  using assms by (auto simp: migrations_def in_set_conv_nth)

text \<open>The next script, when the database is on course.\<close>

lemma course_step:
  assumes "on_course (applied, s)" and "m \<in> set migrations" and "m_revision m \<notin> applied"
    and "set (m_down_revision m) \<subseteq> applied" and "m_upgrade m s = Inr s'"
  shows "on_course (insert (m_revision m) applied, s') \<and> undoes m s s'"
proof -
  obtain k b where k: "k \<le> length chain" "applied = applied_up_to k b" "b \<longrightarrow> 1 \<le> k" "4 \<le> k \<longrightarrow> b" "stage k = Inr s"
    using assms(1) by (auto simp: on_course_def)
  from assms(2) show ?thesis
  proof (cases rule: migration_cases)
    case 1
    have "m_revision (chain ! 0) \<in> applied" using assms(4) chain_links by (simp add: 1)
    then have "1 \<le> k" using nth_applied(1) [of 0 k b] k(1,2) by (simp add: length_chain)
    moreover have "insert (m_revision m) applied = applied_up_to k True" by (auto simp: 1 k(2) applied_up_to_def)
    moreover have "s' = s" and "undoes m s s"
      using assms(5) by (auto simp: 1 retired_initial_def upgrade_001_def downgrade_001_def undoes_def)
    ultimately show ?thesis using k(1,5) by (auto simp: on_course_def)
  next
    case (2 j)
    have "k \<le> j" using assms(3) nth_applied(1) [OF 2(1) k(1)] k(2) by (simp add: 2(2) leI)
    moreover have "j \<le> k"
    proof (cases "j = 0")
      case False
      then have "m_revision (chain ! (j - 1)) \<in> applied" using chain_down(1) [OF 2(1)] assms(4) by (auto simp: 2(2))
      then have "j - 1 < k" using nth_applied(1) [of "j - 1" k b] 2(1) k(1,2) by simp
      then show ?thesis using False by simp
    qed simp
    ultimately have j: "j = k" by simp
    have "k < length chain" using 2(1) by (simp add: j)
    then obtain t t' where t: "stage k = Inr t" "stage (Suc k) = Inr t'" "m_upgrade (chain ! k) t = Inr t'"
        "undoes (chain ! k) t t'" by (rule stage_step)
    moreover have "t = s" using t(1) k(5) by simp
    moreover from this have "t' = s'" using t(3) assms(5) by (simp add: 2(2) j)
    ultimately have "stage (Suc k) = Inr s'" "undoes m s s'" by (simp_all add: 2(2) j)
    moreover have "k = 3 \<longrightarrow> b"
      using chain_down(3) [OF 2(1)] assms(4) nth_applied(2) [OF 2(1) k(1)] k(2) by (auto simp: 2(2) j)
    moreover have "insert (m_revision m) applied = applied_up_to (Suc k) b"
      using applied_Suc 2(1) k(2) by (simp add: 2(2) j)
    ultimately show ?thesis
      using k 2(1) unfolding on_course_def j by (intro conjI exI [of _ "Suc k"] exI [of _ b]) auto
  qed
qed

lemma reachable_on_course:
  assumes "migrate\<^sup>*\<^sup>* ({}, empty_schema) w"
  shows "on_course w"
  using assms
proof induction
  case base
  show ?case using stage_0 by (auto simp: on_course_def applied_up_to_def intro!: exI [of _ 0] exI [of _ False])
next
  case (step w w')
  from step(2,3) show ?case by (cases rule: migrate.cases) (auto dest: course_step)
qed

lemma course_next:
  assumes "k < length chain" and "k = 3 \<longrightarrow> b" and "stage k = Inr s"
  obtains s' where "migrate (applied_up_to k b, s) (applied_up_to (Suc k) b, s')" and "stage (Suc k) = Inr s'"
proof -
  obtain s' where s': "stage (Suc k) = Inr s'" "m_upgrade (chain ! k) s = Inr s'"
    using stage_step [OF assms(1)] assms(3) by (metis sum.inject(2))
  have "set (m_down_revision (chain ! k)) \<subseteq> applied_up_to k b"
    using chain_down(2) [OF assms(1)] assms(2) by (auto simp: applied_up_to_def split: if_splits)
  moreover have "m_revision (chain ! k) \<notin> applied_up_to k b" using nth_applied(1) [OF assms(1)] assms(1) by simp
  moreover have "chain ! k \<in> set migrations" using assms(1) by (simp add: migrations_def)
  ultimately have "migrate (applied_up_to k b, s) (insert (m_revision (chain ! k)) (applied_up_to k b), s')"
    using s'(2) by (blast intro: migrate.upgrade)
  then show thesis using that s'(1) applied_Suc [OF assms(1)] by simp
qed

lemma retired_next:
  assumes "1 \<le> k" and "k \<le> length chain"
  shows "migrate (applied_up_to k False, s) (applied_up_to k True, s)"
proof -
  have "migrate (applied_up_to k False, s) (insert (m_revision retired_initial) (applied_up_to k False), s)"
  proof (rule migrate.upgrade)
    show "retired_initial \<in> set migrations" by (simp add: migrations_def)
    show "m_revision retired_initial \<notin> applied_up_to k False"
      using nth_applied(2) [of 0 k False] assms(2) by (simp add: length_chain)
    show "set (m_down_revision retired_initial) \<subseteq> applied_up_to k False"
      using nth_applied(1) [of 0 k False] assms chain_links by (simp add: length_chain)
    show "m_upgrade retired_initial s = Inr s" by (simp add: retired_initial_def upgrade_001_def)
  qed
  then show ?thesis by (simp add: applied_up_to_def)
qed

lemma head_reached: "\<exists>s. migrate\<^sup>*\<^sup>* ({}, empty_schema) (m_revision ` set migrations, s)"
proof -
  have "\<exists>s. stage k = Inr s \<and> migrate\<^sup>*\<^sup>* ({}, empty_schema) (applied_up_to k (1 \<le> k), s)" if "k \<le> length chain" for k
    using that
  proof (induction k)
    case 0
    show ?case using stage_0 by (simp add: applied_up_to_def)
  next
    case (Suc k)
    then obtain s where s: "stage k = Inr s" "migrate\<^sup>*\<^sup>* ({}, empty_schema) (applied_up_to k (1 \<le> k), s)" by auto
    moreover obtain s' where s': "migrate (applied_up_to k (1 \<le> k), s) (applied_up_to (Suc k) (1 \<le> k), s')"
        "stage (Suc k) = Inr s'"
      using course_next [of k "1 \<le> k" s] Suc.prems s(1) by auto
    ultimately have reach: "migrate\<^sup>*\<^sup>* ({}, empty_schema) (applied_up_to (Suc k) (1 \<le> k), s')" by simp
    have "migrate\<^sup>*\<^sup>* ({}, empty_schema) (applied_up_to (Suc k) True, s')"
    proof (cases "1 \<le> k")
      case False
      then show ?thesis using reach retired_next [of "Suc k" s'] Suc.prems by simp
    qed (use reach in simp)
    then show ?case using s'(2) by simp
  qed
  from this [of "length chain"] show ?thesis
    by (auto simp: applied_up_to_def migrations_def length_chain insert_commute)
qed

text \<open>A downgrade restores what its upgrade found, in every database the scripts produced.\<close>

lemma migrations_undone:
  assumes "migrate\<^sup>*\<^sup>* ({}, empty_schema) w" and "migrate w w'"
  shows "\<exists>m \<in> set migrations. fst w' = insert (m_revision m) (fst w) \<and> undoes m (snd w) (snd w')"
  using assms(2) reachable_on_course [OF assms(1)]
  by (cases rule: migrate.cases) (auto dest: course_step)



section \<open>Where the schema and the models part\<close>

lemma complete_stage:
  assumes "migrate\<^sup>*\<^sup>* ({}, empty_schema) (m_revision ` set migrations, s)"
  shows "stage (length chain) = Inr s"
proof -
  obtain k b where k: "k \<le> length chain" "m_revision ` set migrations = applied_up_to k b" "stage k = Inr s"
    using reachable_on_course [OF assms] by (auto simp: on_course_def)
  have "chain ! 13 \<in> set migrations" by (simp add: migrations_def length_chain)
  then have "m_revision (chain ! 13) \<in> applied_up_to k b" using k(2) by blast
  then have "13 < k" using nth_applied(1) [of 13 k b] k(1) by (simp add: length_chain)
  then have "k = length chain" using k(1) by (simp add: length_chain)
  then show ?thesis using k(3) by simp
qed

text \<open>
  The types of the migrations list the values of the enumerations, the models store the names of
  the members: no payment status and no provider the application writes is a label of its type, so
  that a migrated database refuses every transaction.
\<close>

lemma migrated_types_refuse_the_models:
  assumes "migrate\<^sup>*\<^sup>* ({}, empty_schema) (m_revision ` set migrations, s)"
    and "(n, names) \<in> set model_types"
  shows "\<exists>labels. map_of (s_types s) n = Some labels \<and> set names \<inter> set labels = {}"
  using head_serves(2) [OF complete_stage [OF assms(1)]] assms(2)
  by (fastforce simp: labels_apart_def list_all_iff split: option.splits)

text \<open>
  The tables of the other packages are in no migration, and the gateway does not import their models,
  so that \<^verbatim>\<open>init_db\<close> does not create them either.
\<close>

lemma other_tables_missing:
  assumes "migrate\<^sup>*\<^sup>* ({}, empty_schema) (m_revision ` set migrations, s)" and "init_db s = Inr s'"
  shows "\<forall>t \<in> set other_tables. o_table t \<notin> set (map fst (s_tables s'))"
proof -
  note head = head_serves [OF complete_stage [OF assms(1)]]
  have "s' = s" using init_db_idle [OF head(1)] assms(2) by (simp add: init_db_def)
  then show ?thesis using head(3) by (auto simp: payment_tables_only_def list_all_iff)
qed

text \<open>Alembic keeps the revision in a column of 32 characters.\<close>

lemma revisions_fit: "list_all (\<lambda>m. length (m_revision m) \<le> 32) migrations"
  by code_simp

text \<open>
  In development \<^verbatim>\<open>init_db\<close> builds the tables alone: they serve the models too, with types of the
  names, and the migrations cannot be run afterwards.
\<close>

lemma development_database:
  "case init_db empty_schema of Inl _ \<Rightarrow> False
   | Inr s \<Rightarrow> list_all (serves s) model_tables \<and> s_types s = model_types
       \<and> m_upgrade (chain ! 0) s = Inl (Duplicate ''users'')"
  by code_simp

end
