(* ===== verification/AFM_Probes.thy ===== *)
theory AFM_Probes
  imports AFM_Db_Url AFM_Http AFM_Visa AFM_Simulation
begin

text \<open>
  The operational probes of \<^verbatim>\<open>scripts/\<close>: the WhatsApp test message, the chat ids of a Telegram bot, the
  runtime logs of Northflank and the corridor previews.  A probe is a function of the process's
  variables, its parsed arguments and the service, to what it asked, what it printed and its exit
  code.  A document is printed as its JSON value, a line as text; the usage lines of \<^verbatim>\<open>argparse\<close> are left
  out.  The text of a library exception is a parameter, a function of what arrived.
\<close>

section \<open>What a probe does\<close>

record probe_run =
  pr_requests :: "http_request list"
  pr_stdout :: "json list"
  pr_stderr :: "string list"
  pr_exit :: "exn + int"

definition ended :: "http_request list \<Rightarrow> json list \<Rightarrow> string list \<Rightarrow> int \<Rightarrow> probe_run" where
  "ended rqs out err code = \<lparr> pr_requests = rqs, pr_stdout = out, pr_stderr = err, pr_exit = Inr code \<rparr>"

text \<open>
  The probes' own errors, kept as runtime errors, are printed and end with 1; anything else is a
  traceback.
\<close>

definition raised :: "http_request list \<Rightarrow> json list \<Rightarrow> exn \<Rightarrow> probe_run" where
  "raised rqs out e =
     (case e of
        RuntimeError m \<Rightarrow> ended rqs out [m] 1
      | _ \<Rightarrow> \<lparr> pr_requests = rqs, pr_stdout = out, pr_stderr = [], pr_exit = Inl e \<rparr>)"

section \<open>The WhatsApp message\<close>

record whatsapp_args =
  wa_send :: bool
  wa_template :: "string option"
  wa_language :: "string option"

definition required_env :: "(string \<Rightarrow> string option) \<Rightarrow> string \<Rightarrow> exn + string" where
  "required_env getenv name =
     (let value = py_strip (env_default getenv name '''') in
      if value = [] then Inl (RuntimeError (''Missing required environment variable: '' @ name)) else Inr value)"

definition recipient_pattern :: "string \<Rightarrow> bool" where
  "recipient_pattern s \<longleftrightarrow> 8 \<le> length s \<and> length s \<le> 15 \<and> list_all is_digit s \<and> hd s \<noteq> CHR ''0''"

definition phone_id_pattern :: "string \<Rightarrow> bool" where
  "phone_id_pattern s \<longleftrightarrow> 10 \<le> length s \<and> length s \<le> 20 \<and> list_all is_digit s"

definition version_pattern :: "string \<Rightarrow> bool" where
  "version_pattern s \<longleftrightarrow>
     (case s of [] \<Rightarrow> False
      | c # r \<Rightarrow> c = CHR ''v'' \<and> takeWhile is_digit r \<noteq> [] \<and>
          (case dropWhile is_digit r of [] \<Rightarrow> False
           | d # minor \<Rightarrow> d = CHR ''.'' \<and> minor \<noteq> [] \<and> list_all is_digit minor))"

definition build_payload :: "string \<Rightarrow> string \<Rightarrow> string \<Rightarrow> jobj" where
  "build_payload recipient template_name language_code =
     [(''messaging_product'', JStr ''whatsapp''), (''to'', JStr recipient), (''type'', JStr ''template''),
      (''template'', JObj [(''name'', JStr template_name), (''language'', JObj [(''code'', JStr language_code)])])]"

definition message_request :: "string \<Rightarrow> string \<Rightarrow> string \<Rightarrow> jobj \<Rightarrow> http_request" where
  "message_request access_token phone_number_id api_version payload =
     \<lparr> rq_method = ''POST'',
       rq_url = ''https://graph.facebook.com/'' @ api_version @ ''/'' @ phone_number_id @ ''/messages'',
       rq_headers = [(''Authorization'', ''Bearer '' @ access_token), (''Content-Type'', ''application/json''),
                     (''Accept'', ''application/json''), (''User-Agent'', ''afm-whatsapp-cloud-api-test/1.0'')],
       rq_body = JsonBody (JObj payload) \<rparr>"

definition message_receipt :: "(http_result \<Rightarrow> string) \<Rightarrow> http_result \<Rightarrow> exn + jobj" where
  "message_receipt reason arrived =
     (case arrived of
        TransportError \<Rightarrow> Inl (RuntimeError (''WhatsApp API request failed: '' @ reason arrived))
      | Response status txt parsed \<Rightarrow>
          if \<not> is_success status
          then Inl (RuntimeError (''WhatsApp API rejected the request: ''
                 @ py_str (case parsed of None \<Rightarrow> JObj [(''status'', JInt status)] | Some detail \<Rightarrow> detail)))
          else case parsed of
            None \<Rightarrow> Inl (ValueError ''json'')
          | Some (JObj body) \<Rightarrow>
              if truthy (jget ''messages'' body) then Inr body
              else Inl (RuntimeError ''WhatsApp API returned no message receipt'')
          | Some _ \<Rightarrow> Inl (AttributeError ''get''))"

record whatsapp_config =
  wc_access_token :: string
  wc_phone_number_id :: string
  wc_recipient :: string
  wc_api_version :: string

definition whatsapp_config_of_env :: "(string \<Rightarrow> string option) \<Rightarrow> exn + whatsapp_config" where
  "whatsapp_config_of_env getenv =
     bindE (required_env getenv ''WHATSAPP_ACCESS_TOKEN'') (\<lambda>access_token.
     bindE (required_env getenv ''WHATSAPP_PHONE_NUMBER_ID'') (\<lambda>phone_number_id.
     bindE (required_env getenv ''WHATSAPP_TO'') (\<lambda>recipient.
     let api_version = py_strip (env_default getenv ''WHATSAPP_API_VERSION'' ''v23.0'') in
     if \<not> recipient_pattern recipient
     then Inl (RuntimeError (''WHATSAPP_TO must be an international number without '' @ str_repr ''+'' @ '' or spaces''))
     else if \<not> phone_id_pattern phone_number_id
     then Inl (RuntimeError ''WHATSAPP_PHONE_NUMBER_ID must contain digits only'')
     else if \<not> version_pattern api_version
     then Inl (RuntimeError ''WHATSAPP_API_VERSION must look like v23.0'')
     else Inr \<lparr> wc_access_token = access_token, wc_phone_number_id = phone_number_id, wc_recipient = recipient,
                wc_api_version = api_version \<rparr>)))"

definition whatsapp_payload :: "(string \<Rightarrow> string option) \<Rightarrow> whatsapp_args \<Rightarrow> whatsapp_config \<Rightarrow> jobj" where
  "whatsapp_payload getenv args cfg =
     build_payload (wc_recipient cfg)
       (case wa_template args of None \<Rightarrow> env_default getenv ''WHATSAPP_TEMPLATE_NAME'' ''hello_world'' | Some t \<Rightarrow> t)
       (case wa_language args of None \<Rightarrow> env_default getenv ''WHATSAPP_TEMPLATE_LANGUAGE'' ''en_US'' | Some l \<Rightarrow> l)"

definition whatsapp_probe ::
    "(string \<Rightarrow> string option) \<Rightarrow> whatsapp_args \<Rightarrow> (http_result \<Rightarrow> string) \<Rightarrow> http \<Rightarrow> probe_run" where
  "whatsapp_probe getenv args reason h =
     (case whatsapp_config_of_env getenv of
        Inl e \<Rightarrow> raised [] [] e
      | Inr cfg \<Rightarrow>
          let payload = whatsapp_payload getenv args cfg in
          if \<not> wa_send args
          then ended [] [JObj [(''mode'', JStr ''dry-run''), (''endpoint_version'', JStr (wc_api_version cfg)),
                               (''payload'', JObj payload)]]
                 [''No message was sent. Re-run with --send only after verifying the recipient and template.''] 0
          else
            let rq = message_request (wc_access_token cfg) (wc_phone_number_id cfg) (wc_api_version cfg) payload in
            case message_receipt reason (h rq) of
              Inl e \<Rightarrow> raised [rq] [] e
            | Inr response \<Rightarrow>
                ended [rq] [JObj [(''mode'', JStr ''sent''),
                                  (''messages'', jget_default (JArr []) ''messages'' response)]] [] 0)"

section \<open>The chats of a bot\<close>

definition api_request :: "string \<Rightarrow> string \<Rightarrow> (string \<times> string) list \<Rightarrow> http_request" where
  "api_request token meth params =
     \<lparr> rq_method = ''GET'',
       rq_url = ''https://api.telegram.org/bot'' @ token @ ''/'' @ meth
                  @ (if params = [] then '''' else ''?'' @ urlencode params),
       rq_headers = [(''Accept'', ''application/json''), (''User-Agent'', ''afm-telegram-chat-id-workflow/1.0'')],
       rq_body = NoBody \<rparr>"

definition api_answer :: "(http_result \<Rightarrow> string) \<Rightarrow> string \<Rightarrow> http_result \<Rightarrow> exn + jobj" where
  "api_answer reason meth arrived =
     (let failed = RuntimeError (''Telegram API request failed for '' @ meth @ '': '' @ reason arrived) in
      case arrived of
        TransportError \<Rightarrow> Inl failed
      | Response status txt parsed \<Rightarrow>
          if \<not> is_success status then Inl failed
          else case parsed of
            None \<Rightarrow> Inl (ValueError ''json'')
          | Some (JObj payload) \<Rightarrow>
              if truthy (jget ''ok'' payload) then Inr payload
              else Inl (RuntimeError (''Telegram API rejected '' @ meth @ '': ''
                     @ py_str (jget_default (JStr ''unknown error'') ''description'' payload)))
          | Some _ \<Rightarrow> Inl (AttributeError ''get''))"

text \<open>\<^verbatim>\<open>for update in updates\<close>.\<close>

definition json_items :: "json \<Rightarrow> exn + json list" where
  "json_items v =
     (case v of
        JArr xs \<Rightarrow> Inr xs
      | JObj kvs \<Rightarrow> Inr (map (\<lambda>kv. JStr (fst kv)) kvs)
      | JStr s \<Rightarrow> Inr (map (\<lambda>c. JStr [c]) s)
      | _ \<Rightarrow> Inl (TypeError ''not iterable''))"

definition update_chat :: "json \<Rightarrow> exn + (string \<times> jobj) option" where
  "update_chat u =
     (case u of
        JObj mems \<Rightarrow>
          (case py_or (jget ''message'' mems) (jget ''channel_post'' mems) of
             JObj message \<Rightarrow>
               (case jget ''chat'' message of
                  JObj chat \<Rightarrow>
                    (case map_of chat ''id'' of
                       None \<Rightarrow> Inr None
                     | Some chat_id \<Rightarrow>
                         Inr (Some (py_str chat_id,
                           [(''chat_id'', chat_id), (''type'', jget ''type'' chat), (''title'', jget ''title'' chat),
                            (''username'', jget ''username'' chat)])))
                | _ \<Rightarrow> Inr None)
           | _ \<Rightarrow> Inr None)
      | _ \<Rightarrow> Inl (AttributeError ''get''))"

fun collect_chats :: "json list \<Rightarrow> (string \<times> jobj) list \<Rightarrow> exn + (string \<times> jobj) list" where
  "collect_chats [] chats = Inr chats"
| "collect_chats (u # us) chats =
     bindE (update_chat u) (\<lambda>found. case found of
       None \<Rightarrow> collect_chats us chats
     | Some (k, entry) \<Rightarrow> collect_chats us (AList.update k entry chats))"

definition chat_key :: "jobj \<Rightarrow> string" where
  "chat_key entry = py_str (jget ''chat_id'' entry)"

definition extract_chats :: "json \<Rightarrow> exn + jobj list" where
  "extract_chats updates =
     bindE (json_items updates) (\<lambda>us.
     bindE (collect_chats us []) (\<lambda>chats. Inr (sort_key chat_key (map snd chats))))"

text \<open>\<open>updates_request\<close> asks for at most a hundred updates at once.\<close>

definition updates_request :: "string \<Rightarrow> http_request" where
  "updates_request token = api_request token ''getUpdates'' [(''limit'', ''100''), (''timeout'', ''0'')]"

definition telegram_updates ::
    "(http_result \<Rightarrow> string) \<Rightarrow> bool \<Rightarrow> http_request list \<Rightarrow> http_result \<Rightarrow> probe_run" where
  "telegram_updates reason webhook_active rqs arrived =
     (case bindE (api_answer reason ''getUpdates'' arrived) (\<lambda>p.
           bindE (json_key ''result'' (JObj p)) extract_chats) of
        Inl e \<Rightarrow> raised rqs [] e
      | Inr chats \<Rightarrow>
          ended rqs [JObj [(''webhook_active'', JBool webhook_active), (''chats'', JArr (map JObj chats))]]
            (if chats = []
             then [''No chats found. Send /start to the bot or a test message to the target group/channel, then rerun.'']
             else []) 0)"

definition telegram_webhook :: "(http_result \<Rightarrow> string) \<Rightarrow> http_result \<Rightarrow> exn + bool" where
  "telegram_webhook reason arrived =
     bindE (api_answer reason ''getWebhookInfo'' arrived) (\<lambda>p.
     bindE (json_key ''result'' (JObj p)) (\<lambda>v.
     case v of JObj webhook \<Rightarrow> Inr (truthy (py_or (jget ''url'' webhook) (JStr '''')))
     | _ \<Rightarrow> Inl (AttributeError ''get'')))"

definition telegram_probe :: "(string \<Rightarrow> string option) \<Rightarrow> bool \<Rightarrow> (http_result \<Rightarrow> string) \<Rightarrow> http \<Rightarrow> probe_run" where
  "telegram_probe getenv allow_webhook reason h =
     (let token = env_default getenv ''TELEGRAM_BOT_TOKEN'' '''' in
      if token = [] then ended [] [] [''TELEGRAM_BOT_TOKEN is required''] 2
      else
        let rq1 = api_request token ''getWebhookInfo'' [] in
        case telegram_webhook reason (h rq1) of
          Inl e \<Rightarrow> raised [rq1] [] e
        | Inr webhook_active \<Rightarrow>
            if webhook_active \<and> \<not> allow_webhook
            then ended [rq1] []
                   [''Telegram webhook is active; refusing getUpdates to avoid conflicting consumers.'',
                    ''Run the workflow with allow_webhook=true only after confirming this is safe.''] 3
            else
              let rq2 = updates_request token in
              telegram_updates reason webhook_active [rq1, rq2] (h rq2))"

section \<open>The runtime logs\<close>

definition required :: "(string \<Rightarrow> string option) \<Rightarrow> string \<Rightarrow> string + string" where
  "required getenv name =
     (let value = env_default getenv name '''' in
      if value = [] then Inl (''missing required environment variable: '' @ name) else Inr value)"

definition log_params :: "(string \<Rightarrow> string option) \<Rightarrow> (string \<times> string) list" where
  "log_params getenv =
     [(''type'', ''runtime''),
      (''duration'', env_default getenv ''NORTHFLANK_LOG_DURATION_SECONDS'' ''900''),
      (''lineLimit'', env_default getenv ''NORTHFLANK_LOG_LINE_LIMIT'' ''100''),
      (''direction'', ''backward'')]
     @ (case getenv ''NORTHFLANK_DEPLOYMENT_ID'' of None \<Rightarrow> []
        | Some d \<Rightarrow> if d = [] then [] else [(''deploymentId'', d)])"

definition logs_request :: "string \<Rightarrow> string \<Rightarrow> string \<Rightarrow> (string \<times> string) list \<Rightarrow> http_request" where
  "logs_request token project_id service_id params =
     \<lparr> rq_method = ''GET'',
       rq_url = ''https://api.northflank.com/v1/projects/'' @ project_id @ ''/services/'' @ service_id @ ''/logs?''
                  @ urlencode params,
       rq_headers = [(''Accept'', ''application/json''), (''Authorization'', ''Bearer '' @ token)],
       rq_body = NoBody \<rparr>"

definition json_len :: "json \<Rightarrow> exn + int" where
  "json_len v =
     (case v of
        JArr xs \<Rightarrow> Inr (int (length xs))
      | JObj kvs \<Rightarrow> Inr (int (length kvs))
      | JStr s \<Rightarrow> Inr (int (length s))
      | _ \<Rightarrow> Inl (TypeError ''len''))"

definition logs_report :: "string \<Rightarrow> json \<Rightarrow> exn + json" where
  "logs_report service_id answer =
     (case answer of
        JObj payload \<Rightarrow>
          let logs = jget_default (JArr []) ''data'' payload in
          bindE (json_len logs) (\<lambda>n.
          Inr (JObj [(''service_id'', JStr service_id), (''count'', JInt n), (''logs'', logs)]))
      | _ \<Rightarrow> Inl (AttributeError ''get''))"

definition northflank_probe :: "(string \<Rightarrow> string option) \<Rightarrow> (http_result \<Rightarrow> string) \<Rightarrow> http \<Rightarrow> probe_run" where
  "northflank_probe getenv reason h =
     (case bindE (required getenv ''NORTHFLANK_API_TOKEN'') (\<lambda>token.
           bindE (required getenv ''NORTHFLANK_PROJECT_ID'') (\<lambda>project_id.
           bindE (required getenv ''NORTHFLANK_SERVICE_ID'') (\<lambda>service_id. Inr (token, project_id, service_id)))) of
        Inl message \<Rightarrow> ended [] [] [message] 1
      | Inr (token, project_id, service_id) \<Rightarrow>
          let rq = logs_request token project_id service_id (log_params getenv);
              failed = ended [rq] [] [''northflank log probe failed: '' @ reason (h rq)] 2 in
          case h rq of
            TransportError \<Rightarrow> failed
          | Response status txt parsed \<Rightarrow>
              if \<not> is_success status then failed
              else case parsed of
                None \<Rightarrow> failed
              | Some answer \<Rightarrow>
                  (case logs_report service_id answer of
                     Inl e \<Rightarrow> raised [rq] [] e
                   | Inr report \<Rightarrow> ended [rq] [report] [] 0))"

section \<open>The corridor previews\<close>

definition CORRIDORS :: "(string \<times> string \<times> string) list" where
  "CORRIDORS =
     [(''ci-ghana'', ''XOF'', ''GHS''), (''ci-nigeria'', ''XOF'', ''NGN''), (''benin-nigeria'', ''XOF'', ''NGN''),
      (''cameroon-nigeria'', ''XAF'', ''NGN''), (''cameroon-ivory-coast'', ''XAF'', ''XOF''),
      (''ivory-coast-cameroon'', ''XOF'', ''XAF'')]"

definition corridor_payload :: "int \<Rightarrow> string \<times> string \<times> string \<Rightarrow> jobj" where
  "corridor_payload amount c =
     (case c of (corridor, source, beneficiary) \<Rightarrow>
        [(''amount'', JInt amount), (''source_currency'', JStr source), (''beneficiary_currency'', JStr beneficiary),
         (''corridor'', JStr corridor), (''direction'', JStr ''payout''),
         (''metadata'', JObj [(''execution_mode'', JStr ''public_preview''), (''automated_check'', JBool True)])])"

definition preview_request :: "string \<Rightarrow> jobj \<Rightarrow> http_request" where
  "preview_request url payload =
     \<lparr> rq_method = ''POST'', rq_url = url,
       rq_headers = [(''Content-Type'', ''application/json''), (''Accept'', ''application/json'')],
       rq_body = JsonBody (JObj payload) \<rparr>"

text \<open>\<^verbatim>\<open>call\<close>: the status and the body, as text where it is no JSON; no status when nothing arrived.\<close>

definition preview_answer :: "(http_result \<Rightarrow> string) \<Rightarrow> http_result \<Rightarrow> int \<times> json" where
  "preview_answer reason arrived =
     (case arrived of
        TransportError \<Rightarrow> (0, JStr (reason arrived))
      | Response status txt parsed \<Rightarrow> (status, case parsed of None \<Rightarrow> JStr txt | Some v \<Rightarrow> v))"

record preview =
  pv_corridor :: string
  pv_source_currency :: string
  pv_beneficiary_currency :: string
  pv_http_status :: int
  pv_successful :: bool
  pv_detail :: json
  pv_simulation_only :: json
  pv_rate_source :: json

definition preview_of :: "string \<times> string \<times> string \<Rightarrow> int \<times> json \<Rightarrow> preview" where
  "preview_of c answer =
     (case c of (corridor, source, beneficiary) \<Rightarrow> case answer of (status, body) \<Rightarrow>
        let from_body = (\<lambda>k. case body of JObj mems \<Rightarrow> jget k mems | _ \<Rightarrow> JNull) in
        \<lparr> pv_corridor = corridor, pv_source_currency = source, pv_beneficiary_currency = beneficiary,
          pv_http_status = status,
          pv_successful = (status = 200 \<and> from_body ''simulation_only'' = JBool True),
          pv_detail = (case body of JObj mems \<Rightarrow> jget ''detail'' mems | _ \<Rightarrow> JStr (py_str body)),
          pv_simulation_only = from_body ''simulation_only'', pv_rate_source = from_body ''rate_source'' \<rparr>)"

definition preview_json :: "preview \<Rightarrow> json" where
  "preview_json v =
     JObj [(''corridor'', JStr (pv_corridor v)), (''source_currency'', JStr (pv_source_currency v)),
           (''beneficiary_currency'', JStr (pv_beneficiary_currency v)), (''http_status'', JInt (pv_http_status v)),
           (''successful_preview'', JBool (pv_successful v)), (''detail'', pv_detail v),
           (''simulation_only'', pv_simulation_only v), (''rate_source'', pv_rate_source v)]"

text \<open>\<^verbatim>\<open>f"{s:n}"\<close>.\<close>

definition pad_right :: "nat \<Rightarrow> string \<Rightarrow> string" where
  "pad_right n s = s @ replicate (n - length s) (CHR '' '')"

definition preview_line :: "preview \<Rightarrow> string" where
  "preview_line v =
     pad_right 4 (if pv_successful v then ''OK'' else ''FAIL'') @ '' '' @ pad_right 24 (pv_corridor v)
     @ '' HTTP '' @ int_str (pv_http_status v) @ '': '' @ py_str (pv_detail v)"

definition e_acute :: char where
  "e_acute = char_of (233::int)"

definition summary_line :: "preview list \<Rightarrow> string" where
  "summary_line vs =
     (let failures = length (filter (\<lambda>v. \<not> pv_successful v) vs) in
      [char_of (10::int)] @ int_str (int (length vs) - int failures) @ ''/'' @ int_str (int (length vs))
      @ '' corridors op'' @ [e_acute] @ ''rationnels; '' @ int_str (int failures) @ '' en '' @ [e_acute] @ ''chec.'')"

record corridor_args =
  ca_url :: string
  ca_amount :: int
  ca_output :: "string option"

text \<open>The report is the second component, with the file it is written to.\<close>

definition corridor_probe ::
    "corridor_args \<Rightarrow> time \<Rightarrow> (http_result \<Rightarrow> string) \<Rightarrow> http \<Rightarrow> probe_run \<times> (string \<times> json) option" where
  "corridor_probe args now reason h =
     (if ca_amount args < 100000 then (ended [] [] [] 2, None)
      else
        let rqs = map (\<lambda>c. preview_request (ca_url args) (corridor_payload (ca_amount args) c)) CORRIDORS;
            results = map (\<lambda>(c, rq). preview_of c (preview_answer reason (h rq))) (zip CORRIDORS rqs);
            report = JObj [(''checked_at'', JStr (isoformat now)), (''endpoint'', JStr (ca_url args)),
                           (''amount'', JInt (ca_amount args)), (''financial_action'', JBool False),
                           (''results'', JArr (map preview_json results))]
        in (ended rqs (map (\<lambda>v. JStr (preview_line v)) results @ [JStr (summary_line results)]) []
              (if filter (\<lambda>v. \<not> pv_successful v) results = [] then 0 else 1),
            if is_set (ca_output args) then Some (the (ca_output args), report) else None))"

section \<open>What the probes promise\<close>

lemma ended_simps [simp]:
  "pr_requests (ended rqs out err code) = rqs" "pr_stdout (ended rqs out err code) = out"
  "pr_stderr (ended rqs out err code) = err" "pr_exit (ended rqs out err code) = Inr code"
  by (simp_all add: ended_def)

lemma raised_simps [simp]:
  "pr_requests (raised rqs out e) = rqs" "pr_stdout (raised rqs out e) = out" "pr_exit (raised rqs out e) \<noteq> Inr 0"
  by (cases e; simp add: raised_def)+

text \<open>
  The WhatsApp probe sends at most one message, and none unless it is asked to, with a recipient and
  a number that are well-formed; it succeeds then only with a receipt.
\<close>

lemma whatsapp_config_valid:
  assumes "whatsapp_config_of_env getenv = Inr cfg"
  shows "recipient_pattern (wc_recipient cfg) \<and> phone_id_pattern (wc_phone_number_id cfg)
    \<and> version_pattern (wc_api_version cfg) \<and> wc_access_token cfg \<noteq> []"
  using assms
  by (auto simp: whatsapp_config_of_env_def required_env_def bindE_eq_Inr_iff Let_def split: if_splits)

lemma whatsapp_probe_guarded:
  assumes run: "r = whatsapp_probe getenv args reason h"
  shows "length (pr_requests r) \<le> 1"
    and "pr_requests r \<noteq> [] \<Longrightarrow> wa_send args \<and> (\<exists>cfg. whatsapp_config_of_env getenv = Inr cfg
           \<and> recipient_pattern (wc_recipient cfg) \<and> phone_id_pattern (wc_phone_number_id cfg))"
    and "pr_exit r = Inr 0 \<Longrightarrow> wa_send args \<Longrightarrow> \<exists>rq status txt body. pr_requests r = [rq]
           \<and> h rq = Response status txt (Some (JObj body)) \<and> is_success status \<and> truthy (jget ''messages'' body)"
proof -
  show "length (pr_requests r) \<le> 1"
    by (simp add: run whatsapp_probe_def Let_def split: sum.split)
  show "pr_requests r \<noteq> [] \<Longrightarrow> wa_send args \<and> (\<exists>cfg. whatsapp_config_of_env getenv = Inr cfg
      \<and> recipient_pattern (wc_recipient cfg) \<and> phone_id_pattern (wc_phone_number_id cfg))"
    using whatsapp_config_valid [of getenv]
    by (auto simp: run whatsapp_probe_def Let_def split: sum.splits if_splits)
  show "pr_exit r = Inr 0 \<Longrightarrow> wa_send args \<Longrightarrow> \<exists>rq status txt body. pr_requests r = [rq]
      \<and> h rq = Response status txt (Some (JObj body)) \<and> is_success status \<and> truthy (jget ''messages'' body)"
    by (auto simp: run whatsapp_probe_def message_receipt_def Let_def
        split: sum.splits if_splits http_result.splits option.splits json.splits)
qed

text \<open>
  The Telegram probe leaves the updates to the webhook that is set, unless it is told otherwise; what
  it prints and its exit code depend on what the service answers, not on the token.
\<close>

lemma telegram_probe_guarded:
  assumes "updates_request (env_default getenv ''TELEGRAM_BOT_TOKEN'' '''')
      \<in> set (pr_requests (telegram_probe getenv allow reason h))"
  shows "allow \<or> telegram_webhook reason
      (h (api_request (env_default getenv ''TELEGRAM_BOT_TOKEN'' '''') ''getWebhookInfo'' [])) = Inr False"
proof -
  have "updates_request t \<noteq> api_request t ''getWebhookInfo'' []" for t
    by (simp add: updates_request_def api_request_def)
  then show ?thesis using assms
    by (auto simp: telegram_probe_def Let_def split: if_splits sum.splits bool.splits)
qed

lemma telegram_token_unseen:
  fixes token token' :: string
  assumes "getenv ''TELEGRAM_BOT_TOKEN'' = Some token" and "getenv' ''TELEGRAM_BOT_TOKEN'' = Some token'"
    and "token \<noteq> []" and "token' \<noteq> []"
    and "\<forall>m params. h (api_request token m params) = h' (api_request token' m params)"
  shows "pr_stdout (telegram_probe getenv allow reason h) = pr_stdout (telegram_probe getenv' allow reason h')
    \<and> pr_stderr (telegram_probe getenv allow reason h) = pr_stderr (telegram_probe getenv' allow reason h')
    \<and> pr_exit (telegram_probe getenv allow reason h) = pr_exit (telegram_probe getenv' allow reason h')"
proof -
  have "pr_stderr (raised rqs out e) = pr_stderr (raised rqs' out e)"
    "pr_exit (raised rqs out e) = pr_exit (raised rqs' out e)" for rqs rqs' out e
    by (cases e; simp add: raised_def)+
  then show ?thesis
    using assms
    by (simp add: telegram_probe_def telegram_updates_def updates_request_def env_default_def Let_def split: sum.split)
qed

text \<open>
  The chats of a bot, each once and in the order of their ids: the entry of an id is that of the last
  update that mentions it.
\<close>

definition chat_mentions :: "json list \<Rightarrow> (string \<times> jobj) list" where
  "chat_mentions us = concat (map (\<lambda>u. case update_chat u of Inr (Some kv) \<Rightarrow> [kv] | _ \<Rightarrow> []) us)"

definition keyed_chats :: "(string \<times> jobj) list \<Rightarrow> bool" where
  "keyed_chats chats \<longleftrightarrow> distinct (map fst chats) \<and> (\<forall>k entry. map_of chats k = Some entry \<longrightarrow> chat_key entry = k)"

lemma update_chat_keyed: "update_chat u = Inr (Some (k, entry)) \<Longrightarrow> chat_key entry = k"
  by (auto simp: update_chat_def chat_key_def jget_def jget_default_def split: json.splits option.splits)

lemma collect_chats_last:
  assumes "collect_chats us chats = Inr found" and "keyed_chats chats"
  shows "keyed_chats found \<and> map_of found = map_of chats ++ map_of (rev (chat_mentions us))"
  using assms
proof (induction us arbitrary: chats)
  case Nil
  then show ?case by (simp add: chat_mentions_def)
next
  case (Cons u us)
  from Cons.prems(1) obtain r where r: "update_chat u = Inr r" by (auto elim: bindE_InrE)
  show ?case
  proof (cases r)
    case None
    then show ?thesis using Cons r by (simp add: chat_mentions_def)
  next
    case (Some kv)
    obtain k entry where kv: "kv = (k, entry)" by (cases kv)
    have "keyed_chats (AList.update k entry chats)"
      using Cons.prems(2) update_chat_keyed r Some kv by (auto simp: keyed_chats_def distinct_update update_conv')
    then show ?thesis
      using Cons.IH [of "AList.update k entry chats"] Cons.prems(1) r Some kv
      by (auto simp: chat_mentions_def update_conv' map_add_def fun_eq_iff split: option.split)
  qed
qed

lemma extract_chats_last:
  assumes "extract_chats (JArr us) = Inr cs"
  shows "sorted (map chat_key cs) \<and> distinct (map chat_key cs)
    \<and> (\<forall>k entry. entry \<in> set cs \<and> chat_key entry = k \<longleftrightarrow> map_of (rev (chat_mentions us)) k = Some entry)"
proof -
  obtain found where f: "collect_chats us [] = Inr found" and cs: "cs = sort_key chat_key (map snd found)"
    using assms by (auto simp: extract_chats_def json_items_def elim: bindE_InrE)
  have k: "keyed_chats found" and m: "map_of found = map_of (rev (chat_mentions us))"
    using collect_chats_last [OF f] by (simp_all add: keyed_chats_def)
  have d: "distinct (map fst found)" and key: "\<forall>kv \<in> set found. chat_key (snd kv) = fst kv"
    using k by (auto simp: keyed_chats_def)
  have e: "map (chat_key \<circ> snd) found = map fst found" using key by simp
  have "distinct (map chat_key (map snd found))" by (simp only: map_map e d)
  moreover have "distinct (map chat_key (sort_key chat_key xs))" if "distinct (map chat_key xs)" for xs
    using that by (simp add: distinct_map)
  ultimately have "distinct (map chat_key cs)" unfolding cs by blast
  moreover have "entry \<in> set cs \<and> chat_key entry = k' \<longleftrightarrow> map_of found k' = Some entry" for k' entry
    unfolding cs map_of_eq_Some_iff [OF d] using key by force
  ultimately show ?thesis by (simp add: cs m)
qed

text \<open>The log probe reads once, and only with its three variables.\<close>

lemma northflank_probe_reads:
  "pr_requests (northflank_probe getenv reason h) = []
   \<or> (\<exists>rq. pr_requests (northflank_probe getenv reason h) = [rq] \<and> rq_method rq = ''GET'')"
  by (auto simp: northflank_probe_def logs_request_def Let_def
      split: sum.splits http_result.splits option.splits json.splits)

text \<open>
  The corridor probe ends with 0 exactly when every corridor answered with a preview, and the gateway
  accepts what it sends.
\<close>

lemma corridor_probe_exit:
  "pr_exit (fst (corridor_probe args now reason h)) = Inr 0 \<longleftrightarrow>
     100000 \<le> ca_amount args \<and>
     (\<forall>c \<in> set CORRIDORS. pv_successful (preview_of c
        (preview_answer reason (h (preview_request (ca_url args) (corridor_payload (ca_amount args) c))))))"
  by (auto simp: corridor_probe_def Let_def filter_empty_conv zip_map2 zip_same_conv_map)

definition default_simulation :: "int \<Rightarrow> string \<times> string \<times> string \<Rightarrow> simulation_request" where
  "default_simulation amount c =
     (case c of (corridor, source, beneficiary) \<Rightarrow>
        \<lparr> sq_amount = Dec amount 0, sq_source_currency = source, sq_beneficiary_currency = beneficiary,
          sq_corridor = corridor, sq_kaybic_fee = Dec 0 0, sq_aza_payin_fee = Dec 0 0, sq_aza_payout_fee = Dec 0 0,
          sq_afm_fee = Dec 0 0, sq_fx_rate = Dec 1 0, sq_direction = ''payout'',
          sq_metadata = [(''execution_mode'', JStr ''public_preview''), (''automated_check'', JBool True)] \<rparr>)"

lemma corridor_payload_accepted:
  assumes "c \<in> set CORRIDORS" and "100000 \<le> amount"
  shows "valid_simulation_request (default_simulation amount c)"
  using assms
  by (auto simp: CORRIDORS_def valid_simulation_request_def default_simulation_def less_eq_decimal_def
      less_decimal_def align_def p10_def)

end
