(* ===== verification/AFM_System.thy ===== *)
theory AFM_System
  imports AFM_Auth_Facts AFM_Payout AFM_Refund AFM_Simulation AFM_Broker "HOL-Library.Sublist"
begin

text \<open>
  The gateway as a whole: the routes that write to the database, the webhook and the reconciliation
  worker, in any order and interrupting each other.  An event is one request, one delivery or one commit
  of a worker; an event with several commits, and a webhook delivery between any two of its accesses
  to the database, carries the events of other sessions that happen in between, which may themselves be
  interrupted and end before the interrupted event goes on.  Authentication requests, broker requests
  and the commits of a worker are single steps.
\<close>

section \<open>Events\<close>

datatype system_event =
    AuthRequest auth_event
  | WebhookDelivery uuid time webhook_request
      "system_event list" "system_event list" "system_event list" "system_event list"
  | WorkerCommit worker_event
  | OpenAccount uuid time uuid "system_event list"
  | PayoutRequest http payout_env payout_request "string option" uuid "system_event list" "system_event list"
  | RefundRequest http time uuid refund_request refund_headers uuid "system_event list"
  | SimulationRequest simulation_env simulation_request uuid "system_event list"
  | BrokerRequest http time alpaca_state broker_route

record 'tok system_env =
  sy_auth :: "'tok auth_env"
  sy_sha256 :: "string \<Rightarrow> string"

abbreviation sy_settings :: "'tok system_env \<Rightarrow> settings" where
  "sy_settings E \<equiv> ae_settings (sy_auth E)"

text \<open>The database after an event, whatever the event's answer.\<close>

fun system_step :: "'tok system_env \<Rightarrow> system_event \<Rightarrow> db \<Rightarrow> db" where
  "system_step E (AuthRequest ev) = auth_step (sy_auth E) ev"
| "system_step E (WebhookDelivery fresh now r b1 b2 b3 b4) =
     (\<lambda>d. fst (snd (kora_webhook (ae_hmac (sy_auth E)) (sy_sha256 E) (sy_settings E)
        \<lparr> ps_before = run (system_step E) b1, ps_load = run (system_step E) b2,
          ps_lookup = run (system_step E) b3, ps_during = run (system_step E) b4 \<rparr> fresh now r d)))"
| "system_step E (WorkerCommit ev) = worker_step ev"
| "system_step E (OpenAccount fresh now u between) =
     (\<lambda>d. snd (get_or_create_virtual_account fresh now (run (system_step E) between) u d))"
| "system_step E (PayoutRequest h env p c u between during) =
     (\<lambda>d. snd (kora_payout_route (sy_settings E) h
        (env \<lparr> pe_meanwhile := run (system_step E) between, pe_during := run (system_step E) during \<rparr>) p c u d))"
| "system_step E (RefundRequest h now tid r hs u between) =
     (\<lambda>d. snd (kora_refund_route (sy_sha256 E) (sy_settings E) h now (run (system_step E) between) tid r hs u d))"
| "system_step E (SimulationRequest env r u between) =
     (\<lambda>d. snd (simulate_payment (sy_settings E)
        (env \<lparr> se_meanwhile := run (system_step E) between \<rparr>) r u d))"
| "system_step E (BrokerRequest h now s r) = (\<lambda>d. snd (snd (serve (sy_settings E) h now r (s, d))))"

text \<open>An event with the events that interrupt it.\<close>

fun sub_events :: "system_event \<Rightarrow> system_event list" where
  "sub_events (WebhookDelivery fresh now r b1 b2 b3 b4) =
     WebhookDelivery fresh now r b1 b2 b3 b4 # concat (map sub_events (b1 @ b2 @ b3 @ b4))"
|  "sub_events (OpenAccount fresh now u between) =
     OpenAccount fresh now u between # concat (map sub_events between)"
| "sub_events (PayoutRequest h env p c u between during) =
     PayoutRequest h env p c u between during # concat (map sub_events (between @ during))"
| "sub_events (RefundRequest h now tid r hs u between) =
     RefundRequest h now tid r hs u between # concat (map sub_events between)"
| "sub_events (SimulationRequest env r u between) =
     SimulationRequest env r u between # concat (map sub_events between)"
| "sub_events ev = [ev]"

definition all_events :: "system_event list \<Rightarrow> system_event list" where
  "all_events evs = concat (map sub_events evs)"

lemma simulate_payment_db:
  assumes "simulate_payment st env r u d = (res, d')"
    and "get_or_create_virtual_account (se_fresh_account env) (se_now env) (se_meanwhile env) u d = (a, d1)"
  shows "d' = d \<or> d' = d1
    \<or> (\<exists>t d2 e. add_transaction t d1 = Some d2 \<and> d' = d2 \<lparr> db_ledger := db_ledger d2 @ [e] \<rparr>
          \<and> tx_status t = PENDING \<and> tx_settled_at t = None \<and> le_amount e = Dec 0 0 \<and> \<not> kora_debit e)"
proof (cases "d' = d \<or> d' = d1")
  case False
  note run = assms(1) [unfolded simulate_payment_def Let_def assms(2)]
  from run False obtain account fees net dest breakdown where
    "\<exists>t d2. t = simulated_transaction (se_fresh_transaction env) (se_fresh_hex env) (se_now env) u r
          account fees net dest breakdown \<and> add_transaction t d1 = Some d2
      \<and> d' = d2 \<lparr> db_ledger := db_ledger d1 @
          [simulation_journal (se_fresh_entry env) (se_now env) t (va_id account)] \<rparr>"
    by (auto split: if_splits sum.splits option.splits) blast
  then obtain t d2 where t: "t = simulated_transaction (se_fresh_transaction env) (se_fresh_hex env) (se_now env) u r
          account fees net dest breakdown" and d2: "add_transaction t d1 = Some d2"
    and d': "d' = d2 \<lparr> db_ledger := db_ledger d1 @
          [simulation_journal (se_fresh_entry env) (se_now env) t (va_id account)] \<rparr>" by blast
  let ?e = "simulation_journal (se_fresh_entry env) (se_now env) t (va_id account)"
  have "db_ledger d2 = db_ledger d1" using d2 by (auto simp: add_transaction_Some_iff)
  then have "d' = d2 \<lparr> db_ledger := db_ledger d2 @ [?e] \<rparr>" by (simp only: d')
  moreover have "tx_status t = PENDING" "tx_settled_at t = None"
    by (simp_all add: t simulated_transaction_def Let_def)
  moreover have "le_amount ?e = Dec 0 0" "\<not> kora_debit ?e"
    by (simp_all add: simulation_journal_def kora_debit_def)
  ultimately show ?thesis using d2 by blast
qed blast

section \<open>What holds across an event\<close>

text \<open>
  A relation between two states of the database that is closed under the single writes of the routes
  holds across every event, however it is interrupted.  The events that are not made of these writes
  are assumed to keep it if they satisfy \<open>good\<close>.
\<close>

locale write_relation =
  fixes R :: "db \<Rightarrow> db \<Rightarrow> bool"
  assumes same: "R d d" and chain: "R d d1 \<Longrightarrow> R d1 d2 \<Longrightarrow> R d d2"
    and add_account: "row_insert va_user_id a (db_accounts d) = Some acs \<Longrightarrow> R d (d \<lparr> db_accounts := acs \<rparr>)"
    and add_payment: "add_transaction t d = Some d' \<Longrightarrow> tx_status t \<in> {PENDING, PROCESSING, FAILED} \<Longrightarrow> R d d'"
    and add_journal: "le_amount e = Dec 0 0 \<Longrightarrow> \<not> kora_debit e \<Longrightarrow> R d (d \<lparr> db_ledger := db_ledger d @ [e] \<rparr>)"
    and add_refund: "row_insert rf_idempotency_key rf (db_refunds d) = Some rfs \<Longrightarrow>
          rf_refund_reference rf \<notin> rf_refund_reference ` set (db_refunds d) \<Longrightarrow> R d (d \<lparr> db_refunds := rfs \<rparr>)"
    and change_refund: "(\<And>x. rf_core (f x) = rf_core x) \<Longrightarrow> R d (update_refund k f d)"
    and change_note: "(\<And>x. \<exists>m. g x = x \<lparr> tx_metadata := m \<rparr>) \<Longrightarrow> R d (update_transaction i g d)"
begin

lemma run_kept: "(\<And>ev x. ev \<in> set evs \<Longrightarrow> R x (f ev x)) \<Longrightarrow> R d (run f evs d)"
proof (induction evs arbitrary: d)
  case (Cons ev evs)
  have "R d (f ev d)" by (rule Cons.prems) simp
  moreover have "R (f ev d) (run f evs (f ev d))" by (rule Cons.IH) (use Cons.prems in simp)
  ultimately show ?case unfolding run.simps by (rule chain)
qed (simp add: same)

lemma account_kept:
  assumes "get_or_create_virtual_account fresh now mw u d = (r, d1)" and mw: "\<And>x. R x (mw x)"
  shows "R d d1"
proof -
  have "d1 = d \<or> d1 = mw d
      \<or> (\<exists>a rows. row_insert va_user_id a (db_accounts (mw d)) = Some rows \<and> d1 = (mw d) \<lparr> db_accounts := rows \<rparr>)"
    using assms(1) by (auto simp: get_or_create_virtual_account_def Let_def split: sum.splits option.splits)
  with mw show ?thesis by (auto intro: same chain [OF _ add_account])
qed

lemma payout_kept:
  assumes "kora_payout_route st h env p c u d = (r, d')"
    and between: "\<And>x. R x (pe_meanwhile env x)" and during: "\<And>x. R x (pe_during env x)"
  shows "R d d'"
proof (cases "d' = d")
  case False
  then obtain v where v: "create_kora_payout st h env p c v d = (r, d')"
    using assms(1) by (auto simp: kora_payout_route_def split: sum.splits if_splits)
  obtain a d1 where g: "get_or_create_virtual_account (pe_fresh_account env) (pe_now env) (pe_meanwhile env) v d = (a, d1)"
    by fastforce
  note d1 = account_kept [OF g between]
  note d2 = chain [OF d1 during]
  from create_kora_payout_db [OF v g] show ?thesis
    using d1 d2 by (auto intro: same chain add_payment)
qed (simp add: same)

lemma simulation_kept:
  assumes "simulate_payment st env r u d = (res, d')" and between: "\<And>x. R x (se_meanwhile env x)"
  shows "R d d'"
proof -
  obtain a d1 where g: "get_or_create_virtual_account (se_fresh_account env) (se_now env) (se_meanwhile env) u d = (a, d1)"
    by fastforce
  note d1 = account_kept [OF g between]
  have "R d (d2 \<lparr> db_ledger := db_ledger d2 @ [e] \<rparr>)"
    if "add_transaction t d1 = Some d2" "tx_status t = PENDING" "le_amount e = Dec 0 0" "\<not> kora_debit e" for t d2 e
    using d1 add_payment [OF that(1)] that(2) add_journal [OF that(3,4)] by (auto intro: chain)
  with simulate_payment_db [OF assms(1) g] d1 show ?thesis by (auto simp: same)
qed

lemma refund_kept:
  assumes "kora_refund_route sh st h now mw tid r hs u d = (res, d')" and between: "\<And>x. R x (mw x)"
  shows "R d d'"
  using assms(1)
proof (cases rule: kora_refund_route_cases)
  case (execute tx pref amount)
  then have "execute_refund sh st h now mw r (refund_key hs) tx pref amount d = (res, d')" using assms(1) by simp
  then show "R d d'"
  proof (cases rule: execute_refund_cases)
    case (stored rf rows f g)
    have "R d (mw (d \<lparr> db_refunds := rows \<rparr>))"
      by (rule chain [OF add_refund [OF stored(3,2)] between])
    then have "R d (update_refund (refund_key hs) f (mw (d \<lparr> db_refunds := rows \<rparr>)))"
      by (rule chain) (rule change_refund [OF stored(5)])
    then show "R d d'" unfolding stored(4) by (rule chain) (rule change_note [OF stored(6)])
  qed (simp add: same)
qed (simp add: same)

end

locale system_relation = write_relation R for R :: "db \<Rightarrow> db \<Rightarrow> bool" +
  fixes E :: "'tok system_env" and good :: "system_event \<Rightarrow> bool"
  assumes auth_kept: "R d (auth_step (sy_auth E) ev d)"
    and broker_kept: "R d (snd (snd (serve st h now r (s, d))))"
    and webhook_kept: "good (WebhookDelivery fresh now w b1 b2 b3 b4) \<Longrightarrow>
          (\<And>b x. b \<in> {b1, b2, b3, b4} \<Longrightarrow> R x (run (system_step E) b x)) \<Longrightarrow>
          R d (system_step E (WebhookDelivery fresh now w b1 b2 b3 b4) d)"
    and worker_kept: "good (WorkerCommit e) \<Longrightarrow> R d (worker_step e d)"
begin

lemma step_kept: "list_all good (sub_events ev) \<Longrightarrow> R d (system_step E ev d)"
proof (induction ev arbitrary: d rule: sub_events.induct)
  case (1 fresh now r b1 b2 b3 b4)
  then have "R x (system_step E ev x)" if "ev \<in> set (b1 @ b2 @ b3 @ b4)" for ev x
    using that by (fastforce simp: list_all_iff)
  then have "R x (run (system_step E) b x)" if "b \<in> {b1, b2, b3, b4}" for b x
    using that by (intro run_kept) auto
  moreover have "good (WebhookDelivery fresh now r b1 b2 b3 b4)" using 1 by simp
  ultimately show ?case by (intro webhook_kept)
next
  case (2 fresh now u between)
  then show ?case
    by (auto simp: list_all_iff intro!: account_kept [OF prod.collapse [symmetric]] run_kept)
next
  case (3 h env p c u between during)
  then have "R x (system_step E ev x)" if "ev \<in> set (between @ during)" for ev x
    using that by (fastforce simp: list_all_iff)
  then show ?case
    by (auto intro!: payout_kept [OF prod.collapse [symmetric]] run_kept)
next
  case (4 h now tid r hs u between)
  then show ?case
    by (auto simp: list_all_iff intro!: refund_kept [OF prod.collapse [symmetric]] run_kept)
next
  case (5 env r u between)
  then show ?case
    by (auto simp: list_all_iff intro!: simulation_kept [OF prod.collapse [symmetric]] run_kept)
qed (auto simp: auth_kept broker_kept worker_kept)

lemma system_kept: "list_all good (all_events evs) \<Longrightarrow> R d (run (system_step E) evs d)"
  by (rule run_kept) (auto simp: list_all_iff all_events_def intro!: step_kept)

end

section \<open>Kora's evidence\<close>

text \<open>A delivery whose data object carries the provider's signature, and a poll that reports success.\<close>

fun signed_delivery :: "'tok system_env \<Rightarrow> system_event \<Rightarrow> bool" where
  "signed_delivery E (WebhookDelivery fresh now r b1 b2 b3 b4) \<longleftrightarrow>
     (case wr_parsed r of
        Some (JObj body) \<Rightarrow>
          (case jget_default (JObj body) ''data'' body of
             JObj data \<Rightarrow> authentic (ae_hmac (sy_auth E)) (sy_settings E) data (request_signature r)
           | _ \<Rightarrow> False)
      | _ \<Rightarrow> False)"
| "signed_delivery E ev \<longleftrightarrow> False"

fun reports_success :: "'tok system_env \<Rightarrow> system_event \<Rightarrow> bool" where
  "reports_success E (WorkerCommit (Apply now i p)) \<longleftrightarrow> po_normalized p = ''completed''"
| "reports_success E ev \<longleftrightarrow> signed_delivery E ev"

lemma unsigned_delivery:
  assumes "\<not> signed_delivery E (WebhookDelivery fresh now r b1 b2 b3 b4)"
  shows "system_step E (WebhookDelivery fresh now r b1 b2 b3 b4) d = d"
proof -
  let ?pz = "\<lparr> ps_before = run (system_step E) b1, ps_load = run (system_step E) b2,
      ps_lookup = run (system_step E) b3, ps_during = run (system_step E) b4 \<rparr>"
  obtain res d' al where w: "kora_webhook (ae_hmac (sy_auth E)) (sy_sha256 E) (sy_settings E) ?pz fresh now r d = (res, d', al)"
    by (rule prod_cases3)
  from w have "d' = d" by (cases rule: kora_webhook_cases) (use assms in auto)
  then show ?thesis by (simp add: w)
qed

section \<open>The records\<close>

text \<open>
  The unique columns of the tables.
\<close>

definition records_ok :: "db \<Rightarrow> bool" where
  "records_ok d \<longleftrightarrow>
     distinct (map tx_id (db_transactions d)) \<and> distinct (map tx_idempotency_key (db_transactions d))
   \<and> users_ok d \<and> distinct (map ch_id (db_challenges d)) \<and> links_ok d \<and> one_account_each d
   \<and> distinct (map we_event_id (db_events d)) \<and> one_task_each d
   \<and> distinct_refund_keys d \<and> distinct (map rf_refund_reference (db_refunds d))"

text \<open>
  Nothing recorded is lost: payments and refunds keep what identifies them, in their order, the
  ledger, the accounts and the event store only grow, and the unique columns stay unique.
\<close>

definition records_kept :: "db \<Rightarrow> db \<Rightarrow> bool" where
  "records_kept d d' \<longleftrightarrow>
     (records_ok d \<longrightarrow> records_ok d'
      \<and> prefix (map tx_core (db_transactions d)) (map tx_core (db_transactions d'))
      \<and> prefix (map rf_core (db_refunds d)) (map rf_core (db_refunds d'))
      \<and> prefix (db_ledger d) (db_ledger d') \<and> prefix (db_accounts d) (db_accounts d')
      \<and> prefix (map we_event_id (db_events d)) (map we_event_id (db_events d')))"

lemma records_kept_refl [simp]: "records_kept d d"
  by (simp add: records_kept_def)

lemma records_kept_trans: "records_kept d d1 \<Longrightarrow> records_kept d1 d2 \<Longrightarrow> records_kept d d2"
  unfolding records_kept_def by (blast intro: prefix_order.trans)

text \<open>Rows of the same cores have the same keys.\<close>

lemma same_tx_core:
  assumes "map tx_core xs = map tx_core ys"
  shows "map tx_id xs = map tx_id ys" and "map tx_idempotency_key xs = map tx_idempotency_key ys"
proof -
  have "map fst (map tx_core xs) = map fst (map tx_core ys)"
    and "map (fst \<circ> snd) (map tx_core xs) = map (fst \<circ> snd) (map tx_core ys)"
    using assms by simp_all
  then show "map tx_id xs = map tx_id ys" and "map tx_idempotency_key xs = map tx_idempotency_key ys"
    by (simp_all add: comp_def tx_core_def)
qed

lemma same_rf_core:
  assumes "map rf_core xs = map rf_core ys"
  shows "map rf_idempotency_key xs = map rf_idempotency_key ys"
    and "map rf_refund_reference xs = map rf_refund_reference ys"
proof -
  have "map (fst \<circ> snd \<circ> snd) (map rf_core xs) = map (fst \<circ> snd \<circ> snd) (map rf_core ys)"
    and "map (fst \<circ> snd) (map rf_core xs) = map (fst \<circ> snd) (map rf_core ys)"
    using assms by simp_all
  then show "map rf_idempotency_key xs = map rf_idempotency_key ys"
    and "map rf_refund_reference xs = map rf_refund_reference ys"
    by (simp_all add: comp_def rf_core_def)
qed

lemma records_kept_same_cores:
  assumes "db_users d' = db_users d" and "db_challenges d' = db_challenges d" and "db_links d' = db_links d"
    and "db_accounts d' = db_accounts d" and "prefix (db_ledger d) (db_ledger d')" and "db_events d' = db_events d"
    and "records_ok d \<Longrightarrow> one_task_each d'"
    and "records_ok d \<Longrightarrow> map tx_core (db_transactions d') = map tx_core (db_transactions d)"
    and "records_ok d \<Longrightarrow> map rf_core (db_refunds d') = map rf_core (db_refunds d)"
  shows "records_kept d d'"
proof -
  have "records_ok d'" if ok: "records_ok d"
    using ok assms same_tx_core [OF assms(8) [OF ok]] same_rf_core [OF assms(9) [OF ok]]
    by (simp add: records_ok_def users_ok_def links_ok_def one_account_each_def distinct_refund_keys_def)
  then show ?thesis using assms by (simp add: records_kept_def)
qed

subsection \<open>What each session writes\<close>

text \<open>The authentication routes write users and challenges only.\<close>

definition account_write :: "db \<Rightarrow> db \<Rightarrow> bool" where
  "account_write d d' \<longleftrightarrow>
     db_transactions d' = db_transactions d \<and> db_links d' = db_links d \<and> db_accounts d' = db_accounts d
   \<and> db_positions d' = db_positions d \<and> db_ledger d' = db_ledger d \<and> db_events d' = db_events d
   \<and> db_reconciliations d' = db_reconciliations d \<and> db_refunds d' = db_refunds d"

lemma account_write_simps [simp]:
  "account_write d d"
  "account_write d (d' \<lparr> db_challenges := cs \<rparr>) = account_write d d'"
  "account_write d (d' \<lparr> db_users := us \<rparr>) = account_write d d'"
  "account_write d (save_user u d') = account_write d d'"
  "account_write d (save_challenge c d') = account_write d d'"
  by (simp_all add: account_write_def save_user_def save_challenge_def)

lemma account_write_add: "add_user u d1 = Some d2 \<Longrightarrow> account_write d d2 = account_write d d1"
  by (auto simp: add_user_def split: if_splits)

lemma account_write_send: "account_write d (snd (send_challenge st now c code sent fl d))"
  by (auto simp: send_challenge_def Let_def split: option.split sum.split unit.split)

lemma account_write_try: "try_code st now dg c d = (out, d1) \<Longrightarrow> account_write d d1"
  by (auto simp: try_code_def Let_def split: option.splits if_splits)

lemma account_write_mobile: "account_write d (snd (mobile_user st f now r d))"
  by (auto simp: mobile_user_def account_write_add split: sum.split option.split)

lemma auth_step_write: "account_write d (auth_step E ev d)"
proof (cases ev)
  case RequestSignup
  then show ?thesis by (simp add: request_signup_otp_def Let_def account_write_send)
next
  case RequestPhone
  then show ?thesis
    by (simp add: request_phone_otp_def Let_def account_write_send split: sum.split option.split)
next
  case (VerifySignup fresh now r)
  then show ?thesis
    by (auto simp: verify_signup_otp_def Let_def account_write_add
        split: prod.split sum.split option.split dest: account_write_try)
next
  case (VerifyPhone now r uid)
  then show ?thesis
    by (auto simp: verify_phone_otp_def Let_def split: prod.split sum.split option.split dest: account_write_try)
next
  case SubmitKyc
  then show ?thesis by (simp add: submit_kyc_def Let_def split: sum.split option.split)
next
  case Register
  then show ?thesis
    by (auto simp: register_def Let_def account_write_add split: sum.split option.split)
next
  case (Exchange f now r secret)
  then show ?thesis
    using account_write_mobile [of d "ae_settings E" f now r]
    by (auto simp: exchange_mobile_oauth_def split: prod.split sum.split)
qed

lemma auth_step_records: "records_kept d (auth_step E ev d)"
proof -
  have w: "account_write d (auth_step E ev d)" by (rule auth_step_write)
  have "distinct (map ch_id (db_challenges (auth_step E ev d)))"
    if "distinct (map ch_id (db_challenges d))"
    using auth_step_move [of E ev d] that by cases auto
  moreover have "users_ok (auth_step E ev d)" if "users_ok d" using that by (rule users_ok_step)
  ultimately show ?thesis using w
    by (simp add: account_write_def records_kept_def records_ok_def links_ok_def one_account_each_def
      one_task_each_def distinct_refund_keys_def)
qed

text \<open>The broker routes write links only.\<close>

lemma serve_write: "\<exists>ls. snd (snd (serve st h now r w)) = (snd w) \<lparr> db_links := ls \<rparr>"
proof -
  have same: "\<exists>ls. d = d \<lparr> db_links := ls \<rparr>" for d :: db by (rule exI [of _ "db_links d"]) simp
  have "\<exists>ls. d' = d \<lparr> db_links := ls \<rparr>" if "store_link l d = Some d'" for l d d'
    using that by (auto simp: store_link_def split: if_splits)
  with same show ?thesis
    by (cases w; cases r)
      (auto simp: link_broker_account_def split: prod.split sum.split option.split)
qed

lemma broker_records: "records_kept d (snd (snd (serve st h now r (s, d))))"
proof -
  let ?d = "snd (snd (serve st h now r (s, d)))"
  obtain ls where d': "?d = d \<lparr> db_links := ls \<rparr>" using serve_write [of st h now r "(s, d)"] by auto
  have "links_ok d \<Longrightarrow> links_ok ?d" using serve_links_ok [of "(s, d)"] by simp
  then show ?thesis unfolding d'
    by (simp add: records_kept_def records_ok_def users_ok_def one_account_each_def
      one_task_each_def distinct_refund_keys_def)
qed

text \<open>A webhook appends an event, and its commit moves payments, refunds and tasks and books debits.\<close>

lemma merged_records:
  assumes "merged view cur d" and "one_task_each view"
  shows "records_kept cur d"
proof (rule records_kept_same_cores)
  show "prefix (db_ledger cur) (db_ledger d)" using assms(1) by (auto simp: merged_def)
  show "one_task_each d" if "records_ok cur" using assms that by (simp add: merged_def records_ok_def)
qed (use assms(1) in \<open>simp_all add: merged_def\<close>)

interpretation record_hooks: webhook_relation records_kept
proof unfold_locales
  show "records_kept d d2" if "records_kept d d1" "records_kept d1 d2" for d d1 d2
    using that by (rule records_kept_trans)
  show "records_kept d (stored_event e d)" if "we_event_id e \<notin> we_event_id ` set (db_events d)" for e d
    using that by (simp add: stored_event_def records_kept_def records_ok_def users_ok_def links_ok_def
      one_account_each_def one_task_each_def distinct_refund_keys_def)
  show "records_kept d (set_event i f d)" if "\<And>x. we_event_id (f x) = we_event_id x" for i f d
  proof -
    have "we_event_id ` set (db_events (set_event i f d)) = we_event_id ` set (db_events d)
      \<and> map we_event_id (db_events (set_event i f d)) = map we_event_id (db_events d)"
      by (simp add: set_event_def split: option.split flip: set_map)
    then show ?thesis by (simp add: records_kept_def records_ok_def users_ok_def links_ok_def
      one_account_each_def one_task_each_def distinct_refund_keys_def)
  qed
  show "records_kept d d'"
    if merged: "merged (session_view pz d) (at_commit pz d) d'" and "\<And>x. records_kept x (ps_before pz x)"
      "\<And>x. records_kept x (ps_load pz x)" "\<And>x. records_kept x (ps_lookup pz x)" "\<And>x. records_kept x (ps_during pz x)"
    for pz d d'
  proof (cases "records_ok d")
    case True
    let ?s3 = "ps_lookup pz (ps_load pz (ps_before pz d))"
    have s3: "records_kept d ?s3"
      by (rule records_kept_trans [OF records_kept_trans [OF that(2,3)] that(4)])
    then have "records_ok ?s3" using True by (simp add: records_kept_def)
    then have "one_task_each (session_view pz d)"
      by (simp add: records_ok_def one_task_each_def session_view_def Let_def)
    with merged have "records_kept (at_commit pz d) d'" by (rule merged_records)
    moreover have "records_kept d (at_commit pz d)"
      unfolding at_commit_def using s3 that(5) by (rule records_kept_trans)
    ultimately show ?thesis by (rule records_kept_trans [rotated])
  qed (simp add: records_kept_def)
qed simp

text \<open>A worker's commit moves tasks and payments.\<close>

lemma settle_transaction_core [simp]: "tx_core (settle_transaction now p s tx) = tx_core tx"
  by (simp add: settle_transaction_def Let_def tx_core_def)

lemma core_metadata [simp]: "tx_core (tx \<lparr> tx_metadata := m \<rparr>) = tx_core tx"
  by (simp add: tx_core_def)

lemma core_update:
  assumes "row_lookup tx_id k rows = Some tx" and "tx_core tx' = tx_core tx" and "distinct (map tx_id rows)"
  shows "map tx_core (row_update tx_id tx' rows) = map tx_core rows"
  using assms(3) row_lookup_SomeD [OF assms(1)] assms(2) by (intro map_row_update [where r = tx]) (simp_all add: tx_core_def)

text \<open>The tables a worker never writes.\<close>

definition others_same :: "db \<Rightarrow> db \<Rightarrow> bool" where
  "others_same d d' \<longleftrightarrow>
     db_users d' = db_users d \<and> db_challenges d' = db_challenges d \<and> db_links d' = db_links d
   \<and> db_accounts d' = db_accounts d \<and> db_ledger d' = db_ledger d \<and> db_events d' = db_events d
   \<and> db_refunds d' = db_refunds d"

lemma others_same_refl [simp]: "others_same d d"
  by (simp add: others_same_def)

lemma claim_others [simp]: "others_same d (snd (claim_due free now w d))"
  by (simp add: claim_due_def others_same_def Let_def split: option.split)

lemma apply_others: "apply_poll now tid p d = Inr d' \<Longrightarrow> others_same d d'"
  by (auto simp: apply_poll_def others_same_def Let_def elim!: bindE_InrE split: option.splits)

lemma enqueue_others: "enqueue_reconciliation now tx data d = Inr (t, d') \<Longrightarrow> others_same d d'"
  by (erule enqueue_InrE) (simp add: others_same_def)

lemma worker_step_others: "others_same d (worker_step e d)"
  by (cases e) (auto split: sum.split option.split dest: apply_others enqueue_others)

lemma apply_cores:
  assumes "apply_poll now tid p d = Inr d'" and "distinct (map tx_id (db_transactions d))"
  shows "map tx_core (db_transactions d') = map tx_core (db_transactions d)"
  using assms(1)
proof (cases rule: apply_poll_InrE)
  case (task t)
  then show ?thesis
    using assms(2) by (auto simp: core_update split: option.split)
qed simp

lemma enqueue_cores:
  assumes "enqueue_reconciliation now tx data d = Inr (t, d')" and "row_lookup tx_id k (db_transactions d) = Some tx"
    and "distinct (map tx_id (db_transactions d))"
  shows "map tx_core (db_transactions d') = map tx_core (db_transactions d)"
  using assms(1)
proof (rule enqueue_InrE)
  fix rows md
  assume "d' = d \<lparr> db_reconciliations := rows,
      db_transactions := row_update tx_id (tx \<lparr> tx_metadata := md \<rparr>) (db_transactions d) \<rparr>"
  then show ?thesis using assms(2,3) by (simp add: core_update)
qed

lemma worker_step_cores:
  assumes "distinct (map tx_id (db_transactions d))"
  shows "map tx_core (db_transactions (worker_step e d)) = map tx_core (db_transactions d)"
  using assms by (cases e) (auto split: sum.split option.split dest: apply_cores enqueue_cores)

lemma worker_records: "records_kept d (worker_step e d)"
  using worker_step_others [of d e] worker_step_cores [of d e] worker_step_one_task [of d e]
  by (intro records_kept_same_cores) (simp_all add: others_same_def records_ok_def)

text \<open>The routes with several commits: an account, a payment, a journal entry or a refund is added.\<close>

lemma add_account_records:
  assumes "row_insert va_user_id a (db_accounts d) = Some rows"
  shows "records_kept d (d \<lparr> db_accounts := rows \<rparr>)"
  using assms accts.ins_distinct [OF assms]
  by (auto simp: row_insert_def records_kept_def records_ok_def users_ok_def links_ok_def one_account_each_def
      one_task_each_def distinct_refund_keys_def split: if_splits)

lemma add_transaction_records:
  assumes "add_transaction t d = Some d'"
  shows "records_kept d d'"
  using assms
  by (simp add: add_transaction_Some_iff records_kept_def records_ok_def users_ok_def links_ok_def
    one_account_each_def one_task_each_def distinct_refund_keys_def)

lemma journal_records: "records_kept d (d \<lparr> db_ledger := db_ledger d @ [e] \<rparr>)"
  by (simp add: records_kept_def records_ok_def users_ok_def links_ok_def one_account_each_def one_task_each_def
    distinct_refund_keys_def)

lemma add_refund_records:
  assumes "row_insert rf_idempotency_key rf (db_refunds d) = Some rows"
    and "rf_refund_reference rf \<notin> rf_refund_reference ` set (db_refunds d)"
  shows "records_kept d (d \<lparr> db_refunds := rows \<rparr>)"
  using assms rfds.ins_distinct [OF assms(1)]
  by (auto simp: row_insert_def records_kept_def records_ok_def users_ok_def links_ok_def one_account_each_def
      one_task_each_def distinct_refund_keys_def split: if_splits)

lemma update_refund_records:
  assumes "\<And>x. rf_core (f x) = rf_core x"
  shows "records_kept d (update_refund k f d)"
  by (rule records_kept_same_cores)
    (use assms in \<open>simp_all add: update_refund_def records_ok_def one_task_each_def\<close>)

lemma update_transaction_records:
  assumes "\<And>x. tx_core (g x) = tx_core x"
  shows "records_kept d (update_transaction i g d)"
  by (rule records_kept_same_cores)
    (use assms in \<open>simp_all add: update_transaction_def records_ok_def one_task_each_def\<close>)

subsection \<open>The whole system\<close>

interpretation records: system_relation records_kept E "\<lambda>_. True" for E :: "'tok system_env"
proof unfold_locales
  show "records_kept d d2" if "records_kept d d1" "records_kept d1 d2" for d d1 d2
    using that by (rule records_kept_trans)
  show "records_kept d (update_transaction i g d)"
    if "\<And>x. \<exists>m. g x = x \<lparr> tx_metadata := m \<rparr>" for d i g
    by (rule update_transaction_records) (use that core_metadata in metis)
  show "records_kept d (system_step E (WebhookDelivery fresh now w b1 b2 b3 b4) d)"
    if "\<And>b x. b \<in> {b1, b2, b3, b4} \<Longrightarrow> records_kept x (run (system_step E) b x)" for fresh now w b1 b2 b3 b4 d
    unfolding system_step.simps by (rule record_hooks.webhook_kept) (simp_all add: that)
qed (simp_all add: add_account_records add_transaction_records journal_records
    add_refund_records update_refund_records auth_step_records broker_records worker_records)

text \<open>The debits of refunds and payouts are booked by signed deliveries only.\<close>

definition same_debits :: "db \<Rightarrow> db \<Rightarrow> bool" where
  "same_debits d d' \<longleftrightarrow> filter kora_debit (db_ledger d') = filter kora_debit (db_ledger d)"

lemma same_debits_same: "db_ledger d' = db_ledger d \<Longrightarrow> same_debits d d'"
  by (simp add: same_debits_def)

lemma auth_step_ledger: "db_ledger (auth_step A ev d) = db_ledger d"
  using auth_step_write [of d A ev] by (simp add: account_write_def)

lemma serve_ledger: "db_ledger (snd (snd (serve st h now r (s, d)))) = db_ledger d"
  using serve_write [of st h now r "(s, d)"] by auto

lemma worker_step_ledger: "db_ledger (worker_step e d) = db_ledger d"
  using worker_step_others [of d e] by (simp add: others_same_def)

lemma add_transaction_ledger: "add_transaction t d = Some d' \<Longrightarrow> db_ledger d' = db_ledger d"
  by (auto simp: add_transaction_Some_iff)

lemmas same_ledger = auth_step_ledger serve_ledger worker_step_ledger add_transaction_ledger
  update_refund_def update_transaction_def

interpretation unsigned_debits: system_relation same_debits E "\<lambda>ev. \<not> signed_delivery E ev" for E :: "'tok system_env"
proof unfold_locales
  show "same_debits d (system_step E (WebhookDelivery fresh now w b1 b2 b3 b4) d)"
    if "\<not> signed_delivery E (WebhookDelivery fresh now w b1 b2 b3 b4)" for fresh now w b1 b2 b3 b4 d
    unfolding unsigned_delivery [OF that] by (simp add: same_debits_def)
qed (simp_all add: same_debits_def same_ledger)

text \<open>No signed delivery is handled between another one's lookup in the ledger and its commit.\<close>

fun debits_alone :: "'tok system_env \<Rightarrow> system_event \<Rightarrow> bool" where
  "debits_alone E (WebhookDelivery fresh now r b1 b2 b3 b4) \<longleftrightarrow>
     list_all (\<lambda>ev. \<not> signed_delivery E ev) (all_events b4)"
| "debits_alone E ev \<longleftrightarrow> True"

definition debits_kept :: "db \<Rightarrow> db \<Rightarrow> bool" where
  "debits_kept d d' \<longleftrightarrow> (one_debit_each d \<longrightarrow> one_debit_each d')"

lemma debits_kept_same: "same_debits d d' \<Longrightarrow> debits_kept d d'"
  by (simp add: same_debits_def debits_kept_def one_debit_each_def)

lemma debits_kept_trans: "debits_kept d d1 \<Longrightarrow> debits_kept d1 d2 \<Longrightarrow> debits_kept d d2"
  by (simp add: debits_kept_def)

lemma webhook_debits_kept:
  assumes b: "\<And>x. debits_kept x (ps_before pz x)" "\<And>x. debits_kept x (ps_load pz x)"
      "\<And>x. debits_kept x (ps_lookup pz x)" "\<And>x. same_debits x (ps_during pz x)"
  shows "debits_kept d (fst (snd (kora_webhook hm sh st pz fresh now r d)))"
proof -
  obtain res d' al where w: "kora_webhook hm sh st pz fresh now r d = (res, d', al)" by (rule prod_cases3)
  from w have "debits_kept d d'"
  proof (cases rule: kora_webhook_cases)
    case (stored body data e f d2)
    let ?d1 = "stored_event e d" and ?cur = "at_commit pz (stored_event e d)"
    let ?s3 = "ps_lookup pz (ps_load pz (ps_before pz ?d1))"
    have d1: "debits_kept d ?d1" by (simp add: debits_kept_def stored_event_def one_debit_each_def)
    have s3: "debits_kept ?d1 ?s3" by (rule debits_kept_trans [OF debits_kept_trans [OF b(1,2)] b(3)])
    have view: "filter kora_debit (db_ledger ?cur) = filter kora_debit (db_ledger (session_view pz ?d1))"
      using b(4) [of ?s3] by (simp add: same_debits_def at_commit_def session_view_def Let_def)
    have cur: "debits_kept d ?cur"
      using debits_kept_trans [OF debits_kept_trans [OF d1 s3] debits_kept_same [OF b(4)]]
      by (simp add: at_commit_def)
    from stored(7) have "debits_kept ?cur d2"
      using merged_one_debit [OF _ _ view] by (auto simp: debits_kept_def)
    with cur show "debits_kept d d'" by (simp add: debits_kept_def one_debit_each_def stored(6))
  qed (simp add: debits_kept_def)
  then show ?thesis by (simp add: w)
qed

interpretation single_debits: system_relation debits_kept E "debits_alone E" for E :: "'tok system_env"
proof unfold_locales
  show "debits_kept d (system_step E (WebhookDelivery fresh now w b1 b2 b3 b4) d)"
    if alone: "debits_alone E (WebhookDelivery fresh now w b1 b2 b3 b4)"
      and kept: "\<And>b x. b \<in> {b1, b2, b3, b4} \<Longrightarrow> debits_kept x (run (system_step E) b x)" for fresh now w b1 b2 b3 b4 d
    unfolding system_step.simps
    by (rule webhook_debits_kept) (use alone in \<open>simp_all add: kept unsigned_debits.system_kept\<close>)
qed (simp_all add: debits_kept_def one_debit_each_def same_ledger)


section \<open>Refunds in the running system\<close>

lemma refunds_kept_cores:
  assumes "map rf_core (db_refunds d') = map rf_core (db_refunds d)"
  shows "refunds_kept d d'"
proof -
  have look: "\<exists>b. row_lookup rf_idempotency_key k xs = Some b \<and> rf_amount b = rf_amount a
        \<and> rf_transaction_id b = rf_transaction_id a"
    if "map rf_core xs = map rf_core ys" "row_lookup rf_idempotency_key k ys = Some a" for k a and xs ys :: "refund list"
    using that
  proof (induction xs arbitrary: ys)
    case (Cons x xs)
    then obtain y ys' where ys: "ys = y # ys'" by (cases ys) auto
    with Cons.prems have x: "rf_core x = rf_core y" and xs: "map rf_core xs = map rf_core ys'" by simp_all
    from x have "rf_idempotency_key x = rf_idempotency_key y" "rf_amount x = rf_amount y"
      "rf_transaction_id x = rf_transaction_id y" by (simp_all add: rf_core_def)
    with Cons.prems(2) Cons.IH [OF xs] show ?case by (auto simp: ys split: if_splits)
  qed simp
  show ?thesis
    using look [OF assms] same_rf_core(1) [OF assms] by (simp add: refunds_kept_def distinct_refund_keys_def)
qed

interpretation refund_hooks: webhook_relation refunds_kept
proof unfold_locales
  show "refunds_kept d d2" if "refunds_kept d d1" "refunds_kept d1 d2" for d d1 d2
    using that by (rule refunds_kept_trans)
  show "refunds_kept d d'"
    if merged: "merged (session_view pz d) (at_commit pz d) d'" and "\<And>x. refunds_kept x (ps_before pz x)"
      "\<And>x. refunds_kept x (ps_load pz x)" "\<And>x. refunds_kept x (ps_lookup pz x)" "\<And>x. refunds_kept x (ps_during pz x)"
    for pz d d'
  proof -
    have "refunds_kept d (at_commit pz d)" unfolding at_commit_def
      by (rule refunds_kept_trans [OF refunds_kept_trans [OF refunds_kept_trans [OF that(2,3)] that(4)] that(5)])
    moreover have "refunds_kept (at_commit pz d) d'"
      using merged by (intro refunds_kept_cores) (simp add: merged_def)
    ultimately show ?thesis by (rule refunds_kept_trans)
  qed
qed (simp_all add: refunds_kept_cores stored_event_def)

interpretation refunds: system_relation refunds_kept E "\<lambda>_. True" for E :: "'tok system_env"
proof unfold_locales
  show "refunds_kept d (auth_step (sy_auth E) ev d)" for d ev
    using auth_step_write [of d "sy_auth E" ev] by (intro refunds_kept_cong) (simp add: account_write_def)
  show "refunds_kept d (snd (snd (serve st h now r (s, d))))" for st h now r s d
    using serve_write [of st h now r "(s, d)"] by (intro refunds_kept_cong) auto
  show "refunds_kept d (worker_step e d)" for e d
    using worker_step_others [of d e] by (intro refunds_kept_cong) (simp add: others_same_def)
  show "refunds_kept d d'" if "add_transaction t d = Some d'" for t d d'
    using that by (intro refunds_kept_cong) (auto simp: add_transaction_Some_iff)
  show "refunds_kept d d2" if "refunds_kept d d1" "refunds_kept d1 d2" for d d1 d2
    using that by (rule refunds_kept_trans)
  show "refunds_kept d (system_step E (WebhookDelivery fresh now w b1 b2 b3 b4) d)"
    if "\<And>b x. b \<in> {b1, b2, b3, b4} \<Longrightarrow> refunds_kept x (run (system_step E) b x)" for fresh now w b1 b2 b3 b4 d
    unfolding system_step.simps by (rule refund_hooks.webhook_kept) (simp_all add: that)
qed (auto intro: refunds_kept_insert refunds_kept_update refunds_kept_cong)

text \<open>The premise of \<open>refund_once_per_key\<close> holds of everything the system can do during the call.\<close>

lemma refund_once_in_the_system:
  assumes "distinct_refund_keys d"
    and "kora_refund_route sh st h now (run (system_step E) evs) tid r hs u d = (res, d1)"
    and "kora_refund_route sh st h' now (run (system_step E) evs) tid r hs u d \<noteq> (res, d1)"
    and "d2 = run (system_step E) later d1" and "refund_key hs' = refund_key hs"
  shows "kora_refund_route sh st h1 now' mw tid' r' hs' u' d2 = kora_refund_route sh st h2 now' mw tid' r' hs' u' d2
    \<and> snd (kora_refund_route sh st h1 now' mw tid' r' hs' u' d2) = d2"
proof -
  have keep: "refunds_kept x (run (system_step E) evs x)" for evs x
    by (rule refunds.system_kept) (simp add: list_all_iff)
  obtain rf where "row_lookup rf_idempotency_key (refund_key hs) (db_refunds d1) = Some rf"
    using refund_once(1) [OF assms(1) keep assms(2,3)] by blast
  moreover have "distinct_refund_keys d1"
    using refunds.refund_kept [OF assms(2) keep] assms(1) by (simp add: refunds_kept_def)
  ultimately obtain rf' where "distinct_refund_keys d2"
    "row_lookup rf_idempotency_key (refund_key hs') (db_refunds d2) = Some rf'"
    using keep [where x = d1 and evs = later] unfolding assms(4,5) refunds_kept_def by blast
  then have replay: "execute_refund sh st h now' mw r' (refund_key hs') tx pref amount d2 = (Inr (refund_replay rf'), d2)"
    for h tx pref amount by (rule execute_refund_replay)
  obtain res' d3 where run: "kora_refund_route sh st h1 now' mw tid' r' hs' u' d2 = (res', d3)" by fastforce
  then show ?thesis
  proof (cases rule: kora_refund_route_cases)
    case idle
    then show ?thesis using run by simp
  next
    case (execute tx pref amount)
    then show ?thesis using replay by simp
  qed
qed

section \<open>Where money moves\<close>

text \<open>Settled payments stay, and the ledger grows by entries of nought only.\<close>

definition money_still :: "db \<Rightarrow> db \<Rightarrow> bool" where
  "money_still d d' \<longleftrightarrow>
     (\<forall>i v. settled i d = Some v \<longrightarrow> settled i d' = Some v)
   \<and> (\<exists>es. db_ledger d' = db_ledger d @ es \<and> list_all (\<lambda>e. le_amount e = Dec 0 0) es)"

lemma money_still_same:
  "db_transactions d' = db_transactions d \<Longrightarrow> db_ledger d' = db_ledger d \<Longrightarrow> money_still d d'"
  by (simp add: money_still_def settled_def)

lemma money_still_trans: "money_still d d1 \<Longrightarrow> money_still d1 d2 \<Longrightarrow> money_still d d2"
  unfolding money_still_def by auto

lemma settled_append: "settled i d = Some v \<Longrightarrow> db_transactions d' = db_transactions d @ ts \<Longrightarrow> settled i d' = Some v"
  by (auto simp: settled_def row_lookup_append split: option.splits)

lemma settled_note:
  assumes "\<And>x. \<exists>m. g x = x \<lparr> tx_metadata := m \<rparr>"
  shows "settled i (update_transaction k g d) = settled i d"
proof -
  have g: "tx_id (g x) = tx_id x" "tx_status (g x) = tx_status x" "tx_settled_at (g x) = tx_settled_at x" for x
    using assms [of x] by auto
  have "row_lookup tx_id i (map (\<lambda>x. if tx_id x = k then g x else x) xs)
      = map_option (\<lambda>x. if tx_id x = k then g x else x) (row_lookup tx_id i xs)" for xs
    by (induction xs) (auto simp: g)
  then show ?thesis by (auto simp: settled_def update_transaction_def g split: option.split)
qed

interpretation still: system_relation money_still E "\<lambda>ev. \<not> signed_delivery E ev" for E :: "'tok system_env"
proof unfold_locales
  show "money_still d (auth_step (sy_auth E) ev d)" for d ev
    using auth_step_write [of d "sy_auth E" ev] by (intro money_still_same) (simp_all add: account_write_def)
  show "money_still d (snd (snd (serve st h now r (s, d))))" for st h now r s d
    using serve_write [of st h now r "(s, d)"] by (intro money_still_same) auto
  show "money_still d (worker_step e d)" for e d
    using worker_step_others [of d e] by (simp add: money_still_def others_same_def worker_step_settled)
  show "money_still d d'" if "add_transaction t d = Some d'" for t d d'
    using that by (auto simp: add_transaction_Some_iff money_still_def intro: settled_append)
  show "money_still d (update_transaction i g d)" if "\<And>x. \<exists>m. g x = x \<lparr> tx_metadata := m \<rparr>" for d i g
    using settled_note [OF that] by (simp add: money_still_def update_transaction_def)
  show "money_still d (d \<lparr> db_ledger := db_ledger d @ [e] \<rparr>)" if "le_amount e = Dec 0 0" for d e
    using that by (simp add: money_still_def settled_def)
  show "money_still d (system_step E (WebhookDelivery fresh now w b1 b2 b3 b4) d)"
    if "\<not> signed_delivery E (WebhookDelivery fresh now w b1 b2 b3 b4)" for fresh now w b1 b2 b3 b4 d
    unfolding unsigned_delivery [OF that] by (simp add: money_still_same)
  show "money_still d d2" if "money_still d d1" "money_still d1 d2" for d d1 d2
    using that by (rule money_still_trans)
qed (simp_all add: money_still_same update_refund_def)

text \<open>The completed payments.\<close>

definition completed :: "db \<Rightarrow> uuid set" where
  "completed d = tx_id ` {t \<in> set (db_transactions d). tx_status t = COMPLETED}"

definition none_completed :: "db \<Rightarrow> db \<Rightarrow> bool" where
  "none_completed d d' \<longleftrightarrow> completed d' \<subseteq> completed d"

lemma none_completed_same: "db_transactions d' = db_transactions d \<Longrightarrow> none_completed d d'"
  by (simp add: none_completed_def completed_def)

lemma none_completed_update:
  assumes "tx \<in> set (db_transactions d)" and "tx_id tx' = tx_id tx"
    and "tx_status tx' = COMPLETED \<Longrightarrow> tx_status tx = COMPLETED"
    and "db_transactions d' = row_update tx_id tx' (db_transactions d)"
  shows "none_completed d d'"
  unfolding none_completed_def completed_def assms(4)
  using assms(1-3) by (fastforce dest!: in_row_updateD)

lemma settle_completes:
  "tx_status (settle_transaction now p s tx) = COMPLETED \<Longrightarrow>
     po_normalized p = ''completed'' \<or> tx_status tx = COMPLETED"
  by (auto simp: settle_transaction_def Let_def split: if_splits)

lemma worker_none_completed:
  assumes "\<not> reports_success E (WorkerCommit e)"
  shows "none_completed d (worker_step e d)"
proof (cases e)
  case (Claim free now w)
  then show ?thesis by (simp add: none_completed_same)
next
  case (Apply now i p)
  show ?thesis
  proof (cases "apply_poll now i p d")
    case (Inr d')
    then have "none_completed d d'"
    proof (cases rule: apply_poll_InrE)
      case (task t)
      show ?thesis
      proof (cases "row_lookup tx_id i (db_transactions d)")
        case (Some tx)
        with task(4) assms Apply row_lookup_SomeD [OF Some] settle_completes show ?thesis
          by (intro none_completed_update [of tx]) auto
      qed (use task(4) in \<open>simp add: none_completed_same\<close>)
    qed (simp add: none_completed_same)
    then show ?thesis by (simp add: Apply Inr)
  qed (simp add: Apply none_completed_same)
next
  case (Enqueue now k data)
  have "none_completed d d'"
    if "row_lookup tx_id k (db_transactions d) = Some tx" "enqueue_reconciliation now tx data d = Inr (t, d')"
    for tx t d'
    using that(2)
  proof (rule enqueue_InrE)
    fix rows md
    assume "d' = d \<lparr> db_reconciliations := rows,
        db_transactions := row_update tx_id (tx \<lparr> tx_metadata := md \<rparr>) (db_transactions d) \<rparr>"
    with row_lookup_SomeD [OF that(1)] show ?thesis
      by (intro none_completed_update [of tx _ "tx \<lparr> tx_metadata := md \<rparr>"]) simp_all
  qed
  then show ?thesis by (auto simp: Enqueue none_completed_same split: sum.split option.split)
qed

interpretation completing: system_relation none_completed E "\<lambda>ev. \<not> reports_success E ev" for E :: "'tok system_env"
proof unfold_locales
  show "none_completed d (auth_step (sy_auth E) ev d)" for d ev
    using auth_step_write [of d "sy_auth E" ev] by (intro none_completed_same) (simp add: account_write_def)
  show "none_completed d (snd (snd (serve st h now r (s, d))))" for st h now r s d
    using serve_write [of st h now r "(s, d)"] by (intro none_completed_same) auto
  show "none_completed d (worker_step e d)" if "\<not> reports_success E (WorkerCommit e)" for e d
    using that by (rule worker_none_completed)
  show "none_completed d d'" if "add_transaction t d = Some d'" "tx_status t \<in> {PENDING, PROCESSING, FAILED}" for t d d'
    using that by (auto simp: add_transaction_Some_iff none_completed_def completed_def)
  show "none_completed d (update_transaction i g d)" if "\<And>x. \<exists>m. g x = x \<lparr> tx_metadata := m \<rparr>" for d i g
  proof -
    have g: "tx_id (g x) = tx_id x" "tx_status (g x) = tx_status x" for x using that [of x] by auto
    show ?thesis by (force simp: none_completed_def completed_def update_transaction_def g split: if_splits)
  qed
  show "none_completed d (system_step E (WebhookDelivery fresh now w b1 b2 b3 b4) d)"
    if "\<not> reports_success E (WebhookDelivery fresh now w b1 b2 b3 b4)" for fresh now w b1 b2 b3 b4 d
    using unsigned_delivery [of E fresh now w b1 b2 b3 b4 d] that by (simp add: none_completed_same del: system_step.simps)
  show "none_completed d d2" if "none_completed d d1" "none_completed d1 d2" for d d1 d2
    using that by (simp add: none_completed_def)
qed (simp_all add: none_completed_same update_refund_def)

lemma credits_less_debits_append:
  "credits_less_debits (xs @ ys) = credits_less_debits xs + credits_less_debits ys"
  by (simp add: credits_less_debits_def)

text \<open>
  Claim C1. Money moves on Kora's word only, whatever requests arrive and however they interrupt each
  other: in a run without a delivery that carries Kora's signature no completed or refunded payment
  changes its status or its settlement time and no account's balance changes; and if moreover no poll
  of the worker reports success, no payment becomes completed.
\<close>

theorem money_moves_on_kora_evidence:
  assumes "d' = run (system_step E) evs d"
  shows "(list_all (\<lambda>ev. \<not> signed_delivery E ev) (all_events evs) \<longrightarrow>
            (\<forall>i v. settled i d = Some v \<longrightarrow> settled i d' = Some v)
          \<and> (\<forall>a. credits_less_debits (entries_of a d') = credits_less_debits (entries_of a d)))
    \<and> (list_all (\<lambda>ev. \<not> reports_success E ev) (all_events evs) \<longrightarrow> completed d' \<subseteq> completed d)"
proof (intro conjI impI)
  assume "list_all (\<lambda>ev. \<not> signed_delivery E ev) (all_events evs)"
  then have still: "money_still d d'" unfolding assms by (rule still.system_kept)
  then show "\<forall>i v. settled i d = Some v \<longrightarrow> settled i d' = Some v" by (simp add: money_still_def)
  have "credits_less_debits es = 0" if "list_all (\<lambda>e. le_amount e = Dec 0 0) es" for es
    using that by (induction es) (simp_all add: credits_less_debits_def dval_Dec)
  moreover obtain es where "db_ledger d' = db_ledger d @ es" "list_all (\<lambda>e. le_amount e = Dec 0 0) es"
    using still by (auto simp: money_still_def)
  ultimately show "\<forall>a. credits_less_debits (entries_of a d') = credits_less_debits (entries_of a d)"
    by (simp add: entries_of_def list_all_iff credits_less_debits_append)
next
  assume "list_all (\<lambda>ev. \<not> reports_success E ev) (all_events evs)"
  then have "none_completed d d'" unfolding assms by (rule completing.system_kept)
  then show "completed d' \<subseteq> completed d" by (simp add: none_completed_def)
qed

section \<open>A run\<close>

text \<open>
  A staging deployment, and a payout that another user's account and a payment's poll interrupt; then
  Kora reports the payout twice.
\<close>

definition demo_system :: "(jobj \<times> string) system_env" where
  "demo_system = \<lparr> sy_auth = otp_env \<lparr> ae_settings := staging_hook \<lparr> kora_webhook_secret := Some ''whsec'' \<rparr>,
       ae_hmac := demo_mac \<rparr>, sy_sha256 = (\<lambda>x. x) \<rparr>"

definition demo_payout :: system_event where
  "demo_payout = PayoutRequest kora_ok (sample_env ''x'') (sample_payout (Dec 5000 0) True) (Some ''CONFIRM'') ''u1''
     [OpenAccount ''a3'' 0 ''u1'' []]
     [OpenAccount ''a2'' 0 ''u2'' [], WorkerCommit (Apply 0 ''t1'' (demo_poll ''failed''))]"

definition demo_report :: "string \<Rightarrow> system_event" where
  "demo_report i = WebhookDelivery i 1000000 (delivery ''transfer.success'' (JStr i) (success_data ''afm-payout-x''))
     [] [] [] []"

definition demo_start :: db where
  "demo_start = (demo_db COMPLETED) \<lparr> db_users := [verified_user ''u1'' \<lparr> us_phone_verified_at := Some 1 \<rparr>] \<rparr>"

lemma demo_start_ok: "records_ok demo_start"
  by (simp add: records_ok_def demo_start_def demo_db_def sample_db_def empty_db_def users_ok_def subjects_ok_def
    user_ok_def verified_user_def links_ok_def one_account_each_def one_task_each_def distinct_refund_keys_def)


text \<open>Without the reports the payment that was completed stays so, and the payout is not completed.\<close>

lemma money_moves_on_kora_evidence_witness:
  "settled ''t1'' (run (system_step demo_system) [demo_payout] demo_start) = Some (COMPLETED, None)
   \<and> completed (run (system_step demo_system) [demo_payout] demo_start) \<subseteq> {''t1''}
   \<and> length (db_transactions (run (system_step demo_system) [demo_payout] demo_start)) = 2"
proof -
  have "po_normalized (demo_poll ''failed'') = ''failed''" unfolding demo_poll_def by code_simp
  then have "list_all (\<lambda>ev. \<not> signed_delivery demo_system ev) (all_events [demo_payout])"
    and "list_all (\<lambda>ev. \<not> reports_success demo_system ev) (all_events [demo_payout])"
    by (simp_all add: all_events_def demo_payout_def)
  note run = money_moves_on_kora_evidence [OF refl, of demo_system "[demo_payout]" demo_start, simplified this]
  have "settled ''t1'' demo_start = Some (COMPLETED, None)" "completed demo_start \<subseteq> {''t1''}"
    by (auto simp: demo_start_def demo_db_def sample_db_def settled_def completed_def sample_transaction_def)
  moreover have "length (db_transactions (run (system_step demo_system) [demo_payout] demo_start)) = 2" by code_simp
  ultimately show ?thesis using run by auto
qed

end
