(* ===== verification/Spec2Isabelle.thy ===== *)
theory Spec2Isabelle
  imports AFM_Prelude AFM_Errors AFM_Decimal AFM_Text AFM_Settings AFM_Telemetry AFM_Fees AFM_Models AFM_Router
    AFM_Http AFM_Kora_Client AFM_Aza_Client AFM_Nexus_Client AFM_Reconciliation AFM_Ledger
    AFM_Security AFM_Kora_Webhook AFM_Payout AFM_Refund AFM_Payment_Service
    AFM_Whatsapp AFM_Auth AFM_Auth_Facts AFM_Simulation AFM_Support AFM_Rate_Limit
    AFM_Platform AFM_Alpaca AFM_Instruments AFM_Broker AFM_Market
    AFM_Easymarkets AFM_Visa AFM_Worker AFM_Events AFM_Gateway
    AFM_Sandbox AFM_Db_Url AFM_Migrations AFM_Probes AFM_System
begin

text \<open>
  Africa Frontier Markets is a FastAPI gateway in Python: users authenticate, pay in, pay out and
  refund through payment service providers (Kora, AZA, Nexus, Fincra and others), hold a virtual
  account with a ledger, look at instruments and broker accounts at Alpaca, and receive callbacks
  of the providers.  A background worker reconciles pay-ins that stay undecided, a second process
  reads an event stream.  The state lives in PostgreSQL tables, Redis and a few in-memory caches.

  \<^bold>\<open>How the code is represented.\<close>  A handler is a function of its request, its environment
  (clock readings, fresh identifiers, random texts) and the database, to a result \<open>exn + 'a\<close> and the
  database left behind.  The database is the record \<open>db\<close>: one list of rows per table, unique columns
  checked by the insert.  A session that raises before its commit leaves the rows as they were; a
  handler with several commits is the composition of its sessions, and what other sessions commit in
  between is a parameter where it matters.  Between two awaits of such a handler a session is atomic:
  the anomalies that the isolation level of the database allows inside one are not represented.  Objects that were loaded in a closed session are values,
  and changing them changes no row.  Decimals are coefficient and exponent in the default context
  (28 digits, half-even), with \<^verbatim>\<open>quantize\<close> in both of its modes; Python integers are \<open>int\<close>; strings are
  ASCII; a time is a number of microseconds since the epoch; a JSON value is the datatype \<open>json\<close>, with
  objects as lists of members in order.

  \<^bold>\<open>The theories\<close>, with the files under \<^verbatim>\<open>src/\<close> they translate:

  \<^item> \<open>AFM_Prelude\<close>: sequencing of results, keyed tables (\<open>keyed_table\<close>), runs of a step function
    (\<open>invariant_machine\<close>, \<open>absorbing_machine\<close>), facts on lists and pages.
  \<^item> \<open>AFM_Errors\<close>: \<^verbatim>\<open>config/exceptions.py\<close> and every exception a handler meets.
  \<^item> \<open>AFM_Decimal\<close>, \<open>AFM_Text\<close>: \<^verbatim>\<open>decimal\<close>, strings, JSON, dates; \<open>rounding_mode\<close> is the contract of
    both rounding modes.
  \<^item> \<open>AFM_Settings\<close>: \<^verbatim>\<open>config/config.py\<close>.  \<open>AFM_Db_Url\<close>: \<^verbatim>\<open>common/db_url.py\<close> and the
    engine's arguments.
  \<^item> \<open>AFM_Models\<close>: \<^verbatim>\<open>payment_hub/models.py\<close>, with an interpretation of \<open>keyed_table\<close> per table.
  \<^item> \<open>AFM_Telemetry\<close>: \<^verbatim>\<open>config/telemetry.py\<close> and \<^verbatim>\<open>config/logging_config.py\<close>.
  \<^item> \<open>AFM_Fees\<close>: \<^verbatim>\<open>common/fx.py\<close>, \<^verbatim>\<open>revenue_engine/revenue_engine.py\<close>, \<^verbatim>\<open>easymarkets/dashboard_service.py\<close>
    and the fee of the payment service.
  \<^item> \<open>AFM_Router\<close>: \<^verbatim>\<open>payment_hub/psp_router.py\<close>.
  \<^item> \<open>AFM_Http\<close>, \<open>AFM_Kora_Client\<close>, \<open>AFM_Aza_Client\<close>, \<open>AFM_Nexus_Client\<close>, \<open>AFM_Alpaca\<close>,
    \<open>AFM_Whatsapp\<close>: the clients of \<^verbatim>\<open>payment_hub/\<close>, \<^verbatim>\<open>market_gateway/\<close> and \<^verbatim>\<open>api_gateway/whatsapp.py\<close>.
    A service is a function from the request to what arrives; \<open>guarded_call\<close> is the contract of a
    call that is refused before a request is made.
  \<^item> \<open>AFM_Payment_Service\<close>: \<^verbatim>\<open>payment_hub/payment_service.py\<close> as the interpreter builds the class, with
    its shadowed methods, and the payment routes.
  \<^item> \<open>AFM_Payout\<close>, \<open>AFM_Refund\<close>, \<open>AFM_Kora_Webhook\<close>, \<open>AFM_Ledger\<close>, \<open>AFM_Simulation\<close>,
    \<open>AFM_Instruments\<close>, \<open>AFM_Broker\<close>, \<open>AFM_Visa\<close>, \<open>AFM_Gateway\<close>: the routes of \<^verbatim>\<open>api_gateway/main.py\<close>,
    with \<^verbatim>\<open>kora_alerts.py\<close> and \<^verbatim>\<open>visa_webhooks.py\<close>.
  \<^item> \<open>AFM_Reconciliation\<close>, \<open>AFM_Worker\<close>: \<^verbatim>\<open>payment_hub/reconciliation.py\<close>, its sessions and its loop.
  \<^item> \<open>AFM_Security\<close>, \<open>AFM_Auth\<close>, \<open>AFM_Auth_Facts\<close>: \<^verbatim>\<open>config/security.py\<close> and \<^verbatim>\<open>api_gateway/auth.py\<close>.
  \<^item> \<open>AFM_Rate_Limit\<close>, \<open>AFM_Platform\<close>, \<open>AFM_Support\<close>, \<open>AFM_Events\<close>, \<open>AFM_Market\<close>, \<open>AFM_Easymarkets\<close>:
    \<^verbatim>\<open>config/rate_limit.py\<close>, \<^verbatim>\<open>platform_manager/\<close>, \<^verbatim>\<open>payment_hub/support_ai.py\<close>, \<^verbatim>\<open>event_bus/\<close>, the registry
    and the broker router of \<^verbatim>\<open>market_gateway/\<close>, and \<^verbatim>\<open>easymarkets/\<close>.
  \<^item> \<open>AFM_Sandbox\<close>: the sandbox runners of \<^verbatim>\<open>scripts/\<close>.  \<open>AFM_Probes\<close>: the operational probes there.
  \<^item> \<open>AFM_Migrations\<close>: \<^verbatim>\<open>alembic/versions/\<close>, the declarations of every table in the \<^verbatim>\<open>models.py\<close> files
    and \<^verbatim>\<open>init_db\<close> of \<^verbatim>\<open>config/database.py\<close>, as statements over a schema.
  \<^item> \<open>AFM_System\<close>: no code of its own, but the routes, the webhook and the worker as the events of one
    step function, \<open>system_step\<close>, where an event with several commits carries the events that other
    sessions commit in between.  \<open>write_relation\<close> and \<open>system_relation\<close> say which single writes a
    relation between two states has to allow to hold across every run; four relations are shown to.

  \<^bold>\<open>How the parts meet.\<close>  The transfer routes pass the verified-user gate and the monthly limit
  (\<open>AFM_Payout\<close>), the service charges the fee (\<open>AFM_Fees\<close>), chooses a provider (\<open>AFM_Router\<close>) and calls
  its client.  An undecided pay-in is enqueued for the worker; worker and webhook settle the same
  transaction rows, the webhook alone books the ledger.  \<open>AFM_System\<close> puts the writers of these
  tables together and lets them interrupt each other.  A failed round or event is classified by
  the support policy.  Tokens of \<open>AFM_Security\<close> are issued by \<open>AFM_Auth\<close> and demanded by every other
  route.  The published events are read by the worker of \<open>AFM_Events\<close>.

  \<^bold>\<open>What is shown.\<close>  The system: whatever requests, deliveries and polls interleave, the unique columns
  stay unique and no record is lost or changes its owner or amount, and money moves on Kora's signed
  or polled word only.  Reconciliation: settled payments stay settled under any interleaving of
  workers, a claim is a lease, one task per payment, every answer makes progress, and the loop ends
  exactly when it is stopped.  Money: fees within bounds and nothing lost in a split, balances as
  credits less debits, complete pages.  Providers: the router is the first eligible choice, money
  leaves only through well-formed, confirmed and executed requests, once per key.  Webhooks: only
  signed deliveries write, a replay has no effect, each reference is debited once, other ledgers
  are untouched.  Accounts: bounded guesses and single use of one-time codes, tokens for active
  users only, a well-formed user table, the life of a session.  Further: the sliding window of the
  limiter, the rotation of keys, the redaction of the support policy, the links of broker accounts,
  the at-most-once delivery of events, the normal form of a database URL, and
  the migrations, which build what the models need in any order they can be run.  The lemmas named in the
  findings show where the code does not do what it means to.

  \<^bold>\<open>Bounds.\<close>  The numeric premises are those of the columns, \<^verbatim>\<open>Numeric(19, 8)\<close>: amounts of that size
  are exact in 28 digits for the sums stated.  No definition needs fuel: loops are structural, or
  bounded by a number of attempts, but for the reconciliation loop, a \<open>partial_function\<close> whose value
  \<open>None\<close> means that it does not return.

  \<^bold>\<open>Parameters.\<close>  What the repository does not contain: the answers of HTTP services and of the mail
  server, HMAC, SHA-256, bcrypt and the JWT codec, the metrics registry, the commands of Redis (sorted sets, streams,
  locks), the text readers of JSON and of floats, the time zone database, random numbers, clocks and the file
  system.  Where a statement needs a law of one of them it is a premise (\<open>jwt_library\<close>, \<open>zset_laws\<close>,
  \<open>stream_laws\<close>, \<open>counter_laws\<close>) and a concrete instance of it is in the witness.  Doubles are rationals or their
  printed decimals.

  \<^bold>\<open>Not modelled.\<close>  The statements of the payment service behind the
  first \<^verbatim>\<open>close\<close>, which cannot be reached, and its unused legacy lock class; the routine for text
  messages, which has no caller; the first \<^verbatim>\<open>publish\<close> method, which the second replaces; the rendering
  of the metrics and the texts of log lines; the sessions of the engine, the runner of the migrations
  and the CORS middleware, which configure libraries; the web pages.
\<close>

end
